(* ===== verification/Chain_Prelude.thy ===== *)
theory Chain_Prelude
  imports Main
begin

text \<open>
  Shared foundations of the development: the arithmetic of Rust's unsigned integers, the
  state-and-error monad in which the pallets' functions are written, and the rewrite rules
  that take a monadic run apart.

  Integers. A value of type \<open>u8\<close>, \<open>u32\<close>, \<open>u64\<close> or \<open>u128\<close> is a \<^typ>\<open>nat\<close>;
  the width appears as an argument of the operation that can leave the range:
  \<open>checked_add 128\<close> is \<open>u128::checked_add\<close>, \<open>wrapping_add 128\<close> is \<open>+\<close> on
  \<open>u128\<close> as the release profile compiles it (no overflow checks), and so on.

  Effects. A function of a pallet reads and writes the storage of the runtime and may fail.
  It is a function \<open>'s \<Rightarrow> ('e + 'a) \<times> 's\<close>: \<open>Inl\<close> is \<open>Err\<close>, \<open>Inr\<close> is
  \<open>Ok\<close>, and the state is returned in both cases, because a write made before the error
  stays unless the caller runs in a transactional layer (\<open>transactional\<close> below). An
  extrinsic runs in such a layer, a block hook does not.
\<close>

named_theorems run_simps "rules that take a successful or failed monadic run apart"
named_theorems run_eval "rules that compute a monadic run forwards"

section \<open>Unsigned machine arithmetic\<close>

definition checked_add :: "nat \<Rightarrow> nat \<Rightarrow> nat \<Rightarrow> nat option" where
  "checked_add w a b = (if a + b < 2 ^ w then Some (a + b) else None)"

definition checked_sub :: "nat \<Rightarrow> nat \<Rightarrow> nat option" where
  "checked_sub a b = (if b \<le> a then Some (a - b) else None)"

definition checked_mul :: "nat \<Rightarrow> nat \<Rightarrow> nat \<Rightarrow> nat option" where
  "checked_mul w a b = (if a * b < 2 ^ w then Some (a * b) else None)"

definition checked_div :: "nat \<Rightarrow> nat \<Rightarrow> nat option" where
  "checked_div a b = (if b = 0 then None else Some (a div b))"

definition saturating_add :: "nat \<Rightarrow> nat \<Rightarrow> nat \<Rightarrow> nat" where
  "saturating_add w a b = (if a + b < 2 ^ w then a + b else 2 ^ w - 1)"

definition saturating_mul :: "nat \<Rightarrow> nat \<Rightarrow> nat \<Rightarrow> nat" where
  "saturating_mul w a b = (if a * b < 2 ^ w then a * b else 2 ^ w - 1)"

definition saturated_into :: "nat \<Rightarrow> nat \<Rightarrow> nat" where
  "saturated_into w a = (if a < 2 ^ w then a else 2 ^ w - 1)"

definition try_into :: "nat \<Rightarrow> nat \<Rightarrow> nat option" where
  "try_into w a = (if a < 2 ^ w then Some a else None)"

definition wrapping_add :: "nat \<Rightarrow> nat \<Rightarrow> nat \<Rightarrow> nat" where
  "wrapping_add w a b = (a + b) mod 2 ^ w"

definition wrapping_mul :: "nat \<Rightarrow> nat \<Rightarrow> nat \<Rightarrow> nat" where
  "wrapping_mul w a b = (a * b) mod 2 ^ w"

definition as_cast :: "nat \<Rightarrow> nat \<Rightarrow> nat" where
  "as_cast w a = a mod 2 ^ w"

section \<open>The state-and-error monad\<close>

definition retM :: "'a \<Rightarrow> 's \<Rightarrow> ('e + 'a) \<times> 's" where
  "retM x = (\<lambda>s. (Inr x, s))"

definition failM :: "'e \<Rightarrow> 's \<Rightarrow> ('e + 'a) \<times> 's" where
  "failM e = (\<lambda>s. (Inl e, s))"

definition bindM :: "('s \<Rightarrow> ('e + 'a) \<times> 's) \<Rightarrow> ('a \<Rightarrow> 's \<Rightarrow> ('e + 'b) \<times> 's)
    \<Rightarrow> 's \<Rightarrow> ('e + 'b) \<times> 's" where
  "bindM m k = (\<lambda>s. case m s of (Inl e, s') \<Rightarrow> (Inl e, s') | (Inr x, s') \<Rightarrow> k x s')"

text \<open>Reading and writing the state.\<close>

definition getM :: "('s \<Rightarrow> 'a) \<Rightarrow> 's \<Rightarrow> ('e + 'a) \<times> 's" where
  "getM f = (\<lambda>s. (Inr (f s), s))"

definition modM :: "('s \<Rightarrow> 's) \<Rightarrow> 's \<Rightarrow> ('e + unit) \<times> 's" where
  "modM f = (\<lambda>s. (Inr (), f s))"

text \<open>\<open>ensure!\<close>, \<open>Option::ok_or\<close> and a pure fallible step.\<close>

definition ensureM :: "bool \<Rightarrow> 'e \<Rightarrow> 's \<Rightarrow> ('e + unit) \<times> 's" where
  "ensureM b e = (\<lambda>s. if b then (Inr (), s) else (Inl e, s))"

definition ok_or :: "'a option \<Rightarrow> 'e \<Rightarrow> 's \<Rightarrow> ('e + 'a) \<times> 's" where
  "ok_or x e = (\<lambda>s. case x of None \<Rightarrow> (Inl e, s) | Some y \<Rightarrow> (Inr y, s))"

text \<open>A \<open>Result\<close> that is inspected instead of being propagated by \<open>?\<close>: the writes stay.\<close>

definition attemptM :: "('s \<Rightarrow> ('e + 'a) \<times> 's) \<Rightarrow> 's \<Rightarrow> ('e + ('e + 'a)) \<times> 's" where
  "attemptM m = (\<lambda>s. case m s of (r, s') \<Rightarrow> (Inr r, s'))"

text \<open>The storage layer around an extrinsic: an error rolls every write back.\<close>

definition transactional :: "('s \<Rightarrow> ('e + 'a) \<times> 's) \<Rightarrow> 's \<Rightarrow> ('e + 'a) \<times> 's" where
  "transactional m = (\<lambda>s. case m s of (Inl e, s') \<Rightarrow> (Inl e, s) | (Inr x, s') \<Rightarrow> (Inr x, s'))"

text \<open>
  \<open>StorageMap::mutate\<close> with a closure that returns a \<open>Result\<close>: the value is written back
  whatever the closure returns. (\<open>try_mutate\<close> writes only after \<open>Ok\<close>; it is written out
  as a read, the closure's steps and a write.)
\<close>

definition mutateM :: "('s \<Rightarrow> 'v) \<Rightarrow> ('v \<Rightarrow> 's \<Rightarrow> 's) \<Rightarrow> ('v \<Rightarrow> ('e + 'a) \<times> 'v)
    \<Rightarrow> 's \<Rightarrow> ('e + 'a) \<times> 's" where
  "mutateM get put f = (\<lambda>s. case f (get s) of (r, v) \<Rightarrow> (r, put v s))"

text \<open>A \<open>for\<close> loop whose body may fail, and one whose body threads an accumulator.\<close>

fun forM :: "'x list \<Rightarrow> ('x \<Rightarrow> 's \<Rightarrow> ('e + unit) \<times> 's) \<Rightarrow> 's \<Rightarrow> ('e + unit) \<times> 's" where
  "forM [] f = retM ()"
| "forM (x # xs) f = bindM (f x) (\<lambda>_. forM xs f)"

fun foldM :: "('x \<Rightarrow> 'a \<Rightarrow> 's \<Rightarrow> ('e + 'a) \<times> 's) \<Rightarrow> 'x list \<Rightarrow> 'a \<Rightarrow> 's \<Rightarrow> ('e + 'a) \<times> 's" where
  "foldM f [] a = retM a"
| "foldM f (x # xs) a = bindM (f x a) (\<lambda>a'. foldM f xs a')"

text \<open>\<open>BoundedVec::try_push\<close>.\<close>

definition try_push :: "nat \<Rightarrow> 'x list \<Rightarrow> 'x \<Rightarrow> 'x list option" where
  "try_push limit xs x = (if length xs < limit then Some (xs @ [x]) else None)"

section \<open>Rules for the arithmetic\<close>

lemma checked_add_Some [run_simps]:
  "checked_add w a b = Some c \<longleftrightarrow> c = a + b \<and> a + b < 2 ^ w"
  by (auto simp: checked_add_def)

lemma checked_add_None [run_simps]: "checked_add w a b = None \<longleftrightarrow> 2 ^ w \<le> a + b"
  by (auto simp: checked_add_def)

lemma checked_sub_Some [run_simps]: "checked_sub a b = Some c \<longleftrightarrow> b \<le> a \<and> c = a - b"
  by (auto simp: checked_sub_def)

lemma checked_sub_None [run_simps]: "checked_sub a b = None \<longleftrightarrow> a < b"
  by (auto simp: checked_sub_def)

lemma checked_mul_Some [run_simps]:
  "checked_mul w a b = Some c \<longleftrightarrow> c = a * b \<and> a * b < 2 ^ w"
  by (auto simp: checked_mul_def)

lemma checked_mul_None [run_simps]: "checked_mul w a b = None \<longleftrightarrow> 2 ^ w \<le> a * b"
  by (auto simp: checked_mul_def)

lemma checked_div_Some [run_simps]: "checked_div a b = Some c \<longleftrightarrow> b \<noteq> 0 \<and> c = a div b"
  by (auto simp: checked_div_def)

lemma checked_div_None [run_simps]: "checked_div a b = None \<longleftrightarrow> b = 0"
  by (auto simp: checked_div_def)

lemma try_into_Some [run_simps]: "try_into w a = Some c \<longleftrightarrow> c = a \<and> a < 2 ^ w"
  by (auto simp: try_into_def)

lemma try_into_None [run_simps]: "try_into w a = None \<longleftrightarrow> 2 ^ w \<le> a"
  by (auto simp: try_into_def)

lemma try_push_Some [run_simps]:
  "try_push n xs x = Some ys \<longleftrightarrow> length xs < n \<and> ys = xs @ [x]"
  by (auto simp: try_push_def)

lemma try_push_None [run_simps]: "try_push n xs x = None \<longleftrightarrow> n \<le> length xs"
  by (auto simp: try_push_def)

lemma saturating_add_bounds: "a < 2 ^ w \<Longrightarrow> a \<le> saturating_add w a b \<and> saturating_add w a b < 2 ^ w"
  by (auto simp: saturating_add_def)

lemma saturating_add_le: "saturating_add w a b \<le> a + b"
  by (auto simp: saturating_add_def)

lemma saturated_into_le: "saturated_into w a \<le> a"
  by (auto simp: saturated_into_def)

lemma wrapping_add_exact: "a + b < 2 ^ w \<Longrightarrow> wrapping_add w a b = a + b"
  by (simp add: wrapping_add_def)

lemma as_cast_exact: "a < 2 ^ w \<Longrightarrow> as_cast w a = a"
  by (simp add: as_cast_def)

text \<open>Division rounded up, in the form the code computes it.\<close>

lemma div_up:
  assumes "0 < (d::nat)"
  shows "(x + d - 1) div d = (if x mod d = 0 then x div d else x div d + 1)"
proof -
  obtain q r where qr: "q = x div d" "r = x mod d" by simp
  then have x: "x = d * q + r" "r < d" using assms by simp_all
  have "(x + d - 1) div d = (if r = 0 then q else q + 1)"
    using x assms by (intro div_nat_eqI) (auto simp: distrib_left)
  with qr show ?thesis by simp
qed

section \<open>Rules for the monad\<close>

lemma retM_run [run_simps, run_eval]: "retM x s = (Inr x, s)"
  by (simp add: retM_def)

lemma failM_run [run_simps, run_eval]: "failM e s = (Inl e, s)"
  by (simp add: failM_def)

lemma getM_run [run_simps, run_eval]: "getM f s = (Inr (f s), s)"
  by (simp add: getM_def)

lemma modM_run [run_simps, run_eval]: "modM f s = (Inr (), f s)"
  by (simp add: modM_def)

lemma ensureM_True [run_eval]: "b \<Longrightarrow> ensureM b e s = (Inr (), s)"
  by (simp add: ensureM_def)

lemma ensureM_False [run_eval]: "\<not> b \<Longrightarrow> ensureM b e s = (Inl e, s)"
  by (simp add: ensureM_def)

lemma ensureM_Inr [run_simps]: "ensureM b e s = (Inr u, s') \<longleftrightarrow> b \<and> s' = s"
  by (auto simp: ensureM_def)

lemma ensureM_Inl [run_simps]: "ensureM b e s = (Inl e', s') \<longleftrightarrow> \<not> b \<and> e' = e \<and> s' = s"
  by (auto simp: ensureM_def)

lemma ok_or_Some [run_eval]: "ok_or (Some y) e s = (Inr y, s)"
  by (simp add: ok_or_def)

lemma ok_or_None [run_eval]: "ok_or None e s = (Inl e, s)"
  by (simp add: ok_or_def)

lemma ok_or_Inr [run_simps]: "ok_or x e s = (Inr y, s') \<longleftrightarrow> x = Some y \<and> s' = s"
  by (auto simp: ok_or_def split: option.splits)

lemma ok_or_Inl [run_simps]: "ok_or x e s = (Inl e', s') \<longleftrightarrow> x = None \<and> e' = e \<and> s' = s"
  by (auto simp: ok_or_def split: option.splits)

lemma bindM_Inr [run_simps]:
  "bindM m k s = (Inr y, s'') \<longleftrightarrow> (\<exists>x s'. m s = (Inr x, s') \<and> k x s' = (Inr y, s''))"
  by (auto simp: bindM_def split: prod.splits sum.splits)

lemma bindM_Inl:
  "bindM m k s = (Inl e, s'') \<longleftrightarrow>
     m s = (Inl e, s'') \<or> (\<exists>x s'. m s = (Inr x, s') \<and> k x s' = (Inl e, s''))"
  by (auto simp: bindM_def split: prod.splits sum.splits)

lemma bindM_eval_Inr [run_eval]: "m s = (Inr x, s') \<Longrightarrow> bindM m k s = k x s'"
  by (simp add: bindM_def)

lemma bindM_eval_Inl [run_eval]: "m s = (Inl e, s') \<Longrightarrow> bindM m k s = (Inl e, s')"
  by (simp add: bindM_def)

lemma attemptM_run [run_simps, run_eval]: "attemptM m s = (Inr (fst (m s)), snd (m s))"
  by (simp add: attemptM_def split: prod.splits)

lemma transactional_Inr [run_simps]: "transactional m s = (Inr x, s') \<longleftrightarrow> m s = (Inr x, s')"
  by (auto simp: transactional_def split: prod.splits sum.splits)

lemma transactional_Inl [run_simps]:
  "transactional m s = (Inl e, s') \<longleftrightarrow> s' = s \<and> (\<exists>t. m s = (Inl e, t))"
  by (auto simp: transactional_def split: prod.splits sum.splits)

lemma mutateM_Inr [run_simps]:
  "mutateM get put f s = (Inr x, s') \<longleftrightarrow> (\<exists>v. f (get s) = (Inr x, v) \<and> s' = put v s)"
  by (auto simp: mutateM_def split: prod.splits)

lemma mutateM_Inl:
  "mutateM get put f s = (Inl e, s') \<longleftrightarrow> (\<exists>v. f (get s) = (Inl e, v) \<and> s' = put v s)"
  by (auto simp: mutateM_def split: prod.splits)

text \<open>An invariant of every outcome, errors included, is lifted through the combinators.\<close>

definition keepsM :: "('s \<Rightarrow> bool) \<Rightarrow> ('s \<Rightarrow> ('e + 'a) \<times> 's) \<Rightarrow> bool" where
  "keepsM P m \<longleftrightarrow> (\<forall>s. P s \<longrightarrow> P (snd (m s)))"

text \<open>An invariant of the successful outcomes: what an extrinsic has to keep.\<close>

definition keeps_okM :: "('s \<Rightarrow> bool) \<Rightarrow> ('s \<Rightarrow> ('e + 'a) \<times> 's) \<Rightarrow> bool" where
  "keeps_okM P m \<longleftrightarrow> (\<forall>s x s'. P s \<longrightarrow> m s = (Inr x, s') \<longrightarrow> P s')"

lemma keepsM_D: "keepsM P m \<Longrightarrow> P s \<Longrightarrow> m s = (r, s') \<Longrightarrow> P s'"
  by (metis keepsM_def snd_conv)

lemma keepsM_I: "(\<And>s r s'. P s \<Longrightarrow> m s = (r, s') \<Longrightarrow> P s') \<Longrightarrow> keepsM P m"
  unfolding keepsM_def by (simp add: prod_eq_iff)

lemma keeps_okM_D: "keeps_okM P m \<Longrightarrow> P s \<Longrightarrow> m s = (Inr x, s') \<Longrightarrow> P s'"
  unfolding keeps_okM_def by blast

lemma keeps_okM_I: "(\<And>s x s'. P s \<Longrightarrow> m s = (Inr x, s') \<Longrightarrow> P s') \<Longrightarrow> keeps_okM P m"
  unfolding keeps_okM_def by blast

lemma keepsM_okM: "keepsM P m \<Longrightarrow> keeps_okM P m"
  unfolding keepsM_def keeps_okM_def by (metis snd_conv)

lemma keepsM_bind: "keepsM P m \<Longrightarrow> (\<And>x. keepsM P (k x)) \<Longrightarrow> keepsM P (bindM m k)"
  by (auto simp: keepsM_def bindM_def split: prod.splits sum.splits)

lemma keeps_okM_bind: "keeps_okM P m \<Longrightarrow> (\<And>x. keeps_okM P (k x)) \<Longrightarrow> keeps_okM P (bindM m k)"
  unfolding keeps_okM_def bindM_Inr by blast

lemma keepsM_attempt: "keepsM P m \<Longrightarrow> keepsM P (attemptM m)"
  by (simp add: keepsM_def attemptM_run)

lemma keepsM_transactional: "keeps_okM P m \<Longrightarrow> keepsM P (transactional m)"
  unfolding keepsM_def keeps_okM_def transactional_def
  by (auto split: prod.splits sum.splits)

lemma keepsM_forM: "(\<And>x. x \<in> set xs \<Longrightarrow> keepsM P (f x)) \<Longrightarrow> keepsM P (forM xs f)"
proof (induction xs)
  case Nil
  then show ?case by (simp add: keepsM_def retM_def)
next
  case (Cons x xs)
  then show ?case by (simp add: keepsM_bind)
qed

lemma keeps_okM_forM: "(\<And>x. keeps_okM P (f x)) \<Longrightarrow> keeps_okM P (forM xs f)"
proof (induction xs)
  case Nil
  then show ?case by (simp add: keeps_okM_def retM_def)
next
  case (Cons x xs)
  then show ?case by (simp add: keeps_okM_bind)
qed

lemma keepsM_pure: "keepsM P (retM x)" "keepsM P (failM e)" "keepsM P (getM f)"
  "keepsM P (ensureM b e)" "keepsM P (ok_or x' e)"
  by (auto simp: keepsM_def run_eval ensureM_def ok_or_def split: option.splits)

text \<open>A transactional call either succeeds or leaves the state as it was.\<close>

lemma transactional_rollback: "transactional m s = (Inl e, s') \<Longrightarrow> s' = s"
  by (simp add: run_simps)

section \<open>A total that covers a ledger\<close>

text \<open>The entries of the ledger \<open>f\<close> and an extra amount \<open>k\<close> never add up to more than the total \<open>B\<close>.
  Quantifying over the finite sets of accounts avoids a finiteness side condition on the ledger.\<close>

definition covered :: "nat \<Rightarrow> ('a \<Rightarrow> nat) \<Rightarrow> nat \<Rightarrow> bool" where
  "covered k f B \<longleftrightarrow> (\<forall>A. finite A \<longrightarrow> k + sum f A \<le> B)"

lemma covered_entry: "covered k f B \<Longrightarrow> k + f a \<le> B"
  unfolding covered_def by (drule spec [of _ "{a}"]) simp

lemma covered_two: "covered k f B \<Longrightarrow> a \<noteq> b \<Longrightarrow> k + f a + f b \<le> B"
  unfolding covered_def by (drule spec [of _ "{a, b}"]) simp

lemma covered_step:
  assumes cov: "covered k f B" and same: "\<And>a. a \<noteq> acc \<Longrightarrow> f' a = f a"
    and bal: "k' + f' acc + B \<le> k + f acc + B'"
  shows "covered k' f' B'"
  unfolding covered_def
proof (intro allI impI)
  fix A :: "'a set"
  assume fin: "finite A"
  let ?R = "\<Sum>a\<in>A - {acc}. f a"
  have R: "(\<Sum>a\<in>A - {acc}. f' a) = ?R" by (rule sum.cong) (auto simp: same)
  have "sum f' A \<le> sum f' (insert acc A)"
    by (rule sum_mono2) (use fin in auto)
  also have "\<dots> = f' acc + ?R" using fin R by (simp add: sum.insert_remove)
  finally have le: "sum f' A \<le> f' acc + ?R" .
  have "k + sum f (insert acc A) \<le> B" using cov fin unfolding covered_def by blast
  then have "k + (f acc + ?R) \<le> B" using fin by (simp add: sum.insert_remove)
  with le bal show "k' + sum f' A \<le> B'" by linarith
qed

end
