(* ===== verification/Dispatch_Errors.thy ===== *)
theory Dispatch_Errors
  imports Chain_Prelude
begin

text \<open>
  The \<open>#[pallet::error]\<close> enumerations of the modelled pallets, constructor by constructor, and
  their sum: FRAME converts every \<open>Error<T>\<close> into one \<open>DispatchError\<close>. Enumerations share
  constructor names, so the theories always write them qualified, e.g.
  \<open>storage_error.Overflow\<close>. \<open>BadOrigin\<close> is what \<open>ensure_signed\<close>, \<open>ensure_root\<close> and
  \<open>EnsureOrigin\<close> return, \<open>External\<close> carries the error of code outside the repository
  (the currency, the scheduler), and \<open>Panic\<close> stands for a failed \<open>unwrap\<close>.
\<close>

datatype storage_error =
   BugInvalid | BoundedVecError | InsufficientAvailableSpace | InsufficientBalance
   | InsufficientStorage | Overflow | WrongOperation | PurchasedSpace
   | NotPurchasedSpace | LeaseFreeze | LeaseExpired | OrderExpired | RandomErr
   | NoOrder | ParamError | DuplicateTokens | NotHaveTerritory | NotActive | NotExpire
   | NotOnConsignment | InsufficientLease | ConsignmentExisted | OnConsignment
   | StateError | ObjectNotZero | NonExistentConsignment | ConsignmentLocked
   | ConsignmentUnLocked | Unexpected | NotBuyer | InvalidOrder | OwnConsignment
   | BoundariesNotMet

datatype treasury_error =
   Overflow | Unexpected

datatype reservoir_error =
   Overflow | NonExistent | Insufficient | BugInvalid | LengthExceedsLimit
   | BoundedVecError | IdNonExistent | UpperLimit | Borrowed

datatype sminer_error =
   NotMiner | AlreadyRegistered | Overflow | NotExisted | LessThan24Hours
   | ConversionError | AlreadyFrozen | NotpositiveState | StorageLimitReached
   | BoundedVecError | DataNotExist | Unexpected | VerifyTeeSigFailed | CountError
   | StateError | BloomElemPushError | CollateralNotUp | NotStakingAcc | BugInvalid
   | InsufficientStakingPeriod | ExceedingDeclarationSpace | InsufficientReplaceable
   | MalformedSignature | NotSetWhite | WrongOrigin | ExceedRelease

datatype file_bank_error =
   Existed | FileExistent | FileNonExistent | Overflow | NotOwner
   | ScheduleNonExistent | BoundedVecError | StorageLimitReached
   | MinerPowerInsufficient | NotEmpty | Locked | LengthExceedsLimit | BugInvalid
   | ConvertHashError | NoPermission | SameBucketName | NonExistent | Unexpected
   | LessMinLength | Unprepared | IsOwned | SpecError | PanicOverflow
   | InsufficientAvailableSpace | Calculate | MinerStateError | Expired
   | VerifyTeeSigFailed | TeeNoPermission | DigestError | MalformedSignature
   | MinerError | RulesNotAllowed | NotActive

datatype audit_error =
   BoundedVecError | StorageLimitReached | Overflow | NoChallenge
   | ScheduleNonExistent | FileTypeError | NotQualified | RecordTimeError
   | OffchainSignedTxError | NoLocalAcctForSigning | LengthExceedsLimit | SystemError
   | NonExistentMission | UnexpectedError | Expired | VerifyTeeSigFailed
   | BloomFilterError | Submitted | RandomErr | UnSubmitted | TeeNoPermission
   | MalformedSignature

datatype credit_error =
   Overflow | PointOverflow

datatype oss_error =
   NoAuthorization | Registered | UnRegister | OptionParseError | BoundedVecError
   | Existed | MalformedSignature | VerifySigFailed | Expired

datatype cacher_error =
   AlreadyRegistered | UnRegistered | OptionParseError

datatype (plugins only: size) tee_error =
   BoundedVecError | NotBond | NonTeeWorker | CesealRejected | InvalidIASSigningCert
   | InvalidReport | InvalidQuoteStatus | BadIASReport | OutdatedIASReport
   | UnknownQuoteBodyFormat | InvalidCesealInfoHash | NoneAttestationDisabled
   | UnsupportedAttestationType | InvalidDCAPQuote | InvalidCertificate | CodecError
   | TCBInfoExpired | KeyLengthIsInvalid | PublicKeyIsInvalid | RsaSignatureIsInvalid
   | DerEncodingError | UnsupportedDCAPQuoteVersion
   | UnsupportedDCAPAttestationKeyType | UnsupportedQuoteAuthData
   | UnsupportedDCAPPckCertFormat | LeafCertificateParsingError
   | CertificateChainIsInvalid | CertificateChainIsTooShort
   | IntelExtensionCertificateDecodingError | IntelExtensionAmbiguity
   | CpuSvnLengthMismatch | CpuSvnDecodingError | PceSvnDecodingError
   | PceSvnLengthMismatch | FmspcLengthMismatch | FmspcDecodingError | FmspcMismatch
   | QEReportHashMismatch | IsvEnclaveReportSignatureIsInvalid | DerDecodingError
   | OidIsMissing | WrongTeeType | InvalidSender | InvalidWorkerPubKey
   | MalformedSignature | InvalidSignatureLength | InvalidSignature | WorkerNotFound
   | MasterKeyLaunchRequire | InvalidMasterKeyFirstHolder
   | MasterKeyFirstHolderNotFound | MasterKeyAlreadyLaunched | MasterKeyLaunching
   | MasterKeyMismatch | MasterKeyUninitialized | InvalidMasterKeyApplySigningTime
   | CesealAlreadyExists | CesealBinAlreadyExists | CesealBinNotFound
   | CannotExitMasterKeyHolder | EmptyEndpoint | InvalidEndpointSigningTime
   | PayloadError | LastWorker

text \<open>The error enumeration of \<open>sgx_attestation\<close>, as \<open>From<AttestationError>\<close> lists it.\<close>

datatype (plugins only: size) dcap_error =
   InvalidCertificate | InvalidSignature | CodecError | TCBInfoExpired | KeyLengthIsInvalid
   | PublicKeyIsInvalid | RsaSignatureIsInvalid | DerEncodingError
   | UnsupportedDCAPQuoteVersion | UnsupportedDCAPAttestationKeyType
   | UnsupportedQuoteAuthData | UnsupportedDCAPPckCertFormat | LeafCertificateParsingError
   | CertificateChainIsInvalid | CertificateChainIsTooShort
   | IntelExtensionCertificateDecodingError | IntelExtensionAmbiguity
   | CpuSvnLengthMismatch | CpuSvnDecodingError | PceSvnDecodingError
   | PceSvnLengthMismatch | FmspcLengthMismatch | FmspcDecodingError | FmspcMismatch
   | QEReportHashMismatch | IsvEnclaveReportSignatureIsInvalid | DerDecodingError
   | OidIsMissing

datatype mq_error =
   BadSender | BadSequence | BadDestination | CannotHandleUnknownMessage
   | MalformedSignature | InvalidSignatureLength | InvalidSignature
   | MasterKeyUninitialized

datatype dispatch_error =
    BadOrigin
  | External nat
  | Panic
  | StorageE storage_error
  | TreasuryE treasury_error
  | ReservoirE reservoir_error
  | SminerE sminer_error
  | FileBankE file_bank_error
  | AuditE audit_error
  | CreditE credit_error
  | OssE oss_error
  | CacherE cacher_error
  | TeeE tee_error
  | MqE mq_error

type_synonym ('s, 'a) M = "'s \<Rightarrow> (dispatch_error + 'a) \<times> 's"

end
