(* ===== verification/Sgx_Attestation.thy ===== *)
theory Sgx_Attestation
  imports Dispatch_Errors
begin

text \<open>
  \<open>crates/sgx-attestation\<close>: the decoder of enclave quotes (\<open>dcap/quote.rs\<close>, \<open>ias/verify.rs\<close>), the
  verification of DCAP quotes against the platform information published by the vendor
  (\<open>dcap/verify.rs\<close>, \<open>dcap/utils.rs\<close>) and of signed IAS reports. Bytes are characters. The third-party
  crates (\<open>webpki\<close>, \<open>ring\<close>, \<open>pem\<close>, \<open>der\<close>, \<open>asn1_der\<close>, \<open>x509_cert\<close>, \<open>serde_json\<close>, \<open>chrono\<close>, \<open>hex\<close>,
  \<open>base64\<close>) are the fields of \<open>sgx_env\<close>. A panic of the code is the result \<open>Dcap_Panic\<close>.
\<close>

section \<open>Data\<close>

datatype trust_roots = IAS_SERVER_ROOTS | DCAP_SERVER_ROOTS

datatype sig_alg = RSA_PKCS1_2048_8192_SHA256 | ECDSA_P256_SHA256

record der_object =
  der_tag :: nat
  der_value :: string

record ra_report =
  ra_timestamp :: string
  ra_quote_status :: string
  ra_advisory_ids :: "string list"
  ra_body :: string

record tcb =
  components :: "nat list"
  tcb_pce_svn :: nat

record tcb_level =
  tl_tcb :: tcb
  tl_status :: string
  tl_advisory_ids :: "string list"

record tcb_info =
  ti_next_update :: string
  ti_fmspc :: string
  ti_levels :: "tcb_level list"

record sgx_env =
  json_ra_report :: "string \<Rightarrow> ra_report option"
  json_tcb_info :: "string \<Rightarrow> tcb_info option"
  parse_rfc3339 :: "string \<Rightarrow> int option"
  base64_decode :: "string \<Rightarrow> string option"
  hex_decode :: "string \<Rightarrow> string option"
  pem_parse_many :: "string \<Rightarrow> string list option"
  end_entity_cert :: "string \<Rightarrow> bool"
  cert_verify_signature :: "sig_alg \<Rightarrow> string \<Rightarrow> string \<Rightarrow> string \<Rightarrow> bool"
  cert_verify_for_usage :: "trust_roots \<Rightarrow> string \<Rightarrow> string list \<Rightarrow> nat \<Rightarrow> bool"
  uint_ref :: "string \<Rightarrow> string option"
  der_encode_pair :: "string \<Rightarrow> string \<Rightarrow> string option"
  digest_sha256 :: "string \<Rightarrow> string"
  ecdsa_p256_fixed_verify :: "string \<Rightarrow> string \<Rightarrow> string \<Rightarrow> bool"
  x509_extensions :: "string \<Rightarrow> (string \<times> string) list option"
  der_decode :: "string \<Rightarrow> der_object option"
  der_sequence :: "der_object \<Rightarrow> der_object option list option"
  oid_bytes :: "string \<Rightarrow> string"

record sgx_v30_collateral =
  co_pck_crl_issuer_chain :: string
  co_root_ca_crl :: string
  co_pck_crl :: string
  co_tcb_info_issuer_chain :: string
  co_tcb_info :: string
  co_tcb_info_signature :: string
  co_qe_identity_issuer_chain :: string
  co_qe_identity :: string
  co_qe_identity_signature :: string

section \<open>Constants\<close>

definition QUOTE_VERSION_V3 :: nat where "QUOTE_VERSION_V3 = 3"
definition ATTESTATION_KEY_TYPE_ECDSA256_WITH_P256_CURVE :: nat where "ATTESTATION_KEY_TYPE_ECDSA256_WITH_P256_CURVE = 2"
definition BODY_SGX_ENCLAVE_REPORT_TYPE :: nat where "BODY_SGX_ENCLAVE_REPORT_TYPE = 1"
definition ENCLAVE_REPORT_BYTE_LEN :: nat where "ENCLAVE_REPORT_BYTE_LEN = 384"
definition HEADER_BYTE_LEN :: nat where "HEADER_BYTE_LEN = 48"
definition ECDSA_SIGNATURE_BYTE_LEN :: nat where "ECDSA_SIGNATURE_BYTE_LEN = 64"
definition ECDSA_PUBKEY_BYTE_LEN :: nat where "ECDSA_PUBKEY_BYTE_LEN = 64"
definition QE_REPORT_SIG_BYTE_LEN :: nat where "QE_REPORT_SIG_BYTE_LEN = 64"
definition ATTESTATION_KEY_LEN :: nat where "ATTESTATION_KEY_LEN = 64"
definition QE_HASH_DATA_BYTE_LEN :: nat where "QE_HASH_DATA_BYTE_LEN = 96"

lemmas dcap_constants = QUOTE_VERSION_V3_def ATTESTATION_KEY_TYPE_ECDSA256_WITH_P256_CURVE_def
  BODY_SGX_ENCLAVE_REPORT_TYPE_def ENCLAVE_REPORT_BYTE_LEN_def HEADER_BYTE_LEN_def ECDSA_SIGNATURE_BYTE_LEN_def
  ECDSA_PUBKEY_BYTE_LEN_def QE_REPORT_SIG_BYTE_LEN_def ATTESTATION_KEY_LEN_def QE_HASH_DATA_BYTE_LEN_def

definition SGX_EXTENSION :: string where "SGX_EXTENSION = ''1.2.840.113741.1.13.1''"
definition OID_TCB :: string where "OID_TCB = ''1.2.840.113741.1.13.1.2''"
definition OID_FMSPC :: string where "OID_FMSPC = ''1.2.840.113741.1.13.1.4''"
definition OID_PCESVN :: string where "OID_PCESVN = ''1.2.840.113741.1.13.1.2.17''"
definition OID_CPUSVN :: string where "OID_CPUSVN = ''1.2.840.113741.1.13.1.2.18''"

definition SGX_QUOTE_STATUS_LEVEL_1 :: "string list" where
  "SGX_QUOTE_STATUS_LEVEL_1 = [''OK'', ''UpToDate'']"
definition SGX_QUOTE_STATUS_LEVEL_2 :: "string list" where
  "SGX_QUOTE_STATUS_LEVEL_2 = [''SW_HARDENING_NEEDED'', ''SWHardeningNeeded'']"
definition SGX_QUOTE_STATUS_LEVEL_3 :: "string list" where
  "SGX_QUOTE_STATUS_LEVEL_3 = [''CONFIGURATION_NEEDED'', ''CONFIGURATION_AND_SW_HARDENING_NEEDED'',
     ''ConfigurationNeeded'', ''ConfigurationAndSWHardeningNeeded'']"
definition SGX_QUOTE_STATUS_LEVEL_5 :: "string list" where
  "SGX_QUOTE_STATUS_LEVEL_5 = [''GROUP_OUT_OF_DATE'', ''OutOfDate'', ''OutOfDateConfigurationNeeded'']"
definition SGX_QUOTE_ADVISORY_ID_WHITELIST :: "string list" where
  "SGX_QUOTE_ADVISORY_ID_WHITELIST = [''INTEL-SA-00334'', ''INTEL-SA-00219'', ''INTEL-SA-00381'', ''INTEL-SA-00389'']"

section \<open>Decoding quotes\<close>

text \<open>A decoder consumes a prefix of its input. \<open>take_bytes\<close> is \<open>Input::read\<close> on a slice and the decoder
  of a byte array.\<close>

type_synonym 'a decoder = "string \<Rightarrow> ('a \<times> string) option"

definition take_bytes :: "nat \<Rightarrow> string decoder" where
  "take_bytes n bs = (if n \<le> length bs then Some (take n bs, drop n bs) else None)"

definition then_decode :: "'a decoder \<Rightarrow> ('a \<Rightarrow> 'b decoder) \<Rightarrow> 'b decoder" where
  "then_decode p k bs = (case p bs of None \<Rightarrow> None | Some (x, rest) \<Rightarrow> k x rest)"

definition yield :: "'a \<Rightarrow> 'a decoder" where
  "yield x bs = Some (x, bs)"

definition refuse :: "'a decoder" where
  "refuse bs = None"

fun le_nat :: "string \<Rightarrow> nat" where
  "le_nat [] = 0"
| "le_nat (c # cs) = of_char c + 256 * le_nat cs"

definition decode_uint :: "nat \<Rightarrow> nat decoder" where
  "decode_uint n = then_decode (take_bytes n) (\<lambda>bs. yield (le_nat bs))"

text \<open>\<open>Data<T>\<close>, with \<open>n\<close> the width of \<open>T\<close> in bytes.\<close>

definition decode_data :: "nat \<Rightarrow> string decoder" where
  "decode_data n = then_decode (decode_uint n) take_bytes"

record quote_header =
  hd_version :: nat
  hd_attestation_key_type :: nat
  hd_tee_type :: nat
  hd_qe_svn :: nat
  hd_pce_svn :: nat
  hd_qe_vendor_id :: string
  hd_user_data :: string

definition decode_header :: "quote_header decoder" where
  "decode_header =
     then_decode (decode_uint 2) (\<lambda>version.
     then_decode (decode_uint 2) (\<lambda>key_type.
     then_decode (decode_uint 4) (\<lambda>tee_type.
     then_decode (decode_uint 2) (\<lambda>qe_svn.
     then_decode (decode_uint 2) (\<lambda>pce_svn.
     then_decode (take_bytes 16) (\<lambda>vendor.
     then_decode (take_bytes 20) (\<lambda>user_data.
     yield \<lparr>hd_version = version, hd_attestation_key_type = key_type, hd_tee_type = tee_type, hd_qe_svn = qe_svn,
       hd_pce_svn = pce_svn, hd_qe_vendor_id = vendor, hd_user_data = user_data\<rparr>)))))))"

record enclave_report =
  er_cpu_svn :: string
  er_misc_select :: nat
  er_reserved1 :: string
  er_attributes :: string
  er_mr_enclave :: string
  er_reserved2 :: string
  er_mr_signer :: string
  er_reserved3 :: string
  er_isv_prod_id :: nat
  er_isv_svn :: nat
  er_reserved4 :: string
  er_report_data :: string

definition decode_enclave_report :: "enclave_report decoder" where
  "decode_enclave_report =
     then_decode (take_bytes 16) (\<lambda>cpu_svn.
     then_decode (decode_uint 4) (\<lambda>misc_select.
     then_decode (take_bytes 28) (\<lambda>reserved1.
     then_decode (take_bytes 16) (\<lambda>attributes.
     then_decode (take_bytes 32) (\<lambda>mr_enclave.
     then_decode (take_bytes 32) (\<lambda>reserved2.
     then_decode (take_bytes 32) (\<lambda>mr_signer.
     then_decode (take_bytes 96) (\<lambda>reserved3.
     then_decode (decode_uint 2) (\<lambda>isv_prod_id.
     then_decode (decode_uint 2) (\<lambda>isv_svn.
     then_decode (take_bytes 60) (\<lambda>reserved4.
     then_decode (take_bytes 64) (\<lambda>report_data.
     yield \<lparr>er_cpu_svn = cpu_svn, er_misc_select = misc_select, er_reserved1 = reserved1, er_attributes = attributes,
       er_mr_enclave = mr_enclave, er_reserved2 = reserved2, er_mr_signer = mr_signer, er_reserved3 = reserved3,
       er_isv_prod_id = isv_prod_id, er_isv_svn = isv_svn, er_reserved4 = reserved4, er_report_data = report_data\<rparr>))))))))))))"

record certification_data =
  cd_cert_type :: nat
  cd_body :: string

definition decode_certification_data :: "certification_data decoder" where
  "decode_certification_data =
     then_decode (decode_uint 2) (\<lambda>cert_type.
     then_decode (decode_data 4) (\<lambda>body. yield \<lparr>cd_cert_type = cert_type, cd_body = body\<rparr>))"

record qe_report_certification_data =
  qc_qe_report :: string
  qc_qe_report_signature :: string
  qc_qe_auth_data :: string
  qc_certification_data :: certification_data

definition decode_qe_report_certification_data :: "qe_report_certification_data decoder" where
  "decode_qe_report_certification_data =
     then_decode (take_bytes ENCLAVE_REPORT_BYTE_LEN) (\<lambda>qe_report.
     then_decode (take_bytes QE_REPORT_SIG_BYTE_LEN) (\<lambda>sig.
     then_decode (decode_data 2) (\<lambda>qe_auth_data.
     then_decode decode_certification_data (\<lambda>cd.
     yield \<lparr>qc_qe_report = qe_report, qc_qe_report_signature = sig, qc_qe_auth_data = qe_auth_data,
       qc_certification_data = cd\<rparr>))))"

record auth_data_v3 =
  a3_ecdsa_signature :: string
  a3_ecdsa_attestation_key :: string
  a3_qe_report :: string
  a3_qe_report_signature :: string
  a3_qe_auth_data :: string
  a3_certification_data :: certification_data

definition decode_auth_data_v3 :: "auth_data_v3 decoder" where
  "decode_auth_data_v3 =
     then_decode (take_bytes ECDSA_SIGNATURE_BYTE_LEN) (\<lambda>sig.
     then_decode (take_bytes ECDSA_PUBKEY_BYTE_LEN) (\<lambda>key.
     then_decode (take_bytes ENCLAVE_REPORT_BYTE_LEN) (\<lambda>qe_report.
     then_decode (take_bytes QE_REPORT_SIG_BYTE_LEN) (\<lambda>qe_sig.
     then_decode (decode_data 2) (\<lambda>qe_auth_data.
     then_decode decode_certification_data (\<lambda>cd.
     yield \<lparr>a3_ecdsa_signature = sig, a3_ecdsa_attestation_key = key, a3_qe_report = qe_report,
       a3_qe_report_signature = qe_sig, a3_qe_auth_data = qe_auth_data, a3_certification_data = cd\<rparr>))))))"

record auth_data_v4 =
  a4_ecdsa_signature :: string
  a4_ecdsa_attestation_key :: string
  a4_certification_data :: certification_data
  a4_qe_report_data :: qe_report_certification_data

definition decode_auth_data_v4 :: "auth_data_v4 decoder" where
  "decode_auth_data_v4 =
     then_decode (take_bytes ECDSA_SIGNATURE_BYTE_LEN) (\<lambda>sig.
     then_decode (take_bytes ECDSA_PUBKEY_BYTE_LEN) (\<lambda>key.
     then_decode decode_certification_data (\<lambda>cd.
     case decode_qe_report_certification_data (cd_body cd) of
       None \<Rightarrow> refuse
     | Some (qe, _) \<Rightarrow> yield \<lparr>a4_ecdsa_signature = sig, a4_ecdsa_attestation_key = key, a4_certification_data = cd,
         a4_qe_report_data = qe\<rparr>)))"

datatype auth_data = Auth_V3 auth_data_v3 | Auth_V4 auth_data_v4

definition decode_auth_data :: "nat \<Rightarrow> string \<Rightarrow> auth_data option" where
  "decode_auth_data ver bs =
     (if ver = 3 then map_option (\<lambda>x. Auth_V3 (fst x)) (decode_auth_data_v3 bs)
      else if ver = 4 then map_option (\<lambda>x. Auth_V4 (fst x)) (decode_auth_data_v4 bs)
      else None)"

record quote =
  q_header :: quote_header
  q_report :: enclave_report
  q_auth_data :: auth_data

definition decode_quote :: "quote decoder" where
  "decode_quote =
     then_decode decode_header (\<lambda>header.
     then_decode (if 4 < hd_version header
       then then_decode (decode_uint 2) (\<lambda>body_type. then_decode (decode_uint 4) (\<lambda>size.
         if body_type \<noteq> BODY_SGX_ENCLAVE_REPORT_TYPE then refuse
         else then_decode decode_enclave_report (\<lambda>report. then_decode (decode_data 4) (\<lambda>data. yield (report, data)))))
       else then_decode decode_enclave_report (\<lambda>report. then_decode (decode_data 4) (\<lambda>data. yield (report, data)))) (\<lambda>(report, data).
     case decode_auth_data (hd_version header) data of
       None \<Rightarrow> refuse
     | Some auth \<Rightarrow> yield \<lparr>q_header = header, q_report = report, q_auth_data = auth\<rparr>))"

definition raw_cert_chain :: "quote \<Rightarrow> string" where
  "raw_cert_chain q = (case q_auth_data q of
     Auth_V3 a \<Rightarrow> cd_body (a3_certification_data a)
   | Auth_V4 a \<Rightarrow> cd_body (qc_certification_data (a4_qe_report_data a)))"

record enclave_quote_body =
  qb_mr_enclave :: string
  qb_mr_signer :: string
  qb_isv_prod_id :: string
  qb_isv_svn :: string
  qb_report_data :: string

definition decode_enclave_quote_body :: "enclave_quote_body decoder" where
  "decode_enclave_quote_body =
     then_decode (take_bytes (2 + 2 + 4 + 2 + 2 + 4 + 32 + 16 + 4 + 12 + 16 + 16)) (\<lambda>_.
     then_decode (take_bytes 32) (\<lambda>mr_enclave.
     then_decode (take_bytes 32) (\<lambda>_.
     then_decode (take_bytes 32) (\<lambda>mr_signer.
     then_decode (take_bytes (32 + 64)) (\<lambda>_.
     then_decode (take_bytes 2) (\<lambda>isv_prod_id.
     then_decode (take_bytes 2) (\<lambda>isv_svn.
     then_decode (take_bytes (2 + 42 + 16)) (\<lambda>_.
     then_decode (take_bytes 64) (\<lambda>report_data.
     yield \<lparr>qb_mr_enclave = mr_enclave, qb_mr_signer = mr_signer, qb_isv_prod_id = isv_prod_id, qb_isv_svn = isv_svn,
       qb_report_data = report_data\<rparr>)))))))))"

definition ra_decode_quote :: "sgx_env \<Rightarrow> ra_report \<Rightarrow> dcap_error + enclave_quote_body" where
  "ra_decode_quote X r = (case base64_decode X (ra_body r) of
     None \<Rightarrow> Inl dcap_error.CodecError
   | Some body \<Rightarrow> (case decode_enclave_quote_body body of
       None \<Rightarrow> Inl dcap_error.CodecError
     | Some (q, _) \<Rightarrow> Inr q))"

definition ias_verify_signature :: "sgx_env \<Rightarrow> string \<Rightarrow> string \<Rightarrow> string \<Rightarrow> nat \<Rightarrow> dcap_error + unit" where
  "ias_verify_signature X message signature raw_cert now =
     (if \<not> end_entity_cert X raw_cert then Inl dcap_error.InvalidCertificate
      else if \<not> cert_verify_signature X RSA_PKCS1_2048_8192_SHA256 raw_cert message signature then Inl dcap_error.InvalidSignature
      else if \<not> cert_verify_for_usage X IAS_SERVER_ROOTS raw_cert [] now then Inl dcap_error.InvalidSignature
      else Inr ())"

section \<open>Extracting the platform's data from its certificate\<close>

definition and_then :: "'e + 'a \<Rightarrow> ('a \<Rightarrow> 'e + 'b) \<Rightarrow> 'e + 'b" where
  "and_then r k = (case r of Inl e \<Rightarrow> Inl e | Inr x \<Rightarrow> k x)"

definition or_err :: "'a option \<Rightarrow> 'e \<Rightarrow> 'e + 'a" where
  "or_err v e = (case v of None \<Rightarrow> Inl e | Some x \<Rightarrow> Inr x)"

definition require :: "bool \<Rightarrow> 'e \<Rightarrow> 'e + unit" where
  "require b e = (if b then Inr () else Inl e)"

definition get_intel_extension :: "sgx_env \<Rightarrow> string \<Rightarrow> dcap_error + string" where
  "get_intel_extension X cert =
     and_then (or_err (x509_extensions X cert) dcap_error.IntelExtensionCertificateDecodingError) (\<lambda>extensions.
     case map snd (filter (\<lambda>e. fst e = SGX_EXTENSION) extensions) of
       [extension] \<Rightarrow> Inr extension
     | _ \<Rightarrow> Inl dcap_error.IntelExtensionAmbiguity)"

text \<open>\<open>sub_obj\<close>: the loop over the entries \<open>seq.get(i)\<close>, each of which may fail to parse.\<close>

fun sub_obj :: "sgx_env \<Rightarrow> string \<Rightarrow> der_object option list \<Rightarrow> dcap_error + der_object" where
  "sub_obj X oid [] = Inl dcap_error.OidIsMissing"
| "sub_obj X oid (entry # entries) =
     and_then (or_err entry dcap_error.OidIsMissing) (\<lambda>obj.
     and_then (or_err (der_sequence X obj) dcap_error.DerDecodingError) (\<lambda>parts.
     and_then (or_err (if 0 < length parts then parts ! 0 else None) dcap_error.OidIsMissing) (\<lambda>name.
     and_then (or_err (if 1 < length parts then parts ! 1 else None) dcap_error.OidIsMissing) (\<lambda>val.
     if der_value name = oid then Inr val else sub_obj X oid entries))))"

fun get_obj :: "sgx_env \<Rightarrow> string list \<Rightarrow> der_object \<Rightarrow> dcap_error + der_object" where
  "get_obj X [] obj = Inr obj"
| "get_obj X (oid # path) obj =
     and_then (or_err (der_sequence X obj) dcap_error.DerDecodingError) (\<lambda>seq.
     and_then (sub_obj X oid seq) (\<lambda>obj'. get_obj X path obj'))"

definition find_extension :: "sgx_env \<Rightarrow> string list \<Rightarrow> string \<Rightarrow> dcap_error + string" where
  "find_extension X path raw =
     and_then (or_err (der_decode X raw) dcap_error.DerDecodingError) (\<lambda>obj.
     and_then (get_obj X path obj) (\<lambda>subobj. Inr (der_value subobj)))"

definition get_fmspc :: "sgx_env \<Rightarrow> string \<Rightarrow> dcap_error + string" where
  "get_fmspc X extension_section =
     and_then (find_extension X [oid_bytes X OID_FMSPC] extension_section) (\<lambda>data.
     if length data \<noteq> 6 then Inl dcap_error.FmspcLengthMismatch else Inr data)"

definition get_cpu_svn :: "sgx_env \<Rightarrow> string \<Rightarrow> dcap_error + nat list" where
  "get_cpu_svn X extension_section =
     and_then (find_extension X [oid_bytes X OID_TCB, oid_bytes X OID_CPUSVN] extension_section) (\<lambda>data.
     if length data \<noteq> 16 then Inl dcap_error.CpuSvnLengthMismatch else Inr (map of_char data))"

definition get_pce_svn :: "sgx_env \<Rightarrow> string \<Rightarrow> dcap_error + nat" where
  "get_pce_svn X extension_section =
     and_then (find_extension X [oid_bytes X OID_TCB, oid_bytes X OID_PCESVN] extension_section) (\<lambda>data.
     case data of
       [a] \<Rightarrow> Inr (of_char a)
     | [a, b] \<Rightarrow> Inr (256 * of_char a + of_char b)
     | _ \<Rightarrow> Inl dcap_error.PceSvnLengthMismatch)"

definition extract_certs :: "sgx_env \<Rightarrow> string \<Rightarrow> dcap_error + string list" where
  "extract_certs X cert_chain = or_err (pem_parse_many X cert_chain) dcap_error.CodecError"

definition encode_as_der :: "sgx_env \<Rightarrow> string \<Rightarrow> dcap_error + string" where
  "encode_as_der X data =
     (if length data \<noteq> 64 then Inl dcap_error.KeyLengthIsInvalid
      else and_then (or_err (uint_ref X (take 32 data)) dcap_error.PublicKeyIsInvalid) (\<lambda>r.
           and_then (or_err (uint_ref X (drop 32 data)) dcap_error.PublicKeyIsInvalid) (\<lambda>s.
           or_err (der_encode_pair X r s) dcap_error.DerEncodingError)))"

definition verify_certificate_chain :: "sgx_env \<Rightarrow> string \<Rightarrow> string list \<Rightarrow> nat \<Rightarrow> dcap_error + unit" where
  "verify_certificate_chain X leaf_cert intermediate_certs verification_time =
     require (cert_verify_for_usage X DCAP_SERVER_ROOTS leaf_cert intermediate_certs (verification_time div 1000))
       dcap_error.CertificateChainIsInvalid"

section \<open>Verifying a DCAP quote\<close>

datatype dcap_failure = Dcap_Error dcap_error | Dcap_Panic

definition lift_dcap :: "dcap_error + 'a \<Rightarrow> dcap_failure + 'a" where
  "lift_dcap r = (case r of Inl e \<Rightarrow> Inl (Dcap_Error e) | Inr x \<Rightarrow> Inr x)"

definition quote_fmspc :: "sgx_env \<Rightarrow> quote \<Rightarrow> dcap_failure + string" where
  "quote_fmspc X q =
     and_then (lift_dcap (extract_certs X (raw_cert_chain q))) (\<lambda>certs.
     case certs of
       [] \<Rightarrow> Inl Dcap_Panic
     | cert # _ \<Rightarrow> and_then (lift_dcap (get_intel_extension X cert)) (\<lambda>extension_section.
         lift_dcap (get_fmspc X extension_section)))"

text \<open>The certificate chain of the vendor or of the platform: at least two certificates, whose first one is
  the leaf.\<close>

definition checked_leaf :: "sgx_env \<Rightarrow> string \<Rightarrow> nat \<Rightarrow> dcap_error + string \<times> string list" where
  "checked_leaf X chain now_in_milli =
     and_then (extract_certs X chain) (\<lambda>certs.
     and_then (require (\<not> length certs < 2) dcap_error.CertificateChainIsTooShort) (\<lambda>_.
     and_then (require (end_entity_cert X (certs ! 0)) dcap_error.LeafCertificateParsingError) (\<lambda>_.
     and_then (verify_certificate_chain X (certs ! 0) (drop 1 certs) now_in_milli) (\<lambda>_.
     Inr (certs ! 0, certs)))))"

definition verify_signed :: "sgx_env \<Rightarrow> string \<Rightarrow> string \<Rightarrow> string \<Rightarrow> dcap_error + unit" where
  "verify_signed X leaf_cert message signature =
     and_then (encode_as_der X signature) (\<lambda>asn1_signature.
     require (cert_verify_signature X ECDSA_P256_SHA256 leaf_cert message asn1_signature) dcap_error.RsaSignatureIsInvalid)"

fun tcb_select :: "nat list \<Rightarrow> nat \<Rightarrow> tcb_level list \<Rightarrow> string \<times> string list" where
  "tcb_select cpu_svn pce_svn [] = (''Unknown'', [])"
| "tcb_select cpu_svn pce_svn (level # levels) =
     (if tcb_pce_svn (tl_tcb level) \<le> pce_svn
      then if list_ex (\<lambda>(a, b). a < b) (zip cpu_svn (components (tl_tcb level)))
           then tcb_select cpu_svn pce_svn levels
           else (tl_status level, tl_advisory_ids level)
      else tcb_select cpu_svn pce_svn levels)"

definition be16 :: "nat \<Rightarrow> string" where
  "be16 n = [char_of (n div 256 mod 256), char_of (n mod 256)]"

definition tcb_hash :: "enclave_report \<Rightarrow> string" where
  "tcb_hash r = er_mr_enclave r @ be16 (er_isv_prod_id r) @ be16 (er_isv_svn r) @ er_mr_signer r"

record dcap_result =
  d_report_data :: string
  d_ceseal_hash :: string
  d_tcb_status :: string
  d_advisory_ids :: "string list"

definition v3_auth_data :: "quote \<Rightarrow> auth_data_v3 option" where
  "v3_auth_data q = (case q_auth_data q of Auth_V3 auth \<Rightarrow> Some auth | Auth_V4 _ \<Rightarrow> None)"

text \<open>\<open>verify\<close> in three parts: the checks up to the quoting enclave's report, the buffer for its hash, whose
  \<open>copy_from_slice\<close> panics when the lengths differ, and the rest.\<close>

definition dcap_front :: "sgx_env \<Rightarrow> string \<Rightarrow> sgx_v30_collateral \<Rightarrow> nat
    \<Rightarrow> dcap_error + quote \<times> tcb_info \<times> auth_data_v3 \<times> string list \<times> enclave_report" where
  "dcap_front X raw_quote collateral now =
     and_then (or_err (map_option fst (decode_quote raw_quote)) dcap_error.CodecError) (\<lambda>q.
     and_then (or_err (json_tcb_info X (co_tcb_info collateral)) dcap_error.CodecError) (\<lambda>info.
     and_then (or_err (parse_rfc3339 X (ti_next_update info)) dcap_error.CodecError) (\<lambda>next_update.
     and_then (require (\<not> nat (next_update mod 2 ^ 64) < now) dcap_error.TCBInfoExpired) (\<lambda>_.
     let now_in_milli = wrapping_mul 64 now 1000 in
     and_then (checked_leaf X (co_tcb_info_issuer_chain collateral) now_in_milli) (\<lambda>vendor.
     and_then (verify_signed X (fst vendor) (co_tcb_info collateral) (co_tcb_info_signature collateral)) (\<lambda>_.
     and_then (require (hd_version (q_header q) = QUOTE_VERSION_V3) dcap_error.UnsupportedDCAPQuoteVersion) (\<lambda>_.
     and_then (require (hd_attestation_key_type (q_header q) = ATTESTATION_KEY_TYPE_ECDSA256_WITH_P256_CURVE)
       dcap_error.UnsupportedDCAPAttestationKeyType) (\<lambda>_.
     and_then (or_err (v3_auth_data q) dcap_error.UnsupportedQuoteAuthData) (\<lambda>auth.
     and_then (require (cd_cert_type (a3_certification_data auth) = 5) dcap_error.UnsupportedDCAPPckCertFormat) (\<lambda>_.
     and_then (checked_leaf X (cd_body (a3_certification_data auth)) now_in_milli) (\<lambda>platform.
     and_then (verify_signed X (fst platform) (a3_qe_report auth) (a3_qe_report_signature auth)) (\<lambda>_.
     and_then (or_err (map_option fst (decode_enclave_report (a3_qe_report auth))) dcap_error.CodecError) (\<lambda>qe_report.
     Inr (q, info, auth, snd platform, qe_report))))))))))))))"

definition dcap_back :: "sgx_env \<Rightarrow> string \<Rightarrow> quote \<Rightarrow> tcb_info \<Rightarrow> auth_data_v3 \<Rightarrow> string list \<Rightarrow> enclave_report
    \<Rightarrow> dcap_error + dcap_result" where
  "dcap_back X raw_quote q info auth certs qe_report =
     and_then (require (digest_sha256 X (a3_ecdsa_attestation_key auth @ a3_qe_auth_data auth)
       = take 32 (er_report_data qe_report)) dcap_error.QEReportHashMismatch) (\<lambda>_.
     and_then (require (ecdsa_p256_fixed_verify X (CHR 0x04 # a3_ecdsa_attestation_key auth)
         (take (HEADER_BYTE_LEN + ENCLAVE_REPORT_BYTE_LEN) raw_quote) (a3_ecdsa_signature auth))
       dcap_error.IsvEnclaveReportSignatureIsInvalid) (\<lambda>_.
     and_then (get_intel_extension X (certs ! 0)) (\<lambda>extension_section.
     and_then (get_cpu_svn X extension_section) (\<lambda>cpu_svn.
     and_then (get_pce_svn X extension_section) (\<lambda>pce_svn.
     and_then (get_fmspc X extension_section) (\<lambda>fmspc.
     and_then (or_err (hex_decode X (ti_fmspc info)) dcap_error.CodecError) (\<lambda>tcb_fmspc.
     and_then (require (fmspc = tcb_fmspc) dcap_error.FmspcMismatch) (\<lambda>_.
     Inr \<lparr>d_report_data = er_report_data (q_report q), d_ceseal_hash = tcb_hash (q_report q),
          d_tcb_status = fst (tcb_select cpu_svn pce_svn (ti_levels info)),
          d_advisory_ids = snd (tcb_select cpu_svn pce_svn (ti_levels info))\<rparr>))))))))"

definition dcap_verify :: "sgx_env \<Rightarrow> string \<Rightarrow> sgx_v30_collateral \<Rightarrow> nat \<Rightarrow> dcap_failure + dcap_result" where
  "dcap_verify X raw_quote collateral now =
     and_then (lift_dcap (dcap_front X raw_quote collateral now)) (\<lambda>(q, info, auth, certs, qe_report).
     if ATTESTATION_KEY_LEN + length (a3_qe_auth_data auth) \<noteq> QE_HASH_DATA_BYTE_LEN then Inl Dcap_Panic
     else lift_dcap (dcap_back X raw_quote q info auth certs qe_report))"

section \<open>The wire format of a quote\<close>

text \<open>The format the decoder is meant to read, written down as an encoder: little-endian integers, arrays
  of fixed length, and data with a length in front.\<close>

fun le_bytes :: "nat \<Rightarrow> nat \<Rightarrow> string" where
  "le_bytes 0 v = []"
| "le_bytes (Suc n) v = char_of (v mod 256) # le_bytes n (v div 256)"

definition layout_data :: "nat \<Rightarrow> string \<Rightarrow> string" where
  "layout_data n bs = le_bytes n (length bs) @ bs"

definition layout_header :: "quote_header \<Rightarrow> string" where
  "layout_header h = le_bytes 2 (hd_version h) @ le_bytes 2 (hd_attestation_key_type h) @ le_bytes 4 (hd_tee_type h) @
     le_bytes 2 (hd_qe_svn h) @ le_bytes 2 (hd_pce_svn h) @ hd_qe_vendor_id h @ hd_user_data h"

definition header_wf :: "quote_header \<Rightarrow> bool" where
  "header_wf h \<longleftrightarrow> hd_version h < 256 ^ 2 \<and> hd_attestation_key_type h < 256 ^ 2 \<and> hd_tee_type h < 256 ^ 4 \<and> hd_qe_svn h < 256 ^ 2 \<and>
     hd_pce_svn h < 256 ^ 2 \<and> length (hd_qe_vendor_id h) = 16 \<and> length (hd_user_data h) = 20"

definition layout_report :: "enclave_report \<Rightarrow> string" where
  "layout_report r = er_cpu_svn r @ le_bytes 4 (er_misc_select r) @ er_reserved1 r @ er_attributes r @ er_mr_enclave r @
     er_reserved2 r @ er_mr_signer r @ er_reserved3 r @ le_bytes 2 (er_isv_prod_id r) @ le_bytes 2 (er_isv_svn r) @
     er_reserved4 r @ er_report_data r"

definition report_wf :: "enclave_report \<Rightarrow> bool" where
  "report_wf r \<longleftrightarrow> length (er_cpu_svn r) = 16 \<and> er_misc_select r < 256 ^ 4 \<and> length (er_reserved1 r) = 28 \<and> length (er_attributes r) = 16 \<and>
     length (er_mr_enclave r) = 32 \<and> length (er_reserved2 r) = 32 \<and> length (er_mr_signer r) = 32 \<and> length (er_reserved3 r) = 96 \<and>
     er_isv_prod_id r < 256 ^ 2 \<and> er_isv_svn r < 256 ^ 2 \<and> length (er_reserved4 r) = 60 \<and> length (er_report_data r) = 64"

definition layout_certification :: "certification_data \<Rightarrow> string" where
  "layout_certification c = le_bytes 2 (cd_cert_type c) @ layout_data 4 (cd_body c)"

definition certification_wf :: "certification_data \<Rightarrow> bool" where
  "certification_wf c \<longleftrightarrow> cd_cert_type c < 256 ^ 2 \<and> length (cd_body c) < 256 ^ 4"

definition layout_qe :: "qe_report_certification_data \<Rightarrow> string" where
  "layout_qe c = qc_qe_report c @ qc_qe_report_signature c @ layout_data 2 (qc_qe_auth_data c) @ layout_certification (qc_certification_data c)"

definition qe_wf :: "qe_report_certification_data \<Rightarrow> bool" where
  "qe_wf c \<longleftrightarrow> length (qc_qe_report c) = 384 \<and> length (qc_qe_report_signature c) = 64 \<and> length (qc_qe_auth_data c) < 256 ^ 2 \<and>
     certification_wf (qc_certification_data c)"

fun layout_auth :: "auth_data \<Rightarrow> string" where
  "layout_auth (Auth_V3 a) = a3_ecdsa_signature a @ a3_ecdsa_attestation_key a @ a3_qe_report a @ a3_qe_report_signature a @
     layout_data 2 (a3_qe_auth_data a) @ layout_certification (a3_certification_data a)"
| "layout_auth (Auth_V4 a) = a4_ecdsa_signature a @ a4_ecdsa_attestation_key a @ layout_certification (a4_certification_data a)"

fun auth_wf :: "nat \<Rightarrow> auth_data \<Rightarrow> bool" where
  "auth_wf version (Auth_V3 a) \<longleftrightarrow> version = 3 \<and> length (a3_ecdsa_signature a) = 64 \<and> length (a3_ecdsa_attestation_key a) = 64 \<and>
     length (a3_qe_report a) = 384 \<and> length (a3_qe_report_signature a) = 64 \<and> length (a3_qe_auth_data a) < 256 ^ 2 \<and>
     certification_wf (a3_certification_data a)"
| "auth_wf version (Auth_V4 a) \<longleftrightarrow> version = 4 \<and> length (a4_ecdsa_signature a) = 64 \<and> length (a4_ecdsa_attestation_key a) = 64 \<and>
     certification_wf (a4_certification_data a) \<and> qe_wf (a4_qe_report_data a) \<and>
     (\<exists>padding. cd_body (a4_certification_data a) = layout_qe (a4_qe_report_data a) @ padding)"

definition layout_quote :: "quote \<Rightarrow> string" where
  "layout_quote q = layout_header (q_header q) @ layout_report (q_report q) @ layout_data 4 (layout_auth (q_auth_data q))"

definition quote_wf :: "quote \<Rightarrow> bool" where
  "quote_wf q \<longleftrightarrow> header_wf (q_header q) \<and> report_wf (q_report q) \<and> auth_wf (hd_version (q_header q)) (q_auth_data q) \<and>
     length (layout_auth (q_auth_data q)) < 256 ^ 4"

section \<open>Laws of the decoder\<close>

named_theorems decode_simps "steps of a decoder on the bytes of a layout"

lemma then_decode_assoc [decode_simps]: "then_decode (then_decode p f) k bs = then_decode p (\<lambda>x. then_decode (f x) k) bs"
  by (simp add: then_decode_def split: option.splits prod.splits)

lemma then_yield [decode_simps]: "then_decode (yield x) k bs = k x bs" "yield x bs = Some (x, bs)"
  by (simp_all add: then_decode_def yield_def)

lemma length_le_bytes [simp]: "length (le_bytes n v) = n"
  by (induction n arbitrary: v) auto

lemma le_nat_bytes: "v < 256 ^ n \<Longrightarrow> le_nat (le_bytes n v) = v"
proof (induction n arbitrary: v)
  case (Suc n)
  then have "v div 256 < 256 ^ n" by (simp add: div_less_iff_less_mult mult.commute)
  with Suc.IH [of "v div 256"] show ?case by simp
qed simp

lemma take_bytes_app [decode_simps]: "length bs = n \<Longrightarrow> then_decode (take_bytes n) k (bs @ rest) = k bs rest"
  by (simp add: then_decode_def take_bytes_def)

lemma decode_uint_app [decode_simps]: "v < 256 ^ n \<Longrightarrow> then_decode (decode_uint n) k (le_bytes n v @ rest) = k v rest"
  by (simp add: decode_uint_def decode_simps le_nat_bytes)

lemma decode_data_app [decode_simps]:
  "length bs < 256 ^ n \<Longrightarrow> then_decode (decode_data n) k (layout_data n bs @ rest) = k bs rest"
  by (simp add: decode_data_def layout_data_def decode_simps)

lemma decode_header_app [decode_simps]:
  "header_wf h \<Longrightarrow> then_decode decode_header k (layout_header h @ rest) = k h rest"
  by (cases h) (simp add: decode_header_def layout_header_def header_wf_def decode_simps)

lemma decode_report_app [decode_simps]:
  "report_wf r \<Longrightarrow> then_decode decode_enclave_report k (layout_report r @ rest) = k r rest"
  by (cases r) (simp add: decode_enclave_report_def layout_report_def report_wf_def decode_simps)

lemma decode_certification_app [decode_simps]:
  "certification_wf c \<Longrightarrow> then_decode decode_certification_data k (layout_certification c @ rest) = k c rest"
  by (cases c) (simp add: decode_certification_data_def layout_certification_def certification_wf_def decode_simps)

lemma decode_certification_end [decode_simps]:
  "certification_wf c \<Longrightarrow> then_decode decode_certification_data k (layout_certification c) = k c []"
  using decode_certification_app [of c k "[]"] by simp

lemma decode_qe_app:
  "qe_wf c \<Longrightarrow> decode_qe_report_certification_data (layout_qe c @ rest) = Some (c, rest)"
  by (cases c) (simp add: decode_qe_report_certification_data_def layout_qe_def qe_wf_def dcap_constants decode_simps)

lemma decode_auth_app: "auth_wf version a \<Longrightarrow> decode_auth_data version (layout_auth a) = Some a"
proof (cases a)
  case (Auth_V3 b)
  assume "auth_wf version a"
  with Auth_V3 show ?thesis
    by (cases b) (simp add: decode_auth_data_def decode_auth_data_v3_def dcap_constants decode_simps)
next
  case (Auth_V4 b)
  assume "auth_wf version a"
  with Auth_V4 decode_qe_app [of "a4_qe_report_data b"] show ?thesis
    by (cases b) (auto simp: decode_auth_data_def decode_auth_data_v4_def dcap_constants decode_simps)
qed

lemma auth_version: "auth_wf v a \<Longrightarrow> v = 3 \<or> v = 4"
  by (cases a) auto

lemma decode_layout:
  assumes "quote_wf q"
  shows "decode_quote (layout_quote q @ rest) = Some (q, rest)"
proof -
  have "\<not> 4 < hd_version (q_header q)" using assms by (auto simp: quote_wf_def dest: auth_version)
  then show ?thesis
    using assms decode_auth_app [of "hd_version (q_header q)" "q_auth_data q"]
    by (cases q) (simp add: decode_quote_def layout_quote_def quote_wf_def decode_simps)
qed

section \<open>Laws of the verification\<close>

lemma and_then_Inr: "and_then r k = Inr y \<longleftrightarrow> (\<exists>x. r = Inr x \<and> k x = Inr y)"
  by (simp add: and_then_def split: sum.splits)

lemma and_then_Inl: "and_then r k = Inl e \<longleftrightarrow> r = Inl e \<or> (\<exists>x. r = Inr x \<and> k x = Inl e)"
  by (simp add: and_then_def split: sum.splits)

lemma lift_dcap_cases: "lift_dcap r = Inr x \<longleftrightarrow> r = Inr x" "lift_dcap r = Inl Dcap_Panic \<longleftrightarrow> False"
  by (simp_all add: lift_dcap_def split: sum.splits)

lemma or_err_Inr: "or_err v e = Inr x \<longleftrightarrow> v = Some x"
  by (simp add: or_err_def split: option.splits)

lemma require_Inr: "require b e = Inr u \<longleftrightarrow> b"
  by (simp add: require_def)

lemmas dcap_run = and_then_Inr and_then_Inl lift_dcap_cases or_err_Inr require_Inr

text \<open>The loop picks the first level that the platform reaches in every component.\<close>

definition reaches :: "nat list \<Rightarrow> nat \<Rightarrow> tcb_level \<Rightarrow> bool" where
  "reaches cpu_svn pce_svn level \<longleftrightarrow> tcb_pce_svn (tl_tcb level) \<le> pce_svn \<and>
     (\<forall>i < min (length cpu_svn) (length (components (tl_tcb level))). components (tl_tcb level) ! i \<le> cpu_svn ! i)"

lemma zip_reaches: "list_ex (\<lambda>(a, b). a < b) (zip xs ys) \<longleftrightarrow> \<not> (\<forall>i < min (length xs) (length ys). ys ! i \<le> (xs ! i :: nat))"
  by (auto simp: list_ex_iff set_zip not_le)

lemma tcb_select_find: "tcb_select cpu_svn pce_svn levels = (case find (reaches cpu_svn pce_svn) levels of
    None \<Rightarrow> (''Unknown'', []) | Some level \<Rightarrow> (tl_status level, tl_advisory_ids level))"
  by (induction levels) (auto simp: reaches_def zip_reaches)

lemma decode_report_total: "length bs = 384 \<Longrightarrow> decode_enclave_report bs \<noteq> None"
  by (simp add: decode_enclave_report_def then_decode_def take_bytes_def decode_uint_def yield_def)

lemma checked_leaf_ok:
  "checked_leaf X chain now = Inr (leaf, certs) \<longleftrightarrow> pem_parse_many X chain = Some certs \<and> 2 \<le> length certs \<and> leaf = certs ! 0 \<and>
     end_entity_cert X leaf \<and> cert_verify_for_usage X DCAP_SERVER_ROOTS leaf (drop 1 certs) (now div 1000)"
  by (auto simp: checked_leaf_def dcap_run extract_certs_def verify_certificate_chain_def)

lemma verify_signed_ok:
  "verify_signed X leaf message signature = Inr u \<longleftrightarrow>
     (\<exists>asn1. encode_as_der X signature = Inr asn1 \<and> cert_verify_signature X ECDSA_P256_SHA256 leaf message asn1)"
  by (auto simp: verify_signed_def dcap_run)

lemma v3_auth_data_Some: "v3_auth_data q = Some a \<longleftrightarrow> q_auth_data q = Auth_V3 a"
  by (simp add: v3_auth_data_def split: auth_data.splits)

text \<open>What the two parts of the verification establish.\<close>

lemma dcap_front_ok:
  assumes "dcap_front X raw collateral now = Inr (q, info, auth, certs, qe)"
  shows "\<exists>rest. decode_quote raw = Some (q, rest)" "hd_version (q_header q) = 3" "q_auth_data q = Auth_V3 auth"
    "json_tcb_info X (co_tcb_info collateral) = Some info"
    "\<exists>t. parse_rfc3339 X (ti_next_update info) = Some t \<and> now \<le> nat (t mod 2 ^ 64)"
    "\<exists>vendor. checked_leaf X (co_tcb_info_issuer_chain collateral) (wrapping_mul 64 now 1000) = Inr vendor
       \<and> verify_signed X (fst vendor) (co_tcb_info collateral) (co_tcb_info_signature collateral) = Inr ()"
    "\<exists>pck. checked_leaf X (cd_body (a3_certification_data auth)) (wrapping_mul 64 now 1000) = Inr (pck, certs)
       \<and> verify_signed X pck (a3_qe_report auth) (a3_qe_report_signature auth) = Inr ()"
    "map_option fst (decode_enclave_report (a3_qe_report auth)) = Some qe"
  using assms
  by (auto simp: dcap_front_def Let_def dcap_run dcap_constants not_less v3_auth_data_Some)

lemma then_decode_Some: "then_decode p k bs = Some y \<longleftrightarrow> (\<exists>x rest. p bs = Some (x, rest) \<and> k x rest = Some y)"
  by (auto simp: then_decode_def split: option.splits)

lemma take_bytes_Some: "take_bytes n bs = Some (x, rest) \<Longrightarrow> length x = n"
  by (auto simp: take_bytes_def split: if_splits)

lemma auth_v3_report: "decode_auth_data_v3 bs = Some (a, rest) \<Longrightarrow> length (a3_qe_report a) = 384"
  by (auto simp: decode_auth_data_v3_def then_decode_Some yield_def ENCLAVE_REPORT_BYTE_LEN_def dest: take_bytes_Some)

section \<open>Properties\<close>

text \<open>C21. The decoder reads the wire format. For every quote of version 3 or 4 whose fields have their widths, decoding
  its encoding gives the quote back and leaves exactly the bytes that follow it.\<close>

theorem quote_round_trip:
  assumes "quote_wf q"
  shows "decode_quote (layout_quote q @ rest) = Some (q, rest)"
  using assms by (rule decode_layout)

definition header_example :: quote_header where
  "header_example = \<lparr>hd_version = 3, hd_attestation_key_type = 2, hd_tee_type = 0, hd_qe_svn = 9, hd_pce_svn = 14,
     hd_qe_vendor_id = replicate 16 (CHR 0x93), hd_user_data = replicate 20 (CHR 0x01)\<rparr>"

definition report_example :: enclave_report where
  "report_example = \<lparr>er_cpu_svn = replicate 16 (CHR 0x05), er_misc_select = 0, er_reserved1 = replicate 28 (CHR 0x00),
     er_attributes = replicate 16 (CHR 0x07), er_mr_enclave = replicate 32 (CHR 0x11), er_reserved2 = replicate 32 (CHR 0x00),
     er_mr_signer = replicate 32 (CHR 0x22), er_reserved3 = replicate 96 (CHR 0x00), er_isv_prod_id = 258, er_isv_svn = 3,
     er_reserved4 = replicate 60 (CHR 0x00), er_report_data = replicate 64 (CHR 0x33)\<rparr>"

definition auth_example :: "string \<Rightarrow> auth_data_v3" where
  "auth_example qe_auth_data = \<lparr>a3_ecdsa_signature = replicate 64 (CHR 0x41), a3_ecdsa_attestation_key = replicate 64 (CHR 0x42),
     a3_qe_report = replicate 384 (CHR 0x43), a3_qe_report_signature = replicate 64 (CHR 0x44), a3_qe_auth_data = qe_auth_data,
     a3_certification_data = \<lparr>cd_cert_type = 5, cd_body = ''chain''\<rparr>\<rparr>"

definition quote_example :: "string \<Rightarrow> quote" where
  "quote_example qe_auth_data = \<lparr>q_header = header_example, q_report = report_example, q_auth_data = Auth_V3 (auth_example qe_auth_data)\<rparr>"

lemma quote_example_wf: "length qe_auth_data < 1000 \<Longrightarrow> quote_wf (quote_example qe_auth_data)"
  by (simp add: quote_wf_def quote_example_def header_example_def report_example_def auth_example_def header_wf_def report_wf_def
      certification_wf_def layout_certification_def layout_data_def)

theorem quote_round_trip_witness:
  "decode_quote (layout_quote (quote_example (replicate 32 (CHR 0x55))) @ ''tail'') = Some (quote_example (replicate 32 (CHR 0x55)), ''tail'')"
  by (rule quote_round_trip) (simp add: quote_example_wf)

definition chain_signs :: "sgx_env \<Rightarrow> string \<Rightarrow> nat \<Rightarrow> string \<Rightarrow> string \<Rightarrow> bool" where
  "chain_signs X chain seconds message signature \<longleftrightarrow> (\<exists>certs asn1. pem_parse_many X chain = Some certs \<and> 2 \<le> length certs
     \<and> cert_verify_for_usage X DCAP_SERVER_ROOTS (certs ! 0) (drop 1 certs) seconds
     \<and> encode_as_der X signature = Inr asn1 \<and> cert_verify_signature X ECDSA_P256_SHA256 (certs ! 0) message asn1)"

text \<open>C17. What an accepted quote guarantees. If the verification of a DCAP quote succeeds, then the platform information was not expired and
  was signed by a certificate that leads to the vendor's root; the quoting enclave's report was signed by
  the platform's certificate, which leads to the same root; that report commits to the attestation key;
  the header and the enclave report carry a signature of this key; and the reported status is that of the
  first level of the platform information that the platform reaches in every component.\<close>

theorem dcap_accepts_only_signed:
  assumes "dcap_verify X raw collateral now = Inr r"
  shows "\<exists>q rest auth info t qe certs ext cpu_svn pce_svn.
      decode_quote raw = Some (q, rest) \<and> hd_version (q_header q) = 3 \<and> q_auth_data q = Auth_V3 auth
    \<and> json_tcb_info X (co_tcb_info collateral) = Some info \<and> parse_rfc3339 X (ti_next_update info) = Some t \<and> now \<le> nat (t mod 2 ^ 64)
    \<and> chain_signs X (co_tcb_info_issuer_chain collateral) (wrapping_mul 64 now 1000 div 1000) (co_tcb_info collateral)
        (co_tcb_info_signature collateral)
    \<and> chain_signs X (cd_body (a3_certification_data auth)) (wrapping_mul 64 now 1000 div 1000) (a3_qe_report auth)
        (a3_qe_report_signature auth)
    \<and> map_option fst (decode_enclave_report (a3_qe_report auth)) = Some qe
    \<and> digest_sha256 X (a3_ecdsa_attestation_key auth @ a3_qe_auth_data auth) = take 32 (er_report_data qe)
    \<and> ecdsa_p256_fixed_verify X (CHR 0x04 # a3_ecdsa_attestation_key auth) (take 432 raw) (a3_ecdsa_signature auth)
    \<and> pem_parse_many X (cd_body (a3_certification_data auth)) = Some certs \<and> get_intel_extension X (certs ! 0) = Inr ext
    \<and> get_cpu_svn X ext = Inr cpu_svn \<and> get_pce_svn X ext = Inr pce_svn
    \<and> d_report_data r = er_report_data (q_report q) \<and> d_ceseal_hash r = tcb_hash (q_report q)
    \<and> (d_tcb_status r, d_advisory_ids r) = (case find (reaches cpu_svn pce_svn) (ti_levels info) of
        None \<Rightarrow> (''Unknown'', []) | Some level \<Rightarrow> (tl_status level, tl_advisory_ids level))"
proof -
  obtain q info auth certs qe where front: "dcap_front X raw collateral now = Inr (q, info, auth, certs, qe)"
    and rear: "dcap_back X raw q info auth certs qe = Inr r"
    using assms by (auto simp: dcap_verify_def dcap_run split: if_splits)
  note f = dcap_front_ok [OF front]
  have vendor: "chain_signs X (co_tcb_info_issuer_chain collateral) (wrapping_mul 64 now 1000 div 1000) (co_tcb_info collateral)
      (co_tcb_info_signature collateral)"
    using f(6) by (auto simp: chain_signs_def checked_leaf_ok verify_signed_ok)
  have platform: "chain_signs X (cd_body (a3_certification_data auth)) (wrapping_mul 64 now 1000 div 1000) (a3_qe_report auth)
      (a3_qe_report_signature auth)" "pem_parse_many X (cd_body (a3_certification_data auth)) = Some certs"
    using f(7) by (auto simp: chain_signs_def checked_leaf_ok verify_signed_ok)
  obtain ext cpu_svn pce_svn where b: "digest_sha256 X (a3_ecdsa_attestation_key auth @ a3_qe_auth_data auth) = take 32 (er_report_data qe)"
    "ecdsa_p256_fixed_verify X (CHR 0x04 # a3_ecdsa_attestation_key auth) (take 432 raw) (a3_ecdsa_signature auth)"
    "get_intel_extension X (certs ! 0) = Inr ext" "get_cpu_svn X ext = Inr cpu_svn" "get_pce_svn X ext = Inr pce_svn"
    "d_report_data r = er_report_data (q_report q)" "d_ceseal_hash r = tcb_hash (q_report q)"
    "(d_tcb_status r, d_advisory_ids r) = tcb_select cpu_svn pce_svn (ti_levels info)"
    using rear by (auto simp: dcap_back_def dcap_run dcap_constants)
  show ?thesis using f(1,2,3,4,5,8) vendor platform b unfolding tcb_select_find by blast
qed

text \<open>An environment that accepts one certificate chain and knows one platform.\<close>

definition der_example :: "nat \<Rightarrow> string \<Rightarrow> der_object" where
  "der_example t v = \<lparr>der_tag = t, der_value = v\<rparr>"

definition der_children :: "nat \<Rightarrow> der_object list" where
  "der_children t = (if t = 0 then [der_example 1 [], der_example 2 []]
     else if t = 1 then [der_example 9 OID_TCB, der_example 3 []]
     else if t = 2 then [der_example 9 OID_FMSPC, der_example 9 ''fmspc6'']
     else if t = 3 then [der_example 4 [], der_example 5 []]
     else if t = 4 then [der_example 9 OID_PCESVN, der_example 9 [CHR 0x0E]]
     else [der_example 9 OID_CPUSVN, der_example 9 (replicate 16 (CHR 0x05))])"

definition sgx_example :: sgx_env where
  "sgx_example = \<lparr>json_ra_report = (\<lambda>r. Some \<lparr>ra_timestamp = [], ra_quote_status = ''OK'', ra_advisory_ids = [], ra_body = r\<rparr>),
     json_tcb_info = (\<lambda>_. Some \<lparr>ti_next_update = ''later'', ti_fmspc = ''fmspc6'', ti_levels =
       [\<lparr>tl_tcb = \<lparr>components = [9], tcb_pce_svn = 3\<rparr>, tl_status = ''Best'', tl_advisory_ids = []\<rparr>,
        \<lparr>tl_tcb = \<lparr>components = [5], tcb_pce_svn = 3\<rparr>, tl_status = ''UpToDate'', tl_advisory_ids = []\<rparr>]\<rparr>),
     parse_rfc3339 = (\<lambda>_. Some 1000), base64_decode = Some, hex_decode = Some, pem_parse_many = (\<lambda>_. Some [''leaf'', ''root'']),
     end_entity_cert = (\<lambda>_. True), cert_verify_signature = (\<lambda>_ _ _ _. True), cert_verify_for_usage = (\<lambda>_ _ _ _. True),
     uint_ref = Some, der_encode_pair = (\<lambda>r s. Some (r @ s)), digest_sha256 = (\<lambda>_. replicate 32 (CHR 0x43)),
     ecdsa_p256_fixed_verify = (\<lambda>_ _ _. True), x509_extensions = (\<lambda>_. Some [(SGX_EXTENSION, ''ext'')]),
     der_decode = (\<lambda>_. Some (der_example 0 [])), der_sequence = (\<lambda>obj. Some (map Some (der_children (der_tag obj)))), oid_bytes = id\<rparr>"

definition collateral_example :: sgx_v30_collateral where
  "collateral_example = \<lparr>co_pck_crl_issuer_chain = [], co_root_ca_crl = [], co_pck_crl = [], co_tcb_info_issuer_chain = [],
     co_tcb_info = ''info'', co_tcb_info_signature = replicate 64 (CHR 0x01), co_qe_identity_issuer_chain = [], co_qe_identity = [],
     co_qe_identity_signature = []\<rparr>"

lemma qe_report_example: "\<exists>r. decode_enclave_report (replicate 384 (CHR 0x43)) = Some (r, []) \<and> er_report_data r = replicate 64 (CHR 0x43)"
  by (simp add: decode_enclave_report_def then_decode_def take_bytes_def decode_uint_def yield_def)

lemma front_example:
  assumes "length d < 1000"
  shows "\<exists>qe. dcap_front sgx_example (layout_quote (quote_example d)) collateral_example 7
      = Inr (quote_example d, the (json_tcb_info sgx_example []), auth_example d, [''leaf'', ''root''], qe)
    \<and> er_report_data qe = replicate 64 (CHR 0x43)"
proof -
  have q: "decode_quote (layout_quote (quote_example d)) = Some (quote_example d, [])"
    using decode_layout [OF quote_example_wf [OF assms], of "[]"] by simp
  obtain r where "decode_enclave_report (replicate 384 (CHR 0x43)) = Some (r, [])" "er_report_data r = replicate 64 (CHR 0x43)"
    using qe_report_example by blast
  with q show ?thesis
    by (simp add: dcap_front_def and_then_def or_err_def require_def checked_leaf_def extract_certs_def verify_certificate_chain_def
        verify_signed_def encode_as_der_def sgx_example_def collateral_example_def quote_example_def header_example_def
        auth_example_def v3_auth_data_def dcap_constants)
qed

lemma extension_example:
  "get_intel_extension sgx_example c = Inr ''ext''" "get_cpu_svn sgx_example e = Inr (replicate 16 5)"
  "get_pce_svn sgx_example e = Inr 14" "get_fmspc sgx_example e = Inr ''fmspc6''"
  by (simp_all add: get_intel_extension_def get_cpu_svn_def get_pce_svn_def get_fmspc_def find_extension_def and_then_def or_err_def
      sgx_example_def der_children_def der_example_def OID_TCB_def OID_FMSPC_def OID_PCESVN_def OID_CPUSVN_def)

lemma verify_example:
  "\<exists>r. dcap_verify sgx_example (layout_quote (quote_example (replicate 32 (CHR 0x55)))) collateral_example 7 = Inr r"
proof -
  let ?d = "replicate 32 (CHR 0x55)"
  obtain qe where "dcap_front sgx_example (layout_quote (quote_example ?d)) collateral_example 7
      = Inr (quote_example ?d, the (json_tcb_info sgx_example []), auth_example ?d, [''leaf'', ''root''], qe)"
    "er_report_data qe = replicate 64 (CHR 0x43)"
    using front_example [of ?d] by auto
  then show ?thesis
    by (simp add: dcap_verify_def dcap_back_def and_then_def lift_dcap_def or_err_def require_def extension_example dcap_constants
        auth_example_def) (simp add: sgx_example_def)
qed

theorem dcap_accepts_only_signed_witness:
  "\<exists>r q rest. dcap_verify sgx_example (layout_quote (quote_example (replicate 32 (CHR 0x55)))) collateral_example 7 = Inr r
     \<and> decode_quote (layout_quote (quote_example (replicate 32 (CHR 0x55)))) = Some (q, rest)
     \<and> d_ceseal_hash r = tcb_hash (q_report q)"
proof -
  obtain r where r: "dcap_verify sgx_example (layout_quote (quote_example (replicate 32 (CHR 0x55)))) collateral_example 7 = Inr r"
    using verify_example by blast
  with dcap_accepts_only_signed [OF r] show ?thesis by blast
qed



end
