(* ===== verification/Runtime_Env.thy ===== *)
theory Runtime_Env
  imports Dispatch_Errors Sgx_Attestation
begin

text \<open>
  What the pallets see of the rest of the runtime. \<open>sys_state\<close> is the bottom layer of the chain
  state: the block number and \<open>world\<close>, the state of the parts that live outside the repository
  (balances, the scheduler's agenda, randomness, staking eras), of which nothing is known but what
  \<open>Config\<close> offers. Each pallet's theory extends \<open>sys_state\<close> by its own storage items.

  \<open>Config\<close> collects the associated types and constants that \<open>standalone/chain/runtime\<close> wires
  into the pallets' \<open>Config\<close> traits: the functions of the external pallets and primitives as
  fields of function type, the constants as numbers, the pallet accounts (\<open>PalletId\<close>s turned
  into accounts) as accounts. The predicates at the end state documented behaviour of those
  functions; theorems that rely on it take them as hypotheses, and \<open>Ledger_Runtime\<close> provides an
  instance on which they hold.

  Accounts are numbers, byte strings (tokens, names, keys, hashes, signatures) are \<open>string\<close>.
  SCALE encoding is a parameter applied to a tree \<open>scale\<close> of the encoded components.
\<close>

type_synonym account = nat

datatype origin = Root | Signed account | Unsigned

datatype scale = S_Num nat | S_Bytes string | S_Seq "scale list"

datatype scheduled_call =
    Call_exec_consignment string string
  | Call_miner_exit account

record 'w sys_state =
  world :: 'w
  block_number :: nat

record 'w Config =
  \<comment> \<open>pallet_balances through \<open>Currency\<close> and \<open>ReservableCurrency\<close>\<close>
  cur_transfer :: "'w \<Rightarrow> account \<Rightarrow> account \<Rightarrow> nat \<Rightarrow> nat + 'w"
  cur_can_slash :: "'w \<Rightarrow> account \<Rightarrow> nat \<Rightarrow> bool"
  cur_reserve :: "'w \<Rightarrow> account \<Rightarrow> nat \<Rightarrow> nat + 'w"
  cur_unreserve :: "'w \<Rightarrow> account \<Rightarrow> nat \<Rightarrow> 'w"
  cur_free_balance :: "'w \<Rightarrow> account \<Rightarrow> nat"
  cur_reserved_balance :: "'w \<Rightarrow> account \<Rightarrow> nat"
  cur_resolve_creating :: "'w \<Rightarrow> account \<Rightarrow> nat \<Rightarrow> 'w"
  cur_pair :: "'w \<Rightarrow> nat \<Rightarrow> 'w"
  cur_burn_destination :: "'w \<Rightarrow> nat \<Rightarrow> 'w"
  cur_settle :: "'w \<Rightarrow> account \<Rightarrow> nat \<Rightarrow> nat + 'w"
  cur_drop_positive :: "'w \<Rightarrow> nat \<Rightarrow> 'w"
  \<comment> \<open>pallet_scheduler and the staking pallet\<close>
  preimage_bound :: "'w \<Rightarrow> scheduled_call \<Rightarrow> nat + 'w"
  sched_named :: "'w \<Rightarrow> string \<Rightarrow> nat \<Rightarrow> scheduled_call \<Rightarrow> nat + 'w"
  sched_cancel_named :: "'w \<Rightarrow> string \<Rightarrow> nat + 'w"
  staking_current_era :: "'w \<Rightarrow> nat"
  staking_bonded :: "'w \<Rightarrow> account \<Rightarrow> account option"
  staking_ledger_stash :: "'w \<Rightarrow> account \<Rightarrow> account option"
  staking_slash_scheduler :: "'w \<Rightarrow> account \<Rightarrow> 'w option"
  \<comment> \<open>randomness, codec and cryptography\<close>
  my_randomness :: "'w \<Rightarrow> string \<Rightarrow> string option"
  encode :: "scale \<Rightarrow> string"
  decode_h256 :: "string \<Rightarrow> string option"
  decode_u32 :: "string \<Rightarrow> nat option"
  decode_u64 :: "string \<Rightarrow> nat option"
  decode_account :: "string \<Rightarrow> account option"
  sha2_256 :: "string \<Rightarrow> string"
  blake2_256 :: "string \<Rightarrow> string"
  sr25519_signature :: "string \<Rightarrow> string option"
  sr25519_verify :: "string \<Rightarrow> string \<Rightarrow> string \<Rightarrow> bool"
  storage_hash :: "string \<Rightarrow> nat"
  unix_time :: "'w \<Rightarrow> nat" \<comment> \<open>milliseconds\<close>
  \<comment> \<open>the crates \<open>sgx_attestation\<close>, \<open>serde_json\<close> and \<open>chrono\<close>\<close>
  sgx :: sgx_env
  decode_master_key_submission :: "string \<Rightarrow> string option"
  \<comment> \<open>\<open>Perbill\<close> and \<open>Percent\<close> as parts per billion\<close>
  mul_floor :: "nat \<Rightarrow> nat \<Rightarrow> nat"
  perbill_from_rational :: "nat \<Rightarrow> nat \<Rightarrow> nat"
  perbill_mul :: "nat \<Rightarrow> nat \<Rightarrow> nat"
  \<comment> \<open>accounts and identifiers of the pallets\<close>
  MinerRewardId :: account
  PunishTreasuryId :: account
  SpaceTreasuryId :: account
  ReserveRewardId :: account
  ReservoirId :: account
  FaucetId :: account
  RewardPalletId :: string
  FilbakPalletId :: string
  AuditPalletId :: string
  \<comment> \<open>constants\<close>
  OneDay :: nat
  OneHours :: nat
  EventLimit :: nat
  FrozenLimit :: nat
  FrozenDays :: nat
  ConsignmentRemainingBlock :: nat
  LockingBlock :: nat
  PeriodDuration :: nat
  ItemLimit :: nat
  StakingLockBlock :: nat
  MaximumRelease :: nat
  UserFileLimit :: nat
  NameStrLimit :: nat
  BucketLimit :: nat
  NameMinLength :: nat
  OwnerLimit :: nat
  RestoralOrderLife :: nat
  VerifyMissionMax :: nat
  ReassignCeiling :: nat
  AuthorLimit :: nat
  PayloadExpired :: nat
  SchedulerMaximum :: nat
  AtLeastWorkBlock :: nat
  VerifyCeseal :: bool
  NoneAttestationEnabled :: bool
  \<comment> \<open>\<open>GovernanceOrigin\<close>: the origins the runtime accepts for the trusted-worker administration\<close>
  governance_origin :: "origin \<Rightarrow> bool"

section \<open>Calls into the rest of the runtime\<close>

definition ensure_signed :: "origin \<Rightarrow> ('s, account) M" where
  "ensure_signed orig = (case orig of Signed a \<Rightarrow> retM a | _ \<Rightarrow> failM BadOrigin)"

definition ensure_root :: "origin \<Rightarrow> ('s, unit) M" where
  "ensure_root orig = (case orig of Root \<Rightarrow> retM () | _ \<Rightarrow> failM BadOrigin)"

definition ensure_governance :: "'w Config \<Rightarrow> origin \<Rightarrow> ('s, unit) M" where
  "ensure_governance E orig = ensureM (governance_origin E orig) BadOrigin"

text \<open>An external step that either fails and changes nothing or changes the world.\<close>

definition world_step :: "('w \<Rightarrow> nat + 'w) \<Rightarrow> (('w, 'z) sys_state_scheme, unit) M" where
  "world_step f = (\<lambda>s. case f (world s) of
      Inl c \<Rightarrow> (Inl (External c), s)
    | Inr w \<Rightarrow> (Inr (), s\<lparr>world := w\<rparr>))"

definition world_upd :: "('w \<Rightarrow> 'w) \<Rightarrow> (('w, 'z) sys_state_scheme, unit) M" where
  "world_upd f = modM (\<lambda>s. s\<lparr>world := f (world s)\<rparr>)"

definition transfer :: "'w Config \<Rightarrow> account \<Rightarrow> account \<Rightarrow> nat \<Rightarrow> (('w, 'z) sys_state_scheme, unit) M" where
  "transfer E a b v = world_step (\<lambda>w. cur_transfer E w a b v)"

definition reserve :: "'w Config \<Rightarrow> account \<Rightarrow> nat \<Rightarrow> (('w, 'z) sys_state_scheme, unit) M" where
  "reserve E a v = world_step (\<lambda>w. cur_reserve E w a v)"

definition unreserve :: "'w Config \<Rightarrow> account \<Rightarrow> nat \<Rightarrow> (('w, 'z) sys_state_scheme, unit) M" where
  "unreserve E a v = world_upd (\<lambda>w. cur_unreserve E w a v)"

definition can_slash :: "'w Config \<Rightarrow> account \<Rightarrow> nat \<Rightarrow> (('w, 'z) sys_state_scheme, bool) M" where
  "can_slash E a v = getM (\<lambda>s. cur_can_slash E (world s) a v)"

definition preimages_bound :: "'w Config \<Rightarrow> scheduled_call \<Rightarrow> (('w, 'z) sys_state_scheme, unit) M" where
  "preimages_bound E c = world_step (\<lambda>w. preimage_bound E w c)"

definition schedule_named :: "'w Config \<Rightarrow> string \<Rightarrow> nat \<Rightarrow> scheduled_call \<Rightarrow> (('w, 'z) sys_state_scheme, unit) M" where
  "schedule_named E tid at c = world_step (\<lambda>w. sched_named E w tid at c)"

definition cancel_named :: "'w Config \<Rightarrow> string \<Rightarrow> (('w, 'z) sys_state_scheme, unit) M" where
  "cancel_named E tid = world_step (\<lambda>w. sched_cancel_named E w tid)"

text \<open>\<open>map_err\<close>: the error of a step replaced by one of the pallet.\<close>

definition map_errM :: "dispatch_error \<Rightarrow> ('s, 'a) M \<Rightarrow> ('s, 'a) M" where
  "map_errM e m = (\<lambda>s. case m s of (Inl _, s') \<Rightarrow> (Inl e, s') | (Inr x, s') \<Rightarrow> (Inr x, s'))"

text \<open>
  Keys of a storage prefix in the order \<open>iter_prefix\<close> visits them, the order of their hashes:
  \<open>key_put\<close> is \<open>insert\<close> and \<open>key_del\<close> is \<open>remove\<close>.
\<close>

definition key_put :: "('k \<Rightarrow> nat) \<Rightarrow> 'k \<Rightarrow> 'k list \<Rightarrow> 'k list" where
  "key_put h k ks = (if k \<in> set ks then ks else insort_key h k ks)"

definition key_del :: "'k \<Rightarrow> 'k list \<Rightarrow> 'k list" where
  "key_del k ks = filter (\<lambda>x. x \<noteq> k) ks"

text \<open>The same with values: a storage map that is iterated, as an association list in hash order.\<close>

definition assoc_put :: "('k \<Rightarrow> 'h :: linorder) \<Rightarrow> 'k \<Rightarrow> 'v \<Rightarrow> ('k \<times> 'v) list \<Rightarrow> ('k \<times> 'v) list" where
  "assoc_put h k v xs =
     (if k \<in> fst ` set xs then map (\<lambda>x. if fst x = k then (k, v) else x) xs
      else insort_key (\<lambda>x. h (fst x)) (k, v) xs)"

definition assoc_del :: "'k \<Rightarrow> ('k \<times> 'v) list \<Rightarrow> ('k \<times> 'v) list" where
  "assoc_del k xs = filter (\<lambda>x. fst x \<noteq> k) xs"

section \<open>Rules\<close>

lemma ensure_signed_Inr [run_simps]: "ensure_signed orig s = (Inr a, s') \<longleftrightarrow> orig = Signed a \<and> s' = s"
  by (cases orig) (auto simp: ensure_signed_def run_simps)

lemma ensure_signed_Inl [run_simps]:
  "ensure_signed orig s = (Inl e, s') \<longleftrightarrow> (\<forall>a. orig \<noteq> Signed a) \<and> e = BadOrigin \<and> s' = s"
  by (cases orig) (auto simp: ensure_signed_def run_simps)

lemma ensure_signed_eval [run_eval]: "ensure_signed (Signed a) s = (Inr a, s)"
  "ensure_signed Root s = (Inl BadOrigin, s)" "ensure_signed Unsigned s = (Inl BadOrigin, s)"
  by (simp_all add: ensure_signed_def run_eval)

lemma ensure_root_Inr [run_simps]: "ensure_root orig s = (Inr u, s') \<longleftrightarrow> orig = Root \<and> s' = s"
  by (cases orig) (auto simp: ensure_root_def run_simps)

lemma ensure_root_eval [run_eval]: "ensure_root Root s = (Inr (), s)"
  "ensure_root (Signed a) s = (Inl BadOrigin, s)" "ensure_root Unsigned s = (Inl BadOrigin, s)"
  by (simp_all add: ensure_root_def run_eval)

lemma ensure_root_Inl [run_simps]:
  "ensure_root orig s = (Inl e, s') \<longleftrightarrow> orig \<noteq> Root \<and> e = BadOrigin \<and> s' = s"
  by (cases orig) (auto simp: ensure_root_def run_simps)

lemma world_step_Inr: "world_step f s = (Inr u, s') \<longleftrightarrow> (\<exists>w. f (world s) = Inr w \<and> s' = s\<lparr>world := w\<rparr>)"
  by (auto simp: world_step_def split: sum.splits)

lemma transfer_Inr [run_simps]:
  "transfer E a b v s = (Inr u, s') \<longleftrightarrow> (\<exists>w. cur_transfer E (world s) a b v = Inr w \<and> s' = s\<lparr>world := w\<rparr>)"
  by (simp add: transfer_def world_step_Inr)

lemma transfer_Inl [run_simps]:
  "transfer E a b v s = (Inl e, s') \<longleftrightarrow> (\<exists>c. cur_transfer E (world s) a b v = Inl c \<and> e = External c \<and> s' = s)"
  by (auto simp: transfer_def world_step_def split: sum.splits)

lemma reserve_Inr [run_simps]:
  "reserve E a v s = (Inr u, s') \<longleftrightarrow> (\<exists>w. cur_reserve E (world s) a v = Inr w \<and> s' = s\<lparr>world := w\<rparr>)"
  by (simp add: reserve_def world_step_Inr)

lemma unreserve_run [run_simps, run_eval]:
  "unreserve E a v s = (Inr (), s\<lparr>world := cur_unreserve E (world s) a v\<rparr>)"
  by (simp add: unreserve_def world_upd_def run_eval)

lemma can_slash_run [run_simps, run_eval]: "can_slash E a v s = (Inr (cur_can_slash E (world s) a v), s)"
  by (simp add: can_slash_def run_eval)

lemma schedule_named_Inr [run_simps]:
  "schedule_named E tid at c s = (Inr u, s') \<longleftrightarrow>
    (\<exists>w. sched_named E (world s) tid at c = Inr w \<and> s' = s\<lparr>world := w\<rparr>)"
  by (simp add: schedule_named_def world_step_Inr)

lemma preimages_bound_Inr [run_simps]:
  "preimages_bound E c s = (Inr u, s') \<longleftrightarrow> (\<exists>w. preimage_bound E (world s) c = Inr w \<and> s' = s\<lparr>world := w\<rparr>)"
  by (simp add: preimages_bound_def world_step_Inr)

lemma cancel_named_Inr [run_simps]:
  "cancel_named E tid s = (Inr u, s') \<longleftrightarrow> (\<exists>w. sched_cancel_named E (world s) tid = Inr w \<and> s' = s\<lparr>world := w\<rparr>)"
  by (simp add: cancel_named_def world_step_Inr)

lemma map_errM_Inr [run_simps]: "map_errM e m s = (Inr x, s') \<longleftrightarrow> m s = (Inr x, s')"
  by (auto simp: map_errM_def split: prod.splits sum.splits)

text \<open>Every outcome of a world step differs from the start in \<open>world\<close> only.\<close>

lemma world_step_shape: "\<exists>w. snd (world_step f s) = s\<lparr>world := w\<rparr>"
  by (cases "f (world s)") (auto simp: world_step_def intro: exI [of _ "world s"])

lemma set_key_put [simp]: "set (key_put h k ks) = insert k (set ks)"
  by (auto simp: key_put_def set_insort_key)

lemma set_key_del [simp]: "set (key_del k ks) = set ks - {k}"
  by (auto simp: key_del_def)

lemma distinct_key_put [simp]: "distinct ks \<Longrightarrow> distinct (key_put h k ks)"
  by (auto simp: key_put_def distinct_insort)

lemma distinct_key_del [simp]: "distinct ks \<Longrightarrow> distinct (key_del k ks)"
  by (auto simp: key_del_def)

lemma set_assoc_put: "set (assoc_put h k v xs) = insert (k, v) {x \<in> set xs. fst x \<noteq> k}"
  by (auto simp: assoc_put_def set_insort_key image_iff)

lemma fst_insort: "map fst (insort_key (\<lambda>x. h (fst x)) p xs) = insort_key h (fst p) (map fst xs)"
  by (induction xs) auto

lemma distinct_assoc_put [simp]: "distinct (map fst xs) \<Longrightarrow> distinct (map fst (assoc_put h k v xs))"
proof (cases "k \<in> fst ` set xs")
  case True
  assume "distinct (map fst xs)"
  moreover have "map fst (map (\<lambda>x. if fst x = k then (k, v) else x) xs) = map fst xs" by auto
  ultimately show ?thesis using True by (simp only: assoc_put_def if_True)
next
  case False
  assume "distinct (map fst xs)"
  with False show ?thesis by (simp add: assoc_put_def fst_insort distinct_insort)
qed

lemma assoc_put_get [simp]:
  "map_of (assoc_put h k v xs) a = (if a = k then Some v else map_of xs a)"
proof (cases "k \<in> fst ` set xs")
  case True
  have "map_of (map (\<lambda>x. if fst x = k then (k, v) else x) xs) a =
      (if a = k then (if k \<in> fst ` set xs then Some v else None) else map_of xs a)"
  proof (induction xs)
    case Nil
    then show ?case by simp
  next
    case (Cons x xs)
    then show ?case by (cases x; cases "a = k") simp_all
  qed
  with True show ?thesis by (simp add: assoc_put_def)
next
  case False
  have "map_of (insort_key (\<lambda>x. h (fst x)) (k, v) xs) a = (if a = k then Some v else map_of xs a)"
    using False by (induction xs) auto
  with False show ?thesis by (simp add: assoc_put_def)
qed

lemma distinct_assoc_del [simp]: "distinct (map fst xs) \<Longrightarrow> distinct (map fst (assoc_del k xs))"
  by (simp add: assoc_del_def distinct_map_filter)

lemma map_of_assoc_del [simp]: "map_of (assoc_del k xs) = (map_of xs)(k := None)"
  by (induction xs) (auto simp: assoc_del_def fun_eq_iff)

lemma set_assoc_del: "set (assoc_del k xs) = {x \<in> set xs. fst x \<noteq> k}"
  by (auto simp: assoc_del_def)

section \<open>Documented behaviour of the external functions\<close>

text \<open>\<open>Currency::transfer\<close> moves exactly the amount, \<open>reserve\<close> moves it from the free to the
  reserved balance, \<open>unreserve\<close> moves back at most what is reserved; no other account changes.\<close>

definition transfer_law :: "'w Config \<Rightarrow> bool" where
  "transfer_law E \<longleftrightarrow> (\<forall>w a b v w'. cur_transfer E w a b v = Inr w' \<longrightarrow>
     cur_reserved_balance E w' = cur_reserved_balance E w \<and>
     (if a = b then cur_free_balance E w' = cur_free_balance E w
      else v \<le> cur_free_balance E w a \<and>
        cur_free_balance E w' = (cur_free_balance E w)
          (a := cur_free_balance E w a - v, b := cur_free_balance E w b + v)))"

definition reserve_law :: "'w Config \<Rightarrow> bool" where
  "reserve_law E \<longleftrightarrow> (\<forall>w a v w'. cur_reserve E w a v = Inr w' \<longrightarrow>
     v \<le> cur_free_balance E w a \<and>
     cur_free_balance E w' = (cur_free_balance E w)(a := cur_free_balance E w a - v) \<and>
     cur_reserved_balance E w' = (cur_reserved_balance E w)(a := cur_reserved_balance E w a + v))"

definition unreserve_law :: "'w Config \<Rightarrow> bool" where
  "unreserve_law E \<longleftrightarrow> (\<forall>w a v.
     let x = min v (cur_reserved_balance E w a); w' = cur_unreserve E w a v in
     cur_free_balance E w' = (cur_free_balance E w)(a := cur_free_balance E w a + x) \<and>
     cur_reserved_balance E w' = (cur_reserved_balance E w)(a := cur_reserved_balance E w a - x))"

text \<open>The scheduler does not touch balances.\<close>

definition schedule_law :: "'w Config \<Rightarrow> bool" where
  "schedule_law E \<longleftrightarrow> (\<forall>w tid at c w'.
     (sched_named E w tid at c = Inr w' \<or> sched_cancel_named E w tid = Inr w' \<or> preimage_bound E w c = Inr w') \<longrightarrow>
     cur_free_balance E w' = cur_free_balance E w \<and>
     cur_reserved_balance E w' = cur_reserved_balance E w)"

text \<open>\<open>Perbill::mul_floor\<close> rounds down; \<open>from_rational\<close> is at most one and rounds down.\<close>

definition mul_floor_law :: "'w Config \<Rightarrow> bool" where
  "mul_floor_law E \<longleftrightarrow> (\<forall>p x. p \<le> 10 ^ 9 \<longrightarrow> mul_floor E p x = p * x div 10 ^ 9)"

definition from_rational_law :: "'w Config \<Rightarrow> bool" where
  "from_rational_law E \<longleftrightarrow> (\<forall>p q. perbill_from_rational E p q \<le> 10 ^ 9 \<and>
     perbill_from_rational E p q * q \<le> p * 10 ^ 9)"

text \<open>\<open>Perbill * x\<close> (and \<open>Percent * x\<close>) rounds to the nearest integer.\<close>

definition perbill_mul_law :: "'w Config \<Rightarrow> bool" where
  "perbill_mul_law E \<longleftrightarrow> (\<forall>p x. p \<le> 10 ^ 9 \<longrightarrow>
     2 * (perbill_mul E p x * 10 ^ 9) \<le> 2 * (p * x) + 10 ^ 9 \<and> 2 * (p * x) \<le> 2 * (perbill_mul E p x * 10 ^ 9) + 10 ^ 9)"

lemma transfer_lawD:
  assumes "transfer_law E" "cur_transfer E w a b v = Inr w'"
  shows transfer_reserved: "cur_reserved_balance E w' = cur_reserved_balance E w"
    and transfer_self: "a = b \<Longrightarrow> cur_free_balance E w' = cur_free_balance E w"
    and transfer_enough: "a \<noteq> b \<Longrightarrow> v \<le> cur_free_balance E w a"
    and transfer_free: "a \<noteq> b \<Longrightarrow> cur_free_balance E w' c =
      (if c = a then cur_free_balance E w a - v else if c = b then cur_free_balance E w b + v
       else cur_free_balance E w c)"
  using assms unfolding transfer_law_def by (auto split: if_splits)

lemma transfer_free_other:
  assumes "transfer_law E" "cur_transfer E w a b v = Inr w'" "c \<noteq> a"
  shows "cur_free_balance E w c \<le> cur_free_balance E w' c"
  using transfer_lawD [OF assms(1,2)] assms(3) by (cases "a = b") auto

lemma transfer_free_source:
  assumes "transfer_law E" "cur_transfer E w a b v = Inr w'"
  shows "cur_free_balance E w a \<le> cur_free_balance E w' a + v"
  using transfer_lawD [OF assms] by (cases "a = b") auto

lemma reserve_lawD:
  assumes "reserve_law E" "cur_reserve E w a v = Inr w'"
  shows reserve_enough: "v \<le> cur_free_balance E w a"
    and reserve_free: "cur_free_balance E w' c =
      (if c = a then cur_free_balance E w a - v else cur_free_balance E w c)"
    and reserve_reserved: "cur_reserved_balance E w' c =
      (if c = a then cur_reserved_balance E w a + v else cur_reserved_balance E w c)"
  using assms unfolding reserve_law_def by auto

lemma schedule_lawD:
  assumes "schedule_law E"
  shows sched_balances: "sched_named E w tid at c = Inr w' \<Longrightarrow> cur_free_balance E w' = cur_free_balance E w \<and>
      cur_reserved_balance E w' = cur_reserved_balance E w"
    and sched_cancel_balances: "sched_cancel_named E w tid = Inr w' \<Longrightarrow> cur_free_balance E w' = cur_free_balance E w \<and>
      cur_reserved_balance E w' = cur_reserved_balance E w"
    and preimage_balances: "preimage_bound E w c = Inr w' \<Longrightarrow> cur_free_balance E w' = cur_free_balance E w \<and>
      cur_reserved_balance E w' = cur_reserved_balance E w"
  using assms unfolding schedule_law_def by blast+

lemma unreserve_lawD:
  assumes "unreserve_law E"
  shows unreserve_free: "cur_free_balance E (cur_unreserve E w a v) c =
      (if c = a then cur_free_balance E w a + min v (cur_reserved_balance E w a)
       else cur_free_balance E w c)"
    and unreserve_reserved: "cur_reserved_balance E (cur_unreserve E w a v) c =
      (if c = a then cur_reserved_balance E w a - min v (cur_reserved_balance E w a)
       else cur_reserved_balance E w c)"
  using assms unfolding unreserve_law_def Let_def by auto

lemma mul_floor_le: "mul_floor_law E \<Longrightarrow> p \<le> 10 ^ 9 \<Longrightarrow> mul_floor E p x \<le> x"
proof -
  assume "mul_floor_law E" "p \<le> 10 ^ 9"
  moreover have "p * x div 10 ^ 9 \<le> 10 ^ 9 * x div 10 ^ 9"
    by (rule div_le_mono) (use \<open>p \<le> 10 ^ 9\<close> in simp)
  ultimately show ?thesis by (simp add: mul_floor_law_def)
qed

lemma perbill_mul_le:
  assumes "perbill_mul_law E" "p \<le> 10 ^ 9" "p * x \<le> c * 10 ^ 9"
  shows "perbill_mul E p x \<le> c"
proof -
  have "2 * (perbill_mul E p x * 10 ^ 9) \<le> 2 * (p * x) + 10 ^ 9"
    using assms(1,2) unfolding perbill_mul_law_def by blast
  with assms(3) show ?thesis by simp
qed

end
