(* ===== verification/Ledger_Runtime.thy ===== *)
theory Ledger_Runtime
  imports Runtime_Env
begin

text \<open>
  A concrete runtime: a plain ledger of free and reserved balances with an agenda of named calls,
  in the place of the external pallets, and the constants of \<open>standalone/chain/runtime\<close>. It shows
  that the laws of \<open>Runtime_Env\<close> hold together, and it is the runtime in which the witnesses of the
  properties execute the pallets.
\<close>

record ledger =
  lg_free :: "account \<Rightarrow> nat"
  lg_reserved :: "account \<Rightarrow> nat"
  lg_agenda :: "(string \<times> nat \<times> scheduled_call) list"

definition ledger_transfer :: "ledger \<Rightarrow> account \<Rightarrow> account \<Rightarrow> nat \<Rightarrow> nat + ledger" where
  "ledger_transfer w a b v =
     (if a = b then Inr w
      else if lg_free w a \<le> v then Inl 1
      else Inr (w\<lparr>lg_free := (lg_free w)(a := lg_free w a - v, b := lg_free w b + v)\<rparr>))"

definition ledger_reserve :: "ledger \<Rightarrow> account \<Rightarrow> nat \<Rightarrow> nat + ledger" where
  "ledger_reserve w a v =
     (if lg_free w a < v then Inl 2
      else Inr (w\<lparr>lg_free := (lg_free w)(a := lg_free w a - v),
                 lg_reserved := (lg_reserved w)(a := lg_reserved w a + v)\<rparr>))"

definition ledger_unreserve :: "ledger \<Rightarrow> account \<Rightarrow> nat \<Rightarrow> ledger" where
  "ledger_unreserve w a v =
     w\<lparr>lg_free := (lg_free w)(a := lg_free w a + min v (lg_reserved w a)),
       lg_reserved := (lg_reserved w)(a := lg_reserved w a - min v (lg_reserved w a))\<rparr>"

definition ledger_schedule :: "ledger \<Rightarrow> string \<Rightarrow> nat \<Rightarrow> scheduled_call \<Rightarrow> nat + ledger" where
  "ledger_schedule w tid at c =
     (if tid \<in> fst ` set (lg_agenda w) then Inl 3
      else Inr (w\<lparr>lg_agenda := lg_agenda w @ [(tid, at, c)]\<rparr>))"

definition ledger_cancel :: "ledger \<Rightarrow> string \<Rightarrow> nat + ledger" where
  "ledger_cancel w tid =
     (if tid \<in> fst ` set (lg_agenda w)
      then Inr (w\<lparr>lg_agenda := filter (\<lambda>x. fst x \<noteq> tid) (lg_agenda w)\<rparr>)
      else Inl 4)"

definition little_endian :: "string \<Rightarrow> nat" where
  "little_endian bs = foldr (\<lambda>c n. of_char c + 256 * n) bs 0"

definition ledger_runtime :: "ledger Config" where
  "ledger_runtime = \<lparr>
     cur_transfer = ledger_transfer,
     cur_can_slash = (\<lambda>w a v. v \<le> lg_free w a),
     cur_reserve = ledger_reserve,
     cur_unreserve = ledger_unreserve,
     cur_free_balance = lg_free,
     cur_reserved_balance = lg_reserved,
     cur_resolve_creating = (\<lambda>w a v. w\<lparr>lg_free := (lg_free w)(a := lg_free w a + v)\<rparr>),
     cur_pair = (\<lambda>w v. w),
     cur_burn_destination = (\<lambda>w v. w),
     cur_settle = (\<lambda>w a v. if lg_free w a \<le> v then Inl 5
                           else Inr (w\<lparr>lg_free := (lg_free w)(a := lg_free w a - v)\<rparr>)),
     cur_drop_positive = (\<lambda>w v. w),
     preimage_bound = (\<lambda>w c. Inr w),
     sched_named = ledger_schedule,
     sched_cancel_named = ledger_cancel,
     staking_current_era = (\<lambda>w. 0),
     staking_bonded = (\<lambda>w a. Some a),
     staking_ledger_stash = (\<lambda>w a. Some a),
     staking_slash_scheduler = (\<lambda>w a. Some w),
     my_randomness = (\<lambda>w x. Some (take 32 (x @ replicate 32 (CHR 0x00)))),
     encode = (\<lambda>x. case x of S_Num n \<Rightarrow> [char_of (n mod 256)] | S_Bytes b \<Rightarrow> b | S_Seq xs \<Rightarrow> []),
     decode_h256 = (\<lambda>x. if 32 \<le> length x then Some (take 32 x) else None),
     decode_u32 = (\<lambda>x. if 4 \<le> length x then Some (little_endian (take 4 x)) else None),
     decode_u64 = (\<lambda>x. if 8 \<le> length x then Some (little_endian (take 8 x)) else None),
     decode_account = (\<lambda>x. Some (little_endian x)),
     sha2_256 = (\<lambda>x. x),
     blake2_256 = (\<lambda>x. x),
     sr25519_signature = (\<lambda>x. Some x),
     sr25519_verify = (\<lambda>sig msg key. sig = key),
     storage_hash = (\<lambda>x. length x),
     unix_time = (\<lambda>w. 0),
     sgx = sgx_example,
     decode_master_key_submission = (\<lambda>x. if x = [] then None else Some x),
     mul_floor = (\<lambda>p x. p * x div 10 ^ 9),
     perbill_from_rational = (\<lambda>p q. if q \<le> p then 10 ^ 9 else p * 10 ^ 9 div q),
     perbill_mul = (\<lambda>p x. (p * x + 499999999) div 10 ^ 9),
     MinerRewardId = 1, PunishTreasuryId = 2, SpaceTreasuryId = 3, ReserveRewardId = 4,
     ReservoirId = 5, FaucetId = 6,
     RewardPalletId = ''rewardpt'', FilbakPalletId = ''filebank'', AuditPalletId = ''audit'',
     OneDay = 14400, OneHours = 600, EventLimit = 32, FrozenLimit = 2000,
     FrozenDays = 100800, ConsignmentRemainingBlock = 14400, LockingBlock = 50,
     PeriodDuration = 3600,
     ItemLimit = 200000, StakingLockBlock = 2592000, MaximumRelease = 5 * 10 ^ 24,
     UserFileLimit = 500000, NameStrLimit = 63, BucketLimit = 1000, NameMinLength = 3,
     OwnerLimit = 50000, RestoralOrderLife = 250, VerifyMissionMax = 500, ReassignCeiling = 1,
     AuthorLimit = 20, PayloadExpired = 100, SchedulerMaximum = 10000, AtLeastWorkBlock = 14400,
     VerifyCeseal = False, NoneAttestationEnabled = True,
     governance_origin = (\<lambda>orig. orig = Root) \<rparr>"

definition ledger_of :: "(account \<times> nat) list \<Rightarrow> ledger" where
  "ledger_of xs = \<lparr>lg_free = (\<lambda>a. case map_of xs a of None \<Rightarrow> 0 | Some v \<Rightarrow> v),
     lg_reserved = (\<lambda>a. 0), lg_agenda = []\<rparr>"

lemma ledger_sel [simp]:
  "cur_transfer ledger_runtime = ledger_transfer"
  "cur_can_slash ledger_runtime = (\<lambda>w a v. v \<le> lg_free w a)"
  "cur_reserve ledger_runtime = ledger_reserve"
  "cur_unreserve ledger_runtime = ledger_unreserve"
  "cur_free_balance ledger_runtime = lg_free"
  "cur_reserved_balance ledger_runtime = lg_reserved"
  "cur_resolve_creating ledger_runtime = (\<lambda>w a v. w\<lparr>lg_free := (lg_free w)(a := lg_free w a + v)\<rparr>)"
  "cur_pair ledger_runtime = (\<lambda>w v. w)"
  "cur_burn_destination ledger_runtime = (\<lambda>w v. w)"
  "cur_settle ledger_runtime = (\<lambda>w a v. if lg_free w a \<le> v then Inl 5 else Inr (w\<lparr>lg_free := (lg_free w)(a := lg_free w a - v)\<rparr>))"
  "cur_drop_positive ledger_runtime = (\<lambda>w v. w)"
  "preimage_bound ledger_runtime = (\<lambda>w c. Inr w)"
  "sched_named ledger_runtime = ledger_schedule"
  "sched_cancel_named ledger_runtime = ledger_cancel"
  "staking_current_era ledger_runtime = (\<lambda>w. 0)"
  "staking_bonded ledger_runtime = (\<lambda>w a. Some a)"
  "staking_ledger_stash ledger_runtime = (\<lambda>w a. Some a)"
  "staking_slash_scheduler ledger_runtime = (\<lambda>w a. Some w)"
  "my_randomness ledger_runtime = (\<lambda>w x. Some (take 32 (x @ replicate 32 (CHR 0x00))))"
  "encode ledger_runtime = (\<lambda>x. case x of S_Num n \<Rightarrow> [char_of (n mod 256)] | S_Bytes b \<Rightarrow> b | S_Seq xs \<Rightarrow> [])"
  "decode_h256 ledger_runtime = (\<lambda>x. if 32 \<le> length x then Some (take 32 x) else None)"
  "decode_u32 ledger_runtime = (\<lambda>x. if 4 \<le> length x then Some (little_endian (take 4 x)) else None)"
  "decode_u64 ledger_runtime = (\<lambda>x. if 8 \<le> length x then Some (little_endian (take 8 x)) else None)"
  "decode_account ledger_runtime = (\<lambda>x. Some (little_endian x))"
  "sha2_256 ledger_runtime = (\<lambda>x. x)"
  "blake2_256 ledger_runtime = (\<lambda>x. x)"
  "sr25519_signature ledger_runtime = (\<lambda>x. Some x)"
  "sr25519_verify ledger_runtime = (\<lambda>sig msg key. sig = key)"
  "storage_hash ledger_runtime = (\<lambda>x. length x)"
  "unix_time ledger_runtime = (\<lambda>w. 0)"
  "sgx ledger_runtime = sgx_example"
  "decode_master_key_submission ledger_runtime = (\<lambda>x. if x = [] then None else Some x)"
  "mul_floor ledger_runtime = (\<lambda>p x. p * x div 10 ^ 9)"
  "perbill_from_rational ledger_runtime = (\<lambda>p q. if q \<le> p then 10 ^ 9 else p * 10 ^ 9 div q)"
  "perbill_mul ledger_runtime = (\<lambda>p x. (p * x + 499999999) div 10 ^ 9)"
  "MinerRewardId ledger_runtime = 1"
  "PunishTreasuryId ledger_runtime = 2"
  "SpaceTreasuryId ledger_runtime = 3"
  "ReserveRewardId ledger_runtime = 4"
  "ReservoirId ledger_runtime = 5"
  "FaucetId ledger_runtime = 6"
  "RewardPalletId ledger_runtime = ''rewardpt''"
  "FilbakPalletId ledger_runtime = ''filebank''"
  "AuditPalletId ledger_runtime = ''audit''"
  "OneDay ledger_runtime = 14400"
  "OneHours ledger_runtime = 600"
  "EventLimit ledger_runtime = 32"
  "FrozenLimit ledger_runtime = 2000"
  "FrozenDays ledger_runtime = 100800"
  "ConsignmentRemainingBlock ledger_runtime = 14400"
  "LockingBlock ledger_runtime = 50"
  "PeriodDuration ledger_runtime = 3600"
  "ItemLimit ledger_runtime = 200000"
  "StakingLockBlock ledger_runtime = 2592000"
  "MaximumRelease ledger_runtime = 5 * 10 ^ 24"
  "UserFileLimit ledger_runtime = 500000"
  "NameStrLimit ledger_runtime = 63"
  "BucketLimit ledger_runtime = 1000"
  "NameMinLength ledger_runtime = 3"
  "OwnerLimit ledger_runtime = 50000"
  "RestoralOrderLife ledger_runtime = 250"
  "VerifyMissionMax ledger_runtime = 500"
  "ReassignCeiling ledger_runtime = 1"
  "AuthorLimit ledger_runtime = 20"
  "PayloadExpired ledger_runtime = 100"
  "SchedulerMaximum ledger_runtime = 10000"
  "AtLeastWorkBlock ledger_runtime = 14400"
  "VerifyCeseal ledger_runtime = False"
  "NoneAttestationEnabled ledger_runtime = True"
  "governance_origin ledger_runtime = (\<lambda>orig. orig = Root)"
  by (simp_all only: ledger_runtime_def Config.simps)

lemmas ledger_simps = ledger_of_def ledger_transfer_def ledger_reserve_def
  ledger_unreserve_def ledger_schedule_def ledger_cancel_def

lemma ledger_transfer_law: "transfer_law ledger_runtime"
  by (auto simp: transfer_law_def ledger_simps split: if_splits)

lemma ledger_reserve_law: "reserve_law ledger_runtime"
  by (auto simp: reserve_law_def ledger_simps split: if_splits)

lemma ledger_unreserve_law: "unreserve_law ledger_runtime"
  by (auto simp: unreserve_law_def ledger_simps Let_def)

lemma ledger_schedule_law: "schedule_law ledger_runtime"
  by (auto simp: schedule_law_def ledger_simps split: if_splits)

lemma ledger_mul_floor_law: "mul_floor_law ledger_runtime"
  by (simp add: mul_floor_law_def ledger_simps)

lemma ledger_from_rational_law: "from_rational_law ledger_runtime"
proof -
  have "p * 10 ^ 9 div q \<le> (10::nat) ^ 9" if "p < q" for p q :: nat
    by (rule order.trans [OF div_le_mono [of "p * 10 ^ 9" "q * 10 ^ 9"]]) (use that in simp_all)
  moreover have "p * 10 ^ 9 div q * q \<le> p * (10::nat) ^ 9" for p q :: nat
    by (rule div_times_less_eq_dividend)
  ultimately show ?thesis
    by (auto simp: from_rational_law_def)
qed

lemma ledger_perbill_mul_law: "perbill_mul_law ledger_runtime"
proof -
  have "2 * ((n + 499999999) div 10 ^ 9 * 10 ^ 9) \<le> 2 * n + 10 ^ 9
    \<and> 2 * n \<le> 2 * ((n + 499999999) div 10 ^ 9 * 10 ^ 9) + 10 ^ 9" for n :: nat
  proof -
    let ?m = "n + 499999999" and ?D = "(10::nat) ^ 9"
    have "?m div ?D * ?D + ?m mod ?D = ?m" by (rule div_mult_mod_eq)
    moreover have "?m mod ?D < ?D" by simp
    moreover have "?D = 1000000000" by simp
    ultimately show ?thesis by (intro conjI) linarith+
  qed
  then show ?thesis by (simp add: perbill_mul_law_def)
qed

lemmas ledger_laws = ledger_transfer_law ledger_reserve_law ledger_unreserve_law
  ledger_schedule_law ledger_mul_floor_law ledger_from_rational_law ledger_perbill_mul_law

end
