(* ===== verification/Cess_Treasury.thy ===== *)
theory Cess_Treasury
  imports Ledger_Runtime
begin

text \<open>
  \<open>pallets/cess-treasury/src/lib.rs\<close>: the reward pool of the storage miners and the treasury
  accounts. \<open>CurrencyReward\<close> is what is left of the miners' pool, \<open>ReserveReward\<close> what was set
  aside, \<open>RoundReward\<close> maps an era to (total, issued). The two traits the pallet implements,
  \<open>RewardPool\<close> and \<open>TreasuryHandle\<close>, are the functions below without an origin. The locale
  \<open>reward_pool\<close> states what a client of \<open>RewardPool\<close> may rely on.
\<close>

record 'w treasury_state = "'w sys_state" +
  CurrencyReward :: nat
  EraReward :: nat
  ReserveReward :: nat
  RoundReward :: "nat \<Rightarrow> (nat \<times> nat) option"

definition REWARD_BASE_MUTI :: nat where
  "REWARD_BASE_MUTI = 750000000"

section \<open>Helpers of the pallet\<close>

definition round_reward_of :: "(nat \<Rightarrow> (nat \<times> nat) option) \<Rightarrow> nat \<Rightarrow> nat \<times> nat" where
  "round_reward_of m r = (case m r of None \<Rightarrow> (0, 0) | Some p \<Rightarrow> p)"

definition get_reward :: "(('w, 'z) treasury_state_scheme, nat) M" where
  "get_reward = getM CurrencyReward"

definition get_reward_128 :: "(('w, 'z) treasury_state_scheme, nat) M" where
  "get_reward_128 = getM (\<lambda>s. saturated_into 128 (CurrencyReward s))"

definition get_reward_base :: "'w Config \<Rightarrow> (('w, 'z) treasury_state_scheme, nat) M" where
  "get_reward_base E = getM (\<lambda>s. mul_floor E REWARD_BASE_MUTI (EraReward s))"

definition add_reward :: "nat \<Rightarrow> (('w, 'z) treasury_state_scheme, unit) M" where
  "add_reward amount =
     bindM (getM CurrencyReward) (\<lambda>v.
     bindM (ok_or (checked_add 128 v amount) (TreasuryE treasury_error.Overflow)) (\<lambda>v'.
     modM (\<lambda>s. s\<lparr>CurrencyReward := v'\<rparr>)))"

definition add_miner_reward_pool :: "'w Config \<Rightarrow> nat \<Rightarrow> (('w, 'z) treasury_state_scheme, unit) M" where
  "add_miner_reward_pool E amount =
     bindM (modM (\<lambda>s. s\<lparr>EraReward := amount\<rparr>)) (\<lambda>_.
     bindM (getM (\<lambda>s. staking_current_era E (world s))) (\<lambda>era.
     bindM (mutateM (\<lambda>s. round_reward_of (RoundReward s) era)
                    (\<lambda>v s. s\<lparr>RoundReward := (RoundReward s)(era \<mapsto> v)\<rparr>)
                    (\<lambda>v. case checked_add 128 (fst v) amount of
                       None \<Rightarrow> (Inl (TreasuryE treasury_error.Overflow), v)
                     | Some t \<Rightarrow> (Inr (), (t, snd v)))) (\<lambda>_.
     add_reward amount)))"

definition send_to_pid :: "'w Config \<Rightarrow> account \<Rightarrow> nat \<Rightarrow> (('w, 'z) treasury_state_scheme, unit) M" where
  "send_to_pid E acc amount = transfer E acc (PunishTreasuryId E) amount"

definition send_to_sid :: "'w Config \<Rightarrow> account \<Rightarrow> nat \<Rightarrow> (('w, 'z) treasury_state_scheme, unit) M" where
  "send_to_sid E acc amount = transfer E acc (SpaceTreasuryId E) amount"

definition send_to_rid :: "'w Config \<Rightarrow> account \<Rightarrow> nat \<Rightarrow> (('w, 'z) treasury_state_scheme, unit) M" where
  "send_to_rid E acc amount =
     bindM (getM ReserveReward) (\<lambda>v.
     bindM (ok_or (checked_add 128 v amount) (TreasuryE treasury_error.Overflow)) (\<lambda>v'.
     bindM (modM (\<lambda>s. s\<lparr>ReserveReward := v'\<rparr>)) (\<lambda>_.
     transfer E acc (ReserveRewardId E) amount)))"

definition reward_reserve :: "'w Config \<Rightarrow> nat \<Rightarrow> (('w, 'z) treasury_state_scheme, unit) M" where
  "reward_reserve E amount = send_to_rid E (MinerRewardId E) amount"

definition sluice :: "'w Config \<Rightarrow> nat \<Rightarrow> (('w, 'z) treasury_state_scheme, unit) M" where
  "sluice E amount =
     bindM (getM ReserveReward) (\<lambda>v.
     bindM (ok_or (checked_sub v amount) (TreasuryE treasury_error.Overflow)) (\<lambda>v'.
     bindM (modM (\<lambda>s. s\<lparr>ReserveReward := v'\<rparr>)) (\<lambda>_.
     bindM (add_reward amount) (\<lambda>_.
     transfer E (ReserveRewardId E) (MinerRewardId E) amount))))"

section \<open>The trait RewardPool\<close>

definition get_round_reward :: "nat \<Rightarrow> (('w, 'z) treasury_state_scheme, nat) M" where
  "get_round_reward r = getM (\<lambda>s. fst (round_reward_of (RoundReward s) r))"

definition sub_round_reward :: "nat \<Rightarrow> nat \<Rightarrow> (('w, 'z) treasury_state_scheme, unit) M" where
  "sub_round_reward r reward =
     bindM (getM (\<lambda>s. RoundReward s r \<noteq> None)) (\<lambda>known.
     bindM (ensureM known (TreasuryE treasury_error.Unexpected)) (\<lambda>_.
     mutateM (\<lambda>s. round_reward_of (RoundReward s) r)
             (\<lambda>v s. s\<lparr>RoundReward := (RoundReward s)(r \<mapsto> v)\<rparr>)
             (\<lambda>v. case checked_add 128 (snd v) reward of
                None \<Rightarrow> (Inl (TreasuryE treasury_error.Overflow), v)
              | Some i \<Rightarrow> if i \<le> fst v then (Inr (), (fst v, i))
                         else (Inl (TreasuryE treasury_error.Unexpected), (fst v, i)))))"

definition sub_reward :: "'w Config \<Rightarrow> nat \<Rightarrow> (('w, 'z) treasury_state_scheme, unit) M" where
  "sub_reward E amount =
     bindM get_reward (\<lambda>reward.
     bindM (if reward < amount then sluice E amount else retM ()) (\<lambda>_.
     bindM (getM CurrencyReward) (\<lambda>v.
     bindM (ok_or (checked_sub v amount) (TreasuryE treasury_error.Overflow)) (\<lambda>v'.
     modM (\<lambda>s. s\<lparr>CurrencyReward := v'\<rparr>)))))"

definition send_reward_to_miner :: "'w Config \<Rightarrow> account \<Rightarrow> nat \<Rightarrow> (('w, 'z) treasury_state_scheme, unit) M" where
  "send_reward_to_miner E beneficiary amount = transfer E (MinerRewardId E) beneficiary amount"

text \<open>
  \<open>OnUnbalanced::on_nonzero_unbalanced\<close>: the era payout arrives. \<open>unwrap\<close> panics on an error,
  which is the outcome \<open>Inl\<close> here.
\<close>

definition on_nonzero_unbalanced :: "'w Config \<Rightarrow> nat \<Rightarrow> (('w, 'z) treasury_state_scheme, unit) M" where
  "on_nonzero_unbalanced E amount =
     bindM (world_upd (\<lambda>w. cur_resolve_creating E w (MinerRewardId E) amount)) (\<lambda>_.
     add_miner_reward_pool E amount)"

section \<open>Dispatchable calls\<close>

definition burn_funds :: "'w Config \<Rightarrow> account \<Rightarrow> nat \<Rightarrow> (('w, 'z) treasury_state_scheme, unit) M" where
  "burn_funds E acc amount =
     bindM (world_upd (\<lambda>w. cur_burn_destination E (cur_pair E w amount) amount)) (\<lambda>_.
     bindM (attemptM (world_step (\<lambda>w. cur_settle E w acc amount))) (\<lambda>r.
     case r of Inl _ \<Rightarrow> world_upd (\<lambda>w. cur_drop_positive E w amount) | Inr _ \<Rightarrow> retM ()))"

definition send_funds_to_pid :: "'w Config \<Rightarrow> origin \<Rightarrow> nat \<Rightarrow> (('w, 'z) treasury_state_scheme, unit) M" where
  "send_funds_to_pid E orig funds = transactional (
     bindM (ensure_signed orig) (\<lambda>sender. send_to_pid E sender funds))"

definition send_funds_to_sid :: "'w Config \<Rightarrow> origin \<Rightarrow> nat \<Rightarrow> (('w, 'z) treasury_state_scheme, unit) M" where
  "send_funds_to_sid E orig funds = transactional (
     bindM (ensure_signed orig) (\<lambda>sender. send_to_sid E sender funds))"

definition pid_burn_funds :: "'w Config \<Rightarrow> origin \<Rightarrow> nat \<Rightarrow> (('w, 'z) treasury_state_scheme, unit) M" where
  "pid_burn_funds E orig amount = transactional (
     bindM (ensure_root orig) (\<lambda>_. burn_funds E (PunishTreasuryId E) amount))"

definition sid_burn_funds :: "'w Config \<Rightarrow> origin \<Rightarrow> nat \<Rightarrow> (('w, 'z) treasury_state_scheme, unit) M" where
  "sid_burn_funds E orig amount = transactional (
     bindM (ensure_root orig) (\<lambda>_. burn_funds E (SpaceTreasuryId E) amount))"

definition pid_send_funds :: "'w Config \<Rightarrow> origin \<Rightarrow> account \<Rightarrow> nat \<Rightarrow> (('w, 'z) treasury_state_scheme, unit) M" where
  "pid_send_funds E orig acc funds = transactional (
     bindM (ensure_root orig) (\<lambda>_. transfer E (PunishTreasuryId E) acc funds))"

definition sid_send_funds :: "'w Config \<Rightarrow> origin \<Rightarrow> account \<Rightarrow> nat \<Rightarrow> (('w, 'z) treasury_state_scheme, unit) M" where
  "sid_send_funds E orig acc funds = transactional (
     bindM (ensure_root orig) (\<lambda>_. transfer E (SpaceTreasuryId E) acc funds))"

section \<open>Invariants\<close>

text \<open>No era has issued more than its total.\<close>

definition rounds_ok :: "('w, 'z) treasury_state_scheme \<Rightarrow> bool" where
  "rounds_ok s \<longleftrightarrow> (\<forall>r t i. RoundReward s r = Some (t, i) \<longrightarrow> i \<le> t)"

text \<open>The two counters are covered by the balances of their accounts.\<close>

definition pool_backed :: "'w Config \<Rightarrow> ('w, 'z) treasury_state_scheme \<Rightarrow> bool" where
  "pool_backed E s \<longleftrightarrow>
     CurrencyReward s \<le> cur_free_balance E (world s) (MinerRewardId E) \<and>
     ReserveReward s \<le> cur_free_balance E (world s) (ReserveRewardId E)"

definition reward_pool_total :: "('w, 'z) treasury_state_scheme \<Rightarrow> nat" where
  "reward_pool_total s = CurrencyReward s + ReserveReward s"

lemmas treasury_defs = get_reward_def get_reward_128_def get_reward_base_def add_reward_def
  send_to_pid_def send_to_sid_def send_to_rid_def reward_reserve_def sluice_def sub_reward_def
  send_reward_to_miner_def on_nonzero_unbalanced_def add_miner_reward_pool_def
  get_round_reward_def sub_round_reward_def

section \<open>What the operations do\<close>

lemma add_reward_ok:
  "add_reward a s = (Inr u, s') \<longleftrightarrow>
     CurrencyReward s + a < 2 ^ 128 \<and> s' = s\<lparr>CurrencyReward := CurrencyReward s + a\<rparr>"
  by (auto simp: add_reward_def run_simps)

lemma sluice_ok:
  "sluice E a s = (Inr u, s') \<longleftrightarrow>
     a \<le> ReserveReward s \<and> CurrencyReward s + a < 2 ^ 128 \<and>
     (\<exists>w. cur_transfer E (world s) (ReserveRewardId E) (MinerRewardId E) a = Inr w \<and>
       s' = s\<lparr>world := w, CurrencyReward := CurrencyReward s + a, ReserveReward := ReserveReward s - a\<rparr>)"
  by (auto simp: sluice_def add_reward_ok run_simps)

lemma sub_reward_ok:
  "sub_reward E a s = (Inr u, s') \<longleftrightarrow>
     (if a \<le> CurrencyReward s then s' = s\<lparr>CurrencyReward := CurrencyReward s - a\<rparr>
      else a \<le> ReserveReward s \<and> CurrencyReward s + a < 2 ^ 128 \<and>
        (\<exists>w. cur_transfer E (world s) (ReserveRewardId E) (MinerRewardId E) a = Inr w \<and>
          s' = s\<lparr>world := w, ReserveReward := ReserveReward s - a\<rparr>))"
  by (auto simp: sub_reward_def sluice_ok get_reward_def run_simps)

lemma sub_round_reward_ok:
  "sub_round_reward r a s = (Inr u, s') \<longleftrightarrow>
     (\<exists>t i. RoundReward s r = Some (t, i) \<and> i + a < 2 ^ 128 \<and> i + a \<le> t \<and>
        s' = s\<lparr>RoundReward := (RoundReward s)(r \<mapsto> (t, i + a))\<rparr>)"
  by (auto simp: sub_round_reward_def round_reward_of_def run_simps split: option.splits if_splits)

lemma add_miner_reward_pool_ok:
  "add_miner_reward_pool E a s = (Inr u, s') \<longleftrightarrow>
     (let era = staking_current_era E (world s); (t, i) = round_reward_of (RoundReward s) era in
        t + a < 2 ^ 128 \<and> CurrencyReward s + a < 2 ^ 128 \<and>
        s' = s\<lparr>EraReward := a, RoundReward := (RoundReward s)(era \<mapsto> (t + a, i)),
               CurrencyReward := CurrencyReward s + a\<rparr>)"
  by (auto simp: add_miner_reward_pool_def add_reward_ok run_simps Let_def split: option.splits prod.splits)

lemma sub_reward_total:
  "sub_reward E a s = (Inr u, s') \<Longrightarrow> reward_pool_total s' + a = reward_pool_total s"
  by (auto simp: sub_reward_ok reward_pool_total_def split: if_splits)

lemma add_reward_total:
  "add_reward a s = (Inr u, s') \<Longrightarrow> reward_pool_total s' = reward_pool_total s + a"
  by (auto simp: add_reward_ok reward_pool_total_def)

section \<open>The contract of RewardPool\<close>

locale reward_pool =
  fixes total :: "'s \<Rightarrow> nat"
    and sub :: "nat \<Rightarrow> 's \<Rightarrow> (dispatch_error + unit) \<times> 's"
    and add :: "nat \<Rightarrow> 's \<Rightarrow> (dispatch_error + unit) \<times> 's"
  assumes sub_total: "sub a s = (Inr (), s') \<Longrightarrow> total s' + a = total s"
    and add_total: "add a s = (Inr (), s') \<Longrightarrow> total s' = total s + a"
begin

text \<open>A run of payments takes exactly their sum from the pool, so it is bounded by the pool.\<close>

lemma payments_total: "forM xs sub s = (Inr (), s') \<Longrightarrow> total s' + sum_list xs = total s"
proof (induction xs arbitrary: s)
  case Nil
  then show ?case by (simp add: run_simps)
next
  case (Cons x xs)
  then obtain t where "sub x s = (Inr (), t)" "forM xs sub t = (Inr (), s')"
    by (auto simp: run_simps)
  then show ?case using Cons.IH [of t] sub_total [of x s t] by simp
qed

lemma payments_bounded: "forM xs sub s = (Inr (), s') \<Longrightarrow> sum_list xs \<le> total s"
  using payments_total [of xs s s'] by simp

lemma refund_total:
  "add a s = (Inr (), t) \<Longrightarrow> sub a t = (Inr (), s') \<Longrightarrow> total s' = total s"
  using add_total [of a s t] sub_total [of a t s'] by simp

end

interpretation rp: reward_pool reward_pool_total "sub_reward E" add_reward for E
  by unfold_locales (auto intro: sub_reward_total add_reward_total)

section \<open>Preservation of the invariants\<close>

lemma add_miner_reward_pool_rounds: "keeps_okM rounds_ok (add_miner_reward_pool E a)"
proof (rule keeps_okM_I)
  fix s :: "('a, 'b) treasury_state_scheme" and u s'
  assume ok: "rounds_ok s" and run: "add_miner_reward_pool E a s = (Inr u, s')"
  define era where "era = staking_current_era E (world s)"
  obtain t i where ti: "round_reward_of (RoundReward s) era = (t, i)" by fastforce
  have "i \<le> t" using ok ti by (auto simp: rounds_ok_def round_reward_of_def split: option.splits)
  with run ok ti show "rounds_ok s'"
    by (auto simp: add_miner_reward_pool_ok rounds_ok_def era_def)
qed

lemma sub_round_reward_rounds: "keeps_okM rounds_ok (sub_round_reward r a)"
  by (rule keeps_okM_I) (auto simp: sub_round_reward_ok rounds_ok_def split: if_splits)

lemma sluice_backed:
  assumes "transfer_law E" "MinerRewardId E \<noteq> ReserveRewardId E" "pool_backed E s"
    and "sluice E a s = (Inr u, s')"
  shows "pool_backed E s'"
  using assms by (auto simp: sluice_ok pool_backed_def transfer_free)

lemma sub_reward_backed:
  assumes "transfer_law E" "MinerRewardId E \<noteq> ReserveRewardId E" "pool_backed E s"
    and "sub_reward E a s = (Inr u, s')"
  shows "pool_backed E s' \<and> CurrencyReward s' + a \<le> cur_free_balance E (world s') (MinerRewardId E)"
  using assms by (auto simp: sub_reward_ok pool_backed_def transfer_free split: if_splits)

lemma send_reward_backed:
  assumes law: "transfer_law E" and ids: "MinerRewardId E \<noteq> ReserveRewardId E"
    and inv: "pool_backed E s" "CurrencyReward s + a \<le> cur_free_balance E (world s) (MinerRewardId E)"
    and run: "send_reward_to_miner E b a s = (Inr u, s')"
  shows "pool_backed E s'"
proof -
  obtain w where w: "cur_transfer E (world s) (MinerRewardId E) b a = Inr w" "s' = s\<lparr>world := w\<rparr>"
    using run by (auto simp: send_reward_to_miner_def run_simps)
  with transfer_free_source [OF law w(1)] transfer_free_other [OF law w(1) ids [symmetric]] inv
  show ?thesis by (auto simp: pool_backed_def)
qed

section \<open>Properties\<close>

definition treasury_example :: "ledger treasury_state" where
  "treasury_example = \<lparr>world = ledger_of [(1, 100), (4, 60)], block_number = 7,
     CurrencyReward = 90, EraReward = 90, ReserveReward = 50, RoundReward = [0 \<mapsto> (90, 80)]\<rparr>"

text \<open>Every run of payments out of the miners' pool lowers the pool (current rewards and reserve
  together) by exactly the sum of the payments, whether or not a payment opened the sluice, and the
  sum is bounded by the pool.\<close>

theorem payments_from_pool:
  assumes "forM xs (sub_reward E) s = (Inr (), s')"
  shows "reward_pool_total s' + sum_list xs = reward_pool_total s \<and> sum_list xs \<le> reward_pool_total s"
  using rp.payments_total [OF assms] rp.payments_bounded [OF assms] by simp

theorem payments_from_pool_witness:
  "\<exists>s'. forM [40, 30, 35] (sub_reward ledger_runtime) treasury_example = (Inr (), s') \<and>
     reward_pool_total s' + 105 = 140"
proof -
  have "\<exists>s'. forM [40, 30, 35] (sub_reward ledger_runtime) treasury_example = (Inr (), s')"
    by (simp add: run_simps sub_reward_ok treasury_example_def ledger_simps)
  then obtain s' where s': "forM [40, 30, 35] (sub_reward ledger_runtime) treasury_example = (Inr (), s')"
    by blast
  with payments_from_pool [OF s'] show ?thesis
    by (simp add: treasury_example_def reward_pool_total_def)
qed



text \<open>A refused \<open>sub_round_reward\<close> still writes: \<open>StorageMap::mutate\<close> keeps the changed value when its
  closure returns an error, so an issue above the era's total is refused and recorded at once, and
  only the storage layer around the calling extrinsic undoes it.\<close>

lemma refused_round_issue_is_written:
  assumes "RoundReward s r = Some (t, i)" "i + a < 2 ^ 128" "t < i + a"
  shows "sub_round_reward r a s =
      (Inl (TreasuryE treasury_error.Unexpected), s\<lparr>RoundReward := (RoundReward s)(r \<mapsto> (t, i + a))\<rparr>)
    \<and> \<not> rounds_ok (snd (sub_round_reward r a s))
    \<and> transactional (sub_round_reward r a) s = (Inl (TreasuryE treasury_error.Unexpected), s)"
  using assms
  by (auto simp: sub_round_reward_def transactional_def mutateM_def round_reward_of_def
      checked_add_def rounds_ok_def run_eval)

lemma refused_round_issue_is_written_witness:
  "\<not> rounds_ok (snd (sub_round_reward 0 11 treasury_example))
    \<and> fst (sub_round_reward 0 11 treasury_example) = Inl (TreasuryE treasury_error.Unexpected)"
proof -
  have "RoundReward treasury_example 0 = Some (90, 80)" by (simp add: treasury_example_def)
  note w = refused_round_issue_is_written [OF this, of 11, simplified]
  show ?thesis using w [THEN conjunct1] w [THEN conjunct2, THEN conjunct1] by auto
qed

end
