(* ===== verification/Reservoir.thy ===== *)
theory Reservoir
  imports Cess_Treasury
begin

text \<open>
  \<open>pallets/reservoir/src/lib.rs\<close>: deposits of users (\<open>UserPassbook\<close>), loans handed out in events
  (\<open>BorrowList\<close>) and the totals kept in \<open>Reservoir\<close>. Other pallets stake on behalf of a user
  through the trait \<open>ReservoirGate\<close>, modelled by the functions with the suffix \<open>_gate\<close>. The main
  result is that the reservoir account can always pay what it owes.
\<close>

record reservoir_info =
  rv_free_balance :: nat
  rv_borrow_balance :: nat
  rv_store_balance :: nat

record borrow_info =
  bi_free :: nat
  bi_lender :: account
  bi_staking :: nat
  bi_deadline :: nat

record user_hold =
  uh_free :: nat
  uh_staking :: nat

datatype use_type = MinerStaking

record event_info =
  ev_quota :: nat
  ev_deadline :: nat
  ev_unit_amount :: nat
  ev_borrow_period :: nat
  ev_use_type :: use_type

record 'w reservoir_state = "'w treasury_state" +
  Reservoir :: reservoir_info
  BorrowList :: "account \<Rightarrow> borrow_info option"
  UserPassbook :: "account \<Rightarrow> user_hold"
  Events :: "string \<Rightarrow> event_info option"
  EventExpiredRecords :: "nat \<Rightarrow> string list"

abbreviation rv_err :: "reservoir_error \<Rightarrow> dispatch_error" where
  "rv_err \<equiv> ReservoirE"

text \<open>\<open>checked_add\<close> and \<open>checked_sub\<close> followed by \<open>ok_or(Error::Overflow)?\<close>.\<close>

definition rv_add :: "nat \<Rightarrow> nat \<Rightarrow> ('s, nat) M" where
  "rv_add a b = ok_or (checked_add 128 a b) (rv_err reservoir_error.Overflow)"

definition rv_sub :: "nat \<Rightarrow> nat \<Rightarrow> ('s, nat) M" where
  "rv_sub a b = ok_or (checked_sub a b) (rv_err reservoir_error.Overflow)"

definition put_hold :: "account \<Rightarrow> user_hold \<Rightarrow> (('w, 'z) reservoir_state_scheme, unit) M" where
  "put_hold acc h = modM (\<lambda>s. s\<lparr>UserPassbook := (UserPassbook s)(acc := h)\<rparr>)"

definition put_loan :: "account \<Rightarrow> borrow_info option \<Rightarrow> (('w, 'z) reservoir_state_scheme, unit) M" where
  "put_loan acc b = modM (\<lambda>s. s\<lparr>BorrowList := (BorrowList s)(acc := b)\<rparr>)"

definition put_reservoir :: "reservoir_info \<Rightarrow> (('w, 'z) reservoir_state_scheme, unit) M" where
  "put_reservoir r = modM (\<lambda>s. s\<lparr>Reservoir := r\<rparr>)"

section \<open>Hook\<close>

definition reservoir_on_initialize :: "nat \<Rightarrow> (('w, 'z) reservoir_state_scheme, unit) M" where
  "reservoir_on_initialize now =
     bindM (getM (\<lambda>s. EventExpiredRecords s now)) (\<lambda>ids.
     forM ids (\<lambda>eid. modM (\<lambda>s. s\<lparr>Events := (Events s)(eid := None)\<rparr>)))"

section \<open>Dispatchable calls\<close>

definition filling :: "'w Config \<Rightarrow> origin \<Rightarrow> nat \<Rightarrow> (('w, 'z) reservoir_state_scheme, unit) M" where
  "filling E orig amount = transactional (
     bindM (ensure_signed orig) (\<lambda>sender.
     bindM (transfer E sender (ReservoirId E) amount) (\<lambda>_.
     bindM (getM Reservoir) (\<lambda>r.
     bindM (rv_add (rv_free_balance r) amount) (\<lambda>v.
     put_reservoir (r\<lparr>rv_free_balance := v\<rparr>))))))"

definition store :: "'w Config \<Rightarrow> origin \<Rightarrow> nat \<Rightarrow> (('w, 'z) reservoir_state_scheme, unit) M" where
  "store E orig amount = transactional (
     bindM (ensure_signed orig) (\<lambda>sender.
     bindM (transfer E sender (ReservoirId E) amount) (\<lambda>_.
     bindM (getM (\<lambda>s. UserPassbook s sender)) (\<lambda>h.
     bindM (rv_add (uh_free h) amount) (\<lambda>v.
     bindM (put_hold sender (h\<lparr>uh_free := v\<rparr>)) (\<lambda>_.
     bindM (getM Reservoir) (\<lambda>r.
     bindM (rv_add (rv_store_balance r) amount) (\<lambda>v.
     put_reservoir (r\<lparr>rv_store_balance := v\<rparr>)))))))))"

definition withdraw :: "'w Config \<Rightarrow> origin \<Rightarrow> nat \<Rightarrow> (('w, 'z) reservoir_state_scheme, unit) M" where
  "withdraw E orig amount = transactional (
     bindM (ensure_signed orig) (\<lambda>sender.
     bindM (getM (\<lambda>s. UserPassbook s sender)) (\<lambda>h.
     bindM (rv_sub (uh_free h) amount) (\<lambda>v.
     bindM (put_hold sender (h\<lparr>uh_free := v\<rparr>)) (\<lambda>_.
     bindM (getM Reservoir) (\<lambda>r.
     bindM (rv_sub (rv_store_balance r) amount) (\<lambda>v.
     bindM (put_reservoir (r\<lparr>rv_store_balance := v\<rparr>)) (\<lambda>_.
     transfer E (ReservoirId E) sender amount))))))))"

definition event_withdraw :: "'w Config \<Rightarrow> origin \<Rightarrow> nat \<Rightarrow> account \<Rightarrow> (('w, 'z) reservoir_state_scheme, unit) M" where
  "event_withdraw E orig amount target = transactional (
     bindM (ensure_root orig) (\<lambda>_.
     bindM (transfer E (ReservoirId E) target amount) (\<lambda>_.
     bindM (getM Reservoir) (\<lambda>r.
     bindM (rv_sub (rv_free_balance r) amount) (\<lambda>v.
     put_reservoir (r\<lparr>rv_free_balance := v\<rparr>))))))"

definition create_event :: "'w Config \<Rightarrow> origin \<Rightarrow> string \<Rightarrow> nat \<Rightarrow> nat \<Rightarrow> nat \<Rightarrow> nat \<Rightarrow> use_type
    \<Rightarrow> (('w, 'z) reservoir_state_scheme, unit) M" where
  "create_event E orig eid quota deadline unit_amount borrow_period ut = transactional (
     bindM (ensure_root orig) (\<lambda>_.
     bindM (getM (\<lambda>s. Events s eid)) (\<lambda>e.
     bindM (ensureM (e = None) (rv_err reservoir_error.LengthExceedsLimit)) (\<lambda>_.
     bindM (modM (\<lambda>s. s\<lparr>Events := (Events s)(eid \<mapsto> \<lparr>ev_quota = quota, ev_deadline = deadline,
              ev_unit_amount = unit_amount, ev_borrow_period = borrow_period, ev_use_type = ut\<rparr>)\<rparr>)) (\<lambda>_.
     bindM (getM block_number) (\<lambda>now.
     bindM (ok_or (checked_add 32 now deadline) (rv_err reservoir_error.Overflow)) (\<lambda>expired.
     bindM (getM (\<lambda>s. EventExpiredRecords s expired)) (\<lambda>ids.
     bindM (ok_or (try_push (EventLimit E) ids eid) (rv_err reservoir_error.BoundedVecError)) (\<lambda>ids'.
     modM (\<lambda>s. s\<lparr>EventExpiredRecords := (EventExpiredRecords s)(expired := ids')\<rparr>))))))))))"

text \<open>The two blocks of \<open>attend_event\<close>: closing an expired loan, and granting the new one.\<close>

definition close_expired_loan :: "account \<Rightarrow> (('w, 'z) reservoir_state_scheme, unit) M" where
  "close_expired_loan sender =
     bindM (getM (\<lambda>s. BorrowList s sender)) (\<lambda>b_opt.
     case b_opt of
       None \<Rightarrow> retM ()
     | Some b \<Rightarrow>
         bindM (getM block_number) (\<lambda>now.
         if bi_deadline b \<le> now \<and> bi_staking b = 0 then
           bindM (getM Reservoir) (\<lambda>r.
           bindM (rv_sub (rv_borrow_balance r) (bi_free b)) (\<lambda>bb.
           bindM (rv_add (rv_free_balance r) (bi_free b)) (\<lambda>fb.
           bindM (put_reservoir (r\<lparr>rv_borrow_balance := bb, rv_free_balance := fb\<rparr>)) (\<lambda>_.
           put_loan sender None))))
         else failM (rv_err reservoir_error.Borrowed)))"

definition grant_loan :: "'w Config \<Rightarrow> account \<Rightarrow> string \<Rightarrow> (('w, 'z) reservoir_state_scheme, unit) M" where
  "grant_loan E sender eid =
     bindM (getM (\<lambda>s. Events s eid)) (\<lambda>ev_opt.
     bindM (ok_or ev_opt (rv_err reservoir_error.IdNonExistent)) (\<lambda>ev.
     bindM (ensureM (ev_quota ev \<noteq> 0) (rv_err reservoir_error.UpperLimit)) (\<lambda>_.
     bindM (rv_sub (ev_quota ev) 1) (\<lambda>q.
     bindM (getM block_number) (\<lambda>now.
     bindM (ok_or (checked_add 32 now (ev_borrow_period ev)) (rv_err reservoir_error.Overflow)) (\<lambda>dl.
     bindM (put_loan sender (Some \<lparr>bi_free = ev_unit_amount ev, bi_lender = ReservoirId E,
              bi_staking = 0, bi_deadline = dl\<rparr>)) (\<lambda>_.
     bindM (getM Reservoir) (\<lambda>r.
     bindM (rv_add (rv_borrow_balance r) (ev_unit_amount ev)) (\<lambda>bb.
     bindM (rv_sub (rv_free_balance r) (ev_unit_amount ev)) (\<lambda>fb.
     bindM (put_reservoir (r\<lparr>rv_borrow_balance := bb, rv_free_balance := fb\<rparr>)) (\<lambda>_.
     modM (\<lambda>s. s\<lparr>Events := (Events s)(eid \<mapsto> ev\<lparr>ev_quota := q\<rparr>)\<rparr>))))))))))))"

definition attend_event :: "'w Config \<Rightarrow> origin \<Rightarrow> string \<Rightarrow> (('w, 'z) reservoir_state_scheme, unit) M" where
  "attend_event E orig eid = transactional (
     bindM (ensure_signed orig) (\<lambda>sender.
     bindM (getM (\<lambda>s. Events s eid)) (\<lambda>e.
     bindM (ensureM (e \<noteq> None) (rv_err reservoir_error.IdNonExistent)) (\<lambda>_.
     bindM (close_expired_loan sender) (\<lambda>_.
     grant_loan E sender eid)))))"

section \<open>The trait ReservoirGate\<close>

definition check_qualification :: "account \<Rightarrow> nat \<Rightarrow> (('w, 'z) reservoir_state_scheme, unit) M" where
  "check_qualification acc amount =
     bindM (getM (\<lambda>s. BorrowList s acc)) (\<lambda>b_opt.
     bindM (case b_opt of None \<Rightarrow> retM 0 | Some b \<Rightarrow> rv_add 0 (bi_free b)) (\<lambda>total_free.
     bindM (getM (\<lambda>s. UserPassbook s acc)) (\<lambda>h.
     bindM (rv_add total_free (uh_free h)) (\<lambda>total_free.
     ensureM (amount \<le> total_free) (rv_err reservoir_error.Insufficient)))))"

text \<open>The part of a stake that the loan covers; it returns what is left for the passbook.\<close>

definition stake_from_loan :: "account \<Rightarrow> nat \<Rightarrow> (('w, 'z) reservoir_state_scheme, nat) M" where
  "stake_from_loan acc amount =
     bindM (getM (\<lambda>s. BorrowList s acc)) (\<lambda>b_opt.
     case b_opt of
       None \<Rightarrow> retM amount
     | Some b \<Rightarrow>
         bindM (getM block_number) (\<lambda>now.
         if now < bi_deadline b then
           (if amount \<le> bi_free b then
              bindM (rv_sub (bi_free b) amount) (\<lambda>f.
              bindM (rv_add (bi_staking b) amount) (\<lambda>st.
              bindM (put_loan acc (Some (b\<lparr>bi_free := f, bi_staking := st\<rparr>))) (\<lambda>_.
              retM 0)))
            else
              bindM (rv_sub amount (bi_free b)) (\<lambda>need.
              bindM (rv_add (bi_staking b) (bi_free b)) (\<lambda>st.
              bindM (put_loan acc (Some (b\<lparr>bi_free := 0, bi_staking := st\<rparr>))) (\<lambda>_.
              retM need))))
         else bindM (put_loan acc None) (\<lambda>_. retM amount)))"

definition stake_from_passbook :: "account \<Rightarrow> nat \<Rightarrow> (('w, 'z) reservoir_state_scheme, unit) M" where
  "stake_from_passbook acc need =
     (if need \<noteq> 0 then
        bindM (getM (\<lambda>s. UserPassbook s acc)) (\<lambda>h.
        bindM (rv_sub (uh_free h) need) (\<lambda>f.
        bindM (rv_add (uh_staking h) need) (\<lambda>st.
        put_hold acc \<lparr>uh_free = f, uh_staking = st\<rparr>)))
      else retM ())"

definition staking_gate :: "'w Config \<Rightarrow> account \<Rightarrow> nat \<Rightarrow> bool \<Rightarrow> (('w, 'z) reservoir_state_scheme, unit) M" where
  "staking_gate E acc amount flag =
     bindM (stake_from_loan acc amount) (\<lambda>need.
     bindM (stake_from_passbook acc need) (\<lambda>_.
     if flag then reserve E (ReservoirId E) amount else retM ()))"

text \<open>\<open>redeem\<close> and \<open>punish\<close> first use the passbook and then, for the rest, the loan.\<close>

definition redeem_from_passbook :: "account \<Rightarrow> nat \<Rightarrow> (('w, 'z) reservoir_state_scheme, nat) M" where
  "redeem_from_passbook acc amount =
     bindM (getM (\<lambda>s. UserPassbook s acc)) (\<lambda>h.
     if amount \<le> uh_staking h then
       bindM (rv_sub (uh_staking h) amount) (\<lambda>st.
       bindM (rv_add (uh_free h) amount) (\<lambda>f.
       bindM (put_hold acc \<lparr>uh_free = f, uh_staking = st\<rparr>) (\<lambda>_. retM 0)))
     else
       bindM (rv_sub amount (uh_staking h)) (\<lambda>need.
       bindM (rv_add (uh_free h) (uh_staking h)) (\<lambda>f.
       bindM (put_hold acc \<lparr>uh_free = f, uh_staking = 0\<rparr>) (\<lambda>_. retM need))))"

definition redeem_from_loan :: "account \<Rightarrow> nat \<Rightarrow> (('w, 'z) reservoir_state_scheme, unit) M" where
  "redeem_from_loan acc need =
     (if need \<noteq> 0 then
        bindM (getM (\<lambda>s. BorrowList s acc)) (\<lambda>b_opt.
        case b_opt of
          None \<Rightarrow> failM (rv_err reservoir_error.BugInvalid)
        | Some b \<Rightarrow>
            if need \<le> bi_staking b then
              bindM (rv_sub (bi_staking b) need) (\<lambda>st.
              bindM (rv_add (bi_free b) need) (\<lambda>f.
              put_loan acc (Some (b\<lparr>bi_free := f, bi_staking := st\<rparr>))))
            else failM (rv_err reservoir_error.BugInvalid))
      else retM ())"

definition redeem_gate :: "'w Config \<Rightarrow> account \<Rightarrow> nat \<Rightarrow> bool \<Rightarrow> (('w, 'z) reservoir_state_scheme, unit) M" where
  "redeem_gate E acc amount flag =
     bindM (redeem_from_passbook acc amount) (\<lambda>need.
     bindM (redeem_from_loan acc need) (\<lambda>_.
     if flag then unreserve E (ReservoirId E) amount else retM ()))"

definition punish_passbook :: "account \<Rightarrow> nat \<Rightarrow> (('w, 'z) reservoir_state_scheme, nat) M" where
  "punish_passbook acc amount =
     bindM (getM (\<lambda>s. UserPassbook s acc)) (\<lambda>h.
     if amount \<le> uh_staking h then
       bindM (rv_sub (uh_staking h) amount) (\<lambda>st.
       bindM (put_hold acc (h\<lparr>uh_staking := st\<rparr>)) (\<lambda>_. retM 0))
     else
       bindM (rv_sub amount (uh_staking h)) (\<lambda>need.
       bindM (put_hold acc (h\<lparr>uh_staking := 0\<rparr>)) (\<lambda>_. retM need)))"

definition punish_loan :: "account \<Rightarrow> nat \<Rightarrow> (('w, 'z) reservoir_state_scheme, unit) M" where
  "punish_loan acc need =
     (if need \<noteq> 0 then
        bindM (getM (\<lambda>s. BorrowList s acc)) (\<lambda>b_opt.
        case b_opt of
          None \<Rightarrow> failM (rv_err reservoir_error.BugInvalid)
        | Some b \<Rightarrow>
            if need \<le> bi_staking b then
              bindM (rv_sub (bi_staking b) need) (\<lambda>st.
              put_loan acc (Some (b\<lparr>bi_staking := st\<rparr>)))
            else failM (rv_err reservoir_error.BugInvalid))
      else retM ())"

definition punish_gate :: "'w Config \<Rightarrow> account \<Rightarrow> nat \<Rightarrow> bool \<Rightarrow> (('w, 'z) reservoir_state_scheme, unit) M" where
  "punish_gate E acc amount flag =
     bindM (punish_passbook acc amount) (\<lambda>need.
     bindM (punish_loan acc need) (\<lambda>_.
     if flag then unreserve E (ReservoirId E) amount else retM ()))"

definition get_reservoir_acc :: "'w Config \<Rightarrow> account" where
  "get_reservoir_acc E = ReservoirId E"

section \<open>Solvency\<close>

definition loan_of :: "('w, 'z) reservoir_state_scheme \<Rightarrow> account \<Rightarrow> nat" where
  "loan_of s a = (case BorrowList s a of None \<Rightarrow> 0 | Some b \<Rightarrow> bi_free b + bi_staking b)"

text \<open>What the reservoir owes to an account: its deposits and the loan put at its disposal.\<close>

definition owed :: "('w, 'z) reservoir_state_scheme \<Rightarrow> account \<Rightarrow> nat" where
  "owed s a = uh_free (UserPassbook s a) + uh_staking (UserPassbook s a) + loan_of s a"

definition reservoir_funds :: "'w Config \<Rightarrow> ('w, 'z) reservoir_state_scheme \<Rightarrow> nat" where
  "reservoir_funds E s = cur_free_balance E (world s) (ReservoirId E)
     + cur_reserved_balance E (world s) (ReservoirId E)"

text \<open>The account covers its free capital, everything owed, and a surplus \<open>x\<close>.\<close>

definition solvent :: "'w Config \<Rightarrow> nat \<Rightarrow> ('w, 'z) reservoir_state_scheme \<Rightarrow> bool" where
  "solvent E x s \<longleftrightarrow> covered (rv_free_balance (Reservoir s) + x) (owed s) (reservoir_funds E s)"

text \<open>The two totals in \<open>Reservoir\<close> cover the individual deposits and the individual loans.\<close>

definition hold_of :: "('w, 'z) reservoir_state_scheme \<Rightarrow> account \<Rightarrow> nat" where
  "hold_of s a = uh_free (UserPassbook s a) + uh_staking (UserPassbook s a)"

definition totals_ok :: "('w, 'z) reservoir_state_scheme \<Rightarrow> bool" where
  "totals_ok s \<longleftrightarrow> covered 0 (hold_of s) (rv_store_balance (Reservoir s)) \<and>
     covered 0 (loan_of s) (rv_borrow_balance (Reservoir s))"

text \<open>The books of one step: only one account is touched, and what it is owed grows no faster than
  the funds, apart from a surplus \<open>x\<close> gained.\<close>

definition books :: "'w Config \<Rightarrow> account \<Rightarrow> nat \<Rightarrow> ('w, 'z) reservoir_state_scheme
    \<Rightarrow> ('w, 'z) reservoir_state_scheme \<Rightarrow> bool" where
  "books E acc x s s' \<longleftrightarrow> (\<forall>a. a \<noteq> acc \<longrightarrow> owed s' a = owed s a) \<and>
     rv_free_balance (Reservoir s') + owed s' acc + reservoir_funds E s + x
       \<le> rv_free_balance (Reservoir s) + owed s acc + reservoir_funds E s'"

lemma solvent_books: "solvent E x s \<Longrightarrow> books E acc y s s' \<Longrightarrow> solvent E (x + y) s'"
  unfolding solvent_def books_def by (erule covered_step [where acc = acc]) auto

lemma books_trans: "books E acc x s t \<Longrightarrow> books E acc y t s' \<Longrightarrow> books E acc (x + y) s s'"
  by (auto simp: books_def)

lemma books_trans0: "books E acc 0 s t \<Longrightarrow> books E acc 0 t s' \<Longrightarrow> books E acc 0 s s'"
  using books_trans [of E acc 0 s t 0 s'] by simp

lemmas rv_defs = rv_add_def rv_sub_def put_hold_def put_loan_def put_reservoir_def

lemmas book_defs = books_def owed_def loan_of_def reservoir_funds_def

lemma filling_books:
  assumes "transfer_law E" "sender \<noteq> ReservoirId E" "filling E (Signed sender) amount s = (Inr u, s')"
  shows "books E sender 0 s s'"
  using assms by (auto simp: filling_def rv_defs book_defs run_simps transfer_free transfer_reserved)

lemma store_books:
  assumes "transfer_law E" "sender \<noteq> ReservoirId E" "store E (Signed sender) amount s = (Inr u, s')"
  shows "books E sender 0 s s'"
  using assms by (auto simp: store_def rv_defs book_defs run_simps transfer_free transfer_reserved)

lemma withdraw_books:
  assumes law: "transfer_law E" and run: "withdraw E (Signed sender) amount s = (Inr u, s')"
  shows "books E sender 0 s s'"
proof -
  obtain w where w: "cur_transfer E (world s) (ReservoirId E) sender amount = Inr w"
    and *: "amount \<le> uh_free (UserPassbook s sender)" "amount \<le> rv_store_balance (Reservoir s)"
      "s' = s\<lparr>UserPassbook := (UserPassbook s)(sender := (UserPassbook s sender)
               \<lparr>uh_free := uh_free (UserPassbook s sender) - amount\<rparr>),
             Reservoir := (Reservoir s)\<lparr>rv_store_balance := rv_store_balance (Reservoir s) - amount\<rparr>,
             world := w\<rparr>"
    using run by (auto simp: withdraw_def rv_defs run_simps)
  show ?thesis
    using transfer_free_source [OF law w] * by (simp add: book_defs transfer_reserved [OF law w])
qed

lemma event_withdraw_books:
  assumes law: "transfer_law E" and run: "event_withdraw E Root amount target s = (Inr u, s')"
  shows "books E target 0 s s'"
proof -
  obtain w where w: "cur_transfer E (world s) (ReservoirId E) target amount = Inr w"
    and *: "amount \<le> rv_free_balance (Reservoir s)"
      "s' = s\<lparr>world := w, Reservoir := (Reservoir s)\<lparr>rv_free_balance := rv_free_balance (Reservoir s) - amount\<rparr>\<rparr>"
    using run by (auto simp: event_withdraw_def rv_defs run_simps)
  show ?thesis
    using transfer_free_source [OF law w] * by (simp add: book_defs transfer_reserved [OF law w])
qed

lemma close_expired_loan_books:
  "close_expired_loan acc s = (Inr u, s') \<Longrightarrow> books E acc 0 s s' \<and> BorrowList s' acc = None"
  by (auto simp: close_expired_loan_def rv_defs book_defs run_simps split: option.splits if_splits)

lemma grant_loan_books:
  "grant_loan E acc eid s = (Inr u, s') \<Longrightarrow> BorrowList s acc = None \<Longrightarrow> books E acc 0 s s'"
  by (auto simp: grant_loan_def rv_defs book_defs run_simps)

lemma attend_event_books:
  assumes "attend_event E (Signed acc) eid s = (Inr u, s')"
  shows "books E acc 0 s s'"
proof -
  obtain t where "close_expired_loan acc s = (Inr (), t)" "grant_loan E acc eid t = (Inr u, s')"
    using assms by (auto simp: attend_event_def run_simps)
  then show ?thesis
    using close_expired_loan_books [of acc s "()" t E] grant_loan_books [of E acc eid t u s']
      books_trans [of E acc 0 s t 0 s'] by simp
qed

lemma stake_from_loan_books:
  assumes "stake_from_loan acc amount s = (Inr need, t)"
  shows "books E acc 0 s t \<and> UserPassbook t = UserPassbook s \<and> world t = world s \<and> need \<le> amount"
  using assms
  by (auto simp: stake_from_loan_def rv_defs book_defs run_simps split: option.splits if_splits)

lemma reserve_books:
  assumes "reserve_law E" "reserve E (ReservoirId E) amount s = (Inr u, s')"
  shows "books E acc 0 s s'"
  using assms by (auto simp: book_defs run_simps reserve_free reserve_reserved dest: reserve_enough)

lemma unreserve_books:
  assumes "unreserve_law E" "unreserve E (ReservoirId E) amount s = (Inr u, s')"
  shows "books E acc 0 s s'"
  using assms by (auto simp: book_defs run_simps unreserve_free unreserve_reserved)

lemma books_refl: "books E acc 0 s s"
  by (simp add: books_def)

lemma stake_from_passbook_books: "stake_from_passbook acc need s = (Inr u, s') \<Longrightarrow> books E acc 0 s s'"
  by (auto simp: stake_from_passbook_def rv_defs book_defs run_simps split: if_splits)

lemma redeem_passbook_books:
  "redeem_from_passbook acc amount s = (Inr need, s') \<Longrightarrow> books E acc 0 s s'"
  by (auto simp: redeem_from_passbook_def rv_defs book_defs run_simps split: if_splits)

lemma redeem_loan_books: "redeem_from_loan acc need s = (Inr u, s') \<Longrightarrow> books E acc 0 s s'"
  by (auto simp: redeem_from_loan_def rv_defs book_defs run_simps split: if_splits option.splits)

lemma punish_passbook_books:
  "punish_passbook acc amount s = (Inr need, s') \<Longrightarrow> need \<le> amount \<and> books E acc (amount - need) s s'"
  by (auto simp: punish_passbook_def rv_defs book_defs run_simps split: if_splits)

lemma punish_loan_books: "punish_loan acc need s = (Inr u, s') \<Longrightarrow> books E acc need s s'"
  by (auto simp: punish_loan_def rv_defs book_defs run_simps split: if_splits option.splits)

lemma staking_gate_books:
  assumes law: "reserve_law E" and run: "staking_gate E acc amount flag s = (Inr u, s')"
  shows "books E acc 0 s s'"
proof -
  obtain need t r where t: "stake_from_loan acc amount s = (Inr need, t)"
    and r: "stake_from_passbook acc need t = (Inr (), r)"
    and f: "(if flag then reserve E (ReservoirId E) amount else retM ()) r = (Inr u, s')"
    using run by (auto simp: staking_gate_def bindM_Inr)
  have "books E acc 0 r s'"
    using f reserve_books [OF law, of amount r u s' acc]
    by (cases flag) (simp_all add: retM_run books_refl)
  with stake_from_loan_books [OF t, of E] stake_from_passbook_books [OF r, of E]
  show ?thesis by (blast intro: books_trans0)
qed

lemma redeem_gate_books:
  assumes law: "unreserve_law E" and run: "redeem_gate E acc amount flag s = (Inr u, s')"
  shows "books E acc 0 s s'"
proof -
  obtain need t r where t: "redeem_from_passbook acc amount s = (Inr need, t)"
    and r: "redeem_from_loan acc need t = (Inr (), r)"
    and f: "(if flag then unreserve E (ReservoirId E) amount else retM ()) r = (Inr u, s')"
    using run by (auto simp: redeem_gate_def bindM_Inr)
  have "books E acc 0 r s'"
    using f unreserve_books [OF law, of amount r u s' acc]
    by (cases flag) (simp_all add: retM_run books_refl)
  with redeem_passbook_books [OF t, of E] redeem_loan_books [OF r, of E]
  show ?thesis by (blast intro: books_trans0)
qed

lemma punish_gate_books:
  assumes law: "unreserve_law E" and run: "punish_gate E acc amount flag s = (Inr u, s')"
  shows "books E acc amount s s'"
proof -
  obtain need t r where t: "punish_passbook acc amount s = (Inr need, t)"
    and r: "punish_loan acc need t = (Inr (), r)"
    and f: "(if flag then unreserve E (ReservoirId E) amount else retM ()) r = (Inr u, s')"
    using run by (auto simp: punish_gate_def bindM_Inr)
  have 3: "books E acc 0 r s'"
    using f unreserve_books [OF law, of amount r u s' acc]
    by (cases flag) (simp_all add: retM_run books_refl)
  have 1: "need \<le> amount" "books E acc (amount - need) s t" using punish_passbook_books [OF t] by auto
  show ?thesis
    using books_trans [OF books_trans [OF 1(2) punish_loan_books [OF r]] 3] 1(1) by simp
qed

text \<open>The totals: one account's entries change, the totals with them.\<close>

lemma totals_step:
  assumes "totals_ok s"
    and "\<And>a. a \<noteq> acc \<Longrightarrow> hold_of s' a = hold_of s a" "\<And>a. a \<noteq> acc \<Longrightarrow> loan_of s' a = loan_of s a"
    and "hold_of s' acc + rv_store_balance (Reservoir s) \<le> hold_of s acc + rv_store_balance (Reservoir s')"
    and "loan_of s' acc + rv_borrow_balance (Reservoir s) \<le> loan_of s acc + rv_borrow_balance (Reservoir s')"
  shows "totals_ok s'"
  using assms unfolding totals_ok_def by (auto intro: covered_step [where acc = acc])

lemmas total_defs = rv_defs hold_of_def loan_of_def

lemma store_totals: "store E (Signed acc) amount s = (Inr u, s') \<Longrightarrow> totals_ok s \<Longrightarrow> totals_ok s'"
  by (rule totals_step [where acc = acc and s = s]) (auto simp: store_def total_defs run_simps)

lemma withdraw_totals: "withdraw E (Signed acc) amount s = (Inr u, s') \<Longrightarrow> totals_ok s \<Longrightarrow> totals_ok s'"
  by (rule totals_step [where acc = acc and s = s]) (auto simp: withdraw_def total_defs run_simps)

lemma filling_totals: "filling E (Signed acc) amount s = (Inr u, s') \<Longrightarrow> totals_ok s \<Longrightarrow> totals_ok s'"
  by (rule totals_step [where acc = acc and s = s]) (auto simp: filling_def total_defs run_simps)

lemma event_withdraw_totals:
  "event_withdraw E Root amount tgt s = (Inr u, s') \<Longrightarrow> totals_ok s \<Longrightarrow> totals_ok s'"
  by (rule totals_step [where acc = tgt and s = s]) (auto simp: event_withdraw_def total_defs run_simps)

lemma close_expired_loan_totals:
  "close_expired_loan acc s = (Inr u, s') \<Longrightarrow> totals_ok s \<Longrightarrow> totals_ok s'"
  by (rule totals_step [where acc = acc and s = s])
    (auto simp: close_expired_loan_def total_defs run_simps split: option.splits if_splits)

lemma grant_loan_totals:
  "grant_loan E acc eid s = (Inr u, s') \<Longrightarrow> totals_ok s \<Longrightarrow> totals_ok s'"
  by (rule totals_step [where acc = acc and s = s]) (auto simp: grant_loan_def total_defs run_simps)

lemma attend_event_totals:
  "attend_event E (Signed acc) eid s = (Inr u, s') \<Longrightarrow> totals_ok s \<Longrightarrow> totals_ok s'"
  by (auto simp: attend_event_def run_simps intro: grant_loan_totals close_expired_loan_totals)

lemma staking_gate_totals: "staking_gate E acc amount flag s = (Inr u, s') \<Longrightarrow> totals_ok s \<Longrightarrow> totals_ok s'"
  by (rule totals_step [where acc = acc and s = s])
    (auto simp: staking_gate_def stake_from_loan_def stake_from_passbook_def total_defs run_simps
      split: option.splits if_splits)

lemma redeem_gate_totals: "redeem_gate E acc amount flag s = (Inr u, s') \<Longrightarrow> totals_ok s \<Longrightarrow> totals_ok s'"
  by (rule totals_step [where acc = acc and s = s])
    (auto simp: redeem_gate_def redeem_from_loan_def redeem_from_passbook_def total_defs run_simps
      split: option.splits if_splits)

lemma punish_gate_totals: "punish_gate E acc amount flag s = (Inr u, s') \<Longrightarrow> totals_ok s \<Longrightarrow> totals_ok s'"
  by (rule totals_step [where acc = acc and s = s])
    (auto simp: punish_gate_def punish_loan_def punish_passbook_def total_defs run_simps
      split: option.splits if_splits)

section \<open>The contract of ReservoirGate\<close>

text \<open>What an account has staked, what it can still stake, and whether its loan has not run out.\<close>

definition staked_of :: "('w, 'z) reservoir_state_scheme \<Rightarrow> account \<Rightarrow> nat" where
  "staked_of s a = uh_staking (UserPassbook s a)
     + (case BorrowList s a of None \<Rightarrow> 0 | Some b \<Rightarrow> bi_staking b)"

definition avail_of :: "('w, 'z) reservoir_state_scheme \<Rightarrow> account \<Rightarrow> nat" where
  "avail_of s a = uh_free (UserPassbook s a)
     + (case BorrowList s a of None \<Rightarrow> 0 | Some b \<Rightarrow> bi_free b)"

definition loan_live :: "('w, 'z) reservoir_state_scheme \<Rightarrow> account \<Rightarrow> bool" where
  "loan_live s a = (case BorrowList s a of None \<Rightarrow> True | Some b \<Rightarrow> block_number s < bi_deadline b)"

locale stake_gate =
  fixes live :: "'s \<Rightarrow> account \<Rightarrow> bool"
    and staked :: "'s \<Rightarrow> account \<Rightarrow> nat"
    and avail :: "'s \<Rightarrow> account \<Rightarrow> nat"
    and stake :: "account \<Rightarrow> nat \<Rightarrow> 's \<Rightarrow> (dispatch_error + unit) \<times> 's"
    and redeem :: "account \<Rightarrow> nat \<Rightarrow> 's \<Rightarrow> (dispatch_error + unit) \<times> 's"
    and punish :: "account \<Rightarrow> nat \<Rightarrow> 's \<Rightarrow> (dispatch_error + unit) \<times> 's"
  assumes stake_law: "live s acc \<Longrightarrow> stake acc v s = (Inr (), s') \<Longrightarrow>
      v \<le> avail s acc \<and> staked s' acc = staked s acc + v \<and> avail s' acc = avail s acc - v"
    and redeem_law: "redeem acc v s = (Inr (), s') \<Longrightarrow>
      v \<le> staked s acc \<and> staked s' acc = staked s acc - v \<and> avail s' acc = avail s acc + v"
    and punish_law: "punish acc v s = (Inr (), s') \<Longrightarrow>
      v \<le> staked s acc \<and> staked s' acc = staked s acc - v \<and> avail s' acc = avail s acc"
begin

lemma stake_redeem:
  assumes "live s acc" "stake acc v s = (Inr (), t)" "redeem acc v t = (Inr (), s')"
  shows "staked s' acc = staked s acc \<and> avail s' acc = avail s acc"
  using stake_law [OF assms(1,2)] redeem_law [OF assms(3)] by auto

text \<open>Of a stake of \<open>v\<close>, a punishment \<open>p\<close> is lost and the rest comes back.\<close>

lemma stake_punish_redeem:
  assumes "live s acc" "stake acc v s = (Inr (), t)" "punish acc p t = (Inr (), r)"
    and "p \<le> v" "redeem acc (v - p) r = (Inr (), s')"
  shows "staked s' acc = staked s acc \<and> avail s' acc + p = avail s acc"
  using stake_law [OF assms(1,2)] punish_law [OF assms(3)] redeem_law [OF assms(5)] assms(4) by auto

end

lemmas gate_defs = staked_of_def avail_of_def loan_live_def staking_gate_def stake_from_loan_def
  stake_from_passbook_def redeem_gate_def redeem_from_loan_def redeem_from_passbook_def
  punish_gate_def punish_loan_def punish_passbook_def rv_defs

lemma staking_gate_law:
  assumes "loan_live s acc" "staking_gate E acc v flag s = (Inr (), s')"
  shows "v \<le> avail_of s acc \<and> staked_of s' acc = staked_of s acc + v \<and> avail_of s' acc = avail_of s acc - v"
  using assms by (auto simp: gate_defs run_simps split: option.splits if_splits)

lemma redeem_gate_law:
  assumes "redeem_gate E acc v flag s = (Inr (), s')"
  shows "v \<le> staked_of s acc \<and> staked_of s' acc = staked_of s acc - v \<and> avail_of s' acc = avail_of s acc + v"
  using assms by (auto simp: gate_defs run_simps split: option.splits if_splits)

lemma punish_gate_law:
  assumes "punish_gate E acc v flag s = (Inr (), s')"
  shows "v \<le> staked_of s acc \<and> staked_of s' acc = staked_of s acc - v \<and> avail_of s' acc = avail_of s acc"
  using assms by (auto simp: gate_defs run_simps split: option.splits if_splits)

interpretation gate: stake_gate loan_live staked_of avail_of
  "\<lambda>acc v. staking_gate E acc v flag" "\<lambda>acc v. redeem_gate E acc v flag" "\<lambda>acc v. punish_gate E acc v flag"
  for E flag
  by unfold_locales (use staking_gate_law redeem_gate_law punish_gate_law in blast)+

section \<open>The reservoir as a transition system\<close>

text \<open>A punishment is followed by the transfer of the amount out of the account, as \<open>sminer\<close> does;
  \<open>foreign\<close> is any step of the rest of the runtime: it does not touch the storage of the reservoir
  and does not lower the funds of its account. The account itself signs no extrinsic.\<close>

inductive reservoir_step :: "'w Config \<Rightarrow> ('w, 'z) reservoir_state_scheme
    \<Rightarrow> ('w, 'z) reservoir_state_scheme \<Rightarrow> bool" for E where
  step_filling: "filling E (Signed a) v s = (Inr (), s') \<Longrightarrow> a \<noteq> ReservoirId E \<Longrightarrow> reservoir_step E s s'"
| step_store: "store E (Signed a) v s = (Inr (), s') \<Longrightarrow> a \<noteq> ReservoirId E \<Longrightarrow> reservoir_step E s s'"
| step_withdraw: "withdraw E (Signed a) v s = (Inr (), s') \<Longrightarrow> reservoir_step E s s'"
| step_event_withdraw: "event_withdraw E Root v tgt s = (Inr (), s') \<Longrightarrow> reservoir_step E s s'"
| step_create_event: "create_event E orig eid q d u p ut s = (Inr (), s') \<Longrightarrow> reservoir_step E s s'"
| step_attend_event: "attend_event E (Signed a) eid s = (Inr (), s') \<Longrightarrow> reservoir_step E s s'"
| step_hook: "reservoir_on_initialize n s = (Inr (), s') \<Longrightarrow> reservoir_step E s s'"
| step_staking: "staking_gate E a v flag s = (Inr (), s') \<Longrightarrow> reservoir_step E s s'"
| step_redeem: "redeem_gate E a v flag s = (Inr (), s') \<Longrightarrow> reservoir_step E s s'"
| step_punish: "punish_gate E a v flag s = (Inr (), t) \<Longrightarrow> transfer E (ReservoirId E) b v t = (Inr (), s')
    \<Longrightarrow> reservoir_step E s s'"
| step_foreign: "Reservoir s' = Reservoir s \<Longrightarrow> BorrowList s' = BorrowList s \<Longrightarrow> UserPassbook s' = UserPassbook s
    \<Longrightarrow> reservoir_funds E s \<le> reservoir_funds E s' \<Longrightarrow> reservoir_step E s s'"

definition reservoir_inv :: "'w Config \<Rightarrow> ('w, 'z) reservoir_state_scheme \<Rightarrow> bool" where
  "reservoir_inv E s \<longleftrightarrow> solvent E 0 s \<and> totals_ok s"

lemma same_books_inv:
  assumes "reservoir_inv E s" "Reservoir s' = Reservoir s" "BorrowList s' = BorrowList s"
    "UserPassbook s' = UserPassbook s" "reservoir_funds E s \<le> reservoir_funds E s'"
  shows "reservoir_inv E s'"
proof -
  have eq: "owed s' = owed s" "hold_of s' = hold_of s" "loan_of s' = loan_of s"
    using assms by (auto simp: owed_def hold_of_def loan_of_def fun_eq_iff)
  show ?thesis using assms(1,2,5) unfolding reservoir_inv_def solvent_def totals_ok_def eq covered_def
    by (metis order_trans)
qed

lemma create_event_same:
  assumes "create_event E orig eid q d u p ut s = (Inr x, s')"
  shows "Reservoir s' = Reservoir s" "BorrowList s' = BorrowList s" "UserPassbook s' = UserPassbook s"
    "world s' = world s"
  using assms by (auto simp: create_event_def run_simps)

lemma reservoir_on_initialize_same:
  assumes "reservoir_on_initialize n s = (Inr x, s')"
  shows "Reservoir s' = Reservoir s" "BorrowList s' = BorrowList s" "UserPassbook s' = UserPassbook s"
    "world s' = world s"
proof -
  have "forM ids (\<lambda>eid. modM (\<lambda>s. s\<lparr>Events := (Events s)(eid := None)\<rparr>)) s = (Inr x, s') \<Longrightarrow>
    Reservoir s' = Reservoir s \<and> BorrowList s' = BorrowList s \<and> UserPassbook s' = UserPassbook s
      \<and> world s' = world s" for ids
    by (induction ids arbitrary: s) (auto simp: run_simps)
  with assms show "Reservoir s' = Reservoir s" "BorrowList s' = BorrowList s"
    "UserPassbook s' = UserPassbook s" "world s' = world s"
    by (auto simp: reservoir_on_initialize_def run_simps)
qed

lemma slash_solvent:
  assumes law: "transfer_law E" and sol: "solvent E v t"
    and run: "transfer E (ReservoirId E) b v t = (Inr u, s')"
  shows "solvent E 0 s'"
proof -
  obtain w where w: "cur_transfer E (world t) (ReservoirId E) b v = Inr w" "s' = t\<lparr>world := w\<rparr>"
    using run by (auto simp: run_simps)
  have "owed s' = owed t" using w(2) by (auto simp: owed_def loan_of_def fun_eq_iff)
  moreover have "reservoir_funds E t \<le> reservoir_funds E s' + v"
    using transfer_free_source [OF law w(1)] w(2)
    by (simp add: reservoir_funds_def transfer_reserved [OF law w(1)])
  ultimately show ?thesis using sol w(2) unfolding solvent_def covered_def by fastforce
qed

lemma reservoir_step_inv:
  assumes laws: "transfer_law E" "reserve_law E" "unreserve_law E"
    and "reservoir_step E s s'" "reservoir_inv E s"
  shows "reservoir_inv E s'"
  using assms(4,5)
proof (cases rule: reservoir_step.cases)
  case (step_punish a v flag t b)
  have "solvent E v t"
    using solvent_books [of E 0 s a v t] punish_gate_books [OF laws(3) step_punish(1)] assms(5)
    by (simp add: reservoir_inv_def)
  moreover have "totals_ok t"
    using punish_gate_totals [OF step_punish(1)] assms(5) by (simp add: reservoir_inv_def)
  then have "totals_ok s'"
    using step_punish(2) by (auto simp: totals_ok_def hold_of_def [abs_def] loan_of_def [abs_def] run_simps)
  ultimately show ?thesis
    using slash_solvent [OF laws(1) _ step_punish(2)] by (simp add: reservoir_inv_def)
next
  case (step_create_event orig eid q d u p ut)
  with create_event_same [OF this] show ?thesis
    by (auto intro!: same_books_inv [OF assms(5)] simp: reservoir_funds_def)
next
  case (step_hook n)
  with reservoir_on_initialize_same [OF this] show ?thesis
    by (auto intro!: same_books_inv [OF assms(5)] simp: reservoir_funds_def)
next
  case step_foreign
  then show ?thesis by (rule same_books_inv [OF assms(5)])
qed (use assms(5) solvent_books [of E 0 s _ 0 s'] in \<open>auto simp: reservoir_inv_def
    intro: store_books withdraw_books filling_books event_withdraw_books attend_event_books
      staking_gate_books redeem_gate_books laws store_totals withdraw_totals filling_totals
      event_withdraw_totals attend_event_totals staking_gate_totals redeem_gate_totals\<close>)

section \<open>Properties\<close>

definition reservoir_example :: "ledger reservoir_state" where
  "reservoir_example = \<lparr>world = ledger_of [(5, 1000), (9, 500)], block_number = 10,
     CurrencyReward = 0, EraReward = 0, ReserveReward = 0, RoundReward = Map.empty,
     Reservoir = \<lparr>rv_free_balance = 100, rv_borrow_balance = 50, rv_store_balance = 300\<rparr>,
     BorrowList = [8 \<mapsto> \<lparr>bi_free = 30, bi_lender = 5, bi_staking = 20, bi_deadline = 10\<rparr>],
     UserPassbook = (\<lambda>_. \<lparr>uh_free = 0, uh_staking = 0\<rparr>)(9 := \<lparr>uh_free = 200, uh_staking = 100\<rparr>),
     Events = Map.empty, EventExpiredRecords = (\<lambda>_. [])\<rparr>"

lemma covered_point: "(\<And>a. a \<noteq> b \<Longrightarrow> f a = 0) \<Longrightarrow> k + f b \<le> B \<Longrightarrow> covered k f B"
  by (rule covered_step [where k = k and f = "\<lambda>_. 0" and B = k and acc = b]) (simp_all add: covered_def)

lemma reservoir_example_inv: "reservoir_inv ledger_runtime reservoir_example"
proof -
  have "covered 100 (owed reservoir_example) 1000"
    by (rule covered_step [where k = 100 and f = "\<lambda>a. if a = 9 then 300 else 0" and B = 400 and acc = 8])
      (auto simp: reservoir_example_def owed_def loan_of_def intro: covered_point [of 9])
  moreover have "covered 0 (hold_of reservoir_example) 300"
    by (rule covered_point [of 9]) (auto simp: reservoir_example_def hold_of_def)
  moreover have "covered 0 (loan_of reservoir_example) 50"
    by (rule covered_point [of 8]) (auto simp: reservoir_example_def loan_of_def)
  ultimately show ?thesis
    by (simp add: reservoir_inv_def solvent_def totals_ok_def reservoir_funds_def)
      (simp add: reservoir_example_def ledger_simps)
qed



text \<open>A deposit can always be asked back: with enough free deposit \<open>withdraw\<close> never fails in the
  bookkeeping of the pallet, the only possible error is one of the currency.\<close>

theorem withdraw_only_currency_fails:
  assumes "reservoir_inv E s" "amount \<le> uh_free (UserPassbook s a)"
    and "withdraw E (Signed a) amount s = (Inl e, s')"
  shows "\<exists>c. e = External c \<and> s' = s"
proof -
  have "hold_of s a \<le> rv_store_balance (Reservoir s)"
    using assms(1) covered_entry [of 0 "hold_of s" _ a] by (auto simp: reservoir_inv_def totals_ok_def)
  with assms(2) have "amount \<le> rv_store_balance (Reservoir s)" by (simp add: hold_of_def)
  with assms(2,3) show ?thesis
    by (auto simp: withdraw_def rv_defs run_simps bindM_Inl)
qed

theorem withdraw_only_currency_fails_witness:
  "let s = reservoir_example\<lparr>world := \<lparr>lg_free = (\<lambda>_. 0)(5 := 100), lg_reserved = (\<lambda>_. 0)(5 := 900), lg_agenda = []\<rparr>\<rparr>
   in \<exists>c. withdraw ledger_runtime (Signed 9) 150 s = (Inl (External c), s)"
proof -
  define s where "s = reservoir_example\<lparr>world := \<lparr>lg_free = (\<lambda>_. 0)(5 := 100),
    lg_reserved = (\<lambda>_. 0)(5 := 900), lg_agenda = []\<rparr>\<rparr>"
  have inv: "reservoir_inv ledger_runtime s"
    by (rule same_books_inv [OF reservoir_example_inv])
      (simp_all add: s_def reservoir_funds_def, simp add: reservoir_example_def ledger_simps)
  have free: "150 \<le> uh_free (UserPassbook s 9)" by (simp add: s_def reservoir_example_def)
  have "\<exists>e s'. withdraw ledger_runtime (Signed 9) 150 s = (Inl e, s')"
    by (simp add: withdraw_def rv_defs run_simps bindM_Inl s_def reservoir_example_def ledger_simps)
  then obtain e s' where run: "withdraw ledger_runtime (Signed 9) 150 s = (Inl e, s')" by blast
  from withdraw_only_currency_fails [OF inv free run] run show ?thesis
    unfolding Let_def s_def [symmetric] by auto
qed

text \<open>Staking through the reservoir with a running loan, being punished and redeeming the rest loses
  exactly the punishment: what is staked is as before, what is available is lower by the punishment,
  and the books leave a surplus of that amount for the slash transfer.\<close>

theorem stake_punish_redeem_exact:
  assumes "reserve_law E" "unreserve_law E" "loan_live s acc" "solvent E 0 s"
    and run: "staking_gate E acc v True s = (Inr (), t)" "punish_gate E acc p True t = (Inr (), r)"
      "p \<le> v" "redeem_gate E acc (v - p) True r = (Inr (), s')"
  shows "staked_of s' acc = staked_of s acc \<and> avail_of s' acc + p = avail_of s acc \<and> solvent E p s'"
proof -
  have "solvent E 0 t" using solvent_books [OF assms(4) staking_gate_books [OF assms(1) run(1)]] by simp
  then have "solvent E p r" using solvent_books [OF _ punish_gate_books [OF assms(2) run(2)]] by fastforce
  then have "solvent E p s'" using solvent_books [OF _ redeem_gate_books [OF assms(2) run(4)]] by fastforce
  with gate.stake_punish_redeem [OF assms(3) run] show ?thesis by blast
qed

theorem stake_punish_redeem_exact_witness:
  "\<exists>t r s'. staking_gate ledger_runtime 9 50 True reservoir_example = (Inr (), t)
     \<and> punish_gate ledger_runtime 9 20 True t = (Inr (), r)
     \<and> redeem_gate ledger_runtime 9 30 True r = (Inr (), s')
     \<and> staked_of s' 9 = 100 \<and> avail_of s' 9 = 180 \<and> solvent ledger_runtime 20 s'"
proof -
  have "\<exists>t r s'. staking_gate ledger_runtime 9 50 True reservoir_example = (Inr (), t)
     \<and> punish_gate ledger_runtime 9 20 True t = (Inr (), r)
     \<and> redeem_gate ledger_runtime 9 30 True r = (Inr (), s')"
    by (simp add: gate_defs run_simps reservoir_example_def ledger_simps)
  then obtain t r s' where run: "staking_gate ledger_runtime 9 50 True reservoir_example = (Inr (), t)"
    "punish_gate ledger_runtime 9 20 True t = (Inr (), r)"
    "redeem_gate ledger_runtime 9 (50 - 20) True r = (Inr (), s')" by auto
  have live: "loan_live reservoir_example 9"
    and av: "staked_of reservoir_example 9 = 100" "avail_of reservoir_example 9 = 200"
    by (simp_all add: loan_live_def staked_of_def avail_of_def reservoir_example_def)
  have "solvent ledger_runtime 0 reservoir_example"
    using reservoir_example_inv by (simp add: reservoir_inv_def)
  from stake_punish_redeem_exact [OF ledger_reserve_law ledger_unreserve_law live this run(1,2) _ run(3)]
  show ?thesis using run av by auto
qed

text \<open>\<open>staking\<close> on an account whose loan has run out drops the loan together with what was staked from
  it: the staked amount is forgotten, a later redemption of it is refused, and the reservoir's
  \<open>borrow_balance\<close> and \<open>free_balance\<close> stay as if the loan were still out.\<close>

lemma expired_loan_stake_is_dropped:
  assumes "BorrowList s acc = Some b" "bi_deadline b \<le> block_number s" "0 < bi_staking b"
    and "hold_of s acc < 2 ^ 128" "staking_gate E acc v flag s = (Inr (), s')"
  shows "BorrowList s' acc = None \<and> staked_of s' acc = staked_of s acc - bi_staking b + v
    \<and> Reservoir s' = Reservoir s
    \<and> fst (redeem_gate E acc (staked_of s acc + v) flag s') = Inl (rv_err reservoir_error.BugInvalid)"
proof -
  have st: "BorrowList s' acc = None" "staked_of s' acc = staked_of s acc - bi_staking b + v"
    "Reservoir s' = Reservoir s" "uh_staking (UserPassbook s' acc) = uh_staking (UserPassbook s acc) + v"
    "uh_free (UserPassbook s' acc) + uh_staking (UserPassbook s' acc) = hold_of s acc"
    using assms by (auto simp: gate_defs hold_of_def run_simps split: if_splits)
  with assms(1,3,4)
  have "fst (redeem_gate E acc (staked_of s acc + v) flag s') = Inl (rv_err reservoir_error.BugInvalid)"
    by (simp add: redeem_gate_def redeem_from_passbook_def redeem_from_loan_def rv_defs staked_of_def
        checked_add_def checked_sub_def ok_or_def bindM_def getM_def modM_def retM_def failM_def)
  with st show ?thesis by blast
qed

lemma expired_loan_stake_is_dropped_witness:
  "\<exists>s'. staking_gate ledger_runtime 8 0 False reservoir_example = (Inr (), s')
     \<and> BorrowList s' 8 = None \<and> staked_of reservoir_example 8 = 20 \<and> staked_of s' 8 = 0
     \<and> fst (redeem_gate ledger_runtime 8 20 False s') = Inl (rv_err reservoir_error.BugInvalid)"
proof -
  obtain s' where run: "staking_gate ledger_runtime 8 0 False reservoir_example = (Inr (), s')"
    by (auto simp: gate_defs run_simps reservoir_example_def)
  have b: "BorrowList reservoir_example 8 = Some \<lparr>bi_free = 30, bi_lender = 5, bi_staking = 20, bi_deadline = 10\<rparr>"
    and n: "block_number reservoir_example = 10" and st: "staked_of reservoir_example 8 = 20"
    and h: "hold_of reservoir_example 8 < 2 ^ 128"
    by (simp_all add: reservoir_example_def staked_of_def hold_of_def)
  from expired_loan_stake_is_dropped [OF b _ _ h run] show ?thesis
    using run n st by auto
qed

end
