(* ===== verification/Cess_Common.thy ===== *)
theory Cess_Common
  imports Chain_Prelude "HOL-Library.Word"
begin

text \<open>
  \<open>crates/common/src/lib.rs\<close> and \<open>crates/bloom-filter/src/lib.rs\<close>: the sizes used by all pallets,
  the file hash (64 hexadecimal characters) and the counting bloom filter in which a miner's service
  fragments are recorded. Filter cells are \<open>u64\<close>s that wrap, so they are 64-bit words here. The
  loops over fixed arrays are recursions over the index with list updates.
\<close>

definition M_BYTE :: nat where "M_BYTE = 1048576"
definition G_BYTE :: nat where "G_BYTE = 1048576 * 1024"
definition T_BYTE :: nat where "T_BYTE = 1048576 * 1024 * 1024"
definition IDLE_SEG_SIZE :: nat where "IDLE_SEG_SIZE = M_BYTE * 64"
definition SEGMENT_SIZE :: nat where "SEGMENT_SIZE = M_BYTE * 32"
definition FRAGMENT_SIZE :: nat where "FRAGMENT_SIZE = M_BYTE * 8"
definition FRAGMENT_COUNT :: nat where "FRAGMENT_COUNT = SEGMENT_SIZE * 30 div 10 div FRAGMENT_SIZE"
definition ASSIGN_MINER_IDEAL_QUANTITY :: nat where "ASSIGN_MINER_IDEAL_QUANTITY = FRAGMENT_COUNT"
definition CHUNK_COUNT :: nat where "CHUNK_COUNT = 1024"

definition BUCKET_ALLOW_CHAR :: string where
  "BUCKET_ALLOW_CHAR = ''abcdefghigklmnopqrstuvwxyz'' @ ''ABCDEFGHIGKLMNOPQRSTUVWXYZ'' @ ''0123456789'' @ ''-_.''"

definition NUMBER :: string where
  "NUMBER = ''0123456789''"

section \<open>Hashes\<close>

datatype hash_error = TryFromSliceError | BinaryError

definition default_hash :: string where
  "default_hash = replicate 64 (CHR 0x00)"

text \<open>The table of the \<open>match\<close> in \<open>binary\<close>.\<close>

definition nibble :: "char \<Rightarrow> nat list option" where
  "nibble c =
     (if c = CHR ''0'' then Some [0, 0, 0, 0] else if c = CHR ''1'' then Some [0, 0, 0, 1]
      else if c = CHR ''2'' then Some [0, 0, 1, 0] else if c = CHR ''3'' then Some [0, 0, 1, 1]
      else if c = CHR ''4'' then Some [0, 1, 0, 0] else if c = CHR ''5'' then Some [0, 1, 0, 1]
      else if c = CHR ''6'' then Some [0, 1, 1, 0] else if c = CHR ''7'' then Some [0, 1, 1, 1]
      else if c = CHR ''8'' then Some [1, 0, 0, 0] else if c = CHR ''9'' then Some [1, 0, 0, 1]
      else if c = CHR ''a'' then Some [1, 0, 1, 0] else if c = CHR ''b'' then Some [1, 0, 1, 1]
      else if c = CHR ''c'' then Some [1, 1, 0, 0] else if c = CHR ''d'' then Some [1, 1, 0, 1]
      else if c = CHR ''e'' then Some [1, 1, 1, 0] else if c = CHR ''f'' then Some [1, 1, 1, 1]
      else None)"

fun binary_loop :: "nat \<Rightarrow> string \<Rightarrow> nat list \<Rightarrow> nat list option" where
  "binary_loop index [] elem = Some elem"
| "binary_loop index (c # cs) elem = (case nibble c of
     None \<Rightarrow> None
   | Some b \<Rightarrow> binary_loop (index + 1) cs
       (elem[index * 4 := b ! 0, index * 4 + 1 := b ! 1, index * 4 + 2 := b ! 2, index * 4 + 3 := b ! 3]))"

definition hash_binary :: "string \<Rightarrow> hash_error + nat list" where
  "hash_binary h = (case binary_loop 0 h (replicate 256 0) of
     None \<Rightarrow> Inl BinaryError | Some e \<Rightarrow> Inr e)"

definition slice_to_array_64 :: "string \<Rightarrow> hash_error + string" where
  "slice_to_array_64 sl = (if length sl = 64 then Inr sl else Inl TryFromSliceError)"

definition from_shard_id :: "string \<Rightarrow> hash_error + string" where
  "from_shard_id shard_id = slice_to_array_64 (take 64 shard_id)"

section \<open>The counting bloom filter\<close>

type_synonym bloom_filter = "64 word list"

datatype bloom_error = InsertError | DeleteError | Bloom_Overflow | Bloom_BinaryError

definition bloom_default :: bloom_filter where
  "bloom_default = replicate 256 0"

fun bloom_insert_loop :: "nat \<Rightarrow> nat list \<Rightarrow> bloom_filter \<Rightarrow> (bloom_error + unit) \<times> bloom_filter" where
  "bloom_insert_loop index [] f = (Inr (), f)"
| "bloom_insert_loop index (v # vs) f =
     (if v \<noteq> 1 \<and> v \<noteq> 0 then (Inl InsertError, f)
      else bloom_insert_loop (index + 1) vs (f[index := f ! index + of_nat v]))"

definition bloom_insert :: "nat list \<Rightarrow> bloom_filter \<Rightarrow> (bloom_error + unit) \<times> bloom_filter" where
  "bloom_insert elem f = bloom_insert_loop 0 elem f"

fun bloom_delete_loop :: "nat \<Rightarrow> nat list \<Rightarrow> bloom_filter \<Rightarrow> (bloom_error + unit) \<times> bloom_filter" where
  "bloom_delete_loop index [] f = (Inr (), f)"
| "bloom_delete_loop index (v # vs) f =
     (if v \<noteq> 1 \<and> v \<noteq> 0 then (Inl DeleteError, f)
      else bloom_delete_loop (index + 1) vs (f[index := f ! index - of_nat v]))"

definition bloom_delete :: "nat list \<Rightarrow> bloom_filter \<Rightarrow> (bloom_error + unit) \<times> bloom_filter" where
  "bloom_delete elem f = bloom_delete_loop 0 elem f"

definition bloom_binary :: "string \<Rightarrow> bloom_error + nat list" where
  "bloom_binary data = (case binary_loop 0 data (replicate 256 0) of
     None \<Rightarrow> Inl Bloom_BinaryError | Some e \<Rightarrow> Inr e)"

section \<open>Laws of the hash expansion\<close>

definition hex_string :: "string \<Rightarrow> bool" where
  "hex_string s \<longleftrightarrow> list_all (\<lambda>c. nibble c \<noteq> None) s"

lemma nibble_props: "nibble c = Some b \<Longrightarrow> length b = 4 \<and> set b \<subseteq> {0, 1}"
  by (auto simp: nibble_def split: if_splits)

lemma nibble_inj: "nibble c = Some b \<Longrightarrow> nibble d = Some b \<Longrightarrow> c = d"
  by (auto simp: nibble_def split: if_splits)

lemma list_update4:
  "length b = 4 \<Longrightarrow> (pre @ x # y # z # w # post)[length pre := b ! 0, length pre + 1 := b ! 1,
     length pre + 2 := b ! 2, length pre + 3 := b ! 3] = pre @ b @ post"
  by (auto simp: list_update_append numeral_eq_Suc length_Suc_conv)

text \<open>The loop that writes four cells per character computes the concatenation of the nibbles.\<close>

lemma binary_loop_concat:
  assumes "length pre = index * 4"
  shows "binary_loop index cs (pre @ replicate (4 * length cs) 0 @ post) =
    (if hex_string cs then Some (pre @ concat (map (\<lambda>c. the (nibble c)) cs) @ post) else None)"
  using assms
proof (induction cs arbitrary: index pre)
  case Nil
  then show ?case by (simp add: hex_string_def)
next
  case (Cons c cs)
  show ?case
  proof (cases "nibble c")
    case None
    then show ?thesis by (simp add: hex_string_def)
  next
    case (Some b)
    then have b: "length b = 4" using nibble_props by blast
    have "replicate (4 * length (c # cs)) (0::nat) @ post = 0 # 0 # 0 # 0 # (replicate (4 * length cs) 0 @ post)"
      by (simp add: numeral_eq_Suc)
    then have "binary_loop index (c # cs) (pre @ replicate (4 * length (c # cs)) 0 @ post) =
        binary_loop (index + 1) cs ((pre @ b) @ replicate (4 * length cs) 0 @ post)"
      using Some list_update4 [OF b, of pre 0 0 0 0 "replicate (4 * length cs) 0 @ post"] Cons.prems
      by (simp only: binary_loop.simps option.case append_assoc mult.commute [of index 4])
    with Cons.IH [of "pre @ b" "index + 1"] Cons.prems b Some show ?thesis
      by (simp add: hex_string_def)
  qed
qed

lemma binary_loop_hash:
  assumes "length h = 64"
  shows "binary_loop 0 h (replicate 256 0) =
    (if hex_string h then Some (concat (map (\<lambda>c. the (nibble c)) h)) else None)"
  using binary_loop_concat [of "[]" 0 h "[]"] assms by simp

lemma concat_nibbles:
  "hex_string h \<Longrightarrow> length (concat (map (\<lambda>c. the (nibble c)) h)) = 4 * length h
     \<and> set (concat (map (\<lambda>c. the (nibble c)) h)) \<subseteq> {0, 1}"
proof (induction h)
  case Nil
  then show ?case by simp
next
  case (Cons c h)
  then obtain b where "nibble c = Some b" by (auto simp: hex_string_def)
  with Cons nibble_props [OF this] show ?case by (auto simp: hex_string_def)
qed

lemma concat_nibbles_inj:
  "hex_string h \<Longrightarrow> hex_string g \<Longrightarrow> length h = length g \<Longrightarrow>
     concat (map (\<lambda>c. the (nibble c)) h) = concat (map (\<lambda>c. the (nibble c)) g) \<Longrightarrow> h = g"
proof (induction h arbitrary: g)
  case Nil
  then show ?case by simp
next
  case (Cons c h)
  then obtain d g' where g: "g = d # g'" by (cases g) auto
  obtain b b' where b: "nibble c = Some b" "nibble d = Some b'"
    using Cons.prems g by (auto simp: hex_string_def)
  then have len: "length b = length b'" using nibble_props by fastforce
  have eq: "b = b'" "concat (map (\<lambda>c. the (nibble c)) h) = concat (map (\<lambda>c. the (nibble c)) g')"
    using Cons.prems(4) g b len by (simp_all)
  with b nibble_inj have "c = d" by blast
  with Cons.IH [of g'] Cons.prems g eq show ?case by (simp add: hex_string_def)
qed

section \<open>Laws of the filter\<close>

definition bit_elem :: "nat list \<Rightarrow> bool" where
  "bit_elem e \<longleftrightarrow> set e \<subseteq> {0, 1}"

lemma bloom_insert_loop_spec:
  assumes "set vs \<subseteq> {0, 1}" "length vs = length f"
  shows "bloom_insert_loop (length pre) vs (pre @ f) = (Inr (), pre @ map2 (\<lambda>c v. c + of_nat v) f vs)"
  using assms
proof (induction vs arbitrary: pre f)
  case Nil
  then show ?case by simp
next
  case (Cons v vs)
  then obtain c g where f: "f = c # g" by (cases f) auto
  from Cons have "v = 0 \<or> v = 1" by auto
  with Cons.IH [of g "pre @ [c + of_nat v]"] Cons.prems f show ?case by auto
qed

lemma bloom_delete_loop_spec:
  assumes "set vs \<subseteq> {0, 1}" "length vs = length f"
  shows "bloom_delete_loop (length pre) vs (pre @ f) = (Inr (), pre @ map2 (\<lambda>c v. c - of_nat v) f vs)"
  using assms
proof (induction vs arbitrary: pre f)
  case Nil
  then show ?case by simp
next
  case (Cons v vs)
  then obtain c g where f: "f = c # g" by (cases f) auto
  from Cons have "v = 0 \<or> v = 1" by auto
  with Cons.IH [of g "pre @ [c - of_nat v]"] Cons.prems f show ?case by auto
qed

lemma bloom_insert_spec:
  assumes "bit_elem e" "length e = length f"
  shows "bloom_insert e f = (Inr (), map2 (\<lambda>c v. c + of_nat v) f e)"
  using bloom_insert_loop_spec [of e f "[]"] assms by (simp add: bloom_insert_def bit_elem_def)

lemma bloom_delete_spec:
  assumes "bit_elem e" "length e = length f"
  shows "bloom_delete e f = (Inr (), map2 (\<lambda>c v. c - of_nat v) f e)"
  using bloom_delete_loop_spec [of e f "[]"] assms by (simp add: bloom_delete_def bit_elem_def)

lemma map2_cancel:
  "length f = length e \<Longrightarrow> map2 (\<lambda>c v. c - of_nat v) (map2 (\<lambda>c v. c + of_nat v) f e) e = (f :: 64 word list)"
  by (induction f e rule: list_induct2) auto

text \<open>Cell \<open>i\<close> of the filter after a run of insertions is the number of elements with bit \<open>i\<close>.\<close>

fun bloom_inserts :: "nat list list \<Rightarrow> bloom_filter \<Rightarrow> bloom_filter" where
  "bloom_inserts [] f = f"
| "bloom_inserts (e # es) f = bloom_inserts es (snd (bloom_insert e f))"

lemma bloom_insert_nth:
  assumes "bit_elem e" "length e = length f" "i < length f"
  shows "snd (bloom_insert e f) ! i = f ! i + of_nat (e ! i)" "length (snd (bloom_insert e f)) = length f"
  using bloom_insert_spec [OF assms(1,2)] assms(2,3) by simp_all

lemma bloom_inserts_nth:
  assumes "\<forall>e \<in> set es. bit_elem e \<and> length e = length f" "i < length f"
  shows "bloom_inserts es f ! i = f ! i + of_nat (sum_list (map (\<lambda>e. e ! i) es))"
  using assms
proof (induction es arbitrary: f)
  case Nil
  then show ?case by simp
next
  case (Cons e es)
  then have "bit_elem e" "length e = length f" by simp_all
  from bloom_insert_nth [OF this Cons.prems(2)] Cons show ?case by (simp add: add.assoc)
qed

lemma bit_count:
  "\<forall>e \<in> set es. bit_elem e \<and> i < length e \<Longrightarrow>
     sum_list (map (\<lambda>e. e ! i) es) = length (filter (\<lambda>e. e ! i = 1) es)"
proof (induction es)
  case Nil
  then show ?case by simp
next
  case (Cons e es)
  then have "e ! i \<in> {0, 1}" unfolding bit_elem_def using nth_mem by (metis list.set_intros(1) subsetD)
  with Cons show ?case by auto
qed

section \<open>Properties\<close>

text \<open>The expansion of a file hash is the loop-free one: on 64 characters \<open>Hash::binary\<close>, which
  writes four cells of a zeroed 256-cell array per character, gives the concatenation of the characters'
  nibbles and fails exactly when a character is no lower-case hexadecimal digit; the filter crate's
  \<open>binary\<close> computes the same array, and two hashes with the same array are equal.\<close>

theorem hash_binary_is_nibbles:
  assumes "length h = 64" "length g = 64"
  shows "hash_binary h = (if hex_string h then Inr (concat (map (\<lambda>c. the (nibble c)) h)) else Inl BinaryError)
    \<and> bloom_binary h = (if hex_string h then Inr (concat (map (\<lambda>c. the (nibble c)) h)) else Inl Bloom_BinaryError)
    \<and> (hash_binary h = hash_binary g \<longrightarrow> hex_string h \<longrightarrow> h = g)"
  using binary_loop_hash [OF assms(1)] binary_loop_hash [OF assms(2)] concat_nibbles_inj [of h g] assms
  by (auto simp: hash_binary_def bloom_binary_def)

theorem hash_binary_is_nibbles_witness:
  "hash_binary (replicate 64 CHR ''a'') = Inr (concat (replicate 64 [1, 0, 1, 0]))"
proof -
  have "hex_string (replicate 64 CHR ''a'')" by (simp add: hex_string_def nibble_def list_all_length)
  moreover have "map (\<lambda>c. the (nibble c)) (replicate 64 CHR ''a'') = replicate 64 [1, 0, 1, 0]"
    by (simp add: nibble_def)
  ultimately show ?thesis
    using hash_binary_is_nibbles [of "replicate 64 CHR ''a''" "replicate 64 CHR ''a''"] by simp
qed

text \<open>C37. The filter counts. After the insertions of a list of expanded hashes into the empty filter,
  cell \<open>i\<close> holds the number of hashes with bit \<open>i\<close> set, as long as fewer than \<open>2^64\<close> were
  inserted, so that the order of the insertions is irrelevant; deleting an element right after inserting
  it restores every cell of the filter, wrap-around included.\<close>

theorem bloom_filter_counts:
  assumes "\<forall>e \<in> set (d # es). bit_elem e \<and> length e = 256" "length es < 2 ^ 64" "i < 256" "length f = 256"
  shows "unat (bloom_inserts es bloom_default ! i) = length (filter (\<lambda>e. e ! i = 1) es)
    \<and> bloom_delete d (snd (bloom_insert d f)) = (Inr (), f)"
proof -
  have def: "length bloom_default = 256" "bloom_default ! i = 0"
    using assms(3) by (simp_all add: bloom_default_def)
  have le: "length (filter (\<lambda>e. e ! i = 1) es) < 2 ^ 64"
    using assms(2) length_filter_le [of "\<lambda>e. e ! i = 1" es] by linarith
  have "bloom_inserts es bloom_default ! i = of_nat (length (filter (\<lambda>e. e ! i = 1) es))"
    using bloom_inserts_nth [of es bloom_default i] bit_count [of es i] assms def by simp
  then have "unat (bloom_inserts es bloom_default ! i) = length (filter (\<lambda>e. e ! i = 1) es)"
    using le by (simp add: unat_of_nat take_bit_nat_eq_self)
  moreover have "bloom_delete d (snd (bloom_insert d f)) = (Inr (), f)"
    using bloom_insert_spec [of d f] bloom_delete_spec [of d "map2 (\<lambda>c v. c + of_nat v) f d"]
      map2_cancel [of f d] assms by simp
  ultimately show ?thesis ..
qed

theorem bloom_filter_counts_witness:
  "unat (bloom_inserts [replicate 256 1, replicate 256 1] bloom_default ! 7) = 2"
  using bloom_filter_counts [of "replicate 256 1" "[replicate 256 1, replicate 256 1]" 7 bloom_default]
  by (simp add: bit_elem_def bloom_default_def)

text \<open>Deleting an element that was never inserted is not an error: the cell wraps to \<open>2^64 - 1\<close>, and
  \<open>BloomError::Overflow\<close> is never returned.\<close>

lemma bloom_delete_absent_wraps:
  "bloom_delete [1] [0] = (Inr (), [18446744073709551615])"
  by (simp add: bloom_delete_def)

lemma bloom_delete_never_overflows: "fst (bloom_delete e f) \<noteq> Inl Bloom_Overflow"
proof -
  have "fst (bloom_delete_loop k e f) \<noteq> Inl Bloom_Overflow" for k
    by (induction k e f rule: bloom_delete_loop.induct) auto
  then show ?thesis by (simp add: bloom_delete_def)
qed

end
