(* ===== verification/Storage_Handler.thy ===== *)
theory Storage_Handler
  imports Reservoir Cess_Common
begin

text \<open>
  \<open>pallets/storage-handler\<close>: the territories, the space a user has bought. A territory splits its
  \<open>total_space\<close> into used, locked and remaining space, runs until a deadline, is frozen then and
  expires \<open>FrozenDays\<close> later; while unused it can be given away, renamed or put on consignment.
  \<open>PurchasedSpace\<close> counts what is sold of the space the miners offer. The last part models the
  trait \<open>StorageHandle\<close> through which file-bank and sminer account for space.

  The theory holds the definitions; \<open>Storage_Laws\<close> holds what is proved of them.
\<close>


datatype territory_st = Active | Frozen | Expired | OnConsignment

record territory_info =
  t_token :: string
  t_total_space :: nat
  t_used_space :: nat
  t_locked_space :: nat
  t_remaining_space :: nat
  t_start :: nat
  t_deadline :: nat
  t_state :: territory_st

record consignment_info =
  c_user :: account
  c_price :: nat
  c_buyers :: "account option"
  c_exec :: "nat option"
  c_locked :: bool

datatype order_type = Buy | Expansion | Renewal

record order_info =
  o_territory_name :: string
  o_pay :: nat
  o_gib_count :: nat
  o_days :: nat
  o_expired :: nat
  o_target_acc :: account
  o_order_type :: order_type

record 'w storage_state = "'w reservoir_state" +
  TerritoryKey :: "string \<Rightarrow> (account \<times> string) option"
  Territory :: "account \<times> string \<Rightarrow> territory_info option"
  Consignment :: "string \<Rightarrow> consignment_info option"
  TerritoryFrozen :: "nat \<Rightarrow> string list"
  TerritoryFrozenCounter :: "nat \<Rightarrow> nat"
  TerritoryExpired :: "nat \<Rightarrow> string list"
  UnitPrice :: "nat option"
  TotalIdleSpace :: nat
  TotalServiceSpace :: nat
  PurchasedSpace :: nat
  PayOrder :: "string \<Rightarrow> order_info option"

abbreviation st_err :: "storage_error \<Rightarrow> dispatch_error" where
  "st_err \<equiv> StorageE"

definition st_add :: "nat \<Rightarrow> nat \<Rightarrow> nat \<Rightarrow> ('s, nat) M" where
  "st_add w a b = ok_or (checked_add w a b) (st_err storage_error.Overflow)"

definition st_sub :: "nat \<Rightarrow> nat \<Rightarrow> ('s, nat) M" where
  "st_sub a b = ok_or (checked_sub a b) (st_err storage_error.Overflow)"

definition st_mul :: "nat \<Rightarrow> nat \<Rightarrow> nat \<Rightarrow> ('s, nat) M" where
  "st_mul w a b = ok_or (checked_mul w a b) (st_err storage_error.Overflow)"

definition st_div :: "nat \<Rightarrow> nat \<Rightarrow> ('s, nat) M" where
  "st_div a b = ok_or (checked_div a b) (st_err storage_error.Overflow)"

definition get_territory :: "account \<Rightarrow> string \<Rightarrow> storage_error \<Rightarrow> (('w, 'z) storage_state_scheme, territory_info) M" where
  "get_territory acc name e = bindM (getM (\<lambda>s. Territory s (acc, name))) (\<lambda>t. ok_or t (st_err e))"

definition put_territory :: "account \<Rightarrow> string \<Rightarrow> territory_info option \<Rightarrow> (('w, 'z) storage_state_scheme, unit) M" where
  "put_territory acc name t = modM (\<lambda>s. s\<lparr>Territory := (Territory s)((acc, name) := t)\<rparr>)"

definition put_consignment :: "string \<Rightarrow> consignment_info option \<Rightarrow> (('w, 'z) storage_state_scheme, unit) M" where
  "put_consignment token c = modM (\<lambda>s. s\<lparr>Consignment := (Consignment s)(token := c)\<rparr>)"

definition put_key :: "string \<Rightarrow> account \<times> string \<Rightarrow> (('w, 'z) storage_state_scheme, unit) M" where
  "put_key token k = modM (\<lambda>s. s\<lparr>TerritoryKey := (TerritoryKey s)(token \<mapsto> k)\<rparr>)"

definition frozen_insert :: "'w Config \<Rightarrow> nat \<Rightarrow> string \<Rightarrow> (('w, 'z) storage_state_scheme, unit) M" where
  "frozen_insert E n token = modM (\<lambda>s. s\<lparr>TerritoryFrozen :=
     (TerritoryFrozen s)(n := key_put (storage_hash E) token (TerritoryFrozen s n))\<rparr>)"

definition frozen_remove :: "nat \<Rightarrow> string \<Rightarrow> (('w, 'z) storage_state_scheme, unit) M" where
  "frozen_remove n token = modM (\<lambda>s. s\<lparr>TerritoryFrozen :=
     (TerritoryFrozen s)(n := key_del token (TerritoryFrozen s n))\<rparr>)"

definition expired_insert :: "'w Config \<Rightarrow> nat \<Rightarrow> string \<Rightarrow> (('w, 'z) storage_state_scheme, unit) M" where
  "expired_insert E n token = modM (\<lambda>s. s\<lparr>TerritoryExpired :=
     (TerritoryExpired s)(n := key_put (storage_hash E) token (TerritoryExpired s n))\<rparr>)"

definition expired_remove :: "nat \<Rightarrow> string \<Rightarrow> (('w, 'z) storage_state_scheme, unit) M" where
  "expired_remove n token = modM (\<lambda>s. s\<lparr>TerritoryExpired :=
     (TerritoryExpired s)(n := key_del token (TerritoryExpired s n))\<rparr>)"

text \<open>The two closures on \<open>TerritoryFrozenCounter\<close>; \<open>mutate\<close> writes before the limit is tested.\<close>

definition frozen_counter_inc :: "'w Config \<Rightarrow> nat \<Rightarrow> (('w, 'z) storage_state_scheme, unit) M" where
  "frozen_counter_inc E n =
     mutateM (\<lambda>s. TerritoryFrozenCounter s n)
       (\<lambda>v s. s\<lparr>TerritoryFrozenCounter := (TerritoryFrozenCounter s)(n := v)\<rparr>)
       (\<lambda>c. case checked_add 32 c 1 of
          None \<Rightarrow> (Inl (st_err storage_error.Overflow), c)
        | Some c' \<Rightarrow> if c' < FrozenLimit E then (Inr (), c')
                    else (Inl (st_err storage_error.Overflow), c'))"

definition frozen_counter_dec :: "nat \<Rightarrow> (('w, 'z) storage_state_scheme, unit) M" where
  "frozen_counter_dec n =
     mutateM (\<lambda>s. TerritoryFrozenCounter s n)
       (\<lambda>v s. s\<lparr>TerritoryFrozenCounter := (TerritoryFrozenCounter s)(n := v)\<rparr>)
       (\<lambda>c. case checked_sub c 1 of
          None \<Rightarrow> (Inl (st_err storage_error.Overflow), c)
        | Some c' \<Rightarrow> (Inr (), c'))"

section \<open>Internal functions\<close>

text \<open>\<open>random_token\<close> is the seed, the draw and its decoding at the head of \<open>mint_territory\<close> and of the
  \<open>Buy\<close> branch of \<open>exec_order\<close>; without a seed the token is the zero hash.\<close>

definition random_token :: "'w Config \<Rightarrow> account \<Rightarrow> string \<Rightarrow> (('w, 'z) storage_state_scheme, string) M" where
  "random_token E sender name =
     bindM (getM block_number) (\<lambda>now.
     bindM (getM (\<lambda>s. my_randomness E (world s) (encode E (S_Seq [S_Bytes (RewardPalletId E),
              S_Seq [S_Num sender, S_Num now, S_Bytes name]])))) (\<lambda>seed.
     case seed of
       Some r \<Rightarrow> ok_or (decode_h256 E r) (st_err storage_error.RandomErr)
     | None \<Rightarrow> retM (replicate 32 (CHR 0x00))))"

definition day_unit_price :: "(('w, 'z) storage_state_scheme, nat) M" where
  "day_unit_price =
     bindM (getM UnitPrice) (\<lambda>p.
     bindM (ok_or p (st_err storage_error.BugInvalid)) (\<lambda>p.
     st_div p 30))"

definition calculate_price :: "nat \<Rightarrow> nat \<Rightarrow> (('w, 'z) storage_state_scheme, nat) M" where
  "calculate_price gib_count days =
     bindM (getM UnitPrice) (\<lambda>p.
     bindM (ok_or p Panic) (\<lambda>unit_price.
     bindM (st_mul 128 gib_count days) (\<lambda>x.
     st_mul 128 x unit_price)))"

definition calculate_remain_day :: "'w Config \<Rightarrow> nat \<Rightarrow> (('w, 'z) storage_state_scheme, nat) M" where
  "calculate_remain_day E deadline =
     bindM (getM block_number) (\<lambda>now.
     bindM (st_sub deadline now) (\<lambda>diff_block.
     bindM (st_div diff_block (OneDay E)) (\<lambda>remain_day.
     if diff_block mod OneDay E \<noteq> 0 then st_add 32 remain_day 1 else retM remain_day)))"

definition storage_territory :: "'w Config \<Rightarrow> string \<Rightarrow> account \<Rightarrow> nat \<Rightarrow> nat \<Rightarrow> string
    \<Rightarrow> (('w, 'z) storage_state_scheme, unit) M" where
  "storage_territory E token user space days tname =
     bindM (getM block_number) (\<lambda>now.
     bindM (st_mul 32 (OneDay E) days) (\<lambda>sur_block.
     bindM (st_add 32 now sur_block) (\<lambda>deadline.
     bindM (put_territory user tname (Some \<lparr>t_token = token, t_total_space = space, t_used_space = 0,
              t_locked_space = 0, t_remaining_space = space, t_start = now, t_deadline = deadline,
              t_state = territory_st.Active\<rparr>)) (\<lambda>_.
     bindM (put_key token (user, tname)) (\<lambda>_.
     bindM (frozen_insert E deadline token) (\<lambda>_.
     frozen_counter_inc E deadline))))))"

definition update_territory_space :: "account \<Rightarrow> string \<Rightarrow> nat \<Rightarrow> (('w, 'z) storage_state_scheme, unit) M" where
  "update_territory_space user tname space =
     bindM (get_territory user tname storage_error.NotPurchasedSpace) (\<lambda>t.
     bindM (st_add 128 (t_remaining_space t) space) (\<lambda>rm.
     bindM (st_add 128 (t_total_space t) space) (\<lambda>tot.
     put_territory user tname (Some (t\<lparr>t_remaining_space := rm, t_total_space := tot\<rparr>)))))"

definition update_territory_days :: "'w Config \<Rightarrow> account \<Rightarrow> string \<Rightarrow> nat \<Rightarrow> (('w, 'z) storage_state_scheme, unit) M" where
  "update_territory_days E user tname days =
     bindM (get_territory user tname storage_error.NotHaveTerritory) (\<lambda>t.
     bindM (frozen_remove (t_deadline t) (t_token t)) (\<lambda>_.
     bindM (frozen_counter_dec (t_deadline t)) (\<lambda>_.
     bindM (st_add 32 (t_deadline t) (FrozenDays E)) (\<lambda>expired_block.
     bindM (expired_remove expired_block (t_token t)) (\<lambda>_.
     bindM (getM block_number) (\<lambda>now.
     bindM (st_mul 32 (OneDay E) days) (\<lambda>sur_block.
     bindM (if t_deadline t < now
            then bindM (st_add 32 now sur_block) (\<lambda>d. retM (t\<lparr>t_start := now, t_deadline := d\<rparr>))
            else bindM (st_add 32 (t_deadline t) sur_block) (\<lambda>d. retM (t\<lparr>t_deadline := d\<rparr>))) (\<lambda>t.
     bindM (retM (if now < t_deadline t then t\<lparr>t_state := territory_st.Active\<rparr> else t)) (\<lambda>t.
     bindM (frozen_insert E (t_deadline t) (t_token t)) (\<lambda>_.
     bindM (frozen_counter_inc E (t_deadline t)) (\<lambda>_.
     put_territory user tname (Some t))))))))))))"

definition initial_territory :: "'w Config \<Rightarrow> account \<Rightarrow> string \<Rightarrow> nat \<Rightarrow> (('w, 'z) storage_state_scheme, unit) M" where
  "initial_territory E user tname days =
     bindM (get_territory user tname storage_error.NotPurchasedSpace) (\<lambda>t.
     bindM (getM block_number) (\<lambda>now.
     bindM (st_mul 32 (OneDay E) days) (\<lambda>len.
     bindM (st_add 32 now len) (\<lambda>d.
     bindM (retM (t\<lparr>t_state := territory_st.Active, t_remaining_space := 0, t_locked_space := 0,
              t_used_space := 0, t_start := now, t_deadline := d\<rparr>)) (\<lambda>t.
     bindM (frozen_insert E (t_deadline t) (t_token t)) (\<lambda>_.
     bindM (frozen_counter_inc E (t_deadline t)) (\<lambda>_.
     put_territory user tname (Some t))))))))"

definition add_purchased_space :: "nat \<Rightarrow> (('w, 'z) storage_state_scheme, unit) M" where
  "add_purchased_space sz =
     bindM (getM PurchasedSpace) (\<lambda>purchased.
     bindM (getM (\<lambda>s. (TotalIdleSpace s, TotalServiceSpace s))) (\<lambda>(idle, service).
     bindM (st_add 128 idle service) (\<lambda>total_space.
     bindM (st_add 128 purchased sz) (\<lambda>new_space.
     bindM (ensureM (new_space \<le> total_space) (st_err storage_error.InsufficientAvailableSpace)) (\<lambda>_.
     modM (\<lambda>s. s\<lparr>PurchasedSpace := new_space\<rparr>))))))"

definition sub_purchased_space :: "nat \<Rightarrow> (('w, 'z) storage_state_scheme, unit) M" where
  "sub_purchased_space sz =
     bindM (getM PurchasedSpace) (\<lambda>purchased.
     bindM (st_sub purchased sz) (\<lambda>new_space.
     modM (\<lambda>s. s\<lparr>PurchasedSpace := new_space\<rparr>)))"

text \<open>\<open>frozen_task\<close>: one round of each loop, then the loops. The closures of the two \<open>try_mutate\<close>s may
  fail; the hook ignores that, and what they wrote elsewhere (the removed consignment) stays.\<close>

definition freeze_territory :: "'w Config \<Rightarrow> string \<Rightarrow> account \<Rightarrow> string \<Rightarrow> (('w, 'z) storage_state_scheme, unit) M" where
  "freeze_territory E token acc name =
     bindM (get_territory acc name storage_error.Unexpected) (\<lambda>t.
     bindM (if t_state t = territory_st.OnConsignment then put_consignment token None else retM ()) (\<lambda>_.
     bindM (st_add 32 (t_deadline t) (FrozenDays E)) (\<lambda>expired_block.
     bindM (expired_insert E expired_block (t_token t)) (\<lambda>_.
     put_territory acc name (Some (t\<lparr>t_state := territory_st.Frozen\<rparr>))))))"

definition freeze_one :: "'w Config \<Rightarrow> string \<Rightarrow> (('w, 'z) storage_state_scheme, unit) M" where
  "freeze_one E token =
     bindM (getM (\<lambda>s. TerritoryKey s token)) (\<lambda>k.
     case k of
       None \<Rightarrow> retM ()
     | Some (acc, name) \<Rightarrow> bindM (attemptM (freeze_territory E token acc name)) (\<lambda>_. retM ()))"

definition expire_territory :: "account \<Rightarrow> string \<Rightarrow> (('w, 'z) storage_state_scheme, unit) M" where
  "expire_territory acc name =
     bindM (get_territory acc name storage_error.Unexpected) (\<lambda>t.
     bindM (sub_purchased_space (t_total_space t)) (\<lambda>_.
     put_territory acc name (Some (t\<lparr>t_state := territory_st.Expired\<rparr>))))"

definition expire_one :: "string \<Rightarrow> (account \<times> string) list \<Rightarrow> (('w, 'z) storage_state_scheme, (account \<times> string) list) M" where
  "expire_one token out =
     bindM (getM (\<lambda>s. TerritoryKey s token)) (\<lambda>k.
     case k of
       None \<Rightarrow> retM out
     | Some (acc, name) \<Rightarrow>
         bindM (attemptM (expire_territory acc name)) (\<lambda>_. retM (out @ [(acc, name)])))"

definition frozen_task :: "'w Config \<Rightarrow> (('w, 'z) storage_state_scheme, (account \<times> string) list) M" where
  "frozen_task E =
     bindM (getM block_number) (\<lambda>now.
     bindM (getM (\<lambda>s. TerritoryFrozen s now)) (\<lambda>tokens.
     bindM (forM tokens (freeze_one E)) (\<lambda>_.
     bindM (getM (\<lambda>s. TerritoryExpired s now)) (\<lambda>tokens.
     foldM expire_one tokens []))))"

section \<open>Dispatchable calls\<close>

definition mint_territory :: "'w Config \<Rightarrow> origin \<Rightarrow> nat \<Rightarrow> string \<Rightarrow> nat \<Rightarrow> (('w, 'z) storage_state_scheme, unit) M" where
  "mint_territory E orig gib_count territory_name days = transactional (
     bindM (ensure_signed orig) (\<lambda>sender.
     bindM (getM (\<lambda>s. Territory s (sender, territory_name))) (\<lambda>old.
     bindM (ensureM (old = None) (st_err storage_error.PurchasedSpace)) (\<lambda>_.
     bindM (ensureM (30 \<le> days) (st_err storage_error.BoundariesNotMet)) (\<lambda>_.
     bindM (random_token E sender territory_name) (\<lambda>token.
     bindM (getM (\<lambda>s. TerritoryKey s token)) (\<lambda>k.
     bindM (ensureM (k = None) (st_err storage_error.DuplicateTokens)) (\<lambda>_.
     bindM (st_mul 128 G_BYTE gib_count) (\<lambda>space.
     bindM day_unit_price (\<lambda>day_price.
     bindM (storage_territory E token sender space days territory_name) (\<lambda>_.
     bindM (add_purchased_space space) (\<lambda>_.
     bindM (st_mul 128 day_price gib_count) (\<lambda>p.
     bindM (st_mul 128 p days) (\<lambda>price.
     bindM (can_slash E sender price) (\<lambda>rich.
     bindM (ensureM rich (st_err storage_error.InsufficientBalance)) (\<lambda>_.
     send_to_sid E sender price))))))))))))))))"

definition expanding_territory :: "'w Config \<Rightarrow> origin \<Rightarrow> string \<Rightarrow> nat \<Rightarrow> (('w, 'z) storage_state_scheme, unit) M" where
  "expanding_territory E orig territory_name gib_count = transactional (
     bindM (ensure_signed orig) (\<lambda>sender.
     bindM (get_territory sender territory_name storage_error.NotHaveTerritory) (\<lambda>cur.
     bindM (ensureM (t_state cur = territory_st.Active) (st_err storage_error.NotActive)) (\<lambda>_.
     bindM day_unit_price (\<lambda>day_price.
     bindM (st_mul 128 G_BYTE gib_count) (\<lambda>space.
     bindM (calculate_remain_day E (t_deadline cur)) (\<lambda>remain_day.
     bindM (st_mul 128 day_price gib_count) (\<lambda>p.
     bindM (st_mul 128 p remain_day) (\<lambda>price.
     bindM (can_slash E sender price) (\<lambda>rich.
     bindM (ensureM rich (st_err storage_error.InsufficientBalance)) (\<lambda>_.
     bindM (add_purchased_space space) (\<lambda>_.
     bindM (update_territory_space sender territory_name space) (\<lambda>_.
     send_to_sid E sender price)))))))))))))"

definition renewal_territory :: "'w Config \<Rightarrow> origin \<Rightarrow> string \<Rightarrow> nat \<Rightarrow> (('w, 'z) storage_state_scheme, unit) M" where
  "renewal_territory E orig territory_name days = transactional (
     bindM (ensure_signed orig) (\<lambda>sender.
     bindM (get_territory sender territory_name storage_error.NotHaveTerritory) (\<lambda>cur.
     bindM (ensureM (t_state cur = territory_st.Active \<or> t_state cur = territory_st.Frozen)
              (st_err storage_error.StateError)) (\<lambda>_.
     bindM day_unit_price (\<lambda>day_price.
     bindM (st_div (t_total_space cur) G_BYTE) (\<lambda>gib_count.
     bindM (st_mul 128 day_price gib_count) (\<lambda>p.
     bindM (st_mul 128 p days) (\<lambda>price.
     bindM (can_slash E sender price) (\<lambda>rich.
     bindM (ensureM rich (st_err storage_error.InsufficientBalance)) (\<lambda>_.
     bindM (send_to_sid E sender price) (\<lambda>_.
     update_territory_days E sender territory_name days)))))))))))"

definition reactivate_territory :: "'w Config \<Rightarrow> origin \<Rightarrow> string \<Rightarrow> nat \<Rightarrow> (('w, 'z) storage_state_scheme, unit) M" where
  "reactivate_territory E orig territory_name days = transactional (
     bindM (ensure_signed orig) (\<lambda>sender.
     bindM (get_territory sender territory_name storage_error.NotHaveTerritory) (\<lambda>t.
     bindM (ensureM (t_state t = territory_st.Expired) (st_err storage_error.NotExpire)) (\<lambda>_.
     bindM day_unit_price (\<lambda>day_price.
     bindM (st_div (t_total_space t) G_BYTE) (\<lambda>gib_count.
     bindM (st_mul 128 day_price days) (\<lambda>p.
     bindM (st_mul 128 p gib_count) (\<lambda>price.
     bindM (can_slash E sender price) (\<lambda>rich.
     bindM (ensureM rich (st_err storage_error.InsufficientBalance)) (\<lambda>_.
     bindM (send_to_sid E sender price) (\<lambda>_.
     bindM (add_purchased_space (t_total_space t)) (\<lambda>_.
     initial_territory E sender territory_name days))))))))))))"

definition territory_consignment :: "'w Config \<Rightarrow> origin \<Rightarrow> string \<Rightarrow> nat \<Rightarrow> (('w, 'z) storage_state_scheme, unit) M" where
  "territory_consignment E orig territory_name price = transactional (
     bindM (ensure_signed orig) (\<lambda>sender.
     bindM (get_territory sender territory_name storage_error.NotHaveTerritory) (\<lambda>t.
     bindM (ensureM (t_state t = territory_st.Active) (st_err storage_error.NotActive)) (\<lambda>_.
     bindM (ensureM (t_total_space t = t_remaining_space t) (st_err storage_error.ObjectNotZero)) (\<lambda>_.
     bindM (getM block_number) (\<lambda>now.
     bindM (st_sub (t_deadline t) now) (\<lambda>remain_block.
     bindM (ensureM (ConsignmentRemainingBlock E < remain_block) (st_err storage_error.InsufficientLease)) (\<lambda>_.
     bindM (put_territory sender territory_name (Some (t\<lparr>t_state := territory_st.OnConsignment\<rparr>))) (\<lambda>_.
     bindM (getM (\<lambda>s. Consignment s (t_token t))) (\<lambda>c.
     bindM (ensureM (c = None) (st_err storage_error.ConsignmentExisted)) (\<lambda>_.
     put_consignment (t_token t) (Some \<lparr>c_user = sender, c_price = price, c_buyers = None,
       c_exec = None, c_locked = False\<rparr>))))))))))))"

definition buy_consignment :: "'w Config \<Rightarrow> origin \<Rightarrow> string \<Rightarrow> string \<Rightarrow> (('w, 'z) storage_state_scheme, unit) M" where
  "buy_consignment E orig token rename = transactional (
     bindM (ensure_signed orig) (\<lambda>sender.
     bindM (getM (\<lambda>s. Consignment s token)) (\<lambda>c_opt.
     bindM (ok_or c_opt (st_err storage_error.NonExistentConsignment)) (\<lambda>c.
     bindM (ensureM (\<not> c_locked c) (st_err storage_error.ConsignmentLocked)) (\<lambda>_.
     bindM (ensureM (c_user c \<noteq> sender) (st_err storage_error.OwnConsignment)) (\<lambda>_.
     bindM (getM block_number) (\<lambda>now.
     bindM (st_add 32 now (LockingBlock E)) (\<lambda>exec_block.
     bindM (reserve E sender (c_price c)) (\<lambda>_.
     bindM (preimages_bound E (Call_exec_consignment token rename)) (\<lambda>_.
     bindM (map_errM (st_err storage_error.Unexpected)
              (schedule_named E token exec_block (Call_exec_consignment token rename))) (\<lambda>_.
     put_consignment token (Some (c\<lparr>c_buyers := Some sender, c_exec := Some exec_block, c_locked := True\<rparr>)))))))))))))"

definition exec_consignment :: "'w Config \<Rightarrow> origin \<Rightarrow> string \<Rightarrow> string \<Rightarrow> (('w, 'z) storage_state_scheme, unit) M" where
  "exec_consignment E orig token territory_name = transactional (
     bindM (ensure_root orig) (\<lambda>_.
     bindM (getM (\<lambda>s. Consignment s token)) (\<lambda>c_opt.
     bindM (ok_or c_opt (st_err storage_error.NonExistentConsignment)) (\<lambda>c.
     bindM (ok_or (c_buyers c) (st_err storage_error.Unexpected)) (\<lambda>buyer.
     bindM (ensureM (c_locked c) (st_err storage_error.ConsignmentUnLocked)) (\<lambda>_.
     bindM (can_slash E buyer (c_price c)) (\<lambda>rich.
     bindM (ensureM rich (st_err storage_error.InsufficientBalance)) (\<lambda>_.
     bindM (getM (\<lambda>s. TerritoryKey s token)) (\<lambda>k.
     bindM (ok_or k (st_err storage_error.Unexpected)) (\<lambda>(holder, name).
     bindM (get_territory holder name storage_error.Unexpected) (\<lambda>t.
     bindM (ensureM (t_state t = territory_st.OnConsignment) (st_err storage_error.Unexpected)) (\<lambda>_.
     bindM (put_territory holder name None) (\<lambda>_.
     bindM (put_territory buyer territory_name (Some (t\<lparr>t_state := territory_st.Active\<rparr>))) (\<lambda>_.
     bindM (put_key token (buyer, territory_name)) (\<lambda>_.
     bindM (put_consignment token None) (\<lambda>_.
     bindM (unreserve E buyer (c_price c)) (\<lambda>_.
     transfer E buyer holder (c_price c))))))))))))))))))"

definition cancel_consignment :: "origin \<Rightarrow> string \<Rightarrow> (('w, 'z) storage_state_scheme, unit) M" where
  "cancel_consignment orig territory_name = transactional (
     bindM (ensure_signed orig) (\<lambda>sender.
     bindM (get_territory sender territory_name storage_error.NotHaveTerritory) (\<lambda>t.
     bindM (ensureM (t_state t = territory_st.OnConsignment) (st_err storage_error.NotOnConsignment)) (\<lambda>_.
     bindM (getM (\<lambda>s. Consignment s (t_token t))) (\<lambda>c_opt.
     bindM (ok_or c_opt (st_err storage_error.NonExistentConsignment)) (\<lambda>c.
     bindM (ensureM (\<not> c_locked c) (st_err storage_error.ConsignmentLocked)) (\<lambda>_.
     bindM (put_consignment (t_token t) None) (\<lambda>_.
     put_territory sender territory_name (Some (t\<lparr>t_state := territory_st.Active\<rparr>))))))))))"

definition cancel_purchase_action :: "'w Config \<Rightarrow> origin \<Rightarrow> string \<Rightarrow> (('w, 'z) storage_state_scheme, unit) M" where
  "cancel_purchase_action E orig token = transactional (
     bindM (ensure_signed orig) (\<lambda>sender.
     bindM (getM (\<lambda>s. Consignment s token)) (\<lambda>c_opt.
     bindM (ok_or c_opt (st_err storage_error.NonExistentConsignment)) (\<lambda>c.
     bindM (ok_or (c_buyers c) (st_err storage_error.NotBuyer)) (\<lambda>buyer.
     bindM (ensureM (sender = buyer) (st_err storage_error.NotBuyer)) (\<lambda>_.
     bindM (unreserve E buyer (c_price c)) (\<lambda>_.
     bindM (cancel_named E token) (\<lambda>_.
     put_consignment token (Some (c\<lparr>c_buyers := None, c_exec := None, c_locked := False\<rparr>))))))))))"

text \<open>\<open>try_mutate\<close> on \<open>TerritoryKey\<close>, shared by the two calls that move a territory.\<close>

definition update_key :: "string \<Rightarrow> (account \<times> string \<Rightarrow> account \<times> string) \<Rightarrow> (('w, 'z) storage_state_scheme, unit) M" where
  "update_key token f =
     bindM (getM (\<lambda>s. TerritoryKey s token)) (\<lambda>k.
     bindM (ok_or k (st_err storage_error.Unexpected)) (\<lambda>k.
     put_key token (f k)))"

definition territory_grants :: "origin \<Rightarrow> string \<Rightarrow> account \<Rightarrow> (('w, 'z) storage_state_scheme, unit) M" where
  "territory_grants orig territory_name receiver = transactional (
     bindM (ensure_signed orig) (\<lambda>sender.
     bindM (get_territory sender territory_name storage_error.NotHaveTerritory) (\<lambda>t.
     bindM (ensureM (t_state t = territory_st.Active) (st_err storage_error.NotActive)) (\<lambda>_.
     bindM (ensureM (t_total_space t = t_remaining_space t) (st_err storage_error.ObjectNotZero)) (\<lambda>_.
     bindM (ok_or (if length (t_token t) \<le> 63 then Some (t_token t) else None)
              (st_err storage_error.BoundedVecError)) (\<lambda>new_name.
     bindM (put_territory sender territory_name None) (\<lambda>_.
     bindM (put_territory receiver new_name (Some t)) (\<lambda>_.
     update_key (t_token t) (\<lambda>_. (receiver, new_name))))))))))"

definition territory_rename :: "origin \<Rightarrow> string \<Rightarrow> string \<Rightarrow> (('w, 'z) storage_state_scheme, unit) M" where
  "territory_rename orig old_name new_name = transactional (
     bindM (ensure_signed orig) (\<lambda>sender.
     bindM (get_territory sender old_name storage_error.NotHaveTerritory) (\<lambda>t.
     bindM (ensureM (t_state t = territory_st.Active) (st_err storage_error.NotActive)) (\<lambda>_.
     bindM (ensureM (t_total_space t = t_remaining_space t) (st_err storage_error.ObjectNotZero)) (\<lambda>_.
     bindM (put_territory sender old_name None) (\<lambda>_.
     bindM (put_territory sender new_name (Some t)) (\<lambda>_.
     update_key (t_token t) (\<lambda>(a, n). (a, new_name)))))))))"

definition update_price :: "origin \<Rightarrow> (('w, 'z) storage_state_scheme, unit) M" where
  "update_price orig = transactional (
     bindM (ensure_root orig) (\<lambda>_.
     modM (\<lambda>s. s\<lparr>UnitPrice := Some 30000000000000000000\<rparr>)))"

definition update_user_territory_life :: "'w Config \<Rightarrow> origin \<Rightarrow> account \<Rightarrow> string \<Rightarrow> nat
    \<Rightarrow> (('w, 'z) storage_state_scheme, unit) M" where
  "update_user_territory_life E orig user terr_name deadline = transactional (
     bindM (ensure_root orig) (\<lambda>_.
     bindM (get_territory user terr_name storage_error.NotPurchasedSpace) (\<lambda>t.
     bindM (frozen_remove (t_deadline t) (t_token t)) (\<lambda>_.
     bindM (frozen_insert E deadline (t_token t)) (\<lambda>_.
     put_territory user terr_name (Some (t\<lparr>t_deadline := deadline\<rparr>)))))))"

definition update_expired_exec :: "'w Config \<Rightarrow> origin \<Rightarrow> nat \<Rightarrow> nat \<Rightarrow> string
    \<Rightarrow> (('w, 'z) storage_state_scheme, unit) M" where
  "update_expired_exec E orig old_block new_block token = transactional (
     bindM (ensure_root orig) (\<lambda>_.
     bindM (expired_remove old_block token) (\<lambda>_.
     expired_insert E new_block token)))"

text \<open>The price of an order, the \<open>match\<close> of \<open>create_order\<close>.\<close>

definition order_price :: "'w Config \<Rightarrow> account \<Rightarrow> string \<Rightarrow> order_type \<Rightarrow> nat \<Rightarrow> nat
    \<Rightarrow> (('w, 'z) storage_state_scheme, nat) M" where
  "order_price E target_acc territory_name ot gib_count days = (case ot of
     Buy \<Rightarrow>
       bindM (getM (\<lambda>s. Territory s (target_acc, territory_name))) (\<lambda>old.
       bindM (ensureM (old = None) (st_err storage_error.PurchasedSpace)) (\<lambda>_.
       calculate_price gib_count days))
   | Expansion \<Rightarrow>
       bindM (get_territory target_acc territory_name storage_error.NotHaveTerritory) (\<lambda>t.
       bindM (calculate_remain_day E (t_deadline t)) (\<lambda>remain_day.
       calculate_price gib_count remain_day))
   | Renewal \<Rightarrow>
       bindM (get_territory target_acc territory_name storage_error.NotHaveTerritory) (\<lambda>t.
       bindM (st_div (t_total_space t) G_BYTE) (\<lambda>gib.
       calculate_price (as_cast 32 gib) days)))"

definition order_hash :: "'w Config \<Rightarrow> (('w, 'z) storage_state_scheme, string) M" where
  "order_hash E =
     bindM (getM block_number) (\<lambda>now.
     bindM (getM (\<lambda>s. my_randomness E (world s)
              (encode E (S_Seq [S_Bytes (RewardPalletId E), S_Num now])))) (\<lambda>seed.
     ok_or (decode_h256 E (case seed of Some v \<Rightarrow> v | None \<Rightarrow> replicate 32 (CHR 0x00)))
       (st_err storage_error.RandomErr)))"

definition create_order :: "'w Config \<Rightarrow> origin \<Rightarrow> account \<Rightarrow> string \<Rightarrow> order_type \<Rightarrow> nat \<Rightarrow> nat \<Rightarrow> nat
    \<Rightarrow> (('w, 'z) storage_state_scheme, unit) M" where
  "create_order E orig target_acc territory_name ot gib_count days minutes = transactional (
     bindM (ensure_signed orig) (\<lambda>_.
     bindM (st_mul 32 minutes 6) (\<lambda>span.
     bindM (ensureM (span < OneHours E) (st_err storage_error.ParamError)) (\<lambda>_.
     bindM (order_price E target_acc territory_name ot gib_count days) (\<lambda>price.
     bindM (getM block_number) (\<lambda>now.
     bindM (st_add 32 now span) (\<lambda>expired.
     bindM (order_hash E) (\<lambda>random_hash.
     bindM (ensureM (length random_hash \<le> 32) (st_err storage_error.BoundedVecError)) (\<lambda>_.
     modM (\<lambda>s. s\<lparr>PayOrder := (PayOrder s)(random_hash \<mapsto> \<lparr>o_territory_name = territory_name,
       o_pay = price, o_gib_count = gib_count, o_days = days, o_expired = expired,
       o_target_acc = target_acc, o_order_type = ot\<rparr>)\<rparr>))))))))))"

text \<open>The three branches of \<open>exec_order\<close>.\<close>

definition exec_buy :: "'w Config \<Rightarrow> account \<Rightarrow> order_info \<Rightarrow> (('w, 'z) storage_state_scheme, unit) M" where
  "exec_buy E sender order =
     bindM (getM (\<lambda>s. Territory s (o_target_acc order, o_territory_name order))) (\<lambda>old.
     bindM (ensureM (old = None) (st_err storage_error.PurchasedSpace)) (\<lambda>_.
     bindM (st_mul 128 G_BYTE (o_gib_count order)) (\<lambda>space.
     bindM (random_token E sender (o_territory_name order)) (\<lambda>token.
     bindM (getM (\<lambda>s. TerritoryKey s token)) (\<lambda>k.
     bindM (ensureM (k = None) (st_err storage_error.DuplicateTokens)) (\<lambda>_.
     bindM (storage_territory E token (o_target_acc order) space (o_days order) (o_territory_name order)) (\<lambda>_.
     add_purchased_space space)))))))"

definition exec_expansion :: "'w Config \<Rightarrow> order_info \<Rightarrow> (('w, 'z) storage_state_scheme, unit) M" where
  "exec_expansion E order =
     bindM (get_territory (o_target_acc order) (o_territory_name order) storage_error.NotHaveTerritory) (\<lambda>t.
     bindM (calculate_remain_day E (t_deadline t)) (\<lambda>remain_day.
     bindM (calculate_price (o_gib_count order) remain_day) (\<lambda>price.
     bindM (ensureM (price = o_pay order) (st_err storage_error.InvalidOrder)) (\<lambda>_.
     bindM (st_mul 128 G_BYTE (o_gib_count order)) (\<lambda>space.
     bindM (add_purchased_space space) (\<lambda>_.
     update_territory_space (o_target_acc order) (o_territory_name order) space))))))"

definition exec_renewal :: "'w Config \<Rightarrow> order_info \<Rightarrow> (('w, 'z) storage_state_scheme, unit) M" where
  "exec_renewal E order =
     bindM (get_territory (o_target_acc order) (o_territory_name order) storage_error.NotHaveTerritory) (\<lambda>t.
     bindM (st_div (t_total_space t) G_BYTE) (\<lambda>gib.
     bindM (calculate_price (as_cast 32 gib) (o_days order)) (\<lambda>price.
     bindM (ensureM (price = o_pay order) (st_err storage_error.InvalidOrder)) (\<lambda>_.
     update_territory_days E (o_target_acc order) (o_territory_name order) (o_days order)))))"

definition exec_order :: "'w Config \<Rightarrow> origin \<Rightarrow> string \<Rightarrow> (('w, 'z) storage_state_scheme, unit) M" where
  "exec_order E orig order_id = transactional (
     bindM (ensure_signed orig) (\<lambda>sender.
     bindM (getM (\<lambda>s. PayOrder s order_id)) (\<lambda>order_opt.
     bindM (ok_or order_opt (st_err storage_error.NoOrder)) (\<lambda>order.
     bindM (getM block_number) (\<lambda>now.
     bindM (ensureM (now < o_expired order) (st_err storage_error.OrderExpired)) (\<lambda>_.
     bindM (case o_order_type order of
              Buy \<Rightarrow> exec_buy E sender order
            | Expansion \<Rightarrow> exec_expansion E order
            | Renewal \<Rightarrow> exec_renewal E order) (\<lambda>_.
     send_to_sid E sender (o_pay order))))))))"

definition clear_service_space :: "origin \<Rightarrow> (('w, 'z) storage_state_scheme, unit) M" where
  "clear_service_space orig = transactional (
     bindM (ensure_root orig) (\<lambda>_.
     modM (\<lambda>s. s\<lparr>TotalServiceSpace := 0\<rparr>)))"

section \<open>The trait StorageHandle\<close>

definition check_territry_owner :: "account \<Rightarrow> string \<Rightarrow> (('w, 'z) storage_state_scheme, unit) M" where
  "check_territry_owner acc name =
     bindM (getM (\<lambda>s. Territory s (acc, name))) (\<lambda>t.
     ensureM (t \<noteq> None) (st_err storage_error.NotHaveTerritory))"

definition check_expired :: "account \<Rightarrow> string \<Rightarrow> ('w, 'z) storage_state_scheme \<Rightarrow> bool" where
  "check_expired acc name s = (case Territory s (acc, name) of
     Some t \<Rightarrow> t_state t = territory_st.Expired
   | None \<Rightarrow> True)"

definition add_territory_used_space :: "account \<Rightarrow> string \<Rightarrow> nat \<Rightarrow> (('w, 'z) storage_state_scheme, unit) M" where
  "add_territory_used_space acc name sz =
     bindM (get_territory acc name storage_error.NotHaveTerritory) (\<lambda>t.
     bindM (ensureM (t_state t = territory_st.Active) (st_err storage_error.NotActive)) (\<lambda>_.
     bindM (ensureM (sz \<le> t_remaining_space t) (st_err storage_error.InsufficientStorage)) (\<lambda>_.
     bindM (st_add 128 (t_used_space t) sz) (\<lambda>us.
     bindM (st_sub (t_remaining_space t) sz) (\<lambda>rm.
     put_territory acc name (Some (t\<lparr>t_used_space := us, t_remaining_space := rm\<rparr>)))))))"

definition sub_territory_used_space :: "account \<Rightarrow> string \<Rightarrow> nat \<Rightarrow> (('w, 'z) storage_state_scheme, unit) M" where
  "sub_territory_used_space acc name sz =
     bindM (get_territory acc name storage_error.NotHaveTerritory) (\<lambda>t.
     bindM (st_sub (t_used_space t) sz) (\<lambda>us.
     bindM (st_add 128 (t_remaining_space t) sz) (\<lambda>rm.
     put_territory acc name (Some (t\<lparr>t_used_space := us, t_remaining_space := rm\<rparr>)))))"

definition add_total_idle_space :: "nat \<Rightarrow> (('w, 'z) storage_state_scheme, unit) M" where
  "add_total_idle_space v =
     bindM (getM TotalIdleSpace) (\<lambda>x. bindM (st_add 128 x v) (\<lambda>y. modM (\<lambda>s. s\<lparr>TotalIdleSpace := y\<rparr>)))"

definition sub_total_idle_space :: "nat \<Rightarrow> (('w, 'z) storage_state_scheme, unit) M" where
  "sub_total_idle_space v =
     bindM (getM TotalIdleSpace) (\<lambda>x. bindM (st_sub x v) (\<lambda>y. modM (\<lambda>s. s\<lparr>TotalIdleSpace := y\<rparr>)))"

definition add_total_service_space :: "nat \<Rightarrow> (('w, 'z) storage_state_scheme, unit) M" where
  "add_total_service_space v =
     bindM (getM TotalServiceSpace) (\<lambda>x. bindM (st_add 128 x v) (\<lambda>y. modM (\<lambda>s. s\<lparr>TotalServiceSpace := y\<rparr>)))"

definition sub_total_service_space :: "nat \<Rightarrow> (('w, 'z) storage_state_scheme, unit) M" where
  "sub_total_service_space v =
     bindM (getM TotalServiceSpace) (\<lambda>x. bindM (st_sub x v) (\<lambda>y. modM (\<lambda>s. s\<lparr>TotalServiceSpace := y\<rparr>)))"

definition get_avail_space :: "(('w, 'z) storage_state_scheme, nat) M" where
  "get_avail_space =
     bindM (getM PurchasedSpace) (\<lambda>purchased.
     bindM (getM (\<lambda>s. (TotalIdleSpace s, TotalServiceSpace s))) (\<lambda>(idle, service).
     bindM (st_add 128 idle service) (\<lambda>total_space.
     if total_space < purchased then retM 0 else st_sub total_space purchased)))"

definition lock_user_space :: "account \<Rightarrow> string \<Rightarrow> nat \<Rightarrow> (('w, 'z) storage_state_scheme, unit) M" where
  "lock_user_space acc name needed =
     bindM (get_territory acc name storage_error.NotHaveTerritory) (\<lambda>t.
     bindM (ensureM (t_state t = territory_st.Active) (st_err storage_error.NotActive)) (\<lambda>_.
     bindM (ensureM (needed \<le> t_remaining_space t) (st_err storage_error.InsufficientStorage)) (\<lambda>_.
     bindM (st_add 128 (t_locked_space t) needed) (\<lambda>lk.
     bindM (st_sub (t_remaining_space t) needed) (\<lambda>rm.
     put_territory acc name (Some (t\<lparr>t_locked_space := lk, t_remaining_space := rm\<rparr>)))))))"

definition unlock_user_space :: "account \<Rightarrow> string \<Rightarrow> nat \<Rightarrow> (('w, 'z) storage_state_scheme, unit) M" where
  "unlock_user_space acc name needed =
     bindM (get_territory acc name storage_error.NotHaveTerritory) (\<lambda>t.
     bindM (st_sub (t_locked_space t) needed) (\<lambda>lk.
     bindM (st_add 128 (t_remaining_space t) needed) (\<lambda>rm.
     put_territory acc name (Some (t\<lparr>t_locked_space := lk, t_remaining_space := rm\<rparr>)))))"

definition unlock_and_used_user_space :: "account \<Rightarrow> string \<Rightarrow> nat \<Rightarrow> (('w, 'z) storage_state_scheme, unit) M" where
  "unlock_and_used_user_space acc name needed =
     bindM (get_territory acc name storage_error.NotHaveTerritory) (\<lambda>t.
     bindM (st_sub (t_locked_space t) needed) (\<lambda>lk.
     bindM (st_add 128 (t_used_space t) needed) (\<lambda>us.
     put_territory acc name (Some (t\<lparr>t_locked_space := lk, t_used_space := us\<rparr>)))))"

definition get_user_avail_space :: "account \<Rightarrow> string \<Rightarrow> (('w, 'z) storage_state_scheme, nat) M" where
  "get_user_avail_space acc name =
     bindM (get_territory acc name storage_error.NotHaveTerritory) (\<lambda>t. retM (t_remaining_space t))"

end
