(* ===== verification/Storage_Laws.thy ===== *)
theory Storage_Laws
  imports Storage_Handler
begin

text \<open>
  What is proved of \<open>pallets/storage-handler\<close>. The first sections compute what the operations do, the
  locale \<open>space_account\<close> states the contract of \<open>StorageHandle\<close> for the clients (\<open>file-bank\<close>) and
  is interpreted on the pallet's functions, then the invariant \<open>storage_inv\<close> is carried through
  every call, and the last section holds the properties.
\<close>

declare split_paired_All [simp del] split_paired_Ex [simp del]

section \<open>What the operations do\<close>

lemma st_add_Inr [run_simps]: "st_add w a b s = (Inr c, s') \<longleftrightarrow> c = a + b \<and> a + b < 2 ^ w \<and> s' = s"
  by (auto simp: st_add_def run_simps)

lemma st_sub_Inr [run_simps]: "st_sub a b s = (Inr c, s') \<longleftrightarrow> b \<le> a \<and> c = a - b \<and> s' = s"
  by (auto simp: st_sub_def run_simps)

lemma st_mul_Inr [run_simps]: "st_mul w a b s = (Inr c, s') \<longleftrightarrow> c = a * b \<and> a * b < 2 ^ w \<and> s' = s"
  by (auto simp: st_mul_def run_simps)

lemma st_div_Inr [run_simps]: "st_div a b s = (Inr c, s') \<longleftrightarrow> b \<noteq> 0 \<and> c = a div b \<and> s' = s"
  by (auto simp: st_div_def run_simps)

lemma get_territory_Inr [run_simps]:
  "get_territory acc name e s = (Inr t, s') \<longleftrightarrow> Territory s (acc, name) = Some t \<and> s' = s"
  by (auto simp: get_territory_def run_simps)

lemma put_runs [run_simps]:
  "put_territory acc name t s = (Inr (), s\<lparr>Territory := (Territory s)((acc, name) := t)\<rparr>)"
  "put_consignment token c s = (Inr (), s\<lparr>Consignment := (Consignment s)(token := c)\<rparr>)"
  "put_key token k s = (Inr (), s\<lparr>TerritoryKey := (TerritoryKey s)(token \<mapsto> k)\<rparr>)"
  by (simp_all add: put_territory_def put_consignment_def put_key_def run_simps)

lemma queue_runs [run_simps]:
  "frozen_insert E n token s = (Inr (), s\<lparr>TerritoryFrozen :=
     (TerritoryFrozen s)(n := key_put (storage_hash E) token (TerritoryFrozen s n))\<rparr>)"
  "frozen_remove n token s = (Inr (), s\<lparr>TerritoryFrozen :=
     (TerritoryFrozen s)(n := key_del token (TerritoryFrozen s n))\<rparr>)"
  "expired_insert E n token s = (Inr (), s\<lparr>TerritoryExpired :=
     (TerritoryExpired s)(n := key_put (storage_hash E) token (TerritoryExpired s n))\<rparr>)"
  "expired_remove n token s = (Inr (), s\<lparr>TerritoryExpired :=
     (TerritoryExpired s)(n := key_del token (TerritoryExpired s n))\<rparr>)"
  by (simp_all add: frozen_insert_def frozen_remove_def expired_insert_def expired_remove_def run_simps)

lemma frozen_counter_inc_Inr [run_simps]:
  "frozen_counter_inc E n s = (Inr u, s') \<longleftrightarrow>
     TerritoryFrozenCounter s n + 1 < 2 ^ 32 \<and> TerritoryFrozenCounter s n + 1 < FrozenLimit E \<and>
     s' = s\<lparr>TerritoryFrozenCounter := (TerritoryFrozenCounter s)(n := TerritoryFrozenCounter s n + 1)\<rparr>"
  by (auto simp: frozen_counter_inc_def run_simps split: option.splits if_splits)

lemma frozen_counter_dec_Inr [run_simps]:
  "frozen_counter_dec n s = (Inr u, s') \<longleftrightarrow> 1 \<le> TerritoryFrozenCounter s n \<and>
     s' = s\<lparr>TerritoryFrozenCounter := (TerritoryFrozenCounter s)(n := TerritoryFrozenCounter s n - 1)\<rparr>"
  by (auto simp: frozen_counter_dec_def run_simps split: option.splits)

lemma add_purchased_space_Inr [run_simps]:
  "add_purchased_space v s = (Inr u, s') \<longleftrightarrow>
     TotalIdleSpace s + TotalServiceSpace s < 2 ^ 128 \<and> PurchasedSpace s + v < 2 ^ 128 \<and>
     PurchasedSpace s + v \<le> TotalIdleSpace s + TotalServiceSpace s \<and>
     s' = s\<lparr>PurchasedSpace := PurchasedSpace s + v\<rparr>"
  by (auto simp: add_purchased_space_def run_simps)

lemma sub_purchased_space_Inr [run_simps]:
  "sub_purchased_space v s = (Inr u, s') \<longleftrightarrow>
     v \<le> PurchasedSpace s \<and> s' = s\<lparr>PurchasedSpace := PurchasedSpace s - v\<rparr>"
  by (auto simp: sub_purchased_space_def run_simps)

lemma send_to_sid_Inr [run_simps]:
  "send_to_sid E a v s = (Inr u, s') \<longleftrightarrow>
     (\<exists>w. cur_transfer E (world s) a (SpaceTreasuryId E) v = Inr w \<and> s' = s\<lparr>world := w\<rparr>)"
  by (simp add: send_to_sid_def run_simps)

lemma random_token_Inr: "random_token E a n s = (Inr tok, s') \<Longrightarrow> s' = s"
  by (auto simp: random_token_def run_simps split: option.splits)

lemma day_unit_price_Inr [run_simps]:
  "day_unit_price s = (Inr p, s') \<longleftrightarrow> (\<exists>u. UnitPrice s = Some u \<and> p = u div 30) \<and> s' = s"
  by (auto simp: day_unit_price_def run_simps)

lemma calculate_price_Inr [run_simps]:
  "calculate_price g d s = (Inr p, s') \<longleftrightarrow>
     (\<exists>u. UnitPrice s = Some u \<and> p = g * d * u \<and> g * d < 2 ^ 128 \<and> g * d * u < 2 ^ 128) \<and> s' = s"
  by (auto simp: calculate_price_def run_simps)

text \<open>The remaining days are the blocks left divided by the day, rounded up.\<close>

lemma calculate_remain_day_Inr:
  assumes "0 < OneDay E"
  shows "calculate_remain_day E dl s = (Inr d, s') \<longleftrightarrow>
     block_number s \<le> dl \<and> d = (dl - block_number s + OneDay E - 1) div OneDay E \<and>
     ((dl - block_number s) mod OneDay E \<noteq> 0 \<longrightarrow> d < 2 ^ 32) \<and> s' = s"
  using assms by (auto simp: calculate_remain_day_def run_simps div_up simp del: One_nat_def)

lemma storage_territory_Inr:
  "storage_territory E token user space days tname s = (Inr u, s') \<Longrightarrow>
     OneDay E * days < 2 ^ 32 \<and> block_number s + OneDay E * days < 2 ^ 32 \<and>
     Territory s' = (Territory s)((user, tname) \<mapsto> \<lparr>t_token = token, t_total_space = space,
        t_used_space = 0, t_locked_space = 0, t_remaining_space = space, t_start = block_number s,
        t_deadline = block_number s + OneDay E * days, t_state = territory_st.Active\<rparr>) \<and>
     TerritoryKey s' = (TerritoryKey s)(token \<mapsto> (user, tname)) \<and>
     TerritoryFrozen s' = (TerritoryFrozen s)(block_number s + OneDay E * days :=
        key_put (storage_hash E) token (TerritoryFrozen s (block_number s + OneDay E * days))) \<and>
     TerritoryExpired s' = TerritoryExpired s \<and> Consignment s' = Consignment s \<and>
     PurchasedSpace s' = PurchasedSpace s \<and> TotalIdleSpace s' = TotalIdleSpace s \<and>
     TotalServiceSpace s' = TotalServiceSpace s \<and> UnitPrice s' = UnitPrice s \<and>
     PayOrder s' = PayOrder s \<and> world s' = world s \<and> block_number s' = block_number s"
  by (auto simp: storage_territory_def run_simps)

lemma update_territory_space_Inr:
  "update_territory_space user tname v s = (Inr u, s') \<longleftrightarrow>
     (\<exists>t. Territory s (user, tname) = Some t \<and> t_remaining_space t + v < 2 ^ 128 \<and>
       t_total_space t + v < 2 ^ 128 \<and>
       s' = s\<lparr>Territory := (Territory s)((user, tname) \<mapsto> t\<lparr>t_remaining_space := t_remaining_space t + v,
          t_total_space := t_total_space t + v\<rparr>)\<rparr>)"
  by (auto simp: update_territory_space_def run_simps)

text \<open>Renewal: the new deadline, and that nothing but the schedule and this territory changes.\<close>

definition renewed :: "'w Config \<Rightarrow> nat \<Rightarrow> nat \<Rightarrow> territory_info \<Rightarrow> territory_info" where
  "renewed E now days t =
     (let t = (if t_deadline t < now then t\<lparr>t_start := now, t_deadline := now + OneDay E * days\<rparr>
               else t\<lparr>t_deadline := t_deadline t + OneDay E * days\<rparr>)
      in if now < t_deadline t then t\<lparr>t_state := territory_st.Active\<rparr> else t)"

lemma renewed_same [simp]:
  "t_token (renewed E now days t) = t_token t" "t_total_space (renewed E now days t) = t_total_space t"
  "t_used_space (renewed E now days t) = t_used_space t"
  "t_locked_space (renewed E now days t) = t_locked_space t"
  "t_remaining_space (renewed E now days t) = t_remaining_space t"
  by (auto simp: renewed_def Let_def)

lemma update_territory_days_Inr:
  assumes "update_territory_days E user tname days s = (Inr u, s')"
  shows "\<exists>t. Territory s (user, tname) = Some t \<and>
    Territory s' = (Territory s)((user, tname) \<mapsto> renewed E (block_number s) days t) \<and>
    TerritoryKey s' = TerritoryKey s \<and> PurchasedSpace s' = PurchasedSpace s \<and>
    TotalIdleSpace s' = TotalIdleSpace s \<and> TotalServiceSpace s' = TotalServiceSpace s \<and>
    Consignment s' = Consignment s \<and> world s' = world s \<and> block_number s' = block_number s"
  using assms unfolding update_territory_days_def renewed_def Let_def
  by (clarsimp simp: run_simps) (auto simp: run_simps split: if_splits)

lemma initial_territory_Inr:
  assumes "initial_territory E user tname days s = (Inr u, s')"
  shows "\<exists>t. Territory s (user, tname) = Some t \<and>
    Territory s' = (Territory s)((user, tname) \<mapsto> t\<lparr>t_state := territory_st.Active, t_remaining_space := 0,
       t_locked_space := 0, t_used_space := 0, t_start := block_number s,
       t_deadline := block_number s + OneDay E * days\<rparr>) \<and>
    TerritoryKey s' = TerritoryKey s \<and> PurchasedSpace s' = PurchasedSpace s \<and>
    TotalIdleSpace s' = TotalIdleSpace s \<and> TotalServiceSpace s' = TotalServiceSpace s \<and>
    Consignment s' = Consignment s \<and> world s' = world s \<and> block_number s' = block_number s"
  using assms by (auto simp: initial_territory_def run_simps)

section \<open>The contract of StorageHandle\<close>

text \<open>How a territory's space is divided: used, locked, remaining.\<close>

definition space_of :: "('w, 'z) storage_state_scheme \<Rightarrow> account \<times> string \<Rightarrow> (nat \<times> nat \<times> nat) option" where
  "space_of s k = map_option (\<lambda>t. (t_used_space t, t_locked_space t, t_remaining_space t)) (Territory s k)"

locale space_account =
  fixes space :: "'s \<Rightarrow> account \<times> string \<Rightarrow> (nat \<times> nat \<times> nat) option"
    and lock :: "account \<Rightarrow> string \<Rightarrow> nat \<Rightarrow> 's \<Rightarrow> (dispatch_error + unit) \<times> 's"
    and unlock :: "account \<Rightarrow> string \<Rightarrow> nat \<Rightarrow> 's \<Rightarrow> (dispatch_error + unit) \<times> 's"
    and commit :: "account \<Rightarrow> string \<Rightarrow> nat \<Rightarrow> 's \<Rightarrow> (dispatch_error + unit) \<times> 's"
    and use_now :: "account \<Rightarrow> string \<Rightarrow> nat \<Rightarrow> 's \<Rightarrow> (dispatch_error + unit) \<times> 's"
    and release :: "account \<Rightarrow> string \<Rightarrow> nat \<Rightarrow> 's \<Rightarrow> (dispatch_error + unit) \<times> 's"
  assumes lock_law: "lock a n v s = (Inr (), s') \<Longrightarrow>
      \<exists>u l r. space s (a, n) = Some (u, l, r) \<and> v \<le> r \<and> space s' = (space s)((a, n) \<mapsto> (u, l + v, r - v))"
    and unlock_law: "unlock a n v s = (Inr (), s') \<Longrightarrow>
      \<exists>u l r. space s (a, n) = Some (u, l, r) \<and> v \<le> l \<and> space s' = (space s)((a, n) \<mapsto> (u, l - v, r + v))"
    and commit_law: "commit a n v s = (Inr (), s') \<Longrightarrow>
      \<exists>u l r. space s (a, n) = Some (u, l, r) \<and> v \<le> l \<and> space s' = (space s)((a, n) \<mapsto> (u + v, l - v, r))"
    and use_law: "use_now a n v s = (Inr (), s') \<Longrightarrow>
      \<exists>u l r. space s (a, n) = Some (u, l, r) \<and> v \<le> r \<and> space s' = (space s)((a, n) \<mapsto> (u + v, l, r - v))"
    and release_law: "release a n v s = (Inr (), s') \<Longrightarrow>
      \<exists>u l r. space s (a, n) = Some (u, l, r) \<and> v \<le> u \<and> space s' = (space s)((a, n) \<mapsto> (u - v, l, r + v))"
begin

text \<open>An upload that is given up, one that completes and is deleted, and a direct use that is deleted
  leave every territory as it was.\<close>

lemma lock_unlock: "lock a n v s = (Inr (), t) \<Longrightarrow> unlock a n v t = (Inr (), s') \<Longrightarrow> space s' = space s"
  by (drule lock_law, drule unlock_law) (auto simp: fun_eq_iff)

lemma lock_commit:
  "lock a n v s = (Inr (), t) \<Longrightarrow> commit a n v t = (Inr (), s') \<Longrightarrow>
     \<exists>u l r. space s (a, n) = Some (u, l, r) \<and> v \<le> r \<and> space s' = (space s)((a, n) \<mapsto> (u + v, l, r - v))"
  by (drule lock_law, drule commit_law) (auto simp: fun_eq_iff)

lemma lock_commit_release:
  "lock a n v s = (Inr (), t) \<Longrightarrow> commit a n v t = (Inr (), r) \<Longrightarrow> release a n v r = (Inr (), s')
     \<Longrightarrow> space s' = space s"
  by (drule lock_commit, assumption, drule release_law) (auto simp: fun_eq_iff)

lemma use_release: "use_now a n v s = (Inr (), t) \<Longrightarrow> release a n v t = (Inr (), s') \<Longrightarrow> space s' = space s"
  by (drule use_law, drule release_law) (auto simp: fun_eq_iff)

text \<open>A deal split into fragments that are committed one after the other.\<close>

lemma commit_all:
  "forM vs (commit a n) s = (Inr (), s') \<Longrightarrow> space s (a, n) = Some (u, l, r) \<Longrightarrow>
     sum_list vs \<le> l \<and> space s' = (space s)((a, n) \<mapsto> (u + sum_list vs, l - sum_list vs, r))"
proof (induction vs arbitrary: s u l)
  case Nil
  then show ?case by (auto simp: run_simps)
next
  case (Cons v vs)
  then obtain t where t: "commit a n v s = (Inr (), t)" "forM vs (commit a n) t = (Inr (), s')"
    by (auto simp: run_simps)
  have sp: "v \<le> l" "space t = (space s)((a, n) \<mapsto> (u + v, l - v, r))"
    using commit_law [OF t(1)] Cons.prems(2) by auto
  with Cons.IH [OF t(2), of "u + v" "l - v"] show ?case by (auto simp: add.assoc)
qed

end

lemma space_of_upd:
  "Territory s' = (Territory s)(k \<mapsto> t) \<Longrightarrow>
     space_of s' = (space_of s)(k \<mapsto> (t_used_space t, t_locked_space t, t_remaining_space t))"
  by (auto simp: space_of_def fun_eq_iff)

lemma lock_user_space_Inr:
  "lock_user_space a n v s = (Inr u, s') \<longleftrightarrow>
     (\<exists>t. Territory s (a, n) = Some t \<and> t_state t = territory_st.Active \<and> v \<le> t_remaining_space t \<and>
       t_locked_space t + v < 2 ^ 128 \<and>
       s' = s\<lparr>Territory := (Territory s)((a, n) \<mapsto> t\<lparr>t_locked_space := t_locked_space t + v,
          t_remaining_space := t_remaining_space t - v\<rparr>)\<rparr>)"
  by (auto simp: lock_user_space_def run_simps)

lemma unlock_user_space_Inr:
  "unlock_user_space a n v s = (Inr u, s') \<longleftrightarrow>
     (\<exists>t. Territory s (a, n) = Some t \<and> v \<le> t_locked_space t \<and> t_remaining_space t + v < 2 ^ 128 \<and>
       s' = s\<lparr>Territory := (Territory s)((a, n) \<mapsto> t\<lparr>t_locked_space := t_locked_space t - v,
          t_remaining_space := t_remaining_space t + v\<rparr>)\<rparr>)"
  by (auto simp: unlock_user_space_def run_simps)

lemma unlock_and_used_user_space_Inr:
  "unlock_and_used_user_space a n v s = (Inr u, s') \<longleftrightarrow>
     (\<exists>t. Territory s (a, n) = Some t \<and> v \<le> t_locked_space t \<and> t_used_space t + v < 2 ^ 128 \<and>
       s' = s\<lparr>Territory := (Territory s)((a, n) \<mapsto> t\<lparr>t_locked_space := t_locked_space t - v,
          t_used_space := t_used_space t + v\<rparr>)\<rparr>)"
  by (auto simp: unlock_and_used_user_space_def run_simps)

lemma add_territory_used_space_Inr:
  "add_territory_used_space a n v s = (Inr u, s') \<longleftrightarrow>
     (\<exists>t. Territory s (a, n) = Some t \<and> t_state t = territory_st.Active \<and> v \<le> t_remaining_space t \<and>
       t_used_space t + v < 2 ^ 128 \<and>
       s' = s\<lparr>Territory := (Territory s)((a, n) \<mapsto> t\<lparr>t_used_space := t_used_space t + v,
          t_remaining_space := t_remaining_space t - v\<rparr>)\<rparr>)"
  by (auto simp: add_territory_used_space_def run_simps)

lemma sub_territory_used_space_Inr:
  "sub_territory_used_space a n v s = (Inr u, s') \<longleftrightarrow>
     (\<exists>t. Territory s (a, n) = Some t \<and> v \<le> t_used_space t \<and> t_remaining_space t + v < 2 ^ 128 \<and>
       s' = s\<lparr>Territory := (Territory s)((a, n) \<mapsto> t\<lparr>t_used_space := t_used_space t - v,
          t_remaining_space := t_remaining_space t + v\<rparr>)\<rparr>)"
  by (auto simp: sub_territory_used_space_def run_simps)

lemmas space_op_Inr = lock_user_space_Inr unlock_user_space_Inr unlock_and_used_user_space_Inr
  add_territory_used_space_Inr sub_territory_used_space_Inr

interpretation sp: space_account space_of lock_user_space unlock_user_space unlock_and_used_user_space
  add_territory_used_space sub_territory_used_space
  by unfold_locales (auto simp: space_op_Inr space_of_def fun_eq_iff)

section \<open>The invariant\<close>

text \<open>A territory never hands out more than it has.\<close>

definition space_ok :: "territory_info \<Rightarrow> bool" where
  "space_ok t \<longleftrightarrow> t_used_space t + t_locked_space t + t_remaining_space t \<le> t_total_space t"

text \<open>What a territory takes of the purchased space.\<close>

definition live_space :: "territory_info \<Rightarrow> nat" where
  "live_space t = (if t_state t = territory_st.Expired then 0 else t_total_space t)"

definition live_at :: "('w, 'z) storage_state_scheme \<Rightarrow> account \<times> string \<Rightarrow> nat" where
  "live_at s k = (case Territory s k of None \<Rightarrow> 0 | Some t \<Rightarrow> live_space t)"

text \<open>Every territory is space-correct, \<open>TerritoryKey\<close> leads from its token back to it (so tokens are
  unique), and \<open>PurchasedSpace\<close> covers all live territories.\<close>

definition storage_inv :: "('w, 'z) storage_state_scheme \<Rightarrow> bool" where
  "storage_inv s \<longleftrightarrow>
     (\<forall>k t. Territory s k = Some t \<longrightarrow> space_ok t \<and> TerritoryKey s (t_token t) = Some k) \<and>
     covered 0 (live_at s) (PurchasedSpace s)"

lemma storage_invD:
  assumes "storage_inv s" "Territory s k = Some t"
  shows "space_ok t" "TerritoryKey s (t_token t) = Some k" "live_space t \<le> PurchasedSpace s"
proof -
  show "space_ok t" "TerritoryKey s (t_token t) = Some k"
    using assms by (auto simp: storage_inv_def)
  have "live_at s k \<le> PurchasedSpace s"
    using assms(1) covered_entry [of 0 "live_at s"] by (auto simp: storage_inv_def)
  with assms(2) show "live_space t \<le> PurchasedSpace s" by (simp add: live_at_def)
qed

lemma tokens_unique:
  "storage_inv s \<Longrightarrow> Territory s k = Some t \<Longrightarrow> Territory s k' = Some t' \<Longrightarrow> t_token t = t_token t' \<Longrightarrow> k = k'"
  using storage_invD(2) by (metis option.inject)

text \<open>Three ways in which an operation changes the map of territories: it updates one in place, it
  moves one, it adds one.\<close>

lemma inv_update:
  assumes inv: "storage_inv s" and t: "Territory s k = Some t"
    and s': "Territory s' = (Territory s)(k \<mapsto> t')" "TerritoryKey s' = TerritoryKey s"
    and t': "t_token t' = t_token t" "space_ok t'"
    and sold: "live_space t' + PurchasedSpace s \<le> live_space t + PurchasedSpace s'"
  shows "storage_inv s'"
proof -
  have "covered 0 (live_at s) (PurchasedSpace s)" using inv by (simp add: storage_inv_def)
  then have "covered 0 (live_at s') (PurchasedSpace s')"
    by (rule covered_step [where acc = k]) (use s' t sold in \<open>auto simp: live_at_def\<close>)
  then show ?thesis using inv s' t' t by (auto simp: storage_inv_def)
qed

lemma inv_move:
  assumes inv: "storage_inv s" and t: "Territory s k = Some t"
    and s': "Territory s' = (Territory s)(k := None, k' \<mapsto> t')"
      "TerritoryKey s' = (TerritoryKey s)(t_token t \<mapsto> k')" "PurchasedSpace s' = PurchasedSpace s"
    and t': "t_token t' = t_token t" "space_ok t'" "live_space t' \<le> live_space t"
  shows "storage_inv s'"
proof -
  have "covered 0 (live_at s) (PurchasedSpace s)" using inv by (simp add: storage_inv_def)
  then have "covered (live_space t) ((live_at s)(k := 0)) (PurchasedSpace s)"
    by (rule covered_step [where acc = k]) (use t in \<open>auto simp: live_at_def\<close>)
  then have "covered 0 (live_at s') (PurchasedSpace s')"
    by (rule covered_step [where acc = k']) (use s' t' in \<open>auto simp: live_at_def\<close>)
  moreover have "TerritoryKey s' (t_token x) = Some j \<and> space_ok x" if "Territory s' j = Some x" for j x
  proof (cases "j = k'")
    case True
    with that s' t' show ?thesis by auto
  next
    case False
    with that s'(1) have x: "Territory s j = Some x" "j \<noteq> k" by (auto split: if_splits)
    then have "t_token x \<noteq> t_token t" using tokens_unique [OF inv x(1) t] by blast
    with x s'(2) storage_invD [OF inv x(1)] show ?thesis by simp
  qed
  ultimately show ?thesis by (simp add: storage_inv_def)
qed

lemma inv_add:
  assumes inv: "storage_inv s" and fresh: "Territory s k = None" "TerritoryKey s (t_token t) = None"
    and s': "Territory s' = (Territory s)(k \<mapsto> t)" "TerritoryKey s' = (TerritoryKey s)(t_token t \<mapsto> k)"
      "PurchasedSpace s' = PurchasedSpace s + live_space t"
    and t: "space_ok t"
  shows "storage_inv s'"
proof -
  have "covered 0 (live_at s) (PurchasedSpace s)" using inv by (simp add: storage_inv_def)
  then have "covered 0 (live_at s') (PurchasedSpace s')"
    by (rule covered_step [where acc = k]) (use s' fresh in \<open>auto simp: live_at_def\<close>)
  moreover have "t_token x \<noteq> t_token t" if "Territory s j = Some x" for j x
    using storage_invD(2) [OF inv that] fresh(2) by auto
  ultimately show ?thesis using inv s' t by (auto simp: storage_inv_def)
qed

lemma inv_same:
  assumes "storage_inv s" "Territory s' = Territory s" "TerritoryKey s' = TerritoryKey s"
    "PurchasedSpace s' = PurchasedSpace s"
  shows "storage_inv s'"
proof -
  have "live_at s' = live_at s" using assms(2) by (simp add: live_at_def fun_eq_iff)
  with assms show ?thesis by (simp add: storage_inv_def)
qed

section \<open>Every call keeps the invariant\<close>

lemma storage_inv_update_fields [simp]:
  "storage_inv (s\<lparr>world := w\<rparr>) = storage_inv s" "storage_inv (s\<lparr>Consignment := c\<rparr>) = storage_inv s"
  "storage_inv (s\<lparr>TerritoryFrozen := f\<rparr>) = storage_inv s"
  "storage_inv (s\<lparr>TerritoryExpired := f\<rparr>) = storage_inv s"
  "storage_inv (s\<lparr>UnitPrice := p\<rparr>) = storage_inv s" "storage_inv (s\<lparr>PayOrder := po\<rparr>) = storage_inv s"
  "storage_inv (s\<lparr>TotalServiceSpace := v\<rparr>) = storage_inv s"
  "storage_inv (s\<lparr>TotalIdleSpace := v\<rparr>) = storage_inv s"
  by (auto simp: storage_inv_def live_at_def [abs_def])

text \<open>An operation that only shifts space inside one territory.\<close>

lemma inv_respace:
  assumes "storage_inv s" "Territory s k = Some t" "t_token t' = t_token t" "t_total_space t' = t_total_space t"
    "t_state t' = t_state t"
    "t_used_space t' + t_locked_space t' + t_remaining_space t' = t_used_space t + t_locked_space t + t_remaining_space t"
  shows "storage_inv (s\<lparr>Territory := (Territory s)(k \<mapsto> t')\<rparr>)"
  by (rule inv_update [OF assms(1,2), where t' = t'])
    (use storage_invD(1) [OF assms(1,2)] assms(3-) in \<open>auto simp: space_ok_def live_space_def\<close>)

lemma space_ops_inv:
  "keeps_okM storage_inv (lock_user_space a n v)" "keeps_okM storage_inv (unlock_user_space a n v)"
  "keeps_okM storage_inv (unlock_and_used_user_space a n v)"
  "keeps_okM storage_inv (add_territory_used_space a n v)"
  "keeps_okM storage_inv (sub_territory_used_space a n v)"
  by (auto intro!: keeps_okM_I inv_respace simp: space_op_Inr)

lemma total_space_ops_inv:
  "keeps_okM storage_inv (add_total_idle_space v)" "keeps_okM storage_inv (sub_total_idle_space v)"
  "keeps_okM storage_inv (add_total_service_space v)" "keeps_okM storage_inv (sub_total_service_space v)"
  by (auto intro!: keeps_okM_I simp: add_total_idle_space_def sub_total_idle_space_def
      add_total_service_space_def sub_total_service_space_def run_simps)

lemma mint_territory_inv: "keeps_okM storage_inv (mint_territory E orig g n d)"
proof (rule keeps_okM_I)
  fix s :: "('a, 'b) storage_state_scheme" and u s'
  assume inv: "storage_inv s" and run: "mint_territory E orig g n d s = (Inr u, s')"
  from run obtain a tok t w where old: "Territory s (a, n) = None" "TerritoryKey s tok = None"
    and st: "storage_territory E tok a (G_BYTE * g) d n s = (Inr (), t)"
    and s': "s' = t\<lparr>PurchasedSpace := PurchasedSpace t + G_BYTE * g, world := w\<rparr>"
    by (auto simp: mint_territory_def run_simps dest!: random_token_Inr)
  from storage_territory_Inr [OF st] show "storage_inv s'"
    by (intro inv_add [OF inv old(1), of _ s']) (auto simp: s' old space_ok_def live_space_def)
qed

lemma expanding_territory_inv: "keeps_okM storage_inv (expanding_territory E orig n g)"
proof (rule keeps_okM_I)
  fix s :: "('a, 'b) storage_state_scheme" and u s'
  assume inv: "storage_inv s" and run: "expanding_territory E orig n g s = (Inr u, s')"
  from run obtain a t w where t: "Territory s (a, n) = Some t"
    and s': "s' = s\<lparr>PurchasedSpace := PurchasedSpace s + G_BYTE * g, Territory := (Territory s)((a, n) \<mapsto>
      t\<lparr>t_remaining_space := t_remaining_space t + G_BYTE * g, t_total_space := t_total_space t + G_BYTE * g\<rparr>),
      world := w\<rparr>"
    by (auto simp: expanding_territory_def run_simps update_territory_space_Inr calculate_remain_day_def
        split: if_splits)
  show "storage_inv s'"
    by (rule inv_update [OF inv t, where t' = "t\<lparr>t_remaining_space := t_remaining_space t + G_BYTE * g, t_total_space := t_total_space t + G_BYTE * g\<rparr>"]) (use storage_invD(1) [OF inv t] in \<open>auto simp: s' space_ok_def live_space_def\<close>)
qed

lemma update_territory_days_inv:
  assumes inv: "storage_inv s" and run: "update_territory_days E a n d s = (Inr u, s')"
    and live: "\<forall>t. Territory s (a, n) = Some t \<longrightarrow> t_state t \<noteq> territory_st.Expired"
  shows "storage_inv s'"
proof -
  from update_territory_days_Inr [OF run] obtain t where t: "Territory s (a, n) = Some t"
    and s': "Territory s' = (Territory s)((a, n) \<mapsto> renewed E (block_number s) d t)"
      "TerritoryKey s' = TerritoryKey s" "PurchasedSpace s' = PurchasedSpace s" by blast
  show ?thesis
    by (rule inv_update [OF inv t s'(1,2)])
      (use storage_invD(1) [OF inv t] live t s'(3) in \<open>auto simp: space_ok_def live_space_def\<close>)
qed

lemma renewal_territory_inv: "keeps_okM storage_inv (renewal_territory E orig n d)"
proof (rule keeps_okM_I)
  fix s :: "('a, 'b) storage_state_scheme" and u s'
  assume inv: "storage_inv s" and run: "renewal_territory E orig n d s = (Inr u, s')"
  from run obtain a w t where t: "Territory s (a, n) = Some t" "t_state t \<noteq> territory_st.Expired"
    and up: "update_territory_days E a n d (s\<lparr>world := w\<rparr>) = (Inr u, s')"
    by (auto simp: renewal_territory_def run_simps)
  show "storage_inv s'" by (rule update_territory_days_inv [OF _ up]) (use inv t in auto)
qed

lemma reactivate_territory_inv: "keeps_okM storage_inv (reactivate_territory E orig n d)"
proof (rule keeps_okM_I)
  fix s :: "('a, 'b) storage_state_scheme" and u s'
  assume inv: "storage_inv s" and run: "reactivate_territory E orig n d s = (Inr u, s')"
  from run obtain a w t where t: "Territory s (a, n) = Some t" "t_state t = territory_st.Expired"
    and ini: "initial_territory E a n d (s\<lparr>world := w, PurchasedSpace := PurchasedSpace s + t_total_space t\<rparr>) = (Inr u, s')"
    by (auto simp: reactivate_territory_def run_simps)
  from initial_territory_Inr [OF ini] t show "storage_inv s'"
    by (auto intro!: inv_update [OF inv t(1)] simp: space_ok_def live_space_def)
qed

lemma territory_consignment_inv: "keeps_okM storage_inv (territory_consignment E orig n p)"
proof (rule keeps_okM_I)
  fix s :: "('a, 'b) storage_state_scheme" and u s'
  assume inv: "storage_inv s" and run: "territory_consignment E orig n p s = (Inr u, s')"
  from run obtain a t c where t: "Territory s (a, n) = Some t" "t_state t = territory_st.Active"
    and s': "s' = s\<lparr>Territory := (Territory s)((a, n) \<mapsto> t\<lparr>t_state := territory_st.OnConsignment\<rparr>), Consignment := c\<rparr>"
    by (auto simp: territory_consignment_def run_simps)
  show "storage_inv s'"
    by (rule inv_update [OF inv t(1), where t' = "t\<lparr>t_state := territory_st.OnConsignment\<rparr>"])
      (use storage_invD(1) [OF inv t(1)] t s' in \<open>auto simp: space_ok_def live_space_def\<close>)
qed

lemma cancel_consignment_inv: "keeps_okM storage_inv (cancel_consignment orig n)"
proof (rule keeps_okM_I)
  fix s :: "('a, 'b) storage_state_scheme" and u s'
  assume inv: "storage_inv s" and run: "cancel_consignment orig n s = (Inr u, s')"
  from run obtain a t c where t: "Territory s (a, n) = Some t" "t_state t = territory_st.OnConsignment"
    and s': "s' = s\<lparr>Consignment := c, Territory := (Territory s)((a, n) \<mapsto> t\<lparr>t_state := territory_st.Active\<rparr>)\<rparr>"
    by (auto simp: cancel_consignment_def run_simps)
  show "storage_inv s'"
    by (rule inv_update [OF inv t(1), where t' = "t\<lparr>t_state := territory_st.Active\<rparr>"])
      (use storage_invD(1) [OF inv t(1)] t s' in \<open>auto simp: space_ok_def live_space_def\<close>)
qed

lemma buy_consignment_inv: "keeps_okM storage_inv (buy_consignment E orig tok n)"
  by (rule keeps_okM_I) (auto simp: buy_consignment_def run_simps)

lemma cancel_purchase_action_inv: "keeps_okM storage_inv (cancel_purchase_action E orig tok)"
  by (rule keeps_okM_I) (auto simp: cancel_purchase_action_def run_simps)

lemma exec_consignment_inv: 
  assumes inv: "storage_inv s" and run: "exec_consignment E orig tok n s = (Inr u, s')"
    and tok: "\<forall>k t. TerritoryKey s tok = Some k \<longrightarrow> Territory s k = Some t \<longrightarrow> t_token t = tok"
  shows "storage_inv s'"
proof -
  from run obtain c buyer holder name t w where k: "TerritoryKey s tok = Some (holder, name)"
    and t: "Territory s (holder, name) = Some t" "t_state t = territory_st.OnConsignment"
    and s': "s' = s\<lparr>Territory := (Territory s)((holder, name) := None, (buyer, n) \<mapsto> t\<lparr>t_state := territory_st.Active\<rparr>),
        TerritoryKey := (TerritoryKey s)(tok \<mapsto> (buyer, n)), Consignment := c, world := w\<rparr>"
    by (auto simp: exec_consignment_def run_simps split: prod.splits)
  have "t_token t = tok" using tok k t(1) by blast
  then show ?thesis
    by (intro inv_move [OF inv t(1), where k' = "(buyer, n)" and t' = "t\<lparr>t_state := territory_st.Active\<rparr>"])
      (use storage_invD(1) [OF inv t(1)] t s' in \<open>auto simp: space_ok_def live_space_def\<close>)
qed

lemma territory_grants_inv: "keeps_okM storage_inv (territory_grants orig n r)"
proof (rule keeps_okM_I)
  fix s :: "('a, 'b) storage_state_scheme" and u s'
  assume inv: "storage_inv s" and run: "territory_grants orig n r s = (Inr u, s')"
  from run obtain a t where t: "Territory s (a, n) = Some t"
    and s': "s' = s\<lparr>Territory := (Territory s)((a, n) := None, (r, t_token t) \<mapsto> t),
        TerritoryKey := (TerritoryKey s)(t_token t \<mapsto> (r, t_token t))\<rparr>"
    by (auto simp: territory_grants_def update_key_def run_simps split: if_splits)
  show "storage_inv s'"
    by (rule inv_move [OF inv t]) (use storage_invD(1) [OF inv t] s' in auto)
qed

lemma territory_rename_inv: "keeps_okM storage_inv (territory_rename orig n m)"
proof (rule keeps_okM_I)
  fix s :: "('a, 'b) storage_state_scheme" and u s'
  assume inv: "storage_inv s" and run: "territory_rename orig n m s = (Inr u, s')"
  from run obtain a t k where t: "Territory s (a, n) = Some t" and k: "TerritoryKey s (t_token t) = Some k"
    and s': "s' = s\<lparr>Territory := (Territory s)((a, n) := None, (a, m) \<mapsto> t),
        TerritoryKey := (TerritoryKey s)(t_token t \<mapsto> (fst k, m))\<rparr>"
    by (auto simp: territory_rename_def update_key_def run_simps split: prod.splits)
  have "fst k = a" using storage_invD(2) [OF inv t] k by auto
  then show "storage_inv s'"
    by (intro inv_move [OF inv t, where k' = "(a, m)" and t' = t]) (use storage_invD(1) [OF inv t] s' in auto)
qed

lemma exec_buy_inv:
  assumes inv: "storage_inv s" and run: "exec_buy E a ord s = (Inr u, s')"
  shows "storage_inv s'"
proof -
  let ?k = "(o_target_acc ord, o_territory_name ord)" and ?v = "G_BYTE * o_gib_count ord"
  from run obtain tok t where old: "Territory s ?k = None" "TerritoryKey s tok = None"
    and st: "storage_territory E tok (o_target_acc ord) ?v (o_days ord) (o_territory_name ord) s = (Inr (), t)"
    and s': "s' = t\<lparr>PurchasedSpace := PurchasedSpace t + ?v\<rparr>"
    by (auto simp: exec_buy_def run_simps dest!: random_token_Inr)
  from storage_territory_Inr [OF st] show ?thesis
    by (intro inv_add [OF inv old(1), of _ s']) (auto simp: s' old space_ok_def live_space_def)
qed

lemma exec_expansion_inv:
  assumes inv: "storage_inv s" and run: "exec_expansion E ord s = (Inr u, s')"
  shows "storage_inv s'"
proof -
  let ?k = "(o_target_acc ord, o_territory_name ord)" and ?v = "G_BYTE * o_gib_count ord"
  from run obtain t where t: "Territory s ?k = Some t"
    and s': "s' = s\<lparr>PurchasedSpace := PurchasedSpace s + ?v, Territory := (Territory s)(?k \<mapsto>
      t\<lparr>t_remaining_space := t_remaining_space t + ?v, t_total_space := t_total_space t + ?v\<rparr>)\<rparr>"
    by (auto simp: exec_expansion_def run_simps update_territory_space_Inr calculate_remain_day_def
        split: if_splits)
  show ?thesis
    by (rule inv_update [OF inv t, where t' = "t\<lparr>t_remaining_space := t_remaining_space t + ?v,
          t_total_space := t_total_space t + ?v\<rparr>"])
      (use storage_invD(1) [OF inv t] in \<open>auto simp: s' space_ok_def live_space_def\<close>)
qed

text \<open>An order other than the renewal of an expired territory keeps the invariant.\<close>

definition revives :: "('w, 'z) storage_state_scheme \<Rightarrow> string \<Rightarrow> bool" where
  "revives s oid \<longleftrightarrow> (\<exists>ord t. PayOrder s oid = Some ord \<and> o_order_type ord = Renewal \<and>
     Territory s (o_target_acc ord, o_territory_name ord) = Some t \<and> t_state t = territory_st.Expired)"

lemma exec_order_inv:
  assumes inv: "storage_inv s" and run: "exec_order E orig oid s = (Inr u, s')" and ok: "\<not> revives s oid"
  shows "storage_inv s'"
proof -
  from run obtain a ord t w where o: "PayOrder s oid = Some ord"
    and b: "(case o_order_type ord of Buy \<Rightarrow> exec_buy E a ord | Expansion \<Rightarrow> exec_expansion E ord
            | Renewal \<Rightarrow> exec_renewal E ord) s = (Inr (), t)" and s': "s' = t\<lparr>world := w\<rparr>"
    by (auto simp: exec_order_def run_simps)
  have "storage_inv t"
  proof (cases "o_order_type ord")
    case Renewal
    then have "update_territory_days E (o_target_acc ord) (o_territory_name ord) (o_days ord) s = (Inr (), t)"
      using b by (auto simp: exec_renewal_def run_simps)
    then show ?thesis
      by (rule update_territory_days_inv [OF inv]) (use ok o Renewal in \<open>auto simp: revives_def\<close>)
  qed (use b exec_buy_inv [OF inv] exec_expansion_inv [OF inv] in auto)
  then show ?thesis by (simp add: s')
qed

lemma other_calls_inv:
  "keeps_okM storage_inv (update_price orig)" "keeps_okM storage_inv (clear_service_space orig)"
  "keeps_okM storage_inv (update_expired_exec E orig n m tok)"
  by (auto intro!: keeps_okM_I simp: update_price_def clear_service_space_def update_expired_exec_def run_simps)

lemma order_price_Inr: "order_price E a n ot g d s = (Inr p, s') \<Longrightarrow> s' = s"
  by (auto simp: order_price_def calculate_remain_day_def run_simps split: order_type.splits if_splits)

lemma order_hash_Inr: "order_hash E s = (Inr h, s') \<Longrightarrow> s' = s"
  by (auto simp: order_hash_def run_simps)

lemma create_order_inv: "keeps_okM storage_inv (create_order E orig a n ot g d m)"
  by (rule keeps_okM_I)
    (auto simp: create_order_def run_simps dest!: order_price_Inr order_hash_Inr)

lemma update_user_territory_life_inv: "keeps_okM storage_inv (update_user_territory_life E orig a n dl)"
proof (rule keeps_okM_I)
  fix s :: "('a, 'b) storage_state_scheme" and u s'
  assume inv: "storage_inv s" and run: "update_user_territory_life E orig a n dl s = (Inr u, s')"
  from run obtain t f where t: "Territory s (a, n) = Some t"
    and s': "s' = s\<lparr>TerritoryFrozen := f, Territory := (Territory s)((a, n) \<mapsto> t\<lparr>t_deadline := dl\<rparr>)\<rparr>"
    by (auto simp: update_user_territory_life_def run_simps)
  show "storage_inv s'"
    by (rule inv_update [OF inv t, where t' = "t\<lparr>t_deadline := dl\<rparr>"])
      (use storage_invD(1) [OF inv t] in \<open>auto simp: s' space_ok_def live_space_def\<close>)
qed

section \<open>The daily task\<close>

text \<open>The tokens due to expire at block \<open>n\<close> are listed once, and each still leads to its own, not yet
  expired territory.\<close>

definition due_ok :: "string list \<Rightarrow> ('w, 'z) storage_state_scheme \<Rightarrow> bool" where
  "due_ok toks s \<longleftrightarrow> distinct toks \<and> (\<forall>tok\<in>set toks. \<forall>k t. TerritoryKey s tok = Some k \<longrightarrow>
     Territory s k = Some t \<longrightarrow> t_token t = tok \<and> t_state t \<noteq> territory_st.Expired)"

lemma freeze_territory_cases:
  assumes "freeze_territory E token acc name s = (r, s')"
  shows "(\<exists>c. s' = s\<lparr>Consignment := c\<rparr>) \<or>
    (\<exists>t c. Territory s (acc, name) = Some t \<and> t_deadline t + FrozenDays E < 2 ^ 32 \<and>
       s' = s\<lparr>Consignment := c,
         TerritoryExpired := (TerritoryExpired s)(t_deadline t + FrozenDays E :=
           key_put (storage_hash E) (t_token t) (TerritoryExpired s (t_deadline t + FrozenDays E))),
         Territory := (Territory s)((acc, name) \<mapsto> t\<lparr>t_state := territory_st.Frozen\<rparr>)\<rparr>)"
proof (cases "Territory s (acc, name)")
  case None
  then have "s' = s\<lparr>Consignment := Consignment s\<rparr>"
    using assms by (simp add: freeze_territory_def get_territory_def bindM_def getM_def ok_or_def)
  then show ?thesis by blast
next
  case (Some t)
  let ?c = "if t_state t = territory_st.OnConsignment then (Consignment s)(token := None) else Consignment s"
  have "s' = s\<lparr>Consignment := ?c\<rparr> \<or> t_deadline t + FrozenDays E < 2 ^ 32 \<and> s' = s\<lparr>Consignment := ?c,
         TerritoryExpired := (TerritoryExpired s)(t_deadline t + FrozenDays E :=
           key_put (storage_hash E) (t_token t) (TerritoryExpired s (t_deadline t + FrozenDays E))),
         Territory := (Territory s)((acc, name) \<mapsto> t\<lparr>t_state := territory_st.Frozen\<rparr>)\<rparr>"
    using assms Some
    by (auto simp: freeze_territory_def get_territory_def bindM_def getM_def ok_or_def put_runs retM_def
        st_add_def checked_add_def queue_runs split: if_splits)
  with Some show ?thesis by blast
qed

definition task_inv :: "string list \<Rightarrow> nat \<Rightarrow> ('w, 'z) storage_state_scheme \<Rightarrow> bool" where
  "task_inv toks now s \<longleftrightarrow> storage_inv s \<and> due_ok (TerritoryExpired s now) s \<and>
     (\<forall>tok\<in>set toks. \<forall>k t. TerritoryKey s tok = Some k \<longrightarrow> Territory s k = Some t \<longrightarrow> t_state t \<noteq> territory_st.Expired)"

lemma freeze_write_task_inv:
  assumes inv: "task_inv toks now s" and t: "Territory s k = Some t" "t_state t \<noteq> territory_st.Expired"
    and s': "Territory s' = (Territory s)(k \<mapsto> t\<lparr>t_state := territory_st.Frozen\<rparr>)" "TerritoryKey s' = TerritoryKey s"
      "PurchasedSpace s' = PurchasedSpace s"
      "TerritoryExpired s' = (TerritoryExpired s)(n := key_put h (t_token t) (TerritoryExpired s n))"
  shows "task_inv toks now s'"
proof -
  have si: "storage_inv s" and due: "due_ok (TerritoryExpired s now) s" using inv by (auto simp: task_inv_def)
  have "storage_inv s'"
    by (rule inv_update [OF si t(1) s'(1,2)])
      (use storage_invD(1) [OF si t(1)] t(2) s'(3) in \<open>auto simp: space_ok_def live_space_def\<close>)
  moreover have "due_ok (TerritoryExpired s now) s'"
    using due t s'(1,2) by (auto simp: due_ok_def)
  then have "due_ok (TerritoryExpired s' now) s'"
    using s' storage_invD(2) [OF si t(1)] by (auto simp: due_ok_def)
  ultimately show ?thesis using inv s' by (auto simp: task_inv_def)
qed

lemma freeze_one_task_inv:
  assumes "token \<in> set toks"
  shows "keepsM (task_inv toks now) (freeze_one E token)"
proof (rule keepsM_I)
  fix s :: "('a, 'b) storage_state_scheme" and r s'
  assume inv: "task_inv toks now s" and run: "freeze_one E token s = (r, s')"
  show "task_inv toks now s'"
  proof (cases "TerritoryKey s token")
    case None
    with run inv show ?thesis by (simp add: freeze_one_def bindM_def getM_def retM_def)
  next
    case (Some k)
    then obtain acc name where k: "TerritoryKey s token = Some (acc, name)" by (cases k) auto
    with run have "freeze_territory E token acc name s = (fst (freeze_territory E token acc name s), s')"
      by (auto simp: freeze_one_def bindM_def getM_def retM_def attemptM_def split: prod.splits)
    from freeze_territory_cases [OF this] show ?thesis
    proof (elim disjE exE conjE)
      fix c assume "s' = s\<lparr>Consignment := c\<rparr>"
      then show ?thesis using inv by (simp add: task_inv_def due_ok_def)
    next
      fix t c
      assume t: "Territory s (acc, name) = Some t" and s': "s' = s\<lparr>Consignment := c,
         TerritoryExpired := (TerritoryExpired s)(t_deadline t + FrozenDays E :=
           key_put (storage_hash E) (t_token t) (TerritoryExpired s (t_deadline t + FrozenDays E))),
         Territory := (Territory s)((acc, name) \<mapsto> t\<lparr>t_state := territory_st.Frozen\<rparr>)\<rparr>"
      have alive: "t_state t \<noteq> territory_st.Expired" using inv assms k t by (auto simp: task_inv_def)
      show ?thesis
        by (rule freeze_write_task_inv [OF inv t alive, where h = "storage_hash E" and n = "t_deadline t + FrozenDays E"])
          (simp_all add: s')
    qed
  qed
qed

text \<open>Expiring one due territory: it always succeeds, since the purchased space covers the territory.\<close>

lemma expire_one_due:
  assumes inv: "storage_inv s" and due: "due_ok (tok # toks) s"
  shows "\<exists>s'. expire_one tok out s = (Inr (out @ (case TerritoryKey s tok of None \<Rightarrow> [] | Some k \<Rightarrow> [k])), s') \<and>
    storage_inv s' \<and> due_ok toks s' \<and> TerritoryKey s' = TerritoryKey s \<and>
    (\<forall>k t. TerritoryKey s tok = Some k \<longrightarrow> Territory s k = Some t \<longrightarrow>
       Territory s' = (Territory s)(k \<mapsto> t\<lparr>t_state := territory_st.Expired\<rparr>)
       \<and> PurchasedSpace s' + t_total_space t = PurchasedSpace s) \<and>
    ((\<forall>k t. TerritoryKey s tok = Some k \<longrightarrow> Territory s k \<noteq> Some t) \<longrightarrow> s' = s)"
proof (cases "TerritoryKey s tok")
  case None
  then have "expire_one tok out s = (Inr out, s)"
    by (simp add: expire_one_def bindM_def getM_def retM_def)
  with None inv due show ?thesis by (auto simp: due_ok_def)
next
  case (Some k)
  then obtain acc name where k: "TerritoryKey s tok = Some (acc, name)" by (cases k) auto
  show ?thesis
  proof (cases "Territory s (acc, name)")
    case None
    with k have "expire_one tok out s = (Inr (out @ [(acc, name)]), s)"
      by (simp add: expire_one_def expire_territory_def get_territory_def bindM_def getM_def retM_def
          attemptM_def ok_or_def)
    with k None inv due show ?thesis by (auto simp: due_ok_def)
  next
    case (Some t)
    define s' where "s' = s\<lparr>PurchasedSpace := PurchasedSpace s - t_total_space t,
      Territory := (Territory s)((acc, name) \<mapsto> t\<lparr>t_state := territory_st.Expired\<rparr>)\<rparr>"
    have tok: "t_token t = tok" "t_state t \<noteq> territory_st.Expired"
      using due k Some by (auto simp: due_ok_def)
    have le: "t_total_space t \<le> PurchasedSpace s"
      using storage_invD(3) [OF inv Some] tok(2) by (simp add: live_space_def)
    with k Some have "expire_one tok out s = (Inr (out @ [(acc, name)]), s')"
      by (simp add: s'_def expire_one_def expire_territory_def get_territory_def bindM_def getM_def retM_def
          attemptM_def ok_or_def sub_purchased_space_def st_sub_def checked_sub_def modM_def put_territory_def)
    moreover have "storage_inv s'"
      by (rule inv_update [OF inv Some, where t' = "t\<lparr>t_state := territory_st.Expired\<rparr>"])
        (use storage_invD(1) [OF inv Some] tok le in \<open>auto simp: s'_def space_ok_def live_space_def\<close>)
    moreover have "TerritoryKey s tok' \<noteq> Some (acc, name)" if "tok' \<in> set toks" for tok'
    proof
      assume "TerritoryKey s tok' = Some (acc, name)"
      with due that Some have "t_token t = tok'" by (simp add: due_ok_def)
      with due that tok(1) show False by (simp add: due_ok_def)
    qed
    then have "due_ok toks s'"
      using due by (simp add: s'_def due_ok_def)
    ultimately show ?thesis
      using k Some le by (intro exI [of _ s']) (simp add: s'_def)
  qed
qed

lemma expire_all_due:
  assumes "storage_inv s" "due_ok toks s"
  shows "\<exists>s'. foldM expire_one toks out s = (Inr (out @ List.map_filter (TerritoryKey s) toks), s') \<and>
    storage_inv s' \<and> TerritoryKey s' = TerritoryKey s \<and>
    (\<forall>k. (\<forall>tok\<in>set toks. TerritoryKey s tok \<noteq> Some k) \<longrightarrow> Territory s' k = Territory s k) \<and>
    (\<forall>tok\<in>set toks. \<forall>k x. TerritoryKey s tok = Some k \<longrightarrow> Territory s k = Some x \<longrightarrow>
       Territory s' k = Some (x\<lparr>t_state := territory_st.Expired\<rparr>))"
  using assms
proof (induction toks arbitrary: s out)
  case Nil
  then show ?case by (auto simp: run_simps map_filter_simps)
next
  case (Cons tok toks)
  let ?out = "out @ (case TerritoryKey s tok of None \<Rightarrow> [] | Some k \<Rightarrow> [k])"
  from expire_one_due [OF Cons.prems, of out] obtain t where
    e1: "expire_one tok out s = (Inr ?out, t)"
    and t: "storage_inv t" "due_ok toks t" and key: "TerritoryKey t = TerritoryKey s"
    and upd: "\<And>k x. TerritoryKey s tok = Some k \<Longrightarrow> Territory s k = Some x \<Longrightarrow>
       Territory t = (Territory s)(k \<mapsto> x\<lparr>t_state := territory_st.Expired\<rparr>)"
    and same: "(\<forall>k x. TerritoryKey s tok = Some k \<longrightarrow> Territory s k \<noteq> Some x) \<longrightarrow> t = s" by blast
  from Cons.IH [OF t, of ?out] obtain s' where
    f: "foldM expire_one toks ?out t = (Inr (?out @ List.map_filter (TerritoryKey t) toks), s')"
    and s': "storage_inv s'" "TerritoryKey s' = TerritoryKey t"
    and frame: "\<And>k. (\<forall>tok\<in>set toks. TerritoryKey t tok \<noteq> Some k) \<Longrightarrow> Territory s' k = Territory t k"
    and fin: "\<And>tok k x. tok \<in> set toks \<Longrightarrow> TerritoryKey t tok = Some k \<Longrightarrow> Territory t k = Some x \<Longrightarrow>
       Territory s' k = Some (x\<lparr>t_state := territory_st.Expired\<rparr>)" by blast
  have list: "?out @ List.map_filter (TerritoryKey t) toks = out @ List.map_filter (TerritoryKey s) (tok # toks)"
    by (simp add: key map_filter_simps split: option.split)
  have run: "foldM expire_one (tok # toks) out s = (Inr (out @ List.map_filter (TerritoryKey s) (tok # toks)), s')"
    using bindM_eval_Inr [of "expire_one tok out" s ?out t "foldM expire_one toks"] e1 f list by simp
  have fresh: "TerritoryKey t tok' \<noteq> Some k" if "tok' \<in> set toks" "Territory t k = Some y"
    "t_state y = territory_st.Expired" for tok' k y
    using t(2) that by (auto simp: due_ok_def)
  have keep: "Territory t k = Territory s k" if "TerritoryKey s tok \<noteq> Some k" for k
  proof (cases "\<exists>k' x. TerritoryKey s tok = Some k' \<and> Territory s k' = Some x")
    case True
    then show ?thesis using upd that by auto
  next
    case False
    then show ?thesis using same by blast
  qed
  have head: "Territory s' k = Some (x\<lparr>t_state := territory_st.Expired\<rparr>)"
    if "TerritoryKey s tok = Some k" "Territory s k = Some x" for k x
  proof -
    have "Territory t k = Some (x\<lparr>t_state := territory_st.Expired\<rparr>)" using upd [OF that] by simp
    moreover from fresh [OF _ this] have "Territory s' k = Territory t k" by (intro frame) simp
    ultimately show ?thesis by simp
  qed
  have rest: "Territory s' k = Some (x\<lparr>t_state := territory_st.Expired\<rparr>)"
    if "tok' \<in> set toks" "TerritoryKey s tok' = Some k" "Territory s k = Some x" for tok' k x
  proof (cases "TerritoryKey s tok = Some k")
    case True
    then show ?thesis using head that(3) by blast
  next
    case False
    with keep that fin [of tok' k x] key show ?thesis by simp
  qed
  show ?case
  proof (intro exI [of _ s'] conjI run s'(1))
    show "TerritoryKey s' = TerritoryKey s" using s'(2) key by simp
    show "\<forall>k. (\<forall>tok\<in>set (tok # toks). TerritoryKey s tok \<noteq> Some k) \<longrightarrow> Territory s' k = Territory s k"
      using frame keep key by simp
    show "\<forall>tok\<in>set (tok # toks). \<forall>k x. TerritoryKey s tok = Some k \<longrightarrow> Territory s k = Some x \<longrightarrow>
       Territory s' k = Some (x\<lparr>t_state := territory_st.Expired\<rparr>)"
      using head rest by auto
  qed
qed

text \<open>The freezing loop never fails, keeps the key map, and keeps every territory but for its state.\<close>

lemma freeze_one_total: "\<exists>s'. freeze_one E tok s = (Inr (), s')"
  by (auto simp: freeze_one_def bindM_def getM_def retM_def attemptM_def split: option.split prod.split)

lemma freeze_all_total: "\<exists>s'. forM toks (freeze_one E) s = (Inr (), s')"
proof (induction toks arbitrary: s)
  case Nil
  then show ?case by (simp add: run_simps)
next
  case (Cons tok toks)
  obtain t where "freeze_one E tok s = (Inr (), t)" using freeze_one_total by blast
  with Cons.IH [of t] show ?case by (simp add: bindM_def)
qed

definition frozen_from :: "nat \<Rightarrow> ('w, 'z) storage_state_scheme \<Rightarrow> ('w, 'z) storage_state_scheme \<Rightarrow> bool" where
  "frozen_from now s s' \<longleftrightarrow> TerritoryKey s' = TerritoryKey s \<and>
     (\<forall>k x. Territory s k = Some x \<longrightarrow> (\<exists>st. Territory s' k = Some (x\<lparr>t_state := st\<rparr>))) \<and>
     set (TerritoryExpired s now) \<subseteq> set (TerritoryExpired s' now)"

lemma frozen_from_refl: "frozen_from now s s"
  unfolding frozen_from_def by (metis territory_info.surjective territory_info.update_convs(8) subset_refl)

lemma frozen_from_trans:
  assumes "frozen_from now s t" "frozen_from now t s'"
  shows "frozen_from now s s'"
proof -
  have "\<exists>st. Territory s' k = Some (x\<lparr>t_state := st\<rparr>)" if tr: "Territory s k = Some x" for k x
  proof -
    obtain st where "Territory t k = Some (x\<lparr>t_state := st\<rparr>)"
      using assms(1) tr unfolding frozen_from_def by blast
    then obtain st' where "Territory s' k = Some (x\<lparr>t_state := st\<rparr>\<lparr>t_state := st'\<rparr>)"
      using assms(2) unfolding frozen_from_def by blast
    then show ?thesis by auto
  qed
  with assms show ?thesis by (auto simp: frozen_from_def)
qed

lemma freeze_one_from: "frozen_from now s (snd (freeze_one E token s))"
proof (cases "TerritoryKey s token")
  case None
  then show ?thesis by (simp add: freeze_one_def bindM_def getM_def retM_def frozen_from_refl)
next
  case (Some k)
  then obtain acc name where k: "TerritoryKey s token = Some (acc, name)" by (cases k) auto
  define s' where "s' = snd (freeze_territory E token acc name s)"
  have s': "snd (freeze_one E token s) = s'" using k
    by (auto simp: s'_def freeze_one_def bindM_def getM_def retM_def attemptM_def split: prod.splits)
  have "freeze_territory E token acc name s = (fst (freeze_territory E token acc name s), s')"
    by (simp add: s'_def)
  from freeze_territory_cases [OF this] show ?thesis
    unfolding s'
  proof (elim disjE exE conjE)
    fix c assume "s' = s\<lparr>Consignment := c\<rparr>"
    then show "frozen_from now s s'" using frozen_from_refl [of now s] by (simp add: frozen_from_def)
  next
    fix t c
    assume t: "Territory s (acc, name) = Some t" and eq: "s' = s\<lparr>Consignment := c,
       TerritoryExpired := (TerritoryExpired s)(t_deadline t + FrozenDays E :=
         key_put (storage_hash E) (t_token t) (TerritoryExpired s (t_deadline t + FrozenDays E))),
       Territory := (Territory s)((acc, name) \<mapsto> t\<lparr>t_state := territory_st.Frozen\<rparr>)\<rparr>"
    have "\<exists>st. Territory s' k = Some (x\<lparr>t_state := st\<rparr>)" if "Territory s k = Some x" for k x
      using frozen_from_refl [of now s] that t eq by (cases "k = (acc, name)") (auto simp: frozen_from_def)
    then show "frozen_from now s s'" using eq by (auto simp: frozen_from_def)
  qed
qed

lemma freeze_all_from: "frozen_from now s (snd (forM toks (freeze_one E) s))"
proof (induction toks arbitrary: s)
  case Nil
  then show ?case by (simp add: run_simps frozen_from_refl)
next
  case (Cons tok toks)
  obtain t where t: "freeze_one E tok s = (Inr (), t)" using freeze_one_total by blast
  then have "frozen_from now s t" using freeze_one_from [of now s E tok] by simp
  with Cons.IH [of t] t show ?case by (auto simp: bindM_def intro: frozen_from_trans)
qed

text \<open>The whole task, under the schedule condition of the current block.\<close>

definition schedule_ok :: "('w, 'z) storage_state_scheme \<Rightarrow> bool" where
  "schedule_ok s \<longleftrightarrow> task_inv (TerritoryFrozen s (block_number s)) (block_number s) s"

lemma frozen_task_run:
  assumes "schedule_ok s"
  obtains t out s' where "forM (TerritoryFrozen s (block_number s)) (freeze_one E) s = (Inr (), t)"
    "task_inv (TerritoryFrozen s (block_number s)) (block_number s) t" "frozen_from (block_number s) s t"
    "frozen_task E s = (Inr (List.map_filter (TerritoryKey s) (TerritoryExpired t (block_number s))), s')"
    "storage_inv s'"
    "\<forall>tok\<in>set (TerritoryExpired t (block_number s)). \<forall>k x. TerritoryKey s tok = Some k \<longrightarrow>
       Territory t k = Some x \<longrightarrow> Territory s' k = Some (x\<lparr>t_state := territory_st.Expired\<rparr>)"
proof -
  let ?n = "block_number s" and ?F = "TerritoryFrozen s (block_number s)"
  obtain t where t: "forM ?F (freeze_one E) s = (Inr (), t)" using freeze_all_total by blast
  have "keepsM (task_inv ?F ?n) (forM ?F (freeze_one E))"
    by (rule keepsM_forM) (rule freeze_one_task_inv)
  then have ti: "task_inv ?F ?n t" using assms t unfolding schedule_ok_def by (rule keepsM_D)
  have ff: "frozen_from ?n s t" using freeze_all_from [of ?n s ?F E] t by simp
  from ti have "storage_inv t" "due_ok (TerritoryExpired t ?n) t" by (auto simp: task_inv_def)
  from expire_all_due [OF this, of "[]"] obtain s' where
    s': "foldM expire_one (TerritoryExpired t ?n) [] t = (Inr (List.map_filter (TerritoryKey t) (TerritoryExpired t ?n)), s')"
      "storage_inv s'" "\<forall>tok\<in>set (TerritoryExpired t ?n). \<forall>k x. TerritoryKey t tok = Some k \<longrightarrow>
       Territory t k = Some x \<longrightarrow> Territory s' k = Some (x\<lparr>t_state := territory_st.Expired\<rparr>)" by auto
  have key: "TerritoryKey t = TerritoryKey s" using ff by (simp add: frozen_from_def)
  have "frozen_task E s = (Inr (List.map_filter (TerritoryKey s) (TerritoryExpired t ?n)), s')"
    using t s'(1) key by (simp add: frozen_task_def bindM_def getM_def)
  with t ti ff s' key show thesis by (intro that) auto
qed

end
