(* ===== verification/Storage_Properties.thy ===== *)
theory Storage_Properties
  imports Storage_Laws
begin

text \<open>
  The properties of \<open>pallets/storage-handler\<close>: the invariant over every run of the pallet, the
  exact effect of buying space, of a consignment sale and of the daily task, the round trips, and
  what the code does against its intention (reactivated territories without space, orders priced
  thirty times a direct purchase, territories that never end, overwritten territories, locked
  buyers' funds).
\<close>

declare split_paired_All [simp del] split_paired_Ex [simp del]

definition storage_example :: "ledger storage_state" where
  "storage_example = \<lparr>world = ledger_of [(3, 10), (8, 10 ^ 22), (9, 10 ^ 22)], block_number = 100,
     CurrencyReward = 0, EraReward = 0, ReserveReward = 0, RoundReward = Map.empty,
     Reservoir = \<lparr>rv_free_balance = 0, rv_borrow_balance = 0, rv_store_balance = 0\<rparr>,
     BorrowList = Map.empty, UserPassbook = (\<lambda>_. \<lparr>uh_free = 0, uh_staking = 0\<rparr>),
     Events = Map.empty, EventExpiredRecords = (\<lambda>_. []),
     TerritoryKey = [''tok1'' \<mapsto> (9, ''home'')],
     Territory = [(9, ''home'') \<mapsto> \<lparr>t_token = ''tok1'', t_total_space = 10 * G_BYTE, t_used_space = 0,
        t_locked_space = 0, t_remaining_space = 10 * G_BYTE, t_start = 0, t_deadline = 432000,
        t_state = territory_st.Active\<rparr>],
     Consignment = Map.empty, TerritoryFrozen = (\<lambda>_. [])(432000 := [''tok1'']),
     TerritoryFrozenCounter = (\<lambda>_. 0)(432000 := 1), TerritoryExpired = (\<lambda>_. []),
     UnitPrice = Some (30 * 10 ^ 18), TotalIdleSpace = 100 * G_BYTE, TotalServiceSpace = 20 * G_BYTE,
     PurchasedSpace = 10 * G_BYTE, PayOrder = Map.empty\<rparr>"

abbreviation home :: territory_info where
  "home \<equiv> \<lparr>t_token = ''tok1'', t_total_space = 10 * G_BYTE, t_used_space = 0,
        t_locked_space = 0, t_remaining_space = 10 * G_BYTE, t_start = 0, t_deadline = 432000,
        t_state = territory_st.Active\<rparr>"

lemma storage_example_sel [simp]:
  "world storage_example = ledger_of [(3, 10), (8, 10 ^ 22), (9, 10 ^ 22)]" "block_number storage_example = 100"
  "TerritoryKey storage_example = [''tok1'' \<mapsto> (9, ''home'')]" "Territory storage_example = [(9, ''home'') \<mapsto> home]"
  "Consignment storage_example = Map.empty" "PurchasedSpace storage_example = 10 * G_BYTE"
  "TerritoryFrozen storage_example = (\<lambda>_. [])(432000 := [''tok1''])"
  "TerritoryFrozenCounter storage_example = (\<lambda>_. 0)(432000 := 1)"
  "TerritoryExpired storage_example = (\<lambda>_. [])" "UnitPrice storage_example = Some (30 * 10 ^ 18)"
  "TotalIdleSpace storage_example = 100 * G_BYTE" "TotalServiceSpace storage_example = 20 * G_BYTE"
  "PayOrder storage_example = Map.empty"
  by (simp_all add: storage_example_def)

lemma storage_example_inv: "storage_inv storage_example"
proof -
  have "covered 0 (live_at storage_example) (10 * G_BYTE)"
    by (rule covered_point [of "(9, ''home'')"]) (auto simp: live_at_def live_space_def)
  then show ?thesis by (auto simp: storage_inv_def space_ok_def)
qed

section \<open>Every run keeps the invariant\<close>

inductive storage_step :: "'w Config \<Rightarrow> ('w, 'z) storage_state_scheme
    \<Rightarrow> ('w, 'z) storage_state_scheme \<Rightarrow> bool" for E where
  "mint_territory E orig g n d s = (Inr (), s') \<Longrightarrow> storage_step E s s'"
| "expanding_territory E orig n g s = (Inr (), s') \<Longrightarrow> storage_step E s s'"
| "renewal_territory E orig n d s = (Inr (), s') \<Longrightarrow> storage_step E s s'"
| "reactivate_territory E orig n d s = (Inr (), s') \<Longrightarrow> storage_step E s s'"
| "territory_consignment E orig n p s = (Inr (), s') \<Longrightarrow> storage_step E s s'"
| "buy_consignment E orig tok n s = (Inr (), s') \<Longrightarrow> storage_step E s s'"
| "exec_consignment E orig tok n s = (Inr (), s') \<Longrightarrow>
     \<forall>k t. TerritoryKey s tok = Some k \<longrightarrow> Territory s k = Some t \<longrightarrow> t_token t = tok \<Longrightarrow> storage_step E s s'"
| "cancel_consignment orig n s = (Inr (), s') \<Longrightarrow> storage_step E s s'"
| "cancel_purchase_action E orig tok s = (Inr (), s') \<Longrightarrow> storage_step E s s'"
| "territory_grants orig n r s = (Inr (), s') \<Longrightarrow> storage_step E s s'"
| "territory_rename orig n m s = (Inr (), s') \<Longrightarrow> storage_step E s s'"
| "create_order E orig a n ot g d m s = (Inr (), s') \<Longrightarrow> storage_step E s s'"
| "exec_order E orig oid s = (Inr (), s') \<Longrightarrow> \<not> revives s oid \<Longrightarrow> storage_step E s s'"
| "update_price orig s = (Inr (), s') \<Longrightarrow> storage_step E s s'"
| "clear_service_space orig s = (Inr (), s') \<Longrightarrow> storage_step E s s'"
| "update_user_territory_life E orig a n dl s = (Inr (), s') \<Longrightarrow> storage_step E s s'"
| "update_expired_exec E orig i j tok s = (Inr (), s') \<Longrightarrow> storage_step E s s'"
| "lock_user_space a n v s = (Inr (), s') \<Longrightarrow> storage_step E s s'"
| "unlock_user_space a n v s = (Inr (), s') \<Longrightarrow> storage_step E s s'"
| "unlock_and_used_user_space a n v s = (Inr (), s') \<Longrightarrow> storage_step E s s'"
| "add_territory_used_space a n v s = (Inr (), s') \<Longrightarrow> storage_step E s s'"
| "sub_territory_used_space a n v s = (Inr (), s') \<Longrightarrow> storage_step E s s'"
| "add_total_idle_space v s = (Inr (), s') \<Longrightarrow> storage_step E s s'"
| "sub_total_idle_space v s = (Inr (), s') \<Longrightarrow> storage_step E s s'"
| "add_total_service_space v s = (Inr (), s') \<Longrightarrow> storage_step E s s'"
| "sub_total_service_space v s = (Inr (), s') \<Longrightarrow> storage_step E s s'"
| "frozen_task E s = (Inr out, s') \<Longrightarrow> schedule_ok s \<Longrightarrow> storage_step E s s'"
| "Territory s' = Territory s \<Longrightarrow> TerritoryKey s' = TerritoryKey s \<Longrightarrow> PurchasedSpace s' = PurchasedSpace s
     \<Longrightarrow> storage_step E s s'"

lemma frozen_task_inv:
  assumes run: "frozen_task E s = (Inr out, s')" and "schedule_ok s"
  shows "storage_inv s'"
proof -
  obtain out' t where "frozen_task E s = (Inr out', t)" "storage_inv t"
    by (rule frozen_task_run [OF assms(2), of E], rule that)
  with run show ?thesis by simp
qed

lemmas call_invs = mint_territory_inv expanding_territory_inv renewal_territory_inv reactivate_territory_inv
  territory_consignment_inv buy_consignment_inv cancel_consignment_inv cancel_purchase_action_inv
  territory_grants_inv territory_rename_inv create_order_inv other_calls_inv
  update_user_territory_life_inv space_ops_inv total_space_ops_inv

lemma storage_step_inv: "storage_step E s s' \<Longrightarrow> storage_inv s \<Longrightarrow> storage_inv s'"
  by (erule storage_step.cases; hypsubst;
      ((erule call_invs [THEN keeps_okM_D, rotated] exec_consignment_inv [rotated] exec_order_inv [rotated]; assumption)
       | (erule frozen_task_inv, assumption) | (erule inv_same; assumption)))



section \<open>Buying space\<close>

text \<open>C27. Minting a territory: the buyer pays exactly the daily price times gibibytes times days to the
  space treasury, owns an active territory of that many gibibytes, all of it remaining, that runs for
  the days bought, is queued to be frozen at its deadline, and the purchased space grows by the same
  amount and stays within what the miners offer.\<close>

theorem mint_territory_exact:
  assumes law: "transfer_law E" and a: "a \<noteq> SpaceTreasuryId E"
    and run: "mint_territory E (Signed a) g n d s = (Inr (), s')" and price: "UnitPrice s = Some u"
  shows "30 \<le> d \<and> Territory s (a, n) = None \<and>
    (\<exists>tok. TerritoryKey s tok = None \<and> TerritoryKey s' tok = Some (a, n) \<and>
      Territory s' (a, n) = Some \<lparr>t_token = tok, t_total_space = G_BYTE * g, t_used_space = 0,
        t_locked_space = 0, t_remaining_space = G_BYTE * g, t_start = block_number s,
        t_deadline = block_number s + OneDay E * d, t_state = territory_st.Active\<rparr> \<and>
      tok \<in> set (TerritoryFrozen s' (block_number s + OneDay E * d))) \<and>
    PurchasedSpace s' = PurchasedSpace s + G_BYTE * g \<and>
    PurchasedSpace s' \<le> TotalIdleSpace s' + TotalServiceSpace s' \<and>
    cur_free_balance E (world s') a + u div 30 * g * d = cur_free_balance E (world s) a \<and>
    cur_free_balance E (world s') (SpaceTreasuryId E)
      = cur_free_balance E (world s) (SpaceTreasuryId E) + u div 30 * g * d"
proof -
  from run price obtain tok t w where old: "30 \<le> d" "Territory s (a, n) = None" "TerritoryKey s tok = None"
    and st: "storage_territory E tok a (G_BYTE * g) d n s = (Inr (), t)"
    and pu: "PurchasedSpace t + G_BYTE * g \<le> TotalIdleSpace t + TotalServiceSpace t"
    and w: "cur_transfer E (world t) a (SpaceTreasuryId E) (u div 30 * g * d) = Inr w"
    and s': "s' = t\<lparr>PurchasedSpace := PurchasedSpace t + G_BYTE * g, world := w\<rparr>"
    by (auto simp: mint_territory_def run_simps dest!: random_token_Inr)
  note t = storage_territory_Inr [OF st]
  have "cur_free_balance E w a + u div 30 * g * d = cur_free_balance E (world s) a"
    "cur_free_balance E w (SpaceTreasuryId E) = cur_free_balance E (world s) (SpaceTreasuryId E) + u div 30 * g * d"
    using transfer_lawD [OF law w] a t by auto
  with t old pu show ?thesis by (auto simp: s')
qed

lemma zero_token_short: "replicate 32 c \<noteq> ''tok1''"
  by (auto dest: arg_cong [of _ _ length])

theorem mint_territory_exact_witness:
  "\<exists>s'. mint_territory ledger_runtime (Signed 8) 2 ''new'' 30 storage_example = (Inr (), s')
     \<and> PurchasedSpace s' = 12 * G_BYTE \<and> cur_free_balance ledger_runtime (world s') 3 = 60 * 10 ^ 18 + 10"
proof -
  obtain s' where s': "mint_territory ledger_runtime (Signed 8) 2 ''new'' 30 storage_example = (Inr (), s')"
    by (auto simp: mint_territory_def random_token_def storage_territory_def run_simps ledger_simps G_BYTE_def
        zero_token_short)
  have u: "UnitPrice storage_example = Some (30 * 10 ^ 18)" by simp
  have ids: "8 \<noteq> SpaceTreasuryId ledger_runtime" by (simp add: ledger_simps)
  from mint_territory_exact [OF ledger_transfer_law ids s' u] s' show ?thesis
    by (auto simp: ledger_simps)
qed

section \<open>Consignment\<close>

text \<open>C26. Delivery against payment: when a consignment is executed, the buyer's reserved funds go to the
  seller, exactly the price, and the territory passes from the seller to the buyer, active and
  otherwise unchanged, with its token leading to it and the consignment closed.\<close>

theorem exec_consignment_exchange:
  assumes laws: "transfer_law E" "unreserve_law E"
    and run: "exec_consignment E orig tok n s = (Inr (), s')"
    and c: "Consignment s tok = Some c" "c_buyers c = Some b" "c_price c \<le> cur_reserved_balance E (world s) b"
    and h: "TerritoryKey s tok = Some (h, m)" "h \<noteq> b"
  shows "orig = Root \<and> c_locked c \<and> Consignment s' tok = None \<and> TerritoryKey s' tok = Some (b, n) \<and>
    Territory s' (h, m) = None \<and>
    (\<exists>t. Territory s (h, m) = Some t \<and> t_state t = territory_st.OnConsignment \<and>
       Territory s' (b, n) = Some (t\<lparr>t_state := territory_st.Active\<rparr>)) \<and>
    cur_free_balance E (world s') h = cur_free_balance E (world s) h + c_price c \<and>
    cur_free_balance E (world s') b = cur_free_balance E (world s) b \<and>
    cur_reserved_balance E (world s') b + c_price c = cur_reserved_balance E (world s) b"
proof -
  from run c h obtain t w where t: "Territory s (h, m) = Some t" "t_state t = territory_st.OnConsignment"
    "orig = Root" "c_locked c"
    and w: "cur_transfer E (cur_unreserve E (world s) b (c_price c)) b h (c_price c) = Inr w"
    and s': "s' = s\<lparr>Territory := (Territory s)((h, m) := None, (b, n) \<mapsto> t\<lparr>t_state := territory_st.Active\<rparr>),
       TerritoryKey := (TerritoryKey s)(tok \<mapsto> (b, n)), Consignment := (Consignment s)(tok := None), world := w\<rparr>"
    by (auto simp: exec_consignment_def run_simps split: prod.splits)
  have "cur_free_balance E w h = cur_free_balance E (world s) h + c_price c"
    "cur_free_balance E w b = cur_free_balance E (world s) b"
    "cur_reserved_balance E w b + c_price c = cur_reserved_balance E (world s) b"
    using transfer_lawD [OF laws(1) w] h(2) c(3)
    by (auto simp: unreserve_free [OF laws(2)] unreserve_reserved [OF laws(2)])
  with t h s' show ?thesis by auto
qed

theorem exec_consignment_exchange_witness:
  "\<exists>s1 s2 s3. territory_consignment ledger_runtime (Signed 9) ''home'' 500 storage_example = (Inr (), s1)
     \<and> buy_consignment ledger_runtime (Signed 8) ''tok1'' ''bought'' s1 = (Inr (), s2)
     \<and> exec_consignment ledger_runtime Root ''tok1'' ''bought'' s2 = (Inr (), s3)
     \<and> Territory s3 (8, ''bought'') = Some home
     \<and> cur_free_balance ledger_runtime (world s3) 9 = 10 ^ 22 + 500"
proof -
  obtain s1 where s1: "territory_consignment ledger_runtime (Signed 9) ''home'' 500 storage_example = (Inr (), s1)"
    and e1: "s1 = storage_example\<lparr>Territory := [(9, ''home'') \<mapsto> home\<lparr>t_state := territory_st.OnConsignment\<rparr>],
      Consignment := [''tok1'' \<mapsto> \<lparr>c_user = 9, c_price = 500, c_buyers = None, c_exec = None, c_locked = False\<rparr>]\<rparr>"
    by (auto simp: territory_consignment_def run_simps ledger_simps)
  obtain s2 w where s2: "buy_consignment ledger_runtime (Signed 8) ''tok1'' ''bought'' s1 = (Inr (), s2)"
    and e2: "s2 = s1\<lparr>world := w, Consignment := [''tok1'' \<mapsto> \<lparr>c_user = 9, c_price = 500, c_buyers = Some 8,
        c_exec = Some 150, c_locked = True\<rparr>]\<rparr>"
    and bal: "lg_free w 8 = 10 ^ 22 - 500" "lg_free w 9 = 10 ^ 22" "lg_reserved w 8 = 500"
    by (auto simp: buy_consignment_def run_simps e1 ledger_simps)
  obtain s3 where s3: "exec_consignment ledger_runtime Root ''tok1'' ''bought'' s2 = (Inr (), s3)"
    using bal by (auto simp: exec_consignment_def run_simps e2 e1 ledger_simps)
  have c: "Consignment s2 ''tok1'' = Some \<lparr>c_user = 9, c_price = 500, c_buyers = Some 8,
        c_exec = Some 150, c_locked = True\<rparr>" "TerritoryKey s2 ''tok1'' = Some (9, ''home'')"
    by (simp_all add: e2 e1)
  from exec_consignment_exchange [OF ledger_transfer_law ledger_unreserve_law s3 c(1) _ _ c(2)] bal
  show ?thesis using s1 s2 s3 by (auto simp: e2 e1)
qed

text \<open>Putting a territory on consignment and taking it back leaves the state exactly as it was.\<close>

theorem consign_cancel_round_trip:
  assumes "territory_consignment E (Signed a) n p s = (Inr (), t)" "cancel_consignment (Signed a) n t = (Inr (), s')"
  shows "s' = s"
proof -
  from assms(1) obtain x c where x: "Territory s (a, n) = Some x" "t_state x = territory_st.Active"
    "Consignment s (t_token x) = None"
    and t: "t = s\<lparr>Territory := (Territory s)((a, n) \<mapsto> x\<lparr>t_state := territory_st.OnConsignment\<rparr>),
      Consignment := (Consignment s)(t_token x \<mapsto> c)\<rparr>"
    by (auto simp: territory_consignment_def run_simps)
  from assms(2) have "s' = t\<lparr>Consignment := (Consignment t)(t_token x := None),
      Territory := (Territory t)((a, n) \<mapsto> x\<lparr>t_state := territory_st.Active\<rparr>)\<rparr>"
    by (auto simp: cancel_consignment_def run_simps t)
  moreover have "x\<lparr>t_state := territory_st.Active\<rparr> = x" using x(2) by simp
  moreover have "(Consignment s)(t_token x := None) = Consignment s" "(Territory s)((a, n) \<mapsto> x) = Territory s"
    using x by auto
  ultimately show ?thesis by (simp add: t)
qed

theorem consign_cancel_round_trip_witness:
  "\<exists>t s'. territory_consignment ledger_runtime (Signed 9) ''home'' 500 storage_example = (Inr (), t)
     \<and> cancel_consignment (Signed 9) ''home'' t = (Inr (), s') \<and> s' = storage_example"
proof -
  have "\<exists>t s'. territory_consignment ledger_runtime (Signed 9) ''home'' 500 storage_example = (Inr (), t)
     \<and> cancel_consignment (Signed 9) ''home'' t = (Inr (), s')"
    by (simp add: territory_consignment_def cancel_consignment_def run_simps)
  then show ?thesis using consign_cancel_round_trip by blast
qed

text \<open>Buying a consignment and cancelling the purchase restores the consignment, the territories and all
  balances: the buyer's reservation is released in full.\<close>

theorem buy_cancel_round_trip:
  assumes laws: "reserve_law E" "unreserve_law E" "schedule_law E"
    and c: "Consignment s tok = Some c" "c_buyers c = None" "c_exec c = None"
    and buy: "buy_consignment E (Signed b) tok m s = (Inr (), t)"
    and cancel: "cancel_purchase_action E (Signed b) tok t = (Inr (), s')"
  shows "Consignment s' = Consignment s \<and> Territory s' = Territory s \<and> TerritoryKey s' = TerritoryKey s \<and>
    cur_free_balance E (world s') = cur_free_balance E (world s) \<and>
    cur_reserved_balance E (world s') = cur_reserved_balance E (world s)"
proof -
  from buy c obtain w1 w2 w3 x where unl: "\<not> c_locked c"
    and w: "cur_reserve E (world s) b (c_price c) = Inr w1"
      "preimage_bound E w1 (Call_exec_consignment tok m) = Inr w2"
      "sched_named E w2 tok x (Call_exec_consignment tok m) = Inr w3"
    and t: "t = s\<lparr>world := w3, Consignment := (Consignment s)(tok \<mapsto> c\<lparr>c_buyers := Some b,
        c_exec := Some x, c_locked := True\<rparr>)\<rparr>"
    by (auto simp: buy_consignment_def run_simps)
  from cancel obtain w4 where w4: "sched_cancel_named E (cur_unreserve E w3 b (c_price c)) tok = Inr w4"
    and s': "s' = t\<lparr>world := w4, Consignment := (Consignment t)(tok \<mapsto> c\<lparr>c_buyers := None,
        c_exec := None, c_locked := False\<rparr>)\<rparr>"
    by (auto simp: cancel_purchase_action_def run_simps t)
  have c': "c\<lparr>c_buyers := None, c_exec := None, c_locked := False\<rparr> = c" using c unl by simp
  have "(Consignment s)(tok \<mapsto> c) = Consignment s" using c(1) by auto
  then have "Consignment s' = Consignment s" by (simp add: s' t c')
  moreover have "cur_free_balance E w4 = cur_free_balance E (world s)"
    "cur_reserved_balance E w4 = cur_reserved_balance E (world s)"
    using sched_cancel_balances [OF laws(3) w4] sched_balances [OF laws(3) w(3)]
      preimage_balances [OF laws(3) w(2)] reserve_lawD [OF laws(1) w(1)]
    by (auto simp: fun_eq_iff unreserve_lawD [OF laws(2)])
  ultimately show ?thesis by (simp add: s' t)
qed

definition on_sale_example :: "ledger storage_state" where
  "on_sale_example = storage_example\<lparr>Territory := [(9, ''home'') \<mapsto> home\<lparr>t_state := territory_st.OnConsignment\<rparr>],
     Consignment := [''tok1'' \<mapsto> \<lparr>c_user = 9, c_price = 500, c_buyers = None, c_exec = None, c_locked = False\<rparr>]\<rparr>"

theorem buy_cancel_round_trip_witness:
  "\<exists>t s'. buy_consignment ledger_runtime (Signed 8) ''tok1'' ''mine'' on_sale_example = (Inr (), t)
     \<and> cancel_purchase_action ledger_runtime (Signed 8) ''tok1'' t = (Inr (), s')
     \<and> Consignment s' = Consignment on_sale_example \<and> cur_reserved_balance ledger_runtime (world s') 8 = 0"
proof -
  have "\<exists>t s'. buy_consignment ledger_runtime (Signed 8) ''tok1'' ''mine'' on_sale_example = (Inr (), t)
     \<and> cancel_purchase_action ledger_runtime (Signed 8) ''tok1'' t = (Inr (), s')"
    by (simp add: on_sale_example_def buy_consignment_def cancel_purchase_action_def run_simps ledger_simps)
  then obtain t s' where run: "buy_consignment ledger_runtime (Signed 8) ''tok1'' ''mine'' on_sale_example = (Inr (), t)"
    "cancel_purchase_action ledger_runtime (Signed 8) ''tok1'' t = (Inr (), s')" by blast
  have c: "Consignment on_sale_example ''tok1'' = Some \<lparr>c_user = 9, c_price = 500, c_buyers = None,
      c_exec = None, c_locked = False\<rparr>"
    and r: "cur_reserved_balance ledger_runtime (world on_sale_example) 8 = 0"
    by (simp_all add: on_sale_example_def ledger_simps)
  have "Consignment s' = Consignment on_sale_example"
    "cur_reserved_balance ledger_runtime (world s') = cur_reserved_balance ledger_runtime (world on_sale_example)"
    using buy_cancel_round_trip [OF ledger_reserve_law ledger_unreserve_law ledger_schedule_law c _ _ run] by auto
  with run r show ?thesis by auto
qed

section \<open>The daily task\<close>



section \<open>Space accounting of uploads\<close>

text \<open>The life of an upload seen from the territory: locking space and giving the deal up, locking it,
  committing it fragment by fragment and deleting the file later, or using it at once and deleting
  the file, all return the division of every territory's space to what it was.\<close>

theorem upload_space_round_trip:
  assumes "lock_user_space a n (sum_list vs) s = (Inr (), t)"
    and "forM vs (unlock_and_used_user_space a n) t = (Inr (), r)"
    and "sub_territory_used_space a n (sum_list vs) r = (Inr (), s')"
  shows "space_of s' = space_of s"
proof -
  obtain u l x where sp: "space_of s (a, n) = Some (u, l, x)" "sum_list vs \<le> x"
    "space_of t = (space_of s)((a, n) \<mapsto> (u, l + sum_list vs, x - sum_list vs))"
    using sp.lock_law [OF assms(1)] by blast
  then have "space_of r = (space_of s)((a, n) \<mapsto> (u + sum_list vs, l, x - sum_list vs))"
    using sp.commit_all [OF assms(2), of u "l + sum_list vs" "x - sum_list vs"] by simp
  with sp.release_law [OF assms(3)] sp show ?thesis by (auto simp: fun_eq_iff)
qed

theorem upload_space_round_trip_witness:
  "\<exists>t r s'. lock_user_space 9 ''home'' (sum_list [5, 7]) storage_example = (Inr (), t)
     \<and> forM [5, 7] (unlock_and_used_user_space 9 ''home'') t = (Inr (), r)
     \<and> sub_territory_used_space 9 ''home'' (sum_list [5, 7]) r = (Inr (), s')
     \<and> space_of r (9, ''home'') = Some (12, 0, 10 * G_BYTE - 12)
     \<and> space_of s' = space_of storage_example"
proof -
  have "\<exists>t r s'. lock_user_space 9 ''home'' (sum_list [5, 7]) storage_example = (Inr (), t)
     \<and> forM [5, 7] (unlock_and_used_user_space 9 ''home'') t = (Inr (), r)
     \<and> space_of r (9, ''home'') = Some (12, 0, 10 * G_BYTE - 12)
     \<and> sub_territory_used_space 9 ''home'' (sum_list [5, 7]) r = (Inr (), s')"
    by (simp add: run_simps space_op_Inr space_of_def G_BYTE_def)
  then show ?thesis using upload_space_round_trip by blast
qed

section \<open>Deviations\<close>

text \<open>A reactivated territory is active and counted as sold, but has no space left to use: every request
  is refused until the owner buys an expansion.\<close>

lemma reactivated_has_no_space:
  assumes "reactivate_territory E (Signed a) n d s = (Inr (), s')" "0 < v"
  shows "\<exists>t t'. Territory s (a, n) = Some t \<and> Territory s' (a, n) = Some t' \<and>
    t_total_space t' = t_total_space t \<and> PurchasedSpace s' = PurchasedSpace s + t_total_space t \<and>
    t_remaining_space t' = 0 \<and> fst (lock_user_space a n v s') = Inl (st_err storage_error.InsufficientStorage)"
proof -
  from assms(1) obtain w t where t: "Territory s (a, n) = Some t"
    and ini: "initial_territory E a n d (s\<lparr>world := w, PurchasedSpace := PurchasedSpace s + t_total_space t\<rparr>) = (Inr (), s')"
    by (auto simp: reactivate_territory_def run_simps)
  from initial_territory_Inr [OF ini] t assms(2) show ?thesis
    by (auto simp: lock_user_space_def get_territory_def bindM_def getM_def ok_or_def ensureM_def)
qed

text \<open>The unit price is per 30 days. A direct purchase divides it by 30 before it multiplies by days, an
  order does not: an order costs at least thirty times the direct purchase.\<close>

lemma order_costs_thirty_times:
  assumes "create_order E orig a n Buy g d m s = (Inr (), s')" "UnitPrice s = Some u"
  shows "\<exists>h ord. PayOrder s' h = Some ord \<and> o_pay ord = g * d * u \<and> 30 * (u div 30 * g * d) \<le> o_pay ord"
proof -
  from assms obtain h ord where "PayOrder s' = (PayOrder s)(h \<mapsto> ord)" "o_pay ord = g * d * u"
    by (auto simp: create_order_def order_price_def run_simps dest!: order_hash_Inr)
  then have "PayOrder s' h = Some ord" "o_pay ord = g * d * u" by auto
  moreover have "30 * (u div 30 * g * d) = (u div 30 * 30) * (g * d)" by simp
  moreover have "(u div 30 * 30) * (g * d) \<le> u * (g * d)" by (rule mult_le_mono1) simp
  ultimately show ?thesis by (metis mult.commute)
qed

text \<open>Orders have no minimum of days. An order for zero days is free, and the territory it creates is
  queued to be frozen at the block being executed, whose task has already run.\<close>

lemma zero_day_order_is_free_and_unqueued:
  assumes "create_order E orig a n Buy g 0 m s = (Inr (), s1)" "exec_buy E b ord s = (Inr (), s2)"
    and "o_days ord = 0"
  shows "(\<exists>h ord'. PayOrder s1 h = Some ord' \<and> o_pay ord' = 0) \<and>
    (\<exists>t. Territory s2 (o_target_acc ord, o_territory_name ord) = Some t \<and> t_state t = territory_st.Active \<and>
      t_deadline t = block_number s \<and> t_remaining_space t = G_BYTE * o_gib_count ord) \<and>
    (\<forall>i. i \<noteq> block_number s \<longrightarrow> TerritoryFrozen s2 i = TerritoryFrozen s i)"
proof -
  have "\<exists>h ord'. PayOrder s1 h = Some ord' \<and> o_pay ord' = 0"
    using assms(1) by (auto simp: create_order_def order_price_def run_simps dest!: order_hash_Inr)
  moreover obtain tok t where
    st: "storage_territory E tok (o_target_acc ord) (G_BYTE * o_gib_count ord) 0 (o_territory_name ord) s = (Inr (), t)"
    and s2: "s2 = t\<lparr>PurchasedSpace := PurchasedSpace t + G_BYTE * o_gib_count ord\<rparr>"
    using assms(2,3) by (auto simp: exec_buy_def run_simps dest!: random_token_Inr)
  ultimately show ?thesis using storage_territory_Inr [OF st] by (auto simp: s2)
qed

text \<open>Renaming onto the name of another own territory destroys that one: nothing leads to its token any
  more, and its space stays counted as sold.\<close>

lemma rename_destroys_target:
  assumes inv: "storage_inv s" and x: "Territory s (a, n) = Some x" "t_state x = territory_st.Active"
    "t_total_space x = t_remaining_space x" and y: "Territory s (a, m) = Some y" "n \<noteq> m"
  shows "\<exists>s'. territory_rename (Signed a) n m s = (Inr (), s') \<and> PurchasedSpace s' = PurchasedSpace s \<and>
    (\<forall>k t. Territory s' k = Some t \<longrightarrow> t_token t \<noteq> t_token y)"
proof -
  let ?s' = "s\<lparr>Territory := (Territory s)((a, n) := None, (a, m) \<mapsto> x),
      TerritoryKey := (TerritoryKey s)(t_token x \<mapsto> (a, m))\<rparr>"
  have "territory_rename (Signed a) n m s = (Inr (), ?s')"
    using x storage_invD(2) [OF inv x(1)]
    by (auto simp: territory_rename_def update_key_def run_simps split: prod.splits)
  moreover have "t_token t \<noteq> t_token y" if "Territory ?s' k = Some t" for k t
    using that tokens_unique [OF inv _ y(1), of k t] tokens_unique [OF inv x(1) y(1)] y(2)
    by (auto split: if_splits)
  ultimately show ?thesis by (intro exI [of _ ?s']) simp
qed

text \<open>A territory that freezes while its consignment is bought loses the consignment, but the buyer's
  funds stay reserved: neither the execution nor the cancellation can release them.\<close>

lemma frozen_sale_keeps_reservation:
  assumes "Territory s (h, m) = Some t" "t_state t = territory_st.OnConsignment"
    and "freeze_territory E tok h m s = (Inr (), s')"
  shows "world s' = world s \<and> Consignment s' tok = None \<and>
    exec_consignment E Root tok n s' = (Inl (st_err storage_error.NonExistentConsignment), s') \<and>
    cancel_purchase_action E (Signed b) tok s' = (Inl (st_err storage_error.NonExistentConsignment), s')"
proof -
  have "world s' = world s" "Consignment s' tok = None"
    using assms by (auto simp: freeze_territory_def run_simps)
  then show ?thesis
    by (simp add: exec_consignment_def cancel_purchase_action_def transactional_def bindM_def getM_def
        ok_or_def ensure_root_def ensure_signed_def retM_def)
qed

text \<open>A renewal order revives an expired territory without taking its space from the offer.\<close>

lemma renewal_order_revives_unpaid_space:
  assumes "exec_renewal E ord s = (Inr (), s')" "0 < OneDay E" "0 < o_days ord"
    and "Territory s (o_target_acc ord, o_territory_name ord) = Some t" "t_state t = territory_st.Expired"
    and "t_deadline t \<le> block_number s"
  shows "\<exists>t'. Territory s' (o_target_acc ord, o_territory_name ord) = Some t' \<and> t_state t' = territory_st.Active \<and>
    live_space t = 0 \<and> live_space t' = t_total_space t \<and> PurchasedSpace s' = PurchasedSpace s"
proof -
  from assms(1) have "update_territory_days E (o_target_acc ord) (o_territory_name ord) (o_days ord) s = (Inr (), s')"
    by (auto simp: exec_renewal_def run_simps)
  from update_territory_days_Inr [OF this] assms(4)
  have s': "Territory s' (o_target_acc ord, o_territory_name ord) = Some (renewed E (block_number s) (o_days ord) t)"
    "PurchasedSpace s' = PurchasedSpace s" by auto
  have "t_state (renewed E (block_number s) (o_days ord) t) = territory_st.Active"
    using assms(2,3,6) by (auto simp: renewed_def Let_def)
  with s' assms(5) show ?thesis by (auto simp: live_space_def)
qed

text \<open>Orders created in the same block share their identifier: the second replaces the first.\<close>

lemma orders_of_a_block_collide:
  assumes "create_order E orig a n ot g d m s = (Inr (), s1)" "create_order E orig' a' n' ot' g' d' m' s1 = (Inr (), s2)"
  shows "\<exists>h ord. PayOrder s2 = (PayOrder s)(h \<mapsto> ord) \<and> o_target_acc ord = a' \<and> o_territory_name ord = n'"
proof -
  have run: "\<exists>h ord. PayOrder t' = (PayOrder t)(h \<mapsto> ord) \<and> order_hash E t = (Inr h, t) \<and> o_target_acc ord = b \<and>
      o_territory_name ord = k \<and> world t' = world t \<and> block_number t' = block_number t"
    if "create_order E orig b k ot g d m t = (Inr (), t')" for orig b k ot g d m and t t' :: "('a, 'b) storage_state_scheme"
    using that by (auto simp: create_order_def run_simps dest!: order_price_Inr)
      (frule order_hash_Inr, auto)+
  have same: "order_hash E s1 = (Inr h, s1) \<Longrightarrow> order_hash E s = (Inr h', s) \<Longrightarrow> world s1 = world s \<Longrightarrow>
      block_number s1 = block_number s \<Longrightarrow> h = h'" for h h'
    by (auto simp: order_hash_def run_simps)
  from run [OF assms(1)] obtain h ord where 1: "PayOrder s1 = (PayOrder s)(h \<mapsto> ord)" "order_hash E s = (Inr h, s)"
    "world s1 = world s" "block_number s1 = block_number s" by blast
  from run [OF assms(2)] obtain h' ord' where 2: "PayOrder s2 = (PayOrder s1)(h' \<mapsto> ord')"
    "order_hash E s1 = (Inr h', s1)" "o_target_acc ord' = a'" "o_territory_name ord' = n'" by blast
  have "h' = h" using same [OF 2(2) 1(2-4)] .
  with 1 2 show ?thesis by (intro exI [of _ h] exI [of _ ord']) simp
qed

end
