(* ===== verification/Ces_Mq.thy ===== *)
theory Ces_Mq
  imports Runtime_Env "HOL-Library.List_Lexorder" "HOL-Library.Char_ord" "HOL-Library.Product_Lexorder"
begin

text \<open>
  \<open>crates/ces-mq/src/types.rs\<close>, \<open>crates/ces-mq/src/send_queue.rs\<close> and the signing part of
  \<open>crates/ces-types/src/lib.rs\<close>: messages, topics, and the queue in which a trusted worker numbers,
  signs and keeps its messages until the chain has accepted them. The queue is a \<open>BTreeMap\<close> from
  senders to channels, here an association list in key order; the mutex around it makes every
  operation atomic, so operations are functions on the map. Signing is a parameter.
\<close>

section \<open>Origins and topics\<close>

datatype message_origin =
    Pallet string
  | Worker string
  | AccountId account
  | Keyfairy
  | Reserved

text \<open>The derived \<open>Ord\<close>: by variant, then by content.\<close>

fun origin_rank :: "message_origin \<Rightarrow> nat \<times> string \<times> nat" where
  "origin_rank (Pallet n) = (0, n, 0)"
| "origin_rank (Worker k) = (1, k, 0)"
| "origin_rank (AccountId a) = (2, [], a)"
| "origin_rank Keyfairy = (3, [], 0)"
| "origin_rank Reserved = (255, [], 0)"

lemma origin_rank_inj: "origin_rank a = origin_rank b \<Longrightarrow> a = b"
  by (cases a; cases b) auto

instantiation message_origin :: linorder
begin

definition less_eq_message_origin :: "message_origin \<Rightarrow> message_origin \<Rightarrow> bool" where
  "a \<le> b \<longleftrightarrow> origin_rank a \<le> origin_rank b"

definition less_message_origin :: "message_origin \<Rightarrow> message_origin \<Rightarrow> bool" where
  "a < b \<longleftrightarrow> origin_rank a < origin_rank b"

instance
  by standard (auto simp: less_eq_message_origin_def less_message_origin_def intro: origin_rank_inj)

end

definition is_offchain :: "message_origin \<Rightarrow> bool" where
  "is_offchain og = (case og of Worker _ \<Rightarrow> True | Keyfairy \<Rightarrow> True | _ \<Rightarrow> False)"

definition is_pallet :: "message_origin \<Rightarrow> bool" where
  "is_pallet og = (case og of Pallet _ \<Rightarrow> True | _ \<Rightarrow> False)"

definition always_well_formed :: "message_origin \<Rightarrow> bool" where
  "always_well_formed og = (case og of Pallet _ \<Rightarrow> True | Worker _ \<Rightarrow> True | Keyfairy \<Rightarrow> True | _ \<Rightarrow> False)"

definition is_keyfairy :: "message_origin \<Rightarrow> bool" where
  "is_keyfairy og = (og = Keyfairy)"

definition origin_account :: "message_origin \<Rightarrow> account option" where
  "origin_account og = (case og of AccountId a \<Rightarrow> Some a | _ \<Rightarrow> None)"

definition RESERVED_BYTES :: string where
  "RESERVED_BYTES = ''~!@#$%&*_+-=|<>?,./;:'' @ [CHR 0x27]"

definition topic_is_valid :: "string \<Rightarrow> bool" where
  "topic_is_valid path = (case path of [] \<Rightarrow> False | c # _ \<Rightarrow> c \<notin> set RESERVED_BYTES)"

definition topic_is_offchain :: "string \<Rightarrow> bool" where
  "topic_is_offchain path = (topic_is_valid path \<and> hd path \<noteq> CHR ''^'')"

section \<open>Messages and signatures\<close>

record message =
  m_sender :: message_origin
  m_destination :: string
  m_payload :: string

record signed_message =
  sm_message :: message
  sm_sequence :: nat
  sm_signature :: string

text \<open>What the derived \<open>Encode\<close> writes: the variant index, then the fields.\<close>

fun scale_origin :: "message_origin \<Rightarrow> scale" where
  "scale_origin (Pallet n) = S_Seq [S_Num 0, S_Bytes n]"
| "scale_origin (Worker k) = S_Seq [S_Num 1, S_Bytes k]"
| "scale_origin (AccountId a) = S_Seq [S_Num 2, S_Num a]"
| "scale_origin Keyfairy = S_Seq [S_Num 3]"
| "scale_origin Reserved = S_Seq [S_Num 255]"

definition scale_message :: "message \<Rightarrow> scale" where
  "scale_message m = S_Seq [scale_origin (m_sender m), S_Bytes (m_destination m), S_Bytes (m_payload m)]"

definition message_raw_data :: "'w Config \<Rightarrow> message \<Rightarrow> nat \<Rightarrow> string" where
  "message_raw_data E m sequence = encode E (S_Seq [scale_message m, S_Num sequence])"

definition data_be_signed :: "'w Config \<Rightarrow> signed_message \<Rightarrow> string" where
  "data_be_signed E sm = message_raw_data E (sm_message sm) (sm_sequence sm)"

datatype signed_content_type = MqMessage | RpcResponse | EndpointInfo | MasterKeyApply | MasterKeyStore

definition content_tag :: "signed_content_type \<Rightarrow> char" where
  "content_tag t = (case t of MqMessage \<Rightarrow> CHR 0x00 | RpcResponse \<Rightarrow> CHR 0x01 | EndpointInfo \<Rightarrow> CHR 0x02
     | MasterKeyApply \<Rightarrow> CHR 0x03 | MasterKeyStore \<Rightarrow> CHR 0x04)"

definition wrap_content_to_sign :: "string \<Rightarrow> signed_content_type \<Rightarrow> string" where
  "wrap_content_to_sign data sigtype = (if sigtype = MqMessage then data
     else CHR 0xFF # content_tag sigtype # data)"

record signing_message =
  sg_message :: message
  sg_signer :: "string \<Rightarrow> string"

definition sign_message :: "'w Config \<Rightarrow> signing_message \<Rightarrow> nat \<Rightarrow> signed_message" where
  "sign_message E sg sequence =
     \<lparr>sm_message = sg_message sg, sm_sequence = sequence,
      sm_signature = sg_signer sg (message_raw_data E (sg_message sg) sequence)\<rparr>"

section \<open>The send queue\<close>

record channel =
  ch_sequence :: nat
  ch_messages :: "signed_message list"
  ch_dummy :: bool

definition channel_default :: channel where
  "channel_default = \<lparr>ch_sequence = 0, ch_messages = [], ch_dummy = False\<rparr>"

type_synonym send_queue = "(message_origin \<times> channel) list"

definition channel_entry :: "send_queue \<Rightarrow> message_origin \<Rightarrow> channel" where
  "channel_entry q sender = (case map_of q sender of None \<Rightarrow> channel_default | Some c \<Rightarrow> c)"

definition channel_put :: "message_origin \<Rightarrow> channel \<Rightarrow> send_queue \<Rightarrow> send_queue" where
  "channel_put sender c q = assoc_put id sender c q"

definition enqueue_message :: "message_origin \<Rightarrow> (nat \<Rightarrow> signed_message) \<Rightarrow> send_queue \<Rightarrow> send_queue" where
  "enqueue_message sender constructor q =
     (let entry = channel_entry q sender;
          entry = (if \<not> ch_dummy entry
                   then entry\<lparr>ch_messages := ch_messages entry @ [constructor (ch_sequence entry)]\<rparr> else entry)
      in channel_put sender (entry\<lparr>ch_sequence := wrapping_add 64 (ch_sequence entry) 1\<rparr>) q)"

definition set_dummy_mode :: "message_origin \<Rightarrow> bool \<Rightarrow> send_queue \<Rightarrow> send_queue" where
  "set_dummy_mode sender dummy q = channel_put sender ((channel_entry q sender)\<lparr>ch_dummy := dummy\<rparr>) q"

definition all_messages :: "send_queue \<Rightarrow> signed_message list" where
  "all_messages q = concat (map (\<lambda>x. ch_messages (snd x)) q)"

definition all_messages_grouped :: "send_queue \<Rightarrow> (message_origin \<times> signed_message list) list" where
  "all_messages_grouped q = map (\<lambda>x. (fst x, ch_messages (snd x))) (filter (\<lambda>x. ch_messages (snd x) \<noteq> []) q)"

definition messages_of :: "message_origin \<Rightarrow> send_queue \<Rightarrow> signed_message list" where
  "messages_of sender q = (case map_of q sender of None \<Rightarrow> [] | Some c \<Rightarrow> ch_messages c)"

definition count_messages :: "send_queue \<Rightarrow> nat" where
  "count_messages q = sum_list (map (\<lambda>x. length (ch_messages (snd x))) q)"

definition purge :: "(message_origin \<Rightarrow> nat) \<Rightarrow> send_queue \<Rightarrow> send_queue" where
  "purge next_sequence_for q = map (\<lambda>x. (fst x,
     (snd x)\<lparr>ch_messages := filter (\<lambda>msg. next_sequence_for (fst x) \<le> sm_sequence msg) (ch_messages (snd x))\<rparr>)) q"

definition dump_state :: "message_origin \<Rightarrow> send_queue \<Rightarrow> channel option" where
  "dump_state sender q = map_of q sender"

definition load_state :: "message_origin \<Rightarrow> channel \<Rightarrow> send_queue \<Rightarrow> send_queue" where
  "load_state sender state q = channel_put sender state q"

text \<open>The sending end of one sender.\<close>

record message_channel =
  mc_sender :: message_origin
  mc_signer :: "string \<Rightarrow> string"

definition prepare_with_data :: "message_channel \<Rightarrow> string \<Rightarrow> string \<Rightarrow> signing_message" where
  "prepare_with_data mc payload dest =
     \<lparr>sg_message = \<lparr>m_sender = mc_sender mc, m_destination = dest, m_payload = payload\<rparr>,
      sg_signer = mc_signer mc\<rparr>"

definition push_data :: "'w Config \<Rightarrow> message_channel \<Rightarrow> string \<Rightarrow> string \<Rightarrow> send_queue \<Rightarrow> send_queue" where
  "push_data E mc payload dest q =
     (let signing = prepare_with_data mc payload dest
      in enqueue_message (mc_sender mc) (\<lambda>sequence. sign_message E signing sequence) q)"

definition set_dummy :: "message_channel \<Rightarrow> bool \<Rightarrow> send_queue \<Rightarrow> send_queue" where
  "set_dummy mc dummy q = set_dummy_mode (mc_sender mc) dummy q"

definition set_signer :: "(string \<Rightarrow> string) \<Rightarrow> message_channel \<Rightarrow> message_channel" where
  "set_signer signer mc = mc\<lparr>mc_signer := signer\<rparr>"

section \<open>Laws of the send queue\<close>

lemma channel_entry_put: "channel_entry (channel_put a c q) b = (if b = a then c else channel_entry q b)"
  by (simp add: channel_entry_def channel_put_def)

lemma messages_of_entry: "messages_of sender q = ch_messages (channel_entry q sender)"
  by (simp add: messages_of_def channel_entry_def channel_default_def split: option.splits)

lemma purge_entry: "channel_entry (purge f q) a =
    (channel_entry q a)\<lparr>ch_messages := filter (\<lambda>msg. f a \<le> sm_sequence msg) (ch_messages (channel_entry q a))\<rparr>"
proof -
  have "map_of (purge f q) a = map_option (\<lambda>c. c\<lparr>ch_messages := filter (\<lambda>msg. f a \<le> sm_sequence msg) (ch_messages c)\<rparr>) (map_of q a)"
    by (induction q) (auto simp: purge_def)
  then show ?thesis by (simp add: channel_entry_def channel_default_def split: option.splits)
qed

text \<open>
  The queue of a sender whose channel never was a dummy: the kept messages carry the numbers from the
  first one not yet accepted up to the next one to be given.
\<close>

definition channel_contiguous :: "channel \<Rightarrow> nat \<Rightarrow> bool" where
  "channel_contiguous c k \<longleftrightarrow> \<not> ch_dummy c \<and> k \<le> ch_sequence c \<and> map sm_sequence (ch_messages c) = [k ..< ch_sequence c]"

lemma push_data_entry:
  assumes "\<not> ch_dummy (channel_entry q (mc_sender mc))"
  shows "channel_entry (push_data E mc payload dest q) b = (if b = mc_sender mc
     then (channel_entry q b)\<lparr>ch_messages := ch_messages (channel_entry q b) @
         [sign_message E (prepare_with_data mc payload dest) (ch_sequence (channel_entry q b))],
       ch_sequence := wrapping_add 64 (ch_sequence (channel_entry q b)) 1\<rparr>
     else channel_entry q b)"
  using assms by (simp add: push_data_def enqueue_message_def Let_def channel_entry_put)

lemma push_data_contiguous:
  assumes "channel_contiguous (channel_entry q (mc_sender mc)) k" "Suc (ch_sequence (channel_entry q (mc_sender mc))) < 2 ^ 64"
  shows "channel_contiguous (channel_entry (push_data E mc payload dest q) (mc_sender mc)) k"
  using assms
  by (simp add: channel_contiguous_def push_data_entry wrapping_add_def sign_message_def)

lemma upt_add_Suc: "[n ..< n + Suc k] = n # [Suc n ..< Suc n + k]"
  using upt_conv_Cons [of n "n + Suc k"] by (simp del: upt_Suc)

lemma filter_upt_ge:
  assumes "k \<le> n"
  shows "filter (\<lambda>i. n \<le> i) [k ..< m] = [n ..< m]"
proof (cases "n \<le> m")
  case True
  with assms have "[k ..< m] = [k ..< n] @ [n ..< m]" by (metis le_add_diff_inverse upt_add_eq_append)
  then show ?thesis by (simp add: filter_empty_conv)
next
  case False
  then show ?thesis by (simp add: filter_empty_conv)
qed

lemma purge_contiguous:
  assumes "channel_contiguous (channel_entry q a) k" "k \<le> f a" "f a \<le> ch_sequence (channel_entry q a)"
  shows "channel_contiguous (channel_entry (purge f q) a) (f a)"
proof -
  have "map sm_sequence (filter (\<lambda>msg. f a \<le> sm_sequence msg) ms) = filter (\<lambda>i. f a \<le> i) (map sm_sequence ms)" for ms :: "signed_message list"
    by (induction ms) auto
  with assms show ?thesis by (simp add: channel_contiguous_def purge_entry filter_upt_ge)
qed

lemma pushes_entry:
  assumes "\<not> ch_dummy (channel_entry q (mc_sender mc))"
    "ch_sequence (channel_entry q (mc_sender mc)) + length ps < 2 ^ 64"
  shows "channel_entry (foldl (\<lambda>q p. push_data E mc (fst p) (snd p) q) q ps) (mc_sender mc) =
    (let c = channel_entry q (mc_sender mc) in
     c\<lparr>ch_messages := ch_messages c @ map2 (\<lambda>p n. sign_message E (prepare_with_data mc (fst p) (snd p)) n)
          ps [ch_sequence c ..< ch_sequence c + length ps],
       ch_sequence := ch_sequence c + length ps\<rparr>)"
  using assms
proof (induction ps arbitrary: q)
  case Nil
  then show ?case by simp
next
  case (Cons p ps)
  let ?c = "channel_entry q (mc_sender mc)"
  have up: "[ch_sequence ?c ..< ch_sequence ?c + length (p # ps)] =
      ch_sequence ?c # [Suc (ch_sequence ?c) ..< Suc (ch_sequence ?c) + length ps]" using upt_add_Suc by (simp only: length_Cons)
  have w: "wrapping_add 64 (ch_sequence ?c) (Suc 0) = Suc (ch_sequence ?c)" using Cons.prems by (simp add: wrapping_add_def)
  have d: "\<not> ch_dummy (channel_entry (push_data E mc (fst p) (snd p) q) (mc_sender mc))"
    "ch_sequence (channel_entry (push_data E mc (fst p) (snd p) q) (mc_sender mc)) + length ps < 2 ^ 64"
    using Cons.prems by (simp_all add: push_data_entry w)
  from Cons.IH [OF d] Cons.prems(1) show ?case
    unfolding Let_def up by (simp add: push_data_entry w del: upt_Suc)
qed

end
