(* ===== verification/Ces_Dispatcher.thy ===== *)
theory Ces_Dispatcher
  imports Ces_Mq
begin

text \<open>
  \<open>crates/ces-mq/src/simple_mpsc.rs\<close> and \<open>crates/ces-mq/src/dispatcher.rs\<close>: how a trusted worker
  hands the messages of a block to its subsystems. A channel is a queue with counts of its living
  ends, shared through \<open>Arc<Mutex<_>>\<close>: the model keeps all channels in one store and the ends are
  indices into it. The dispatcher numbers messages and copies each to the subscribers of its topic;
  \<open>select!\<close> serves, among several receivers, the one whose first message has the smallest number.
\<close>

section \<open>Channels\<close>

record 'a mpsc =
  deque :: "'a list"
  sender_count :: nat
  receiver_count :: nat

datatype send_error = ReceiverGone

datatype receive_error = SenderGone

definition mpsc_channel :: "'a mpsc" where
  "mpsc_channel = \<lparr>deque = [], sender_count = 1, receiver_count = 1\<rparr>"

definition mpsc_send :: "'a \<Rightarrow> 'a mpsc \<Rightarrow> (send_error + unit) \<times> 'a mpsc" where
  "mpsc_send v ch = (if receiver_count ch = 0 then (Inl ReceiverGone, ch)
     else (Inr (), ch\<lparr>deque := deque ch @ [v]\<rparr>))"

definition mpsc_clear :: "'a mpsc \<Rightarrow> nat \<times> 'a mpsc" where
  "mpsc_clear ch = (length (deque ch), ch\<lparr>deque := []\<rparr>)"

definition sender_clone :: "'a mpsc \<Rightarrow> 'a mpsc" where
  "sender_clone ch = ch\<lparr>sender_count := sender_count ch + 1\<rparr>"

definition sender_drop :: "'a mpsc \<Rightarrow> 'a mpsc" where
  "sender_drop ch = ch\<lparr>sender_count := sender_count ch - 1\<rparr>"

definition receiver_clone :: "'a mpsc \<Rightarrow> 'a mpsc" where
  "receiver_clone ch = ch\<lparr>receiver_count := receiver_count ch + 1\<rparr>"

definition receiver_drop :: "'a mpsc \<Rightarrow> 'a mpsc" where
  "receiver_drop ch = ch\<lparr>receiver_count := receiver_count ch - 1\<rparr>"

definition mpsc_try_next :: "'a mpsc \<Rightarrow> (receive_error + 'a option) \<times> 'a mpsc" where
  "mpsc_try_next ch = (case deque ch of
     v # vs \<Rightarrow> (Inr (Some v), ch\<lparr>deque := vs\<rparr>)
   | [] \<Rightarrow> (if sender_count ch = 0 then (Inl SenderGone, ch) else (Inr None, ch)))"

definition mpsc_drain :: "'a mpsc \<Rightarrow> 'a list \<times> 'a mpsc" where
  "mpsc_drain ch = (deque ch, ch\<lparr>deque := []\<rparr>)"

definition peek_ind :: "(nat \<times> 'b) mpsc \<Rightarrow> receive_error + nat option" where
  "peek_ind ch = (case deque ch of
     v # _ \<Rightarrow> Inr (Some (fst v))
   | [] \<Rightarrow> (if sender_count ch = 0 then Inl SenderGone else Inr None))"

section \<open>The dispatcher\<close>

record dispatcher =
  d_subscribers :: "(string \<times> nat list) list"
  d_local_index :: nat
  d_chans :: "nat \<Rightarrow> (nat \<times> message) mpsc"
  d_next :: nat

definition dispatcher_new :: dispatcher where
  "dispatcher_new = \<lparr>d_subscribers = [], d_local_index = 0, d_chans = (\<lambda>_. mpsc_channel), d_next = 0\<rparr>"

definition subscribers_of :: "string \<Rightarrow> dispatcher \<Rightarrow> nat list" where
  "subscribers_of path d = (case map_of (d_subscribers d) path of None \<Rightarrow> [] | Some l \<Rightarrow> l)"

definition subscribe :: "string \<Rightarrow> dispatcher \<Rightarrow> nat \<times> dispatcher" where
  "subscribe path d = (d_next d, d\<lparr>d_chans := (d_chans d)(d_next d := mpsc_channel),
     d_subscribers := assoc_put id path (subscribers_of path d @ [d_next d]) (d_subscribers d),
     d_next := Suc (d_next d)\<rparr>)"

text \<open>\<open>receivers.retain(...)\<close>: a sender whose receiver is gone is dropped from the list.\<close>

fun dispatch_loop :: "nat \<times> message \<Rightarrow> nat list \<Rightarrow> (nat \<Rightarrow> (nat \<times> message) mpsc)
    \<Rightarrow> nat list \<times> nat \<times> (nat \<Rightarrow> (nat \<times> message) mpsc)" where
  "dispatch_loop item [] chans = ([], 0, chans)"
| "dispatch_loop item (i # is) chans = (case mpsc_send item (chans i) of
     (Inl ReceiverGone, ch) \<Rightarrow> dispatch_loop item is (chans(i := sender_drop ch))
   | (Inr _, ch) \<Rightarrow> (case dispatch_loop item is (chans(i := ch)) of
       (kept, count, chans') \<Rightarrow> (i # kept, count + 1, chans')))"

definition dispatch :: "message \<Rightarrow> dispatcher \<Rightarrow> nat \<times> dispatcher" where
  "dispatch m d =
     (let sn = d_local_index d; d = d\<lparr>d_local_index := wrapping_add 64 sn 1\<rparr>
      in case map_of (d_subscribers d) (m_destination m) of
           None \<Rightarrow> (0, d)
         | Some receivers \<Rightarrow> (case dispatch_loop (sn, m) receivers (d_chans d) of
             (kept, count, chans) \<Rightarrow> (count, d\<lparr>d_chans := chans,
               d_subscribers := assoc_put id (m_destination m) kept (d_subscribers d)\<rparr>)))"

definition reset_local_index :: "dispatcher \<Rightarrow> dispatcher" where
  "reset_local_index d = d\<lparr>d_local_index := 0\<rparr>"

fun clear_loop :: "nat list \<Rightarrow> (nat \<Rightarrow> (nat \<times> message) mpsc) \<Rightarrow> nat \<times> (nat \<Rightarrow> (nat \<times> message) mpsc)" where
  "clear_loop [] chans = (0, chans)"
| "clear_loop (i # is) chans = (case mpsc_clear (chans i) of
     (n, ch) \<Rightarrow> (case clear_loop is (chans(i := ch)) of (k, chans') \<Rightarrow> (n + k, chans')))"

definition dispatcher_clear :: "dispatcher \<Rightarrow> nat \<times> dispatcher" where
  "dispatcher_clear d = (case clear_loop (concat (map snd (d_subscribers d))) (d_chans d) of
     (n, chans) \<Rightarrow> (n, d\<lparr>d_chans := chans\<rparr>))"

text \<open>A typed receiver decodes the payload (a parameter): an undecodable message of a well-formed sender
  panics, of a user it is an error.\<close>

datatype 't typed_result =
    Typed_None
  | Typed_Some nat 't message_origin
  | Typed_SenderGone
  | Typed_CodecError
  | Typed_Panic

definition typed_try_next :: "(string \<Rightarrow> 't option) \<Rightarrow> nat \<Rightarrow> dispatcher \<Rightarrow> 't typed_result \<times> dispatcher" where
  "typed_try_next decode i d = (case mpsc_try_next (d_chans d i) of (r, ch) \<Rightarrow>
     (case r of Inl SenderGone \<Rightarrow> Typed_SenderGone
      | Inr None \<Rightarrow> Typed_None
      | Inr (Some (sn, msg)) \<Rightarrow> (case decode (m_payload msg) of
          Some t \<Rightarrow> Typed_Some sn t (m_sender msg)
        | None \<Rightarrow> if always_well_formed (m_sender msg) then Typed_Panic else Typed_CodecError),
      d\<lparr>d_chans := (d_chans d)(i := ch)\<rparr>))"

section \<open>The macro \<open>select!\<close>\<close>

fun select_scan :: "nat \<Rightarrow> (receive_error + nat option) list \<Rightarrow> nat option \<times> nat \<Rightarrow> nat option \<times> nat" where
  "select_scan ind [] (mini, min_ind) = (mini, min_ind)"
| "select_scan ind (p # ps) (mini, min_ind) = select_scan (ind + 1) ps (case p of
     Inr (Some sn) \<Rightarrow> (case mini of
         None \<Rightarrow> (Some sn, ind)
       | Some old \<Rightarrow> if sn < old then (Some sn, ind) else (mini, min_ind))
   | Inl _ \<Rightarrow> (Some 0, ind)
   | Inr None \<Rightarrow> (mini, min_ind))"

definition select_next :: "nat list \<Rightarrow> dispatcher \<Rightarrow> (receive_error + nat \<times> message) option \<times> dispatcher" where
  "select_next ids d = (case select_scan 0 (map (\<lambda>i. peek_ind (d_chans d i)) ids) (None, 0) of
     (None, _) \<Rightarrow> (None, d)
   | (Some _, min_ind) \<Rightarrow> (let i = ids ! min_ind in case mpsc_try_next (d_chans d i) of (r, ch) \<Rightarrow>
       (case r of Inl e \<Rightarrow> Some (Inl e) | Inr None \<Rightarrow> None | Inr (Some v) \<Rightarrow> Some (Inr v),
        d\<lparr>d_chans := (d_chans d)(i := ch)\<rparr>)))"

text \<open>Serving messages until none is left, at most \<open>n\<close> times.\<close>

fun select_run :: "nat \<Rightarrow> nat list \<Rightarrow> dispatcher \<Rightarrow> (nat \<times> message) list \<times> dispatcher" where
  "select_run 0 ids d = ([], d)"
| "select_run (Suc n) ids d = (case select_next ids d of
     (Some (Inr v), d') \<Rightarrow> (case select_run n ids d' of (vs, d'') \<Rightarrow> (v # vs, d''))
   | (_, d') \<Rightarrow> ([], d'))"

fun subscribe_all :: "string list \<Rightarrow> dispatcher \<Rightarrow> nat list \<times> dispatcher" where
  "subscribe_all [] d = ([], d)"
| "subscribe_all (t # ts) d = (case subscribe t d of (i, d') \<Rightarrow>
     (case subscribe_all ts d' of (is, d'') \<Rightarrow> (i # is, d'')))"

fun dispatch_all :: "message list \<Rightarrow> dispatcher \<Rightarrow> dispatcher" where
  "dispatch_all [] d = d"
| "dispatch_all (m # ms) d = dispatch_all ms (snd (dispatch m d))"

section \<open>Selecting serves the smallest number first\<close>

abbreviation queue_of :: "dispatcher \<Rightarrow> nat \<Rightarrow> (nat \<times> message) list" where
  "queue_of d i \<equiv> deque (d_chans d i)"

definition head_ind :: "(nat \<times> 'b) list \<Rightarrow> nat option" where
  "head_ind q = (case q of [] \<Rightarrow> None | v # _ \<Rightarrow> Some (fst v))"

lemma peek_alive: "0 < sender_count ch \<Longrightarrow> peek_ind ch = Inr (head_ind (deque ch))"
  by (simp add: peek_ind_def head_ind_def split: list.splits)

text \<open>The scan keeps the smallest index seen, with its first position.\<close>

lemma select_scan_min:
  assumes "select_scan ind (map Inr hs) (mini, mi) = (r, k)"
  shows "(\<forall>sn. mini = Some sn \<longrightarrow> (\<exists>m. r = Some m \<and> m \<le> sn))
    \<and> (\<forall>j < length hs. \<forall>sn. hs ! j = Some sn \<longrightarrow> (\<exists>m. r = Some m \<and> m \<le> sn))
    \<and> (r = mini \<and> k = mi \<or> ind \<le> k \<and> k < ind + length hs \<and> r \<noteq> None \<and> hs ! (k - ind) = r)"
  using assms
proof (induction hs arbitrary: ind mini mi)
  case Nil
  then show ?case by simp
next
  case (Cons h hs)
  define st where "st = (case h of Some sn \<Rightarrow> (case mini of None \<Rightarrow> (Some sn, ind)
      | Some old \<Rightarrow> if sn < old then (Some sn, ind) else (mini, mi)) | None \<Rightarrow> (mini, mi))"
  obtain m1 k1 where mk: "st = (m1, k1)" by (cases st)
  have "select_scan (ind + 1) (map Inr hs) (m1, k1) = (r, k)"
    using Cons.prems mk by (simp add: st_def split: option.splits if_splits)
  note ih = Cons.IH [OF this]
  have cases: "m1 = mini \<and> k1 = mi \<or> m1 = h \<and> k1 = ind \<and> h \<noteq> None"
    using mk by (auto simp: st_def split: option.splits if_splits)
  have le: "mini = Some sn \<Longrightarrow> \<exists>m. m1 = Some m \<and> m \<le> sn" "h = Some sn \<Longrightarrow> \<exists>m. m1 = Some m \<and> m \<le> sn" for sn
    using mk by (auto simp: st_def split: option.splits if_splits)
  have "\<exists>m. r = Some m \<and> m \<le> sn" if "mini = Some sn \<or> h = Some sn" for sn
    using ih le [of sn] that by (metis order_trans)
  moreover have "\<exists>m. r = Some m \<and> m \<le> sn" if "j < length hs" "hs ! j = Some sn" for j sn
    using ih that by blast
  moreover have "r = mini \<and> k = mi \<or> ind \<le> k \<and> k < ind + length (h # hs) \<and> r \<noteq> None \<and> (h # hs) ! (k - ind) = r"
    using ih cases by (auto simp: nth_Cons')
  ultimately show ?case by (auto simp: nth_Cons split: nat.splits)
qed

text \<open>The receivers that are served: distinct, with a living sender, numbers increasing in each queue and no
  number in two queues.\<close>

abbreviation by_sn :: "(nat \<times> 'b) list \<Rightarrow> bool" where
  "by_sn xs \<equiv> sorted_wrt (\<lambda>a b. fst a < fst b) xs"

definition served :: "nat list \<Rightarrow> dispatcher \<Rightarrow> bool" where
  "served ids d \<longleftrightarrow> distinct ids \<and> (\<forall>i \<in> set ids. 0 < sender_count (d_chans d i) \<and> by_sn (queue_of d i)) \<and>
     (\<forall>i \<in> set ids. \<forall>j \<in> set ids. i \<noteq> j \<longrightarrow> fst ` set (queue_of d i) \<inter> fst ` set (queue_of d j) = {})"

definition waiting :: "nat list \<Rightarrow> dispatcher \<Rightarrow> (nat \<times> message) set" where
  "waiting ids d = (\<Union>i \<in> set ids. set (queue_of d i))"

definition waiting_count :: "nat list \<Rightarrow> dispatcher \<Rightarrow> nat" where
  "waiting_count ids d = sum_list (map (\<lambda>i. length (queue_of d i)) ids)"

lemma head_ind_Some: "head_ind q = Some m \<longleftrightarrow> (\<exists>x r. q = (m, x) # r)"
  by (cases q) (auto simp: head_ind_def)

lemma select_next_min:
  assumes "served ids d" "select_next ids d = (r, d')"
  shows "(waiting ids d = {} \<and> r = None \<and> d' = d) \<or>
    (\<exists>i m x q. i \<in> set ids \<and> queue_of d i = (m, x) # q \<and> r = Some (Inr (m, x))
       \<and> d' = d\<lparr>d_chans := (d_chans d)(i := (d_chans d i)\<lparr>deque := q\<rparr>)\<rparr>
       \<and> (\<forall>v \<in> waiting ids d. m \<le> fst v))"
proof -
  have alive: "\<forall>i \<in> set ids. 0 < sender_count (d_chans d i)" using assms(1) by (simp add: served_def)
  let ?hs = "map (\<lambda>i. head_ind (queue_of d i)) ids"
  have peek: "map (\<lambda>i. peek_ind (d_chans d i)) ids = map Inr ?hs" using alive by (simp add: peek_alive)
  obtain m1 k where scan: "select_scan 0 (map Inr ?hs) (None, 0) = (m1, k)" by (cases "select_scan 0 (map Inr ?hs) (None, 0)")
  note min = select_scan_min [OF scan]
  have le: "\<exists>m. m1 = Some m \<and> m \<le> fst v" if v: "v \<in> waiting ids d" for v
  proof -
    obtain i where i: "i \<in> set ids" "v \<in> set (queue_of d i)" using v by (auto simp: waiting_def)
    then obtain w q where wq: "queue_of d i = w # q" by (cases "queue_of d i") auto
    have "by_sn (w # q)" using assms(1) i(1) wq unfolding served_def by metis
    then have fst: "fst w \<le> fst v" using i(2) wq by (auto intro: less_imp_le)
    obtain j where j: "j < length ids" "ids ! j = i" using i(1) by (auto simp: in_set_conv_nth)
    then have "?hs ! j = Some (fst w)" using wq by (simp add: head_ind_def)
    with min j(1) obtain m where "m1 = Some m" "m \<le> fst w" by (metis length_map)
    with fst show ?thesis by (metis order_trans)
  qed
  show ?thesis
  proof (cases m1)
    case None
    then have "waiting ids d = {}" using le by fastforce
    with None assms(2) scan peek show ?thesis by (simp add: select_next_def)
  next
    case (Some m)
    with min have k: "k < length ids" "?hs ! k = Some m" by auto
    then obtain x q where q: "queue_of d (ids ! k) = (m, x) # q" by (auto simp: head_ind_Some)
    with Some assms(2) scan peek have "r = Some (Inr (m, x))"
      "d' = d\<lparr>d_chans := (d_chans d)(ids ! k := (d_chans d (ids ! k))\<lparr>deque := q\<rparr>)\<rparr>"
      by (auto simp: select_next_def Let_def mpsc_try_next_def)
    with q k(1) le Some show ?thesis by (metis nth_mem option.inject)
  qed
qed

lemma sum_list_update1:
  assumes "distinct ids" "i \<in> set ids"
  shows "sum_list (map (f(i := v)) ids) + f i = sum_list (map f ids) + (v::nat)"
  using assms by (induction ids) (auto simp: map_fun_upd)

text \<open>One step takes the smallest waiting message off its queue and leaves larger numbers only.\<close>

lemma select_pop:
  assumes s: "served ids d" and i: "i \<in> set ids" "queue_of d i = (m, x) # q"
    and d': "d' = d\<lparr>d_chans := (d_chans d)(i := (d_chans d i)\<lparr>deque := q\<rparr>)\<rparr>" and min: "\<forall>v \<in> waiting ids d. m \<le> fst v"
  shows "served ids d'" "waiting ids d = insert (m, x) (waiting ids d')" "\<forall>v \<in> waiting ids d'. m < fst v"
    "waiting_count ids d = Suc (waiting_count ids d')"
proof -
  have q': "queue_of d' j = (if j = i then q else queue_of d j)" "sender_count (d_chans d' j) = sender_count (d_chans d j)" for j
    unfolding d' by simp_all
  have sorted: "by_sn (queue_of d j)" if "j \<in> set ids" for j using s that by (simp add: served_def)
  have disj: "fst ` set (queue_of d j) \<inter> fst ` set (queue_of d k) = {}" if "j \<in> set ids" "k \<in> set ids" "j \<noteq> k" for j k
    using s that by (simp add: served_def)
  have tail: "set q \<subseteq> set (queue_of d i)" "by_sn q" "\<forall>v \<in> set q. m < fst v"
    using sorted [OF i(1)] by (simp_all add: i(2) subset_insertI)
  have sub: "set (queue_of d' j) \<subseteq> set (queue_of d j)" for j using tail(1) by (simp add: q')
  have "fst ` set (queue_of d' j) \<inter> fst ` set (queue_of d' k) = {}" if "j \<in> set ids" "k \<in> set ids" "j \<noteq> k" for j k
  proof -
    have "fst ` set (queue_of d' j) \<inter> fst ` set (queue_of d' k) \<subseteq> fst ` set (queue_of d j) \<inter> fst ` set (queue_of d k)"
      by (intro Int_mono image_mono sub)
    then show ?thesis by (simp only: disj [OF that] subset_empty)
  qed
  moreover have "by_sn (queue_of d' j)" if "j \<in> set ids" for j using sorted [OF that] tail(2) by (simp add: q')
  ultimately show "served ids d'" using s by (simp add: served_def q'(2))
  have step: "set (queue_of d j) = (if j = i then insert (m, x) (set (queue_of d' j)) else set (queue_of d' j))" for j
    using i(2) by (simp add: q')
  show "waiting ids d = insert (m, x) (waiting ids d')"
    unfolding waiting_def step using i(1) by (auto split: if_splits)
  show "\<forall>v \<in> waiting ids d'. m < fst v"
  proof
    fix v
    assume "v \<in> waiting ids d'"
    then obtain j where j: "j \<in> set ids" "v \<in> set (queue_of d' j)" by (auto simp: waiting_def)
    show "m < fst v"
    proof (cases "j = i")
      case True
      with j tail(3) q' show ?thesis by auto
    next
      case False
      with j have v: "v \<in> set (queue_of d j)" using q' by auto
      with j(1) min have "m \<le> fst v" by (auto simp: waiting_def)
      moreover have "m \<noteq> fst v" using disj [OF j(1) i(1) False] v i(2) by force
      ultimately show ?thesis by simp
    qed
  qed
  have cnt: "(\<lambda>j. length (queue_of d' j)) = (\<lambda>j. length (queue_of d j))(i := length q)"
    by (simp add: fun_eq_iff q')
  have "distinct ids" using s by (simp add: served_def)
  then show "waiting_count ids d = Suc (waiting_count ids d')"
    using sum_list_update1 [of ids i "\<lambda>j. length (queue_of d j)" "length q"] i
    unfolding waiting_count_def cnt by simp
qed

lemma select_run_sorted:
  assumes "served ids d" "waiting_count ids d \<le> n" "select_run n ids d = (vs, d')"
  shows "by_sn vs \<and> set vs = waiting ids d"
  using assms
proof (induction n arbitrary: d vs)
  case 0
  then have "\<forall>i \<in> set ids. queue_of d i = []" by (simp add: waiting_count_def)
  with 0 show ?case by (auto simp: waiting_def)
next
  case (Suc n)
  obtain r d1 where r: "select_next ids d = (r, d1)" by (cases "select_next ids d")
  show ?case
  proof (cases "waiting ids d = {}")
    case True
    with select_next_min [OF Suc.prems(1) r] have "r = None" by (auto simp: waiting_def)
    with Suc.prems(3) r True show ?thesis by simp
  next
    case False
    then obtain i m x q where i: "i \<in> set ids" "queue_of d i = (m, x) # q" "r = Some (Inr (m, x))"
      "d1 = d\<lparr>d_chans := (d_chans d)(i := (d_chans d i)\<lparr>deque := q\<rparr>)\<rparr>" "\<forall>v \<in> waiting ids d. m \<le> fst v"
      using select_next_min [OF Suc.prems(1) r] by blast
    note pop = select_pop [OF Suc.prems(1) i(1,2,4,5)]
    obtain vs' where vs: "select_run n ids d1 = (vs', d')" "vs = (m, x) # vs'"
      using Suc.prems(3) r i(3) by (auto split: prod.splits)
    have "by_sn vs' \<and> set vs' = waiting ids d1"
      by (rule Suc.IH [OF pop(1) _ vs(1)]) (use pop(4) Suc.prems(2) in simp)
    with pop(2,3) vs(2) show ?thesis by auto
  qed
qed

lemma by_sn_unique:
  assumes "by_sn xs" "by_sn ys" "set xs = set ys"
  shows "xs = ys"
  using assms
proof (induction xs arbitrary: ys)
  case Nil
  then show ?case by simp
next
  case (Cons x xs)
  then obtain y zs where ys: "ys = y # zs" by (cases ys) auto
  have "x = y"
  proof (rule ccontr)
    assume "x \<noteq> y"
    with Cons.prems ys have "x \<in> set zs" "y \<in> set xs" by auto
    with Cons.prems ys show False by fastforce
  qed
  moreover have "x \<notin> set xs" "y \<notin> set zs" using Cons.prems ys by auto
  ultimately have "set xs = set zs" using Cons.prems(3) ys by auto
  with Cons \<open>x = y\<close> ys show ?case by simp
qed

section \<open>What the dispatcher delivers\<close>

text \<open>Fresh subscriptions to distinct topics: one channel per topic, all ends alive, nothing waiting.\<close>

definition subscribed :: "string list \<Rightarrow> nat list \<Rightarrow> dispatcher \<Rightarrow> bool" where
  "subscribed ts ids d \<longleftrightarrow> length ids = length ts \<and> distinct ids \<and> (\<forall>i \<in> set ids. i < d_next d) \<and>
     (\<forall>t. subscribers_of t d = map snd (filter (\<lambda>p. fst p = t) (zip ts ids))) \<and>
     (\<forall>i \<in> set ids. 0 < sender_count (d_chans d i) \<and> 0 < receiver_count (d_chans d i))"

lemma subscribe_step:
  assumes "subscribed ts ids d"
  shows "subscribed (ts @ [t]) (ids @ [d_next d]) (snd (subscribe t d))"
  using assms by (auto simp: subscribed_def subscribe_def subscribers_of_def mpsc_channel_def)

lemma subscribe_all_ok:
  assumes "subscribed ts0 ids0 d" "subscribe_all ts d = (ids, d')" "\<forall>i. queue_of d i = []"
  shows "subscribed (ts0 @ ts) (ids0 @ ids) d' \<and> (\<forall>i. queue_of d' i = []) \<and> d_local_index d' = d_local_index d"
  using assms
proof (induction ts arbitrary: ts0 ids0 d ids)
  case Nil
  then show ?case by simp
next
  case (Cons t ts)
  obtain ids' where ids: "subscribe_all ts (snd (subscribe t d)) = (ids', d')" "ids = d_next d # ids'"
    using Cons.prems(2) by (auto simp: subscribe_def split: prod.splits)
  have "\<forall>i. queue_of (snd (subscribe t d)) i = []" "d_local_index (snd (subscribe t d)) = d_local_index d"
    using Cons.prems(3) by (simp_all add: subscribe_def mpsc_channel_def)
  with Cons.IH [OF subscribe_step [OF Cons.prems(1)] ids(1)] ids(2) show ?case by simp
qed

lemma dispatch_loop_alive:
  assumes "distinct l" "\<forall>i \<in> set l. 0 < receiver_count (chans i)"
  shows "dispatch_loop v l chans = (l, length l, \<lambda>j. if j \<in> set l then (chans j)\<lparr>deque := deque (chans j) @ [v]\<rparr> else chans j)"
  using assms
proof (induction l arbitrary: chans)
  case Nil
  then show ?case by simp
next
  case (Cons i l)
  then have "mpsc_send v (chans i) = (Inr (), (chans i)\<lparr>deque := deque (chans i) @ [v]\<rparr>)" by (simp add: mpsc_send_def)
  moreover define c1 where "c1 = chans(i := (chans i)\<lparr>deque := deque (chans i) @ [v]\<rparr>)"
  ultimately have "dispatch_loop v (i # l) chans = (case dispatch_loop v l c1 of (kept, count, chans') \<Rightarrow> (i # kept, count + 1, chans'))"
    by simp
  also have "dispatch_loop v l c1 = (l, length l, \<lambda>j. if j \<in> set l then (c1 j)\<lparr>deque := deque (c1 j) @ [v]\<rparr> else c1 j)"
    by (rule Cons.IH) (use Cons.prems in \<open>auto simp: c1_def\<close>)
  finally show ?case using Cons.prems(1) by (auto simp: fun_eq_iff c1_def)
qed

lemma subscribers_distinct:
  assumes "subscribed ts ids d"
  shows "distinct (subscribers_of t d)" "set (subscribers_of t d) \<subseteq> set ids"
proof -
  have zip: "subscribers_of t d = map snd (filter (\<lambda>p. fst p = t) (zip ts ids))" "length ids = length ts" "distinct ids"
    using assms by (simp_all add: subscribed_def)
  then have "distinct (map snd (zip ts ids))" by simp
  with zip(1) show "distinct (subscribers_of t d)" by (simp add: distinct_map_filter)
  show "set (subscribers_of t d) \<subseteq> set ids" unfolding zip(1) by (auto dest: set_zip_rightD)
qed

lemma dispatch_step:
  assumes "subscribed ts ids d"
  shows "subscribed ts ids (snd (dispatch m d))"
    "queue_of (snd (dispatch m d)) i = queue_of d i @ (if i \<in> set (subscribers_of (m_destination m) d) then [(d_local_index d, m)] else [])"
    "d_local_index (snd (dispatch m d)) = wrapping_add 64 (d_local_index d) 1"
proof -
  let ?l = "subscribers_of (m_destination m) d"
  have "\<forall>i \<in> set ids. 0 < receiver_count (d_chans d i)" using assms by (simp add: subscribed_def)
  then have alive: "\<forall>i \<in> set ?l. 0 < receiver_count (d_chans d i)" using subscribers_distinct(2) [OF assms] by blast
  note loop = dispatch_loop_alive [OF subscribers_distinct(1) [OF assms] alive]
  let ?d = "snd (dispatch m d)" and ?v = "(d_local_index d, m)"
  have shape: "d_local_index ?d = wrapping_add 64 (d_local_index d) 1 \<and> d_next ?d = d_next d
    \<and> d_chans ?d = (\<lambda>j. if j \<in> set ?l then (d_chans d j)\<lparr>deque := queue_of d j @ [?v]\<rparr> else d_chans d j)
    \<and> (\<forall>t. subscribers_of t ?d = subscribers_of t d)"
  proof (cases "map_of (d_subscribers d) (m_destination m)")
    case None
    then show ?thesis by (simp add: dispatch_def Let_def subscribers_of_def)
  next
    case (Some l)
    then have "?l = l" by (simp add: subscribers_of_def)
    with Some loop [of ?v] show ?thesis by (simp add: dispatch_def Let_def subscribers_of_def)
  qed
  then show "queue_of ?d i = queue_of d i @ (if i \<in> set ?l then [?v] else [])"
    "d_local_index ?d = wrapping_add 64 (d_local_index d) 1" by simp_all
  have same: "sender_count (d_chans ?d j) = sender_count (d_chans d j)" "receiver_count (d_chans ?d j) = receiver_count (d_chans d j)"
    "d_next ?d = d_next d" "subscribers_of t ?d = subscribers_of t d" for j t
    using shape by simp_all
  show "subscribed ts ids ?d" using assms unfolding subscribed_def same .
qed

lemma in_subscribers:
  assumes "subscribed ts ids d" "j < length ts"
  shows "ids ! j \<in> set (subscribers_of t d) \<longleftrightarrow> ts ! j = t"
proof -
  have zip: "subscribers_of t d = map snd (filter (\<lambda>p. fst p = t) (zip ts ids))" "length ids = length ts" "distinct ids"
    using assms by (simp_all add: subscribed_def)
  have mem: "ids ! j \<in> set (subscribers_of t d) \<longleftrightarrow> (\<exists>k < length ts. ts ! k = t \<and> ids ! k = ids ! j)"
  proof -
    have "ids ! j \<in> set (subscribers_of t d) \<longleftrightarrow> (t, ids ! j) \<in> set (zip ts ids)" unfolding zip(1) by force
    then show ?thesis using zip(2) by (auto simp: in_set_zip)
  qed
  have "(\<exists>k < length ts. ts ! k = t \<and> ids ! k = ids ! j) \<longleftrightarrow> ts ! j = t"
    using zip(2,3) assms(2) nth_eq_iff_index_eq [OF zip(3)] by metis
  with mem show ?thesis by simp
qed

lemma dispatch_all_subscribed: "subscribed ts ids d \<Longrightarrow> subscribed ts ids (dispatch_all ms d)"
  by (induction ms arbitrary: d) (simp_all add: dispatch_step(1))

lemma dispatch_all_queue:
  assumes "subscribed ts ids d" "d_local_index d + length ms < 2 ^ 64" "j < length ts"
  shows "queue_of (dispatch_all ms d) (ids ! j) =
    queue_of d (ids ! j) @ filter (\<lambda>v. m_destination (snd v) = ts ! j) (enumerate (d_local_index d) ms)"
  using assms(1,2)
proof (induction ms arbitrary: d)
  case Nil
  then show ?case by simp
next
  case (Cons m ms)
  note st = dispatch_step [OF Cons.prems(1), of m]
  have li: "d_local_index (snd (dispatch m d)) = Suc (d_local_index d)"
    using st(3) Cons.prems(2) by (simp add: wrapping_add_def)
  from Cons.IH [OF st(1)] li Cons.prems(2) st(2) [of "ids ! j"] in_subscribers [OF Cons.prems(1) assms(3)]
  show ?case by auto
qed

lemma count_partition:
  assumes "distinct ts"
  shows "sum_list (map (\<lambda>t. length (filter (\<lambda>v. f v = t) xs)) ts) \<le> length xs"
proof (induction xs)
  case Nil
  then show ?case by simp
next
  case (Cons x xs)
  have "sum_list (map (\<lambda>t. if f x = t then 1 else (0::nat)) ts) \<le> 1"
    using assms by (induction ts) (auto simp: sum_list_eq_0_iff)
  moreover have "(\<lambda>t. length (filter (\<lambda>v. f v = t) (x # xs))) =
      (\<lambda>t. (if f x = t then 1 else 0) + length (filter (\<lambda>v. f v = t) xs))" by (simp add: fun_eq_iff)
  ultimately show ?case using Cons.IH by (simp add: sum_list_addf)
qed

lemma by_sn_enumerate: "by_sn (enumerate k ms)"
proof (induction ms arbitrary: k)
  case Nil
  then show ?case by simp
next
  case (Cons m ms)
  then show ?case by (auto simp: in_set_enumerate_eq)
qed

lemma by_sn_filter: "by_sn (filter P (enumerate k ms))"
  by (rule sorted_wrt_filter [OF by_sn_enumerate])

lemma dispatched_served:
  assumes ts: "distinct ts" and sub: "subscribed ts ids d1"
    and queues: "\<And>j. j < length ts \<Longrightarrow> queue_of d1 (ids ! j) = filter (\<lambda>v. m_destination (snd v) = ts ! j) (enumerate 0 ms)"
  shows "served ids d1" "waiting ids d1 = {v \<in> set (enumerate 0 ms). m_destination (snd v) \<in> set ts}"
    "waiting_count ids d1 \<le> length ms"
proof -
  have ids: "length ids = length ts" "distinct ids" "\<forall>i \<in> set ids. 0 < sender_count (d_chans d1 i)"
    using sub by (simp_all add: subscribed_def)
  have ex: "\<exists>j < length ts. i = ids ! j" if "i \<in> set ids" for i using that ids(1) by (metis in_set_conv_nth)
  have "by_sn (queue_of d1 i)" if "i \<in> set ids" for i
    using ex [OF that] by (auto simp only: queues by_sn_filter)
  moreover have "fst ` set (queue_of d1 i) \<inter> fst ` set (queue_of d1 k) = {}" if ik: "i \<in> set ids" "k \<in> set ids" "i \<noteq> k" for i k
  proof -
    obtain a where a: "a < length ts" "i = ids ! a" using ex [OF ik(1)] by blast
    obtain b where b: "b < length ts" "k = ids ! b" using ex [OF ik(2)] by blast
    have "ts ! a \<noteq> ts ! b" using ik(3) ts a b by (auto simp: nth_eq_iff_index_eq)
    then show ?thesis unfolding a(2) b(2) queues [OF a(1)] queues [OF b(1)] by (auto simp: in_set_enumerate_eq)
  qed
  ultimately show "served ids d1" using ids by (simp add: served_def)
  show "waiting ids d1 = {v \<in> set (enumerate 0 ms). m_destination (snd v) \<in> set ts}" (is "_ = ?W")
  proof (intro equalityI subsetI)
    fix v
    assume "v \<in> waiting ids d1"
    then obtain i where "i \<in> set ids" "v \<in> set (queue_of d1 i)" by (auto simp: waiting_def)
    with ex [of i] show "v \<in> ?W" by (auto simp: queues)
  next
    fix v
    assume v: "v \<in> ?W"
    then obtain j where j: "j < length ts" "m_destination (snd v) = ts ! j" by (auto simp: in_set_conv_nth)
    then have "v \<in> set (queue_of d1 (ids ! j))" using v by (simp add: queues)
    moreover have "ids ! j \<in> set ids" using j(1) ids(1) by simp
    ultimately show "v \<in> waiting ids d1" unfolding waiting_def by blast
  qed
  have "map (\<lambda>i. length (queue_of d1 i)) ids = map (\<lambda>t. length (filter (\<lambda>v. m_destination (snd v) = t) (enumerate 0 ms))) ts"
    using ids(1) by (intro nth_equalityI) (simp_all add: queues)
  then show "waiting_count ids d1 \<le> length ms"
    using count_partition [OF ts, of "\<lambda>v. m_destination (snd v)" "enumerate 0 ms"] by (simp add: waiting_count_def)
qed

section \<open>Properties\<close>

text \<open>C25. Subsystems see the messages in the order of the block. After subscriptions to distinct topics
  and the dispatch of any list of messages (fewer than \<open>2^64\<close>), serving the receivers by \<open>select!\<close> as
  often as there are messages returns exactly the messages with a subscribed topic, each once, with its
  number, in dispatch order across all topics.\<close>

theorem select_serves_in_order:
  assumes "distinct ts" "length ms < 2 ^ 64" "subscribe_all ts dispatcher_new = (ids, d)" "length ms \<le> n"
  shows "fst (select_run n ids (dispatch_all ms d)) = filter (\<lambda>v. m_destination (snd v) \<in> set ts) (enumerate 0 ms)"
proof -
  let ?d = "dispatch_all ms d"
  have "subscribed [] [] dispatcher_new" by (simp add: subscribed_def dispatcher_new_def subscribers_of_def)
  then have sub: "subscribed ts ids d" "\<forall>i. queue_of d i = []" "d_local_index d = 0"
    using subscribe_all_ok [OF _ assms(3), of "[]" "[]"] by (simp_all add: dispatcher_new_def mpsc_channel_def)
  have queues: "queue_of ?d (ids ! j) = filter (\<lambda>v. m_destination (snd v) = ts ! j) (enumerate 0 ms)" if "j < length ts" for j
    using dispatch_all_queue [OF sub(1) _ that, of ms] assms(2) sub(2,3) by simp
  note served = dispatched_served [OF assms(1) dispatch_all_subscribed [OF sub(1)] queues]
  obtain vs d' where run: "select_run n ids ?d = (vs, d')" by (cases "select_run n ids ?d")
  have "by_sn vs \<and> set vs = waiting ids ?d"
    by (rule select_run_sorted [OF served(1) order.trans [OF served(3) assms(4)] run])
  then have "vs = filter (\<lambda>v. m_destination (snd v) \<in> set ts) (enumerate 0 ms)"
    using served(2) by (intro by_sn_unique by_sn_filter) auto
  with run show ?thesis by simp
qed

text \<open>Two topics, three messages, one of them for nobody.\<close>

theorem select_serves_in_order_witness:
  "let m = (\<lambda>t p. \<lparr>m_sender = Keyfairy, m_destination = t, m_payload = p\<rparr>);
       sub = subscribe_all [''a'', ''b''] dispatcher_new
   in fst (select_run 3 (fst sub) (dispatch_all [m ''b'' ''1'', m ''c'' ''2'', m ''a'' ''3''] (snd sub)))
        = [(0, m ''b'' ''1''), (2, m ''a'' ''3'')]"
proof -
  have "distinct [''a'', ''b'']" by simp
  from select_serves_in_order [OF this _ prod.collapse [symmetric], of
      "[\<lparr>m_sender = Keyfairy, m_destination = ''b'', m_payload = ''1''\<rparr>, \<lparr>m_sender = Keyfairy, m_destination = ''c'', m_payload = ''2''\<rparr>,
        \<lparr>m_sender = Keyfairy, m_destination = ''a'', m_payload = ''3''\<rparr>]" 3]
  show ?thesis by (simp add: Let_def del: select_run.simps subscribe_all.simps dispatch_all.simps)
qed

end
