(* ===== verification/Scheduler_Credit.thy ===== *)
theory Scheduler_Credit
  imports Storage_Handler
begin

text \<open>
  \<open>pallets/scheduler-credit\<close>: the credit of the schedulers (the stash accounts behind the trusted
  workers). Work is counted in points per period; at the end of a period the points become credit
  values between 0 and \<open>FULL_CREDIT_SCORE\<close>, and the values of the last five periods, weighted by
  \<open>PERIOD_WEIGHT\<close>, give the score that block production reads. The five operations
  \<open>increase_point_for_*\<close> share one contract, the locale \<open>credit_counter\<close>.
\<close>

definition CERT_BASE_SIZE :: nat where "CERT_BASE_SIZE = 16 * G_BYTE"
definition CERT_BASE_POINT :: nat where "CERT_BASE_POINT = 4"
definition TAG_BASE_SIZE :: nat where "TAG_BASE_SIZE = 16 * M_BYTE"
definition TAG_BASE_POINT :: nat where "TAG_BASE_POINT = 180"
definition REPLACE_BASE_SIZE :: nat where "REPLACE_BASE_SIZE = 64 * M_BYTE"
definition REPLACE_BASE_POINT :: nat where "REPLACE_BASE_POINT = 1"
definition IDLE_VERIFY_BASE_SIZE :: nat where "IDLE_VERIFY_BASE_SIZE = 16 * G_BYTE"
definition IDLE_VERIFY_BASE_POINT :: nat where "IDLE_VERIFY_BASE_POINT = 1"
definition SERVICE_VERIFY_BASE_SIZE :: nat where "SERVICE_VERIFY_BASE_SIZE = 1 * G_BYTE"
definition SERVICE_VERIFY_BASE_POINT :: nat where "SERVICE_VERIFY_BASE_POINT = 12"
definition FULL_CREDIT_SCORE :: nat where "FULL_CREDIT_SCORE = 1000"

text \<open>\<open>Percent::from_percent\<close>, in parts per billion like every ratio of the model.\<close>

definition from_percent :: "nat \<Rightarrow> nat" where
  "from_percent p = p * 10 ^ 7"

definition PERIOD_WEIGHT :: "nat list" where
  "PERIOD_WEIGHT = map from_percent [50, 20, 15, 10, 5]"

record counter_entry =
  proceed_block_size :: nat
  punishment_count :: nat

definition counter_default :: counter_entry where
  "counter_default = \<lparr>proceed_block_size = 0, punishment_count = 0\<rparr>"

definition increase_block_size :: "nat \<Rightarrow> counter_entry \<Rightarrow> (dispatch_error + unit) \<times> counter_entry" where
  "increase_block_size block_size c = (case checked_add 64 (proceed_block_size c) block_size of
     None \<Rightarrow> (Inl (CreditE credit_error.Overflow), c)
   | Some n \<Rightarrow> (Inr (), c\<lparr>proceed_block_size := n\<rparr>))"

definition increase_punishment_count :: "counter_entry \<Rightarrow> (dispatch_error + unit) \<times> counter_entry" where
  "increase_punishment_count c = (case checked_add 32 (punishment_count c) 1 of
     None \<Rightarrow> (Inl (CreditE credit_error.Overflow), c)
   | Some n \<Rightarrow> (Inr (), c\<lparr>punishment_count := n\<rparr>))"

definition punishment_part :: "counter_entry \<Rightarrow> nat" where
  "punishment_part c = (if punishment_count c \<noteq> 0
     then wrapping_mul 32 (wrapping_mul 32 10 (punishment_count c)) (wrapping_mul 32 10 (punishment_count c))
     else 0)"

definition figure_credit_value :: "'w Config \<Rightarrow> nat \<Rightarrow> counter_entry \<Rightarrow> nat" where
  "figure_credit_value E total_block_size c =
     (if total_block_size \<noteq> 0
      then perbill_mul E (perbill_from_rational E (proceed_block_size c) total_block_size) FULL_CREDIT_SCORE
             - punishment_part c
      else 0)"

record 'w credit_state = "'w storage_state" +
  CurrentCounters :: "(account \<times> counter_entry) list"
  HistoryCreditValues :: "nat \<Rightarrow> (account \<times> nat) list"

definition account_hash :: "'w Config \<Rightarrow> account \<Rightarrow> nat" where
  "account_hash E a = storage_hash E (encode E (S_Num a))"

definition counter_of :: "('w, 'z) credit_state_scheme \<Rightarrow> account \<Rightarrow> counter_entry" where
  "counter_of s a = (case map_of (CurrentCounters s) a of None \<Rightarrow> counter_default | Some c \<Rightarrow> c)"

definition counter_put :: "'w Config \<Rightarrow> account \<Rightarrow> counter_entry \<Rightarrow> ('w, 'z) credit_state_scheme \<Rightarrow> ('w, 'z) credit_state_scheme" where
  "counter_put E a c s = s\<lparr>CurrentCounters := assoc_put (account_hash E) a c (CurrentCounters s)\<rparr>"

definition record_proceed_block_size :: "'w Config \<Rightarrow> account \<Rightarrow> nat \<Rightarrow> (('w, 'z) credit_state_scheme, unit) M" where
  "record_proceed_block_size E scheduler_id block_size =
     mutateM (\<lambda>s. counter_of s scheduler_id) (counter_put E scheduler_id) (increase_block_size block_size)"

definition record_punishment :: "'w Config \<Rightarrow> account \<Rightarrow> (('w, 'z) credit_state_scheme, unit) M" where
  "record_punishment E scheduler_id =
     mutateM (\<lambda>s. counter_of s scheduler_id) (counter_put E scheduler_id) increase_punishment_count"

definition figure_credit_values :: "'w Config \<Rightarrow> nat \<Rightarrow> ('w, 'z) credit_state_scheme \<Rightarrow> ('w, 'z) credit_state_scheme" where
  "figure_credit_values E period s =
     (let total_size = foldl (\<lambda>t x. wrapping_add 64 t (proceed_block_size (snd x))) 0 (CurrentCounters s);
          values = foldl (\<lambda>h x. assoc_put (account_hash E) (fst x) (figure_credit_value E total_size (snd x)) h)
                     (HistoryCreditValues s period) (CurrentCounters s);
          history = (HistoryCreditValues s)(period := values);
          history_depth = length PERIOD_WEIGHT
      in s\<lparr>CurrentCounters := [],
           HistoryCreditValues := (if history_depth \<le> period
             then history(period - history_depth := []) else history)\<rparr>)"

definition credit_on_initialize :: "'w Config \<Rightarrow> nat \<Rightarrow> (('w, 'z) credit_state_scheme, unit) M" where
  "credit_on_initialize E now =
     (if PeriodDuration E = 0 then failM Panic
      else if now mod PeriodDuration E = 0
      then modM (figure_credit_values E (saturated_into 32 (now div PeriodDuration E) - 1))
      else retM ())"

definition credit_score_of :: "'w Config \<Rightarrow> ('w, 'z) credit_state_scheme \<Rightarrow> nat \<Rightarrow> account \<Rightarrow> nat" where
  "credit_score_of E s last_period ctrl =
     foldl (\<lambda>score x. case x of (index, weight) \<Rightarrow>
         (if index \<le> last_period
          then wrapping_add 32 score (perbill_mul E weight
            (case map_of (HistoryCreditValues s (last_period - index)) ctrl of None \<Rightarrow> 0 | Some v \<Rightarrow> v))
          else score))
       0 (enumerate 0 PERIOD_WEIGHT)"

definition figure_credit_scores :: "'w Config \<Rightarrow> ('w, 'z) credit_state_scheme \<Rightarrow> (account \<Rightarrow> nat option)" where
  "figure_credit_scores E s =
     (let period = saturated_into 32 (block_number s div PeriodDuration E); last_period = period - 1
      in if period = 0 then Map.empty
         else foldl (\<lambda>result ctrl. case staking_ledger_stash E (world s) ctrl of
                None \<Rightarrow> result
              | Some stash \<Rightarrow> result(stash \<mapsto> credit_score_of E s last_period ctrl))
            Map.empty (map fst (HistoryCreditValues s last_period)))"

text \<open>The trait \<open>SchedulerCreditCounter\<close>. The five operations differ in the base size and base point.\<close>

definition increase_point :: "'w Config \<Rightarrow> nat \<Rightarrow> nat \<Rightarrow> account \<Rightarrow> nat \<Rightarrow> (('w, 'z) credit_state_scheme, unit) M" where
  "increase_point E base_size base_point scheduler_id space =
     bindM (ok_or (checked_div space base_size) (CreditE credit_error.PointOverflow)) (\<lambda>q.
     bindM (ok_or (try_into 64 q) (CreditE credit_error.Overflow)) (\<lambda>base_count.
     bindM (if space mod base_size \<noteq> 0
            then ok_or (checked_add 64 base_count 1) (CreditE credit_error.PointOverflow)
            else retM base_count) (\<lambda>base_count.
     bindM (ok_or (checked_mul 64 base_count base_point) (CreditE credit_error.PointOverflow)) (\<lambda>point.
     record_proceed_block_size E scheduler_id point))))"

definition increase_point_for_tag :: "'w Config \<Rightarrow> account \<Rightarrow> nat \<Rightarrow> (('w, 'z) credit_state_scheme, unit) M" where
  "increase_point_for_tag E = increase_point E TAG_BASE_SIZE TAG_BASE_POINT"

definition increase_point_for_cert :: "'w Config \<Rightarrow> account \<Rightarrow> nat \<Rightarrow> (('w, 'z) credit_state_scheme, unit) M" where
  "increase_point_for_cert E = increase_point E CERT_BASE_SIZE CERT_BASE_POINT"

definition increase_point_for_idle_verify :: "'w Config \<Rightarrow> account \<Rightarrow> nat \<Rightarrow> (('w, 'z) credit_state_scheme, unit) M" where
  "increase_point_for_idle_verify E = increase_point E IDLE_VERIFY_BASE_SIZE IDLE_VERIFY_BASE_POINT"

definition increase_point_for_service_verify :: "'w Config \<Rightarrow> account \<Rightarrow> nat \<Rightarrow> (('w, 'z) credit_state_scheme, unit) M" where
  "increase_point_for_service_verify E = increase_point E SERVICE_VERIFY_BASE_SIZE SERVICE_VERIFY_BASE_POINT"

definition increase_point_for_replace :: "'w Config \<Rightarrow> account \<Rightarrow> nat \<Rightarrow> (('w, 'z) credit_state_scheme, unit) M" where
  "increase_point_for_replace E = increase_point E REPLACE_BASE_SIZE REPLACE_BASE_POINT"

definition full_credit :: nat where "full_credit = FULL_CREDIT_SCORE"

definition credits_of :: "'w Config \<Rightarrow> nat \<Rightarrow> ('w, 'z) credit_state_scheme \<Rightarrow> (account \<Rightarrow> nat option)" where
  "credits_of E epoch_index s = figure_credit_scores E s"

section \<open>The contract of the point counters\<close>

text \<open>What the trusted-worker, file and audit pallets rely on when they award points: an award adds the
  worth of the space to the account's points and to no other account's, or fails.\<close>

locale credit_counter =
  fixes points :: "'s \<Rightarrow> account \<Rightarrow> nat"
    and award :: "account \<Rightarrow> nat \<Rightarrow> ('s, unit) M"
    and worth :: "nat \<Rightarrow> nat"
  assumes award_ok: "award a v s = (Inr u, s') \<Longrightarrow> points s' = (points s)(a := points s a + worth v)"
    and award_bound: "award a v s = (Inr u, s') \<Longrightarrow> points s' a < 2 ^ 64"
begin

lemma awards_add:
  "forM vs (\<lambda>v. award a v) s = (Inr u, s') \<Longrightarrow> points s' = (points s)(a := points s a + sum_list (map worth vs))"
proof (induction vs arbitrary: s)
  case Nil
  then show ?case by (simp add: run_simps)
next
  case (Cons v vs)
  then obtain t where t: "award a v s = (Inr (), t)" "forM vs (\<lambda>v. award a v) t = (Inr u, s')"
    by (auto simp: run_simps)
  from Cons.IH [OF t(2)] award_ok [OF t(1)] show ?case by (auto simp: add.assoc fun_eq_iff)
qed

end

definition points_of :: "('w, 'z) credit_state_scheme \<Rightarrow> account \<Rightarrow> nat" where
  "points_of s a = proceed_block_size (counter_of s a)"

definition counters_ok :: "('w, 'z) credit_state_scheme \<Rightarrow> bool" where
  "counters_ok s \<longleftrightarrow> distinct (map fst (CurrentCounters s))"

text \<open>The award of a base size and point, on the states whose counter keys are distinct.\<close>

definition award_worth :: "nat \<Rightarrow> nat \<Rightarrow> nat \<Rightarrow> nat" where
  "award_worth base_size base_point space = ((space + base_size - 1) div base_size) * base_point"

lemma counter_of_put: "counter_of (counter_put E a c s) b = (if b = a then c else counter_of s b)"
  by (simp add: counter_of_def counter_put_def assoc_put_get)

lemma record_proceed_ok:
  "record_proceed_block_size E a n s = (Inr u, s') \<longleftrightarrow>
     points_of s a + n < 2 ^ 64 \<and> s' = counter_put E a ((counter_of s a)\<lparr>proceed_block_size := points_of s a + n\<rparr>) s"
  by (auto simp: record_proceed_block_size_def increase_block_size_def points_of_def run_simps checked_add_def
      split: option.splits if_splits)

lemma increase_point_ok:
  assumes "0 < base_size"
  shows "increase_point E base_size base_point a space s = (Inr u, s') \<Longrightarrow>
    points_of s' = (points_of s)(a := points_of s a + award_worth base_size base_point space) \<and> points_of s' a < 2 ^ 64"
  using assms div_up [OF assms, of space]
  by (auto simp: increase_point_def run_simps record_proceed_ok award_worth_def points_of_def counter_of_put
      fun_eq_iff split: if_splits)

lemmas base_sizes = CERT_BASE_SIZE_def TAG_BASE_SIZE_def REPLACE_BASE_SIZE_def IDLE_VERIFY_BASE_SIZE_def
  SERVICE_VERIFY_BASE_SIZE_def M_BYTE_def G_BYTE_def

interpretation tag: credit_counter points_of "increase_point_for_tag E" "award_worth TAG_BASE_SIZE TAG_BASE_POINT"
  by unfold_locales (auto simp: increase_point_for_tag_def base_sizes dest!: increase_point_ok [rotated])

interpretation cert: credit_counter points_of "increase_point_for_cert E" "award_worth CERT_BASE_SIZE CERT_BASE_POINT"
  by unfold_locales (auto simp: increase_point_for_cert_def base_sizes dest!: increase_point_ok [rotated])

interpretation idle_verify: credit_counter points_of "increase_point_for_idle_verify E"
  "award_worth IDLE_VERIFY_BASE_SIZE IDLE_VERIFY_BASE_POINT"
  by unfold_locales (auto simp: increase_point_for_idle_verify_def base_sizes dest!: increase_point_ok [rotated])

interpretation service_verify: credit_counter points_of "increase_point_for_service_verify E"
  "award_worth SERVICE_VERIFY_BASE_SIZE SERVICE_VERIFY_BASE_POINT"
  by unfold_locales (auto simp: increase_point_for_service_verify_def base_sizes dest!: increase_point_ok [rotated])

interpretation replacing: credit_counter points_of "increase_point_for_replace E"
  "award_worth REPLACE_BASE_SIZE REPLACE_BASE_POINT"
  by unfold_locales (auto simp: increase_point_for_replace_def base_sizes dest!: increase_point_ok [rotated])

section \<open>Credit values and the history window\<close>

lemma figure_credit_value_le:
  assumes "from_rational_law E" "perbill_mul_law E"
  shows "figure_credit_value E tot c \<le> FULL_CREDIT_SCORE"
proof -
  let ?p = "perbill_from_rational E (proceed_block_size c) tot"
  have "?p \<le> 10 ^ 9" using assms(1) by (simp add: from_rational_law_def)
  then have "perbill_mul E ?p FULL_CREDIT_SCORE \<le> FULL_CREDIT_SCORE"
    by (intro perbill_mul_le [OF assms(2)]) (simp_all add: FULL_CREDIT_SCORE_def)
  then show ?thesis by (auto simp: figure_credit_value_def intro: order.trans [OF diff_le_self])
qed

lemma foldl_assoc_put:
  assumes "\<forall>x \<in> set h. snd x \<le> B" "\<And>x. f x \<le> (B::nat)"
  shows "\<forall>x \<in> set (foldl (\<lambda>h x. assoc_put g (fst x) (f x) h) h xs). snd x \<le> B"
  using assms(1)
proof (induction xs arbitrary: h)
  case Nil
  then show ?case by simp
next
  case (Cons x xs)
  have "\<forall>y \<in> set (assoc_put g (fst x) (f x) h). snd y \<le> B" using Cons.prems assms(2) by (auto simp: set_assoc_put)
  with Cons.IH show ?case by simp
qed

definition credit_inv :: "'w Config \<Rightarrow> ('w, 'z) credit_state_scheme \<Rightarrow> bool" where
  "credit_inv E s \<longleftrightarrow>
     (\<forall>q. \<forall>x \<in> set (HistoryCreditValues s q). snd x \<le> FULL_CREDIT_SCORE) \<and>
     (\<forall>q. HistoryCreditValues s q \<noteq> [] \<longrightarrow> q < block_number s div PeriodDuration E
        \<and> block_number s div PeriodDuration E \<le> q + length PERIOD_WEIGHT)"

inductive credit_reachable :: "'w Config \<Rightarrow> ('w, 'z) credit_state_scheme \<Rightarrow> bool" for E where
  "\<lbrakk>CurrentCounters s = []; HistoryCreditValues s = (\<lambda>_. []); block_number s = 0\<rbrakk> \<Longrightarrow> credit_reachable E s"
| "\<lbrakk>credit_reachable E s; record_proceed_block_size E a n s = (r, s')\<rbrakk> \<Longrightarrow> credit_reachable E s'"
| "\<lbrakk>credit_reachable E s; record_punishment E a s = (r, s')\<rbrakk> \<Longrightarrow> credit_reachable E s'"
| "\<lbrakk>credit_reachable E s; increase_point_for_tag E a n s = (r, s')\<rbrakk> \<Longrightarrow> credit_reachable E s'"
| "\<lbrakk>credit_reachable E s; increase_point_for_cert E a n s = (r, s')\<rbrakk> \<Longrightarrow> credit_reachable E s'"
| "\<lbrakk>credit_reachable E s; increase_point_for_idle_verify E a n s = (r, s')\<rbrakk> \<Longrightarrow> credit_reachable E s'"
| "\<lbrakk>credit_reachable E s; increase_point_for_service_verify E a n s = (r, s')\<rbrakk> \<Longrightarrow> credit_reachable E s'"
| "\<lbrakk>credit_reachable E s; increase_point_for_replace E a n s = (r, s')\<rbrakk> \<Longrightarrow> credit_reachable E s'"
| "\<lbrakk>credit_reachable E s; Suc (block_number s) < 2 ^ 32;
    credit_on_initialize E (Suc (block_number s)) (s\<lparr>block_number := Suc (block_number s)\<rparr>) = (Inr (), s')\<rbrakk>
   \<Longrightarrow> credit_reachable E s'"

lemma length_PERIOD_WEIGHT [simp]: "length PERIOD_WEIGHT = 5"
  by (simp add: PERIOD_WEIGHT_def)

text \<open>Everything but the block hook touches the counters only.\<close>

lemma counter_ops_shape:
  "record_proceed_block_size E a n s = (r, s') \<Longrightarrow> HistoryCreditValues s' = HistoryCreditValues s \<and> block_number s' = block_number s"
  "record_punishment E a s = (r', s') \<Longrightarrow> HistoryCreditValues s' = HistoryCreditValues s \<and> block_number s' = block_number s"
  by (auto simp: record_proceed_block_size_def record_punishment_def mutateM_def counter_put_def split: prod.splits)

lemma increase_point_shape:
  assumes "increase_point E b p a n s = (r, s')"
  shows "HistoryCreditValues s' = HistoryCreditValues s \<and> block_number s' = block_number s"
proof (cases r)
  case (Inl e)
  with assms show ?thesis
    by (auto simp: increase_point_def bindM_Inl run_simps dest!: counter_ops_shape(1) split: if_splits)
next
  case (Inr u)
  with assms show ?thesis
    by (auto simp: increase_point_def run_simps dest!: counter_ops_shape(1) split: if_splits)
qed

lemma credit_inv_same:
  "\<lbrakk>credit_inv E s; HistoryCreditValues s' = HistoryCreditValues s \<and> block_number s' = block_number s\<rbrakk> \<Longrightarrow> credit_inv E s'"
  by (simp add: credit_inv_def)

lemmas counter_ops_keep = credit_inv_same [OF _ counter_ops_shape(1)] credit_inv_same [OF _ counter_ops_shape(2)]
  credit_inv_same [OF _ increase_point_shape]

lemma div_Suc_step:
  assumes "0 < (d::nat)"
  shows "Suc n div d = (if Suc n mod d = 0 then Suc (n div d) else n div d)"
  by (simp add: div_Suc)

lemma credit_hook_inv:
  assumes laws: "from_rational_law E" "perbill_mul_law E" and inv: "credit_inv E s"
    and bound: "Suc (block_number s) < 2 ^ 32"
    and run: "credit_on_initialize E (Suc (block_number s)) (s\<lparr>block_number := Suc (block_number s)\<rparr>) = (Inr (), s')"
  shows "credit_inv E s'"
proof (cases "Suc (block_number s) mod PeriodDuration E = 0")
  case False
  then have "0 < PeriodDuration E" "s' = s\<lparr>block_number := Suc (block_number s)\<rparr>"
    using run by (auto simp: credit_on_initialize_def run_simps split: if_splits)
  with inv False show ?thesis by (simp add: credit_inv_def div_Suc_step)
next
  case True
  let ?P = "block_number s div PeriodDuration E" and ?t = "s\<lparr>block_number := Suc (block_number s)\<rparr>"
  have pos: "0 < PeriodDuration E" using run by (auto simp: credit_on_initialize_def run_simps split: if_splits)
  have new: "Suc (block_number s) div PeriodDuration E = Suc ?P" using True pos by (simp add: div_Suc_step)
  have "Suc ?P < 2 ^ 32" using bound new div_le_dividend [of "Suc (block_number s)" "PeriodDuration E"] by linarith
  then have s': "s' = figure_credit_values E ?P ?t"
    using run True pos new by (simp add: credit_on_initialize_def run_simps saturated_into_def)
  define V where "V = foldl (\<lambda>h x. assoc_put (account_hash E) (fst x) (figure_credit_value E
      (foldl (\<lambda>t x. wrapping_add 64 t (proceed_block_size (snd x))) 0 (CurrentCounters s)) (snd x)) h)
      (HistoryCreditValues s ?P) (CurrentCounters s)"
  have V: "\<forall>x \<in> set V. snd x \<le> FULL_CREDIT_SCORE"
    unfolding V_def using inv figure_credit_value_le [OF laws] by (intro foldl_assoc_put) (auto simp: credit_inv_def)
  have hist: "HistoryCreditValues s' q = (if 5 \<le> ?P \<and> q = ?P - 5 then [] else if q = ?P then V else HistoryCreditValues s q)" for q
    unfolding s' V_def by (simp add: figure_credit_values_def Let_def)
  have "block_number s' = Suc (block_number s)" unfolding s' by (simp add: figure_credit_values_def Let_def)
  moreover have "q < Suc ?P \<and> Suc ?P \<le> q + 5" if "HistoryCreditValues s' q \<noteq> []" for q
  proof (cases "q = ?P")
    case True
    then show ?thesis by simp
  next
    case False
    with that have "HistoryCreditValues s q \<noteq> []" "\<not> (5 \<le> ?P \<and> q = ?P - 5)" by (auto simp: hist split: if_splits)
    with inv have "q < ?P" "?P \<le> q + 5" by (auto simp: credit_inv_def)
    with \<open>\<not> (5 \<le> ?P \<and> q = ?P - 5)\<close> show ?thesis by linarith
  qed
  ultimately show ?thesis
    using inv V new by (auto simp: credit_inv_def hist)
qed

lemma credit_reachable_inv:
  assumes "from_rational_law E" "perbill_mul_law E"
  shows "credit_reachable E s \<Longrightarrow> credit_inv E s"
proof (induction rule: credit_reachable.induct)
  case (1 s)
  then show ?case by (simp add: credit_inv_def)
next
  case (9 s s')
  then show ?case using credit_hook_inv [OF assms] by blast
qed (unfold increase_point_for_tag_def increase_point_for_cert_def increase_point_for_idle_verify_def
      increase_point_for_service_verify_def increase_point_for_replace_def, (erule (1) counter_ops_keep)+)

lemma history_value_le:
  assumes "credit_inv E s"
  shows "(case map_of (HistoryCreditValues s q) a of None \<Rightarrow> 0 | Some v \<Rightarrow> v) \<le> FULL_CREDIT_SCORE"
  using assms by (auto simp: credit_inv_def dest!: map_of_SomeD split: option.splits) force

lemma weighted_value_le:
  assumes "perbill_mul_law E" "v \<le> FULL_CREDIT_SCORE" "w \<le> 100"
  shows "perbill_mul E (from_percent w) v \<le> 10 * w"
proof (rule perbill_mul_le [OF assms(1)])
  show "from_percent w \<le> 10 ^ 9" using assms(3) by (simp add: from_percent_def)
  have "w * 10 ^ 7 * v \<le> w * 10 ^ 7 * 1000" using assms(2) by (simp add: FULL_CREDIT_SCORE_def)
  then show "from_percent w * v \<le> 10 * w * 10 ^ 9" by (simp add: from_percent_def)
qed

lemma foldl_wrapping_le:
  "foldl (\<lambda>t x. if c x then wrapping_add 32 t (g x) else t) a xs \<le> a + sum_list (map g xs)"
proof (induction xs arbitrary: a)
  case Nil
  then show ?case by simp
next
  case (Cons x xs)
  have "wrapping_add 32 a (g x) \<le> a + g x" by (simp add: wrapping_add_def)
  with Cons.IH [of "wrapping_add 32 a (g x)"] Cons.IH [of a] show ?case by auto
qed

lemma credit_score_le:
  assumes "perbill_mul_law E" "credit_inv E s"
  shows "credit_score_of E s p a \<le> FULL_CREDIT_SCORE"
proof -
  let ?v = "\<lambda>i. case map_of (HistoryCreditValues s (p - i)) a of None \<Rightarrow> 0 | Some v \<Rightarrow> v"
  let ?g = "\<lambda>x. perbill_mul E (snd x) (?v (fst x))"
  have t: "w \<le> 100 \<Longrightarrow> perbill_mul E (from_percent w) (?v i) \<le> 10 * w" for w i
    by (rule weighted_value_le [OF assms(1) history_value_le [OF assms(2)]])
  have "credit_score_of E s p a = foldl (\<lambda>t x. if fst x \<le> p then wrapping_add 32 t (?g x) else t) 0 (enumerate 0 PERIOD_WEIGHT)"
    by (simp add: credit_score_of_def case_prod_unfold)
  also have "\<dots> \<le> 0 + sum_list (map ?g (enumerate 0 PERIOD_WEIGHT))"
    by (rule foldl_wrapping_le)
  also have "\<dots> = ?g (0, from_percent 50) + (?g (Suc 0, from_percent 20) + (?g (Suc (Suc 0), from_percent 15)
      + (?g (Suc (Suc (Suc 0)), from_percent 10) + ?g (Suc (Suc (Suc (Suc 0))), from_percent 5))))"
    by (simp add: PERIOD_WEIGHT_def)
  also have "\<dots> \<le> 500 + (200 + (150 + (100 + 50)))"
    using t [of 50 0] t [of 20 "Suc 0"] t [of 15 "Suc (Suc 0)"] t [of 10 "Suc (Suc (Suc 0))"]
      t [of 5 "Suc (Suc (Suc (Suc 0)))"] by (intro add_mono) simp_all
  finally show ?thesis by (simp add: FULL_CREDIT_SCORE_def)
qed

lemma foldl_scores:
  assumes "foldl (\<lambda>r c. case f c of None \<Rightarrow> r | Some st \<Rightarrow> r(st \<mapsto> g c)) r0 cs x = Some v"
    and "\<And>c. g c \<le> B" "\<forall>x v. r0 x = Some v \<longrightarrow> v \<le> (B::nat)"
  shows "v \<le> B"
  using assms(1,3)
proof (induction cs arbitrary: r0)
  case Nil
  then show ?case by simp
next
  case (Cons c cs)
  show ?case
  proof (cases "f c")
    case None
    with Cons show ?thesis by simp
  next
    case (Some st)
    have "\<forall>x v. (r0(st \<mapsto> g c)) x = Some v \<longrightarrow> v \<le> B" using Cons.prems(2) assms(2) by auto
    from Cons.IH [OF _ this] Cons.prems(1) Some show ?thesis by (simp del: fun_upd_apply)
  qed
qed

lemma credit_scores_le:
  assumes "perbill_mul_law E" "credit_inv E s" "figure_credit_scores E s stash = Some x"
  shows "x \<le> FULL_CREDIT_SCORE"
proof -
  let ?p = "saturated_into 32 (block_number s div PeriodDuration E) - 1"
  have "foldl (\<lambda>r c. case staking_ledger_stash E (world s) c of None \<Rightarrow> r | Some st \<Rightarrow> r(st \<mapsto> credit_score_of E s ?p c))
      Map.empty (map fst (HistoryCreditValues s ?p)) stash = Some x"
    using assms(3) by (auto simp: figure_credit_scores_def Let_def simp del: One_nat_def split: if_splits)
  then show ?thesis by (rule foldl_scores) (auto simp: credit_score_le [OF assms(1,2)])
qed

section \<open>Properties\<close>

definition credit_example :: "ledger credit_state" where
  "credit_example = \<lparr>world = ledger_of [], block_number = 0,
     CurrencyReward = 0, EraReward = 0, ReserveReward = 0, RoundReward = Map.empty,
     Reservoir = \<lparr>rv_free_balance = 0, rv_borrow_balance = 0, rv_store_balance = 0\<rparr>,
     BorrowList = Map.empty, UserPassbook = (\<lambda>_. \<lparr>uh_free = 0, uh_staking = 0\<rparr>),
     Events = Map.empty, EventExpiredRecords = (\<lambda>_. []),
     TerritoryKey = Map.empty, Territory = Map.empty, Consignment = Map.empty, TerritoryFrozen = (\<lambda>_. []),
     TerritoryFrozenCounter = (\<lambda>_. 0), TerritoryExpired = (\<lambda>_. []), UnitPrice = None,
     TotalIdleSpace = 0, TotalServiceSpace = 0, PurchasedSpace = 0, PayOrder = Map.empty,
     CurrentCounters = [], HistoryCreditValues = (\<lambda>_. [])\<rparr>"


lemma credit_example_sel [simp]:
  "CurrentCounters credit_example = []" "HistoryCreditValues credit_example = (\<lambda>_. [])" "block_number credit_example = 0"
  by (simp_all add: credit_example_def)


text \<open>Awards are exact. A run of awards of one kind adds to the account's points the sum, over the
  spaces, of the base point times the number of base sizes the space needs, rounded up per award; no
  other account's points change and no counter wraps.\<close>

theorem tag_awards_exact:
  assumes "forM spaces (\<lambda>v. increase_point_for_tag E a v) s = (Inr (), s')"
  shows "points_of s' = (points_of s)(a := points_of s a +
     sum_list (map (\<lambda>v. (v + TAG_BASE_SIZE - 1) div TAG_BASE_SIZE * TAG_BASE_POINT) spaces))"
  using tag.awards_add [OF assms] by (simp add: award_worth_def cong: map_cong)

theorem tag_awards_exact_witness:
  "\<exists>s'. forM [1, TAG_BASE_SIZE + 1] (\<lambda>v. increase_point_for_tag ledger_runtime 7 v) credit_example = (Inr (), s')
     \<and> points_of s' 7 = 540"
proof -
  have start: "counter_of credit_example b = counter_default" for b by (simp add: counter_of_def)
  obtain s' where s': "forM [1, TAG_BASE_SIZE + 1] (\<lambda>v. increase_point_for_tag ledger_runtime 7 v) credit_example = (Inr (), s')"
    by (auto simp: increase_point_for_tag_def increase_point_def run_simps record_proceed_ok counter_of_put points_of_def
        TAG_BASE_SIZE_def TAG_BASE_POINT_def M_BYTE_def start counter_default_def)
  moreover have "points_of credit_example 7 = 0" by (simp add: points_of_def counter_of_def counter_default_def)
  ultimately have "points_of s' 7 = 540"
    using tag_awards_exact [OF s'] by (simp add: TAG_BASE_SIZE_def TAG_BASE_POINT_def M_BYTE_def)
  with s' show ?thesis by blast
qed

text \<open>The square of the punishment is computed in 32 bits: after 32768 punishments in a period it is zero
  again and the credit value is that of an account never punished.\<close>

lemma punishment_wraps_to_zero:
  "punishment_part \<lparr>proceed_block_size = n, punishment_count = 32768\<rparr> = 0"
  by (simp add: punishment_part_def wrapping_mul_def)

end
