(* ===== verification/Message_Queue.thy ===== *)
theory Message_Queue
  imports Scheduler_Credit Ces_Mq
begin

text \<open>
  \<open>pallets/mq\<close>: the message queue of the chain. Off-chain senders (workers and the holders of the
  master key) number their messages; the chain accepts the expected number only, with a valid
  signature, and hands the message to the pallets (\<open>QueueNotifyConfig\<close>, the parameter \<open>notify\<close>) and,
  for off-chain topics, to the outbound list of the block. \<open>check_seq.rs\<close> applies the same test to
  transactions in the pool. The parameters \<open>notify\<close> and \<open>supplier\<close> (\<open>MasterPubkeySupplier\<close>) are
  instantiated by the trusted-worker pallet in \<open>Tee_Worker\<close>, as the runtime does.
\<close>

record 'w mq_state = "'w credit_state" +
  OffchainIngress :: "message_origin \<Rightarrow> nat option"
  QueuedOutboundMessage :: "message list option"
  OutboundMessages :: "message list"

definition message_new :: "message_origin \<Rightarrow> string \<Rightarrow> string \<Rightarrow> message" where
  "message_new sender dest payload = \<lparr>m_sender = sender, m_destination = dest, m_payload = payload\<rparr>"

definition expected_seq :: "('w, 'z) mq_state_scheme \<Rightarrow> message_origin \<Rightarrow> nat" where
  "expected_seq s sender = (case OffchainIngress s sender of None \<Rightarrow> 0 | Some n \<Rightarrow> n)"

definition mq_verify_signature :: "'w Config \<Rightarrow> string \<Rightarrow> signed_message \<Rightarrow> (('w, 'z) mq_state_scheme, unit) M" where
  "mq_verify_signature E pubkey sm =
     bindM (ensureM (length (sm_signature sm) = 64) (MqE mq_error.InvalidSignatureLength)) (\<lambda>_.
     bindM (ok_or (sr25519_signature E (sm_signature sm)) (MqE mq_error.MalformedSignature)) (\<lambda>sig.
     ensureM (sr25519_verify E sig (wrap_content_to_sign (data_be_signed E sm) MqMessage) pubkey)
       (MqE mq_error.InvalidSignature)))"

definition check_message :: "'w Config \<Rightarrow> (('w, 'z) mq_state_scheme \<Rightarrow> string option) \<Rightarrow> signed_message
    \<Rightarrow> (('w, 'z) mq_state_scheme, unit) M" where
  "check_message E supplier sm = (case m_sender (sm_message sm) of
     Worker pubkey \<Rightarrow> mq_verify_signature E pubkey sm
   | Keyfairy \<Rightarrow> bindM (getM supplier) (\<lambda>k.
       bindM (ok_or k (MqE mq_error.MasterKeyUninitialized)) (\<lambda>pubkey. mq_verify_signature E pubkey sm))
   | _ \<Rightarrow> failM (MqE mq_error.CannotHandleUnknownMessage))"

definition should_push_message :: "message \<Rightarrow> bool" where
  "should_push_message m = topic_is_offchain (m_destination m)"

definition dispatch_message :: "(message \<Rightarrow> (('w, 'z) mq_state_scheme, unit) M) \<Rightarrow> message
    \<Rightarrow> (('w, 'z) mq_state_scheme, unit) M" where
  "dispatch_message notify m =
     bindM (attemptM (notify m)) (\<lambda>_.
     if should_push_message m then modM (\<lambda>s. s\<lparr>OutboundMessages := OutboundMessages s @ [m]\<rparr>) else retM ())"

definition sync_offchain_message :: "'w Config \<Rightarrow> (message \<Rightarrow> (('w, 'z) mq_state_scheme, unit) M)
    \<Rightarrow> (('w, 'z) mq_state_scheme \<Rightarrow> string option) \<Rightarrow> origin \<Rightarrow> signed_message \<Rightarrow> (('w, 'z) mq_state_scheme, unit) M" where
  "sync_offchain_message E notify supplier orig sm = transactional (
     let sender = m_sender (sm_message sm) in
     bindM (ensure_signed orig) (\<lambda>_.
     bindM (ensureM (is_offchain sender) (MqE mq_error.BadSender)) (\<lambda>_.
     bindM (ensureM (topic_is_valid (m_destination (sm_message sm))) (MqE mq_error.BadDestination)) (\<lambda>_.
     bindM (getM (\<lambda>s. expected_seq s sender)) (\<lambda>expected.
     bindM (ensureM (sm_sequence sm = expected) (MqE mq_error.BadSequence)) (\<lambda>_.
     bindM (check_message E supplier sm) (\<lambda>_.
     bindM (modM (\<lambda>s. s\<lparr>OffchainIngress := (OffchainIngress s)(sender \<mapsto> wrapping_add 64 expected 1)\<rparr>)) (\<lambda>_.
     dispatch_message notify (sm_message sm)))))))))"

definition mq_push_message :: "'w Config \<Rightarrow> (message \<Rightarrow> (('w, 'z) mq_state_scheme, unit) M) \<Rightarrow> origin \<Rightarrow> string \<Rightarrow> string
    \<Rightarrow> (('w, 'z) mq_state_scheme, unit) M" where
  "mq_push_message E notify orig dest payload = transactional (
     bindM (ensure_signed orig) (\<lambda>who. dispatch_message notify (message_new (AccountId who) dest payload)))"

definition force_push_pallet_message :: "'w Config \<Rightarrow> (message \<Rightarrow> (('w, 'z) mq_state_scheme, unit) M) \<Rightarrow> origin \<Rightarrow> string
    \<Rightarrow> string \<Rightarrow> (('w, 'z) mq_state_scheme, unit) M" where
  "force_push_pallet_message E notify orig dest payload = transactional (
     bindM (ensure_root orig) (\<lambda>_. dispatch_message notify (message_new (Pallet ''ForcePushed'') dest payload)))"

definition push_message_to :: "(message \<Rightarrow> (('w, 'z) mq_state_scheme, unit) M) \<Rightarrow> string \<Rightarrow> message_origin \<Rightarrow> string
    \<Rightarrow> (('w, 'z) mq_state_scheme, unit) M" where
  "push_message_to notify topic sender payload = dispatch_message notify (message_new sender topic payload)"

definition queue_bound_message :: "string \<Rightarrow> message_origin \<Rightarrow> string \<Rightarrow> (('w, 'z) mq_state_scheme, unit) M" where
  "queue_bound_message topic sender payload = modM (\<lambda>s. s\<lparr>QueuedOutboundMessage :=
     Some ((case QueuedOutboundMessage s of None \<Rightarrow> [] | Some ms \<Rightarrow> ms) @ [message_new sender topic payload])\<rparr>)"

definition offchain_ingress :: "message_origin \<Rightarrow> ('w, 'z) mq_state_scheme \<Rightarrow> nat option" where
  "offchain_ingress sender s = OffchainIngress s sender"

definition reset_ingress_channel_seq :: "message_origin \<Rightarrow> (('w, 'z) mq_state_scheme, unit) M" where
  "reset_ingress_channel_seq sender = modM (\<lambda>s. s\<lparr>OffchainIngress := (OffchainIngress s)(sender := None)\<rparr>)"

definition mq_on_initialize :: "(message \<Rightarrow> (('w, 'z) mq_state_scheme, unit) M) \<Rightarrow> (('w, 'z) mq_state_scheme, unit) M" where
  "mq_on_initialize notify =
     bindM (modM (\<lambda>s. s\<lparr>OutboundMessages := []\<rparr>)) (\<lambda>_.
     bindM (getM QueuedOutboundMessage) (\<lambda>queued.
     bindM (modM (\<lambda>s. s\<lparr>QueuedOutboundMessage := None\<rparr>)) (\<lambda>_.
     case queued of None \<Rightarrow> retM () | Some msgs \<Rightarrow> forM msgs (dispatch_message notify))))"

section \<open>The transaction extension \<open>CheckMqSequence\<close>\<close>

datatype mq_call = Call_sync_offchain_message signed_message | Call_other

datatype invalid_transaction = Stale | Future

record valid_transaction =
  tx_provides :: "string list"
  tx_requires :: "string list"

definition mq_tag :: "'w Config \<Rightarrow> message_origin \<Rightarrow> nat \<Rightarrow> string" where
  "mq_tag E sender sequence = encode E (S_Seq [S_Bytes ''CesMqOffchainMessages'', scale_origin sender, S_Num sequence])"

definition pre_dispatch :: "('w, 'z) mq_state_scheme \<Rightarrow> mq_call \<Rightarrow> invalid_transaction + unit" where
  "pre_dispatch s call = (case call of
     Call_sync_offchain_message sm \<Rightarrow>
       (let expected = expected_seq s (m_sender (sm_message sm)) in
        if sm_sequence sm \<noteq> expected
        then Inl (if sm_sequence sm < expected then Stale else Future) else Inr ())
   | Call_other \<Rightarrow> Inr ())"

definition mq_validate :: "'w Config \<Rightarrow> ('w, 'z) mq_state_scheme \<Rightarrow> mq_call \<Rightarrow> invalid_transaction + valid_transaction" where
  "mq_validate E s call = (case call of
     Call_sync_offchain_message sm \<Rightarrow>
       (let sender = m_sender (sm_message sm); expected = expected_seq s sender in
        if sm_sequence sm < expected then Inl Stale
        else Inr \<lparr>tx_provides = [mq_tag E sender (sm_sequence sm)],
                  tx_requires = (if expected < sm_sequence sm then [mq_tag E sender (sm_sequence sm - 1)] else [])\<rparr>)
   | Call_other \<Rightarrow> Inr \<lparr>tx_provides = [], tx_requires = []\<rparr>)"

section \<open>Runs of submissions\<close>

text \<open>A sequence of submitted messages, each either accepted (and listed) or refused.\<close>

fun relay :: "'w Config \<Rightarrow> (message \<Rightarrow> (('w, 'z) mq_state_scheme, unit) M) \<Rightarrow> (('w, 'z) mq_state_scheme \<Rightarrow> string option)
    \<Rightarrow> (origin \<times> signed_message) list \<Rightarrow> ('w, 'z) mq_state_scheme \<Rightarrow> signed_message list \<times> ('w, 'z) mq_state_scheme" where
  "relay E notify supplier [] s = ([], s)"
| "relay E notify supplier (c # cs) s = (case sync_offchain_message E notify supplier (fst c) (snd c) s of
     (Inl e, t) \<Rightarrow> relay E notify supplier cs t
   | (Inr u, t) \<Rightarrow> (case relay E notify supplier cs t of (acc, s') \<Rightarrow> (snd c # acc, s')))"

definition worker_signed :: "'w Config \<Rightarrow> string \<Rightarrow> signed_message \<Rightarrow> bool" where
  "worker_signed E k sm \<longleftrightarrow> length (sm_signature sm) = 64 \<and>
     (\<exists>sig. sr25519_signature E (sm_signature sm) = Some sig \<and>
        sr25519_verify E sig (wrap_content_to_sign (data_be_signed E sm) MqMessage) k)"

text \<open>
  What the queue needs of the pallets it notifies: handling a message never touches the expected
  sequence numbers.
\<close>

locale queue_notify =
  fixes notify :: "message \<Rightarrow> (('w, 'z) mq_state_scheme, unit) M"
  assumes notify_ingress: "OffchainIngress (snd (notify m s)) = OffchainIngress s"
begin

lemma dispatch_ok: "\<exists>s'. dispatch_message notify m s = (Inr (), s') \<and> OffchainIngress s' = OffchainIngress s"
  using notify_ingress [of m s] by (auto simp: dispatch_message_def run_eval attemptM_def bindM_def split: prod.splits)

lemma sync_ok:
  assumes "sync_offchain_message E notify supplier orig sm s = (Inr u, s')"
  shows "is_offchain (m_sender (sm_message sm))" "sm_sequence sm = expected_seq s (m_sender (sm_message sm))"
    "OffchainIngress s' = (OffchainIngress s)(m_sender (sm_message sm) \<mapsto> wrapping_add 64 (sm_sequence sm) 1)"
proof -
  let ?x = "m_sender (sm_message sm)"
  obtain t t' where t: "is_offchain ?x" "sm_sequence sm = expected_seq s ?x"
    "check_message E supplier sm s = (Inr (), t)"
    "dispatch_message notify (sm_message sm) (t\<lparr>OffchainIngress := (OffchainIngress t)(?x \<mapsto> wrapping_add 64 (sm_sequence sm) 1)\<rparr>) = (Inr u, s')"
    using assms by (auto simp: sync_offchain_message_def Let_def run_simps)
  have "t = s" using t(3) by (auto simp: check_message_def mq_verify_signature_def run_simps split: message_origin.splits)
  with t dispatch_ok [of "sm_message sm" "t\<lparr>OffchainIngress := (OffchainIngress t)(?x \<mapsto> wrapping_add 64 (sm_sequence sm) 1)\<rparr>"]
  show "is_offchain ?x" "sm_sequence sm = expected_seq s ?x"
    "OffchainIngress s' = (OffchainIngress s)(?x \<mapsto> wrapping_add 64 (sm_sequence sm) 1)"
    by auto
qed

lemma sync_step:
  assumes "sync_offchain_message E notify supplier orig sm s = (Inr u, s')" "Suc (sm_sequence sm) < 2 ^ 64"
  shows "expected_seq s' x = (if x = m_sender (sm_message sm) then Suc (sm_sequence sm) else expected_seq s x)"
  using sync_ok [OF assms(1)] assms(2) by (simp add: expected_seq_def wrapping_add_def)

text \<open>The accepted messages of a sender carry consecutive numbers, in order, none twice.\<close>

lemma relay_in_order:
  assumes "expected_seq s x + length cs < 2 ^ 64" "relay E notify supplier cs s = (acc, s')"
  shows "map sm_sequence (filter (\<lambda>sm. m_sender (sm_message sm) = x) acc) = [expected_seq s x ..< expected_seq s' x]
    \<and> expected_seq s x \<le> expected_seq s' x"
  using assms
proof (induction cs arbitrary: s acc)
  case Nil
  then show ?case by simp
next
  case (Cons c cs)
  show ?case
  proof (cases "sync_offchain_message E notify supplier (fst c) (snd c) s")
    case (Pair r t)
    show ?thesis
    proof (cases r)
      case (Inl e)
      with Pair have "t = s" by (simp add: sync_offchain_message_def run_simps)
      with Cons.IH [of s acc] Cons.prems Pair Inl show ?thesis by simp
    next
      case (Inr u)
      obtain acc' where acc: "relay E notify supplier cs t = (acc', s')" "acc = snd c # acc'"
        using Cons.prems(2) Pair Inr by (auto split: prod.splits)
      note ok = sync_ok [OF Pair [unfolded Inr]]
      show ?thesis
      proof (cases "m_sender (sm_message (snd c)) = x")
        case True
        then have ex: "expected_seq t x = Suc (expected_seq s x)"
          using sync_step [OF Pair [unfolded Inr], of x] ok(2) Cons.prems(1) by simp
        from Cons.IH [OF _ acc(1)] Cons.prems(1) ex
        have ih: "map sm_sequence (filter (\<lambda>sm. m_sender (sm_message sm) = x) acc') = [Suc (expected_seq s x) ..< expected_seq s' x]"
          "Suc (expected_seq s x) \<le> expected_seq s' x" by simp_all
        then have "[expected_seq s x ..< expected_seq s' x] = expected_seq s x # [Suc (expected_seq s x) ..< expected_seq s' x]"
          by (simp add: upt_conv_Cons)
        with ih acc(2) True ok(2) show ?thesis by simp
      next
        case False
        then have "expected_seq t x = expected_seq s x" using ok(3) by (simp add: expected_seq_def)
        with Cons.IH [OF _ acc(1)] Cons.prems(1) acc(2) False show ?thesis by simp
      qed
    qed
  qed
qed

text \<open>Consecutive, correctly signed messages of a worker are all accepted, whoever submits them.\<close>

lemma relay_all:
  assumes "\<forall>sm \<in> set ms. m_sender (sm_message sm) = Worker k \<and> topic_is_valid (m_destination (sm_message sm)) \<and> worker_signed E k sm"
    and "map sm_sequence ms = [expected_seq s (Worker k) ..< expected_seq s (Worker k) + length ms]"
    and "expected_seq s (Worker k) + length ms < 2 ^ 64"
  shows "\<exists>s'. relay E notify supplier (map (\<lambda>sm. (Signed a, sm)) ms) s = (ms, s')
    \<and> expected_seq s' (Worker k) = expected_seq s (Worker k) + length ms"
  using assms
proof (induction ms arbitrary: s)
  case Nil
  then show ?case by simp
next
  case (Cons sm ms)
  let ?n = "expected_seq s (Worker k)"
  have up: "[?n ..< ?n + length (sm # ms)] = ?n # [Suc ?n ..< Suc ?n + length ms]" using upt_add_Suc by (simp only: length_Cons)
  with Cons.prems(2) have seq: "sm_sequence sm = ?n" "map sm_sequence ms = [Suc ?n ..< Suc ?n + length ms]" by simp_all
  obtain t where t: "dispatch_message notify (sm_message sm)
      (s\<lparr>OffchainIngress := (OffchainIngress s)(Worker k \<mapsto> wrapping_add 64 ?n 1)\<rparr>) = (Inr (), t)"
    using dispatch_ok by blast
  have "check_message E supplier sm s = (Inr (), s)"
    using Cons.prems(1) by (auto simp: check_message_def mq_verify_signature_def worker_signed_def run_simps)
  then have run: "sync_offchain_message E notify supplier (Signed a) sm s = (Inr (), t)"
    using Cons.prems(1) seq t by (auto simp: sync_offchain_message_def Let_def run_simps is_offchain_def)
  have nxt: "expected_seq t (Worker k) = Suc ?n"
    using sync_step [OF run, of "Worker k"] Cons.prems(1,3) seq(1) by simp
  obtain s' where "relay E notify supplier (map (\<lambda>sm. (Signed a, sm)) ms) t = (ms, s')"
    "expected_seq s' (Worker k) = expected_seq t (Worker k) + length ms"
    using Cons.IH [of t] Cons.prems seq(2) nxt by auto
  with run nxt show ?case by auto
qed

end

end
