(* ===== verification/Attestation.thy ===== *)
theory Attestation
  imports Ledger_Runtime
begin

text \<open>
  \<open>crates/ces-types/src/attestation.rs\<close> and \<open>attestation/legacy.rs\<close>: the decision whether the remote
  attestation of a trusted worker is accepted. The verification of quotes is
  \<open>Sgx_Attestation\<close>, in the environment \<open>sgx\<close> of \<open>Config\<close>.
\<close>

datatype attestation_provider = Provider_Root | Ias | Dcap

text \<open>The error enumeration, and a last value that stands for a panic.\<close>

datatype attestation_error =
    CesealRejected
  | InvalidIASSigningCert
  | InvalidReport
  | InvalidQuoteStatus
  | BadIASReport
  | OutdatedIASReport
  | UnknownQuoteBodyFormat
  | InvalidUserDataHash
  | NoneAttestationDisabled
  | UnsupportedAttestationType
  | InvalidDCAPQuote dcap_error
  | Attestation_Panic

record confidential_report =
  cr_confidence_level :: nat
  cr_provider :: "attestation_provider option"
  cr_measurement_hash :: string

definition fixed_measurement :: "string \<Rightarrow> string \<Rightarrow> string \<Rightarrow> string \<Rightarrow> string" where
  "fixed_measurement mr_enclave isv_prod_id isv_svn mr_signer = mr_enclave @ isv_prod_id @ isv_svn @ mr_signer"

definition fixed_measurement_hash :: "'w Config \<Rightarrow> string \<Rightarrow> string" where
  "fixed_measurement_hash E data = blake2_256 E data"

record sgx_fields =
  sf_mr_enclave :: string
  sf_mr_signer :: string
  sf_isv_prod_id :: string
  sf_isv_svn :: string
  sf_report_data :: string
  sf_confidence_level :: nat

definition sgx_measurement :: "sgx_fields \<Rightarrow> string" where
  "sgx_measurement f = fixed_measurement (sf_mr_enclave f) (sf_isv_prod_id f) (sf_isv_svn f) (sf_mr_signer f)"

definition sgx_measurement_hash :: "'w Config \<Rightarrow> sgx_fields \<Rightarrow> string" where
  "sgx_measurement_hash E f = fixed_measurement_hash E (sgx_measurement f)"

text \<open>The chain of comparisons with the status lists; 128 stands for a status in none of them.\<close>

definition quote_status_level :: "string \<Rightarrow> nat" where
  "quote_status_level status =
     (if status \<in> set SGX_QUOTE_STATUS_LEVEL_1 then 1
      else if status \<in> set SGX_QUOTE_STATUS_LEVEL_2 then 2
      else if status \<in> set SGX_QUOTE_STATUS_LEVEL_3 then 3
      else if status \<in> set SGX_QUOTE_STATUS_LEVEL_5 then 5
      else 128)"

fun advisory_loop :: "string list \<Rightarrow> nat \<Rightarrow> nat" where
  "advisory_loop [] level = level"
| "advisory_loop (advisory # rest) level =
     advisory_loop rest (if advisory \<notin> set SGX_QUOTE_ADVISORY_ID_WHITELIST then 4 else level)"

definition confidence_of :: "string \<Rightarrow> string list \<Rightarrow> attestation_error + nat" where
  "confidence_of status advisory_ids =
     (let level = quote_status_level status in
      if level = 128 then Inl InvalidQuoteStatus
      else Inr (if level = 3 then advisory_loop advisory_ids level else level))"

definition from_ias_report :: "'w Config \<Rightarrow> string \<Rightarrow> attestation_error + sgx_fields \<times> int" where
  "from_ias_report E report = (case json_ra_report (sgx E) report of
     None \<Rightarrow> Inl InvalidReport
   | Some parsed \<Rightarrow> (case parse_rfc3339 (sgx E) (ra_timestamp parsed @ ''Z'') of
       None \<Rightarrow> Inl BadIASReport
     | Some report_timestamp \<Rightarrow> (case confidence_of (ra_quote_status parsed) (ra_advisory_ids parsed) of
         Inl e \<Rightarrow> Inl e
       | Inr confidence_level \<Rightarrow> (case ra_decode_quote (sgx E) parsed of
           Inl _ \<Rightarrow> Inl UnknownQuoteBodyFormat
         | Inr q \<Rightarrow> Inr (\<lparr>sf_mr_enclave = qb_mr_enclave q, sf_mr_signer = qb_mr_signer q,
               sf_isv_prod_id = qb_isv_prod_id q, sf_isv_svn = qb_isv_svn q, sf_report_data = qb_report_data q,
               sf_confidence_level = confidence_level\<rparr>, report_timestamp)))))"

definition validate_ias_report :: "'w Config \<Rightarrow> string \<Rightarrow> string \<Rightarrow> string \<Rightarrow> string \<Rightarrow> nat \<Rightarrow> bool \<Rightarrow> string list
    \<Rightarrow> attestation_error + confidential_report" where
  "validate_ias_report E user_data_hash report signature raw_signing_cert now verify_ceseal_hash allowlist =
     (if ias_verify_signature (sgx E) report signature raw_signing_cert now \<noteq> Inr () then Inl InvalidIASSigningCert
      else (case from_ias_report E report of
        Inl e \<Rightarrow> Inl e
      | Inr (f, report_timestamp) \<Rightarrow>
          (let ceseal_hash = sgx_measurement_hash E f in
           if verify_ceseal_hash \<and> ceseal_hash \<notin> set allowlist then Inl CesealRejected
           else if 7200 \<le> int now - report_timestamp then Inl OutdatedIASReport
           else if take 32 (sf_report_data f) \<noteq> user_data_hash then Inl InvalidUserDataHash
           else Inr \<lparr>cr_confidence_level = sf_confidence_level f, cr_provider = Some Ias,
                     cr_measurement_hash = ceseal_hash\<rparr>)))"

definition validate_dcap :: "'w Config \<Rightarrow> string \<Rightarrow> sgx_v30_collateral \<Rightarrow> nat \<Rightarrow> string \<Rightarrow> bool \<Rightarrow> string list
    \<Rightarrow> attestation_error + confidential_report" where
  "validate_dcap E quote collateral now user_data_hash verify_ceseal_hash allowlist =
     (case dcap_verify (sgx E) quote collateral now of
        Inl (Dcap_Error e) \<Rightarrow> Inl (InvalidDCAPQuote e)
      | Inl Dcap_Panic \<Rightarrow> Inl Attestation_Panic
      | Inr r \<Rightarrow>
          (let ceseal_hash = fixed_measurement_hash E (d_ceseal_hash r) in
           if verify_ceseal_hash \<and> ceseal_hash \<notin> set allowlist then Inl CesealRejected
           else if take 32 (d_report_data r) \<noteq> user_data_hash then Inl InvalidUserDataHash
           else (case confidence_of (d_tcb_status r) (d_advisory_ids r) of
               Inl e \<Rightarrow> Inl e
             | Inr confidence_level \<Rightarrow> Inr \<lparr>cr_confidence_level = confidence_level, cr_provider = Some Dcap,
                 cr_measurement_hash = ceseal_hash\<rparr>)))"

datatype attestation_report =
    SgxIas string string string
  | SgxDcap string "sgx_v30_collateral option"

text \<open>\<open>H256::default()\<close>\<close>

definition zero_hash :: string where
  "zero_hash = replicate 32 (CHR 0x00)"

definition attestation_validate :: "'w Config \<Rightarrow> attestation_report option \<Rightarrow> string \<Rightarrow> nat \<Rightarrow> bool \<Rightarrow> string list \<Rightarrow> bool
    \<Rightarrow> attestation_error + confidential_report" where
  "attestation_validate E attestation user_data_hash now verify_ceseal_hash allowlist opt_out_enabled =
     (case attestation of
        Some (SgxIas ra_report signature raw_signing_cert) \<Rightarrow>
          validate_ias_report E user_data_hash ra_report signature raw_signing_cert now verify_ceseal_hash allowlist
      | Some (SgxDcap quote collateral) \<Rightarrow> (case collateral of
          None \<Rightarrow> Inl UnsupportedAttestationType
        | Some c \<Rightarrow> validate_dcap E quote c now user_data_hash verify_ceseal_hash allowlist)
      | None \<Rightarrow> if opt_out_enabled
          then Inr \<lparr>cr_confidence_level = 128, cr_provider = None, cr_measurement_hash = zero_hash\<rparr>
          else Inl NoneAttestationDisabled)"

section \<open>The legacy validator\<close>

datatype legacy_attestation = Legacy_SgxIas string string string

definition legacy_validate_ias_report :: "'w Config \<Rightarrow> string \<Rightarrow> string \<Rightarrow> string \<Rightarrow> nat \<Rightarrow> bool \<Rightarrow> string list
    \<Rightarrow> attestation_error + sgx_fields" where
  "legacy_validate_ias_report E report signature raw_signing_cert now verify_ceseal allowlist =
     (if ias_verify_signature (sgx E) report signature raw_signing_cert now \<noteq> Inr () then Inl InvalidIASSigningCert
      else (case from_ias_report E report of
        Inl e \<Rightarrow> Inl e
      | Inr (f, report_timestamp) \<Rightarrow>
          if verify_ceseal \<and> sgx_measurement_hash E f \<notin> set allowlist then Inl CesealRejected
          else if 7200 \<le> int now - report_timestamp then Inl OutdatedIASReport
          else Inr f))"

definition legacy_validate :: "'w Config \<Rightarrow> legacy_attestation \<Rightarrow> string \<Rightarrow> nat \<Rightarrow> bool \<Rightarrow> string list
    \<Rightarrow> attestation_error + sgx_fields" where
  "legacy_validate E attestation user_data_hash now verify_ceseal allowlist =
     (case attestation of Legacy_SgxIas ra_report signature raw_signing_cert \<Rightarrow>
        (case legacy_validate_ias_report E ra_report signature raw_signing_cert now verify_ceseal allowlist of
           Inl e \<Rightarrow> Inl e
         | Inr flds \<Rightarrow> if take 32 (sf_report_data flds) \<noteq> user_data_hash then Inl InvalidUserDataHash
             else Inr flds))"

section \<open>Laws\<close>

lemma advisory_loop_level:
  "advisory_loop ids level = (if set ids \<subseteq> set SGX_QUOTE_ADVISORY_ID_WHITELIST then level else 4)"
proof (induction ids arbitrary: level)
  case Nil
  then show ?case by simp
next
  case (Cons a ids)
  then show ?case by auto
qed

lemma confidence_range: "confidence_of status ids = Inr level \<Longrightarrow> level \<in> {1, 2, 3, 4, 5}"
  by (auto simp: confidence_of_def quote_status_level_def advisory_loop_level Let_def split: if_splits)

lemma from_ias_confidence: "from_ias_report E r = Inr (f, t) \<Longrightarrow> sf_confidence_level f \<in> {1, 2, 3, 4, 5}"
  by (auto simp: from_ias_report_def dest!: confidence_range split: option.splits sum.splits)

text \<open>An accepted report comes from an admitted binary, commits to the hash and has a confidence level.\<close>

definition report_sound :: "string list \<Rightarrow> bool \<Rightarrow> confidential_report \<Rightarrow> bool" where
  "report_sound allowlist verify r \<longleftrightarrow> (verify \<longrightarrow> cr_measurement_hash r \<in> set allowlist) \<and> cr_confidence_level r \<in> {1, 2, 3, 4, 5}"

lemma validate_sound:
  assumes "attestation_validate E att h now verify allowlist opt_out = Inr r"
  shows "att = None \<and> opt_out \<and> cr_confidence_level r = 128 \<and> cr_provider r = None
    \<or> att \<noteq> None \<and> report_sound allowlist verify r"
  using assms
  by (auto simp: attestation_validate_def validate_ias_report_def validate_dcap_def report_sound_def Let_def
      dest!: from_ias_confidence confidence_range
      split: option.splits attestation_report.splits sum.splits prod.splits if_splits dcap_failure.splits)

section \<open>Properties\<close>

text \<open>The legacy validator and the current one decide alike. For an IAS report, \<open>IasValidator::validate\<close>
  and \<open>attestation::validate\<close> accept the same inputs with the same confidence level and refuse the
  others with the same error.\<close>

theorem legacy_validator_agrees:
  "attestation_validate E (Some (SgxIas report signature cert)) h now verify allowlist opt_out =
     (case legacy_validate E (Legacy_SgxIas report signature cert) h now verify allowlist of
        Inl e \<Rightarrow> Inl e
      | Inr f \<Rightarrow> Inr \<lparr>cr_confidence_level = sf_confidence_level f, cr_provider = Some Ias,
                      cr_measurement_hash = sgx_measurement_hash E f\<rparr>)"
  by (cases "from_ias_report E report") (auto simp: attestation_validate_def validate_ias_report_def
      legacy_validate_def legacy_validate_ias_report_def Let_def)

end
