(* ===== verification/Tee_Worker.thy ===== *)
theory Tee_Worker
  imports Message_Queue Attestation
begin

text \<open>
  \<open>pallets/tee-worker\<close>: the registry of trusted workers and the life of the master key. Workers register
  with a remote attestation, lose their place when they do no work for \<open>AtLeastWorkBlock\<close> blocks, and are
  selected for verification from \<open>ValidationTypeList\<close>. One worker, the first holder, generates the master
  key and announces it by a message; \<open>route\<close> is \<open>MessageRouteConfig\<close> of the runtime, which hands such
  messages to this pallet. The last part is the trait \<open>TeeWorkerHandler\<close> used by the storage pallets.
\<close>

datatype worker_role = Full | Verifier | Marker

record worker_info =
  wi_pubkey :: string
  wi_ecdh_pubkey :: string
  wi_version :: nat
  wi_last_updated :: nat
  wi_stash_account :: "account option"
  wi_attestation_provider :: "attestation_provider option"
  wi_confidence_level :: nat
  wi_features :: "nat list"
  wi_role :: worker_role

record registration_info =
  ri_version :: nat
  ri_machine_id :: string
  ri_pubkey :: string
  ri_ecdh_pubkey :: string
  ri_operator :: "account option"
  ri_genesis_block_hash :: string
  ri_features :: "nat list"
  ri_role :: worker_role

record endpoint_payload =
  ep_pubkey :: string
  ep_endpoint :: "string option"
  ep_signing_time :: nat

record apply_payload =
  ap_pubkey :: string
  ap_ecdh_pubkey :: string
  ap_signing_time :: nat

record 'w tee_state = "'w mq_state" +
  ValidationTypeList :: "string list"
  MasterKeyFirstHolder :: "string option"
  MasterPubkey :: "string option"
  OldMasterPubkey :: "string option"
  OldMasterPubkeyList :: "string list"
  MasterKeyLaunchedAt :: "(nat \<times> nat) option"
  Workers :: "(string \<times> worker_info) list"
  WorkerAddedAt :: "string \<Rightarrow> nat option"
  CesealBinAllowList :: "string list"
  CesealBinAddedAt :: "string \<Rightarrow> nat option"
  Endpoints :: "string \<Rightarrow> string option"
  LastWork :: "(string \<times> nat) list"
  LastRefresh :: "string \<Rightarrow> nat option"
  MinimumCesealVersion :: "nat \<times> nat \<times> nat"
  NoteStalled :: "bool option"

abbreviation tee_err :: "tee_error \<Rightarrow> dispatch_error" where
  "tee_err \<equiv> TeeE"

section \<open>Attestation errors\<close>

definition tee_of_dcap :: "dcap_error \<Rightarrow> tee_error" where
  "tee_of_dcap e = (case e of
     dcap_error.InvalidCertificate \<Rightarrow> tee_error.InvalidCertificate
   | dcap_error.InvalidSignature \<Rightarrow> tee_error.InvalidSignature
   | dcap_error.CodecError \<Rightarrow> tee_error.CodecError
   | dcap_error.TCBInfoExpired \<Rightarrow> tee_error.TCBInfoExpired
   | dcap_error.KeyLengthIsInvalid \<Rightarrow> tee_error.KeyLengthIsInvalid
   | dcap_error.PublicKeyIsInvalid \<Rightarrow> tee_error.PublicKeyIsInvalid
   | dcap_error.RsaSignatureIsInvalid \<Rightarrow> tee_error.RsaSignatureIsInvalid
   | dcap_error.DerEncodingError \<Rightarrow> tee_error.DerEncodingError
   | dcap_error.UnsupportedDCAPQuoteVersion \<Rightarrow> tee_error.UnsupportedDCAPQuoteVersion
   | dcap_error.UnsupportedDCAPAttestationKeyType \<Rightarrow> tee_error.UnsupportedDCAPAttestationKeyType
   | dcap_error.UnsupportedQuoteAuthData \<Rightarrow> tee_error.UnsupportedQuoteAuthData
   | dcap_error.UnsupportedDCAPPckCertFormat \<Rightarrow> tee_error.UnsupportedDCAPPckCertFormat
   | dcap_error.LeafCertificateParsingError \<Rightarrow> tee_error.LeafCertificateParsingError
   | dcap_error.CertificateChainIsInvalid \<Rightarrow> tee_error.CertificateChainIsInvalid
   | dcap_error.CertificateChainIsTooShort \<Rightarrow> tee_error.CertificateChainIsTooShort
   | dcap_error.IntelExtensionCertificateDecodingError \<Rightarrow> tee_error.IntelExtensionCertificateDecodingError
   | dcap_error.IntelExtensionAmbiguity \<Rightarrow> tee_error.IntelExtensionAmbiguity
   | dcap_error.CpuSvnLengthMismatch \<Rightarrow> tee_error.CpuSvnLengthMismatch
   | dcap_error.CpuSvnDecodingError \<Rightarrow> tee_error.CpuSvnDecodingError
   | dcap_error.PceSvnDecodingError \<Rightarrow> tee_error.PceSvnDecodingError
   | dcap_error.PceSvnLengthMismatch \<Rightarrow> tee_error.PceSvnLengthMismatch
   | dcap_error.FmspcLengthMismatch \<Rightarrow> tee_error.FmspcLengthMismatch
   | dcap_error.FmspcDecodingError \<Rightarrow> tee_error.FmspcDecodingError
   | dcap_error.FmspcMismatch \<Rightarrow> tee_error.FmspcMismatch
   | dcap_error.QEReportHashMismatch \<Rightarrow> tee_error.QEReportHashMismatch
   | dcap_error.IsvEnclaveReportSignatureIsInvalid \<Rightarrow> tee_error.IsvEnclaveReportSignatureIsInvalid
   | dcap_error.DerDecodingError \<Rightarrow> tee_error.DerDecodingError
   | dcap_error.OidIsMissing \<Rightarrow> tee_error.OidIsMissing)"

definition of_attestation :: "attestation_error \<Rightarrow> dispatch_error" where
  "of_attestation e = (case e of
     attestation_error.CesealRejected \<Rightarrow> tee_err tee_error.CesealRejected
   | attestation_error.InvalidIASSigningCert \<Rightarrow> tee_err tee_error.InvalidIASSigningCert
   | attestation_error.InvalidReport \<Rightarrow> tee_err tee_error.InvalidReport
   | attestation_error.InvalidQuoteStatus \<Rightarrow> tee_err tee_error.InvalidQuoteStatus
   | attestation_error.BadIASReport \<Rightarrow> tee_err tee_error.BadIASReport
   | attestation_error.OutdatedIASReport \<Rightarrow> tee_err tee_error.OutdatedIASReport
   | attestation_error.UnknownQuoteBodyFormat \<Rightarrow> tee_err tee_error.UnknownQuoteBodyFormat
   | attestation_error.InvalidUserDataHash \<Rightarrow> tee_err tee_error.InvalidCesealInfoHash
   | attestation_error.NoneAttestationDisabled \<Rightarrow> tee_err tee_error.NoneAttestationDisabled
   | attestation_error.UnsupportedAttestationType \<Rightarrow> tee_err tee_error.UnsupportedAttestationType
   | attestation_error.InvalidDCAPQuote d \<Rightarrow> tee_err (tee_of_dcap d)
   | attestation_error.Attestation_Panic \<Rightarrow> Panic)"

definition lift_attestation :: "attestation_error + 'a \<Rightarrow> ('s, 'a) M" where
  "lift_attestation r = (case r of Inl e \<Rightarrow> failM (of_attestation e) | Inr x \<Rightarrow> retM x)"

section \<open>Storage of workers\<close>

definition worker_hash :: "'w Config \<Rightarrow> string \<Rightarrow> nat" where
  "worker_hash E k = storage_hash E (encode E (S_Bytes k))"

definition worker_put :: "'w Config \<Rightarrow> string \<Rightarrow> worker_info \<Rightarrow> (('w, 'z) tee_state_scheme, unit) M" where
  "worker_put E k w = modM (\<lambda>s. s\<lparr>Workers := assoc_put (worker_hash E) k w (Workers s)\<rparr>)"

definition last_work_put :: "'w Config \<Rightarrow> string \<Rightarrow> nat \<Rightarrow> (('w, 'z) tee_state_scheme, unit) M" where
  "last_work_put E k now = modM (\<lambda>s. s\<lparr>LastWork := assoc_put (worker_hash E) k now (LastWork s)\<rparr>)"

fun scale_role :: "worker_role \<Rightarrow> scale" where
  "scale_role Full = S_Num 0"
| "scale_role Verifier = S_Num 1"
| "scale_role Marker = S_Num 2"

definition scale_registration :: "registration_info \<Rightarrow> scale" where
  "scale_registration ri = S_Seq [S_Num (ri_version ri), S_Bytes (ri_machine_id ri), S_Bytes (ri_pubkey ri),
     S_Bytes (ri_ecdh_pubkey ri), (case ri_operator ri of None \<Rightarrow> S_Seq [S_Num 0] | Some a \<Rightarrow> S_Seq [S_Num 1, S_Num a]),
     S_Bytes (ri_genesis_block_hash ri), S_Seq (map S_Num (ri_features ri)), scale_role (ri_role ri)]"

definition registration_hash :: "'w Config \<Rightarrow> registration_info \<Rightarrow> string" where
  "registration_hash E ri = blake2_256 E (encode E (scale_registration ri))"

definition now_secs :: "'w Config \<Rightarrow> ('w, 'z) sys_state_scheme \<Rightarrow> nat" where
  "now_secs E s = saturated_into 64 (unix_time E (world s) div 1000)"

definition now_millis :: "'w Config \<Rightarrow> ('w, 'z) sys_state_scheme \<Rightarrow> nat" where
  "now_millis E s = saturated_into 64 (unix_time E (world s))"

section \<open>Leaving\<close>

definition execute_exit :: "string \<Rightarrow> (('w, 'z) tee_state_scheme, unit) M" where
  "execute_exit pbk =
     bindM (getM MasterKeyFirstHolder) (\<lambda>holder.
     bindM (case holder of
         Some first_holder \<Rightarrow> ensureM (first_holder \<noteq> pbk) (tee_err tee_error.CannotExitMasterKeyHolder)
       | None \<Rightarrow> retM ()) (\<lambda>_.
     bindM (modM (\<lambda>s. s\<lparr>Workers := assoc_del pbk (Workers s)\<rparr>)) (\<lambda>_.
     bindM (modM (\<lambda>s. s\<lparr>WorkerAddedAt := (WorkerAddedAt s)(pbk := None)\<rparr>)) (\<lambda>_.
     bindM (modM (\<lambda>s. s\<lparr>Endpoints := (Endpoints s)(pbk := None)\<rparr>)) (\<lambda>_.
     modM (\<lambda>s. s\<lparr>ValidationTypeList := filter (\<lambda>g. g \<noteq> pbk) (ValidationTypeList s)\<rparr>))))))"

definition clear_mission :: "'w Config \<Rightarrow> nat \<Rightarrow> (('w, 'z) tee_state_scheme, unit) M" where
  "clear_mission E now =
     bindM (getM LastWork) (\<lambda>entries.
     forM entries (\<lambda>x. case x of (pubkey, last_block) \<Rightarrow>
       if saturating_add 32 last_block (AtLeastWorkBlock E) < now
       then bindM (attemptM (execute_exit pubkey)) (\<lambda>r.
         case r of Inl e \<Rightarrow> retM ()
         | Inr u \<Rightarrow> modM (\<lambda>s. s\<lparr>LastWork := assoc_del pubkey (LastWork s),
                                LastRefresh := (LastRefresh s)(pubkey := None)\<rparr>))
       else retM ()))"

definition tee_on_initialize :: "'w Config \<Rightarrow> nat \<Rightarrow> (('w, 'z) tee_state_scheme, unit) M" where
  "tee_on_initialize E now =
     (if AtLeastWorkBlock E = 0 then failM Panic
      else if now mod AtLeastWorkBlock E = 0 then clear_mission E now else retM ())"

section \<open>The master key and messages\<close>

definition tee_message_origin :: message_origin where
  "tee_message_origin = Pallet ''TeeWorker''"

definition tee_push :: "'w Config \<Rightarrow> (message \<Rightarrow> (('w, 'z) mq_state_scheme, unit) M) \<Rightarrow> string \<Rightarrow> scale
    \<Rightarrow> (('w, 'z) mq_state_scheme, unit) M" where
  "tee_push E notify topic payload = push_message_to notify topic tee_message_origin (encode E payload)"

definition topic_worker_event :: string where "topic_worker_event = ''cess/teeworker/event''"
definition topic_key_launch :: string where "topic_key_launch = ''cess/masterkey/launch''"
definition topic_key_apply :: string where "topic_key_apply = ''cess/masterkey/apply''"
definition topic_key_submit :: string where "topic_key_submit = ''^cess/masterkey/submit''"

definition new_worker :: "string \<Rightarrow> scale" where
  "new_worker k = S_Seq [S_Num 0, S_Bytes k]"

definition launch_request :: "string \<Rightarrow> string \<Rightarrow> scale" where
  "launch_request k ecdh = S_Seq [S_Num 0, S_Bytes k, S_Bytes ecdh]"

definition on_chain_launched :: "string \<Rightarrow> scale" where
  "on_chain_launched k = S_Seq [S_Num 1, S_Bytes k]"

definition key_apply :: "string \<Rightarrow> string \<Rightarrow> scale" where
  "key_apply k ecdh = S_Seq [S_Num 0, S_Bytes k, S_Bytes ecdh]"

definition on_master_key_launched :: "'w Config \<Rightarrow> (('w, 'z) tee_state_scheme, unit) M" where
  "on_master_key_launched E = modM (\<lambda>s. s\<lparr>MasterKeyLaunchedAt := Some (block_number s, now_secs E s)\<rparr>)"

definition on_message_received :: "'w Config \<Rightarrow> (message \<Rightarrow> (('w, 'z) tee_state_scheme, unit) M) \<Rightarrow> message_origin \<Rightarrow> string
    \<Rightarrow> (('w, 'z) tee_state_scheme, unit) M" where
  "on_message_received E notify sender master_pubkey = (case sender of
     Worker worker_pubkey \<Rightarrow>
       bindM (getM MasterKeyFirstHolder) (\<lambda>h.
       bindM (ok_or h (tee_err tee_error.MasterKeyLaunchRequire)) (\<lambda>holder.
       bindM (ensureM (worker_pubkey = holder) (tee_err tee_error.InvalidMasterKeyFirstHolder)) (\<lambda>_.
       bindM (getM MasterPubkey) (\<lambda>saved. case saved of
         Some saved_pubkey \<Rightarrow> ensureM (saved_pubkey = master_pubkey) (tee_err tee_error.MasterKeyMismatch)
       | None \<Rightarrow>
           bindM (modM (\<lambda>s. s\<lparr>MasterPubkey := Some master_pubkey\<rparr>)) (\<lambda>_.
           bindM (tee_push E notify topic_key_launch (on_chain_launched master_pubkey)) (\<lambda>_.
           on_master_key_launched E))))))
   | _ \<Rightarrow> failM (tee_err tee_error.InvalidSender))"

text \<open>
  \<open>MessageRouteConfig\<close>. Handling a message pushes another one, which is routed in turn: the recursion is
  cut at a depth, and \<open>route_depth\<close> shows that the depth is irrelevant, because what is pushed is never
  addressed to this pallet. \<open>External 0\<close> stands for \<open>DispatchError::Other\<close>.
\<close>

primrec route :: "'w Config \<Rightarrow> nat \<Rightarrow> message \<Rightarrow> (('w, 'z) tee_state_scheme, unit) M" where
  "route E 0 = (\<lambda>m. if m_destination m = topic_key_submit
     then (case decode_master_key_submission E (m_payload m) of
         None \<Rightarrow> failM (External 0)
       | Some k \<Rightarrow> on_message_received E (\<lambda>_. retM ()) (m_sender m) k)
     else retM ())"
| "route E (Suc n) = (\<lambda>m. if m_destination m = topic_key_submit
     then (case decode_master_key_submission E (m_payload m) of
         None \<Rightarrow> failM (External 0)
       | Some k \<Rightarrow> on_message_received E (route E n) (m_sender m) k)
     else retM ())"

definition tee_notify :: "'w Config \<Rightarrow> message \<Rightarrow> (('w, 'z) tee_state_scheme, unit) M" where
  "tee_notify E = route E 1"

definition launch_master_key :: "'w Config \<Rightarrow> origin \<Rightarrow> string \<Rightarrow> (('w, 'z) tee_state_scheme, unit) M" where
  "launch_master_key E orig worker_pubkey = transactional (
     bindM (ensure_governance E orig) (\<lambda>_.
     bindM (getM MasterPubkey) (\<lambda>k.
     bindM (ensureM (k = None) (tee_err tee_error.MasterKeyAlreadyLaunched)) (\<lambda>_.
     bindM (getM MasterKeyFirstHolder) (\<lambda>h.
     bindM (ensureM (h = None) (tee_err tee_error.MasterKeyLaunching)) (\<lambda>_.
     bindM (getM (\<lambda>s. map_of (Workers s) worker_pubkey)) (\<lambda>w.
     bindM (ok_or w (tee_err tee_error.WorkerNotFound)) (\<lambda>worker_info.
     bindM (modM (\<lambda>s. s\<lparr>MasterKeyFirstHolder := Some worker_pubkey\<rparr>)) (\<lambda>_.
     tee_push E (tee_notify E) topic_key_launch (launch_request worker_pubkey (wi_ecdh_pubkey worker_info)))))))))))"

definition clear_master_key :: "'w Config \<Rightarrow> origin \<Rightarrow> (('w, 'z) tee_state_scheme, unit) M" where
  "clear_master_key E orig = transactional (
     bindM (ensure_governance E orig) (\<lambda>_.
     bindM (getM MasterPubkey) (\<lambda>k.
     bindM (ensureM (k \<noteq> None) (tee_err tee_error.MasterKeyAlreadyLaunched)) (\<lambda>_.
     bindM (getM MasterKeyFirstHolder) (\<lambda>h.
     bindM (ensureM (h \<noteq> None) (tee_err tee_error.MasterKeyLaunching)) (\<lambda>_.
     bindM (ok_or k (tee_err tee_error.WorkerNotFound)) (\<lambda>old_pubkey.
     bindM (modM (\<lambda>s. s\<lparr>MasterKeyFirstHolder := None\<rparr>)) (\<lambda>_.
     bindM (getM OldMasterPubkey) (\<lambda>o2.
     bindM (ok_or o2 (tee_err tee_error.WorkerNotFound)) (\<lambda>old_pubkey2.
     bindM (modM (\<lambda>s. s\<lparr>OldMasterPubkeyList := OldMasterPubkeyList s @ [old_pubkey, old_pubkey2]\<rparr>)) (\<lambda>_.
     bindM (modM (\<lambda>s. s\<lparr>MasterPubkey := None\<rparr>)) (\<lambda>_.
     reset_ingress_channel_seq Keyfairy))))))))))))"

definition apply_master_key :: "'w Config \<Rightarrow> origin \<Rightarrow> apply_payload \<Rightarrow> string \<Rightarrow> (('w, 'z) tee_state_scheme, unit) M" where
  "apply_master_key E orig payload signature = transactional (
     bindM (ensure_signed orig) (\<lambda>_.
     bindM (ensureM (length signature = 64) (tee_err tee_error.InvalidSignatureLength)) (\<lambda>_.
     bindM (ok_or (sr25519_signature E signature) (tee_err tee_error.MalformedSignature)) (\<lambda>sig.
     bindM (ensureM (sr25519_verify E sig (wrap_content_to_sign (encode E (S_Seq [S_Bytes (ap_pubkey payload),
         S_Bytes (ap_ecdh_pubkey payload), S_Num (ap_signing_time payload)])) MasterKeyApply) (ap_pubkey payload))
       (tee_err tee_error.InvalidSignature)) (\<lambda>_.
     bindM (getM (now_millis E)) (\<lambda>now.
     bindM (ensureM (ap_signing_time payload < now \<and> now \<le> wrapping_add 64 (ap_signing_time payload) (30 * 60 * 1000))
       (tee_err tee_error.InvalidMasterKeyApplySigningTime)) (\<lambda>_.
     bindM (getM (\<lambda>s. map_of (Workers s) (ap_pubkey payload) \<noteq> None)) (\<lambda>known.
     bindM (ensureM known (tee_err tee_error.InvalidWorkerPubKey)) (\<lambda>_.
     tee_push E (tee_notify E) topic_key_apply (key_apply (ap_pubkey payload) (ap_ecdh_pubkey payload)))))))))))"

definition change_first_holder :: "'w Config \<Rightarrow> origin \<Rightarrow> string \<Rightarrow> (('w, 'z) tee_state_scheme, unit) M" where
  "change_first_holder E orig pubkey = transactional (
     bindM (ensure_governance E orig) (\<lambda>_.
     bindM (getM MasterKeyFirstHolder) (\<lambda>h.
     bindM (ok_or h (tee_err tee_error.MasterKeyFirstHolderNotFound)) (\<lambda>_.
     modM (\<lambda>s. s\<lparr>MasterKeyFirstHolder := Some pubkey\<rparr>)))))"

section \<open>Registration\<close>

definition refresh_tee_status :: "'w Config \<Rightarrow> origin \<Rightarrow> registration_info \<Rightarrow> attestation_report option \<Rightarrow> (('w, 'z) tee_state_scheme, unit) M" where
  "refresh_tee_status E orig ceseal_info attestation = transactional (
     bindM (ensure_signed orig) (\<lambda>_.
     bindM (getM (\<lambda>s. (now_secs E s, CesealBinAllowList s))) (\<lambda>(now, allowlist).
     bindM (lift_attestation (attestation_validate E attestation (registration_hash E ceseal_info) now
         (VerifyCeseal E) allowlist (NoneAttestationEnabled E))) (\<lambda>report.
     bindM (getM (\<lambda>s. map_of (Workers s) (ri_pubkey ceseal_info))) (\<lambda>w.
     bindM (ok_or w (tee_err tee_error.NonTeeWorker)) (\<lambda>worker.
     bindM (worker_put E (ri_pubkey ceseal_info) (worker\<lparr>wi_confidence_level := cr_confidence_level report\<rparr>)) (\<lambda>_.
     modM (\<lambda>s. s\<lparr>LastRefresh := (LastRefresh s)(ri_pubkey ceseal_info \<mapsto> block_number s)\<rparr>))))))))"

definition force_register_worker :: "'w Config \<Rightarrow> origin \<Rightarrow> string \<Rightarrow> string \<Rightarrow> account option \<Rightarrow> (('w, 'z) tee_state_scheme, unit) M" where
  "force_register_worker E orig pubkey ecdh_pubkey stash_account = transactional (
     bindM (ensure_root orig) (\<lambda>_.
     bindM (worker_put E pubkey \<lparr>wi_pubkey = pubkey, wi_ecdh_pubkey = ecdh_pubkey, wi_version = 0, wi_last_updated = 1,
       wi_stash_account = stash_account, wi_attestation_provider = Some Provider_Root, wi_confidence_level = 128,
       wi_features = [1, 4], wi_role = Full\<rparr>) (\<lambda>_.
     bindM (modM (\<lambda>s. s\<lparr>WorkerAddedAt := (WorkerAddedAt s)(pubkey \<mapsto> block_number s)\<rparr>)) (\<lambda>_.
     tee_push E (tee_notify E) topic_worker_event (new_worker pubkey)))))"

text \<open>The part of \<open>register_worker\<close> and \<open>register_worker_v2\<close> after the attestation has been validated.\<close>

definition register_validated :: "'w Config \<Rightarrow> registration_info \<Rightarrow> nat \<Rightarrow> attestation_provider option \<Rightarrow> nat
    \<Rightarrow> (('w, 'z) tee_state_scheme, unit) M" where
  "register_validated E ceseal_info now provider confidence_level =
     (let pubkey = ri_pubkey ceseal_info in
     bindM (getM (\<lambda>s. map_of (Workers s) pubkey)) (\<lambda>w.
     bindM (ensureM (w = None) (tee_err tee_error.CesealAlreadyExists)) (\<lambda>_.
     bindM (case ri_operator ceseal_info of
         Some acc \<Rightarrow>
           bindM (getM (\<lambda>s. staking_bonded E (world s) acc)) (\<lambda>bonded.
           bindM (ok_or bonded (tee_err tee_error.NotBond)) (\<lambda>_.
           ensureM (ri_role ceseal_info = Verifier \<or> ri_role ceseal_info = Full) (tee_err tee_error.WrongTeeType)))
       | None \<Rightarrow> ensureM (ri_role ceseal_info = Marker) (tee_err tee_error.WrongTeeType)) (\<lambda>_.
     bindM (worker_put E pubkey \<lparr>wi_pubkey = pubkey, wi_ecdh_pubkey = ri_ecdh_pubkey ceseal_info,
       wi_version = ri_version ceseal_info, wi_last_updated = now, wi_stash_account = ri_operator ceseal_info,
       wi_attestation_provider = provider, wi_confidence_level = confidence_level,
       wi_features = ri_features ceseal_info, wi_role = ri_role ceseal_info\<rparr>) (\<lambda>_.
     bindM (getM block_number) (\<lambda>block.
     bindM (last_work_put E pubkey block) (\<lambda>_.
     bindM (modM (\<lambda>s. s\<lparr>LastRefresh := (LastRefresh s)(pubkey \<mapsto> block)\<rparr>)) (\<lambda>_.
     bindM (if ri_role ceseal_info = Full \<or> ri_role ceseal_info = Verifier
       then bindM (getM ValidationTypeList) (\<lambda>puk_list.
         bindM (ok_or (try_push (SchedulerMaximum E) puk_list pubkey) (tee_err tee_error.BoundedVecError)) (\<lambda>l.
         modM (\<lambda>s. s\<lparr>ValidationTypeList := l\<rparr>)))
       else retM ()) (\<lambda>_.
     bindM (tee_push E (tee_notify E) topic_worker_event (new_worker pubkey)) (\<lambda>_.
     modM (\<lambda>s. s\<lparr>WorkerAddedAt := (WorkerAddedAt s)(pubkey \<mapsto> block_number s)\<rparr>)))))))))))"

definition register_worker :: "'w Config \<Rightarrow> origin \<Rightarrow> registration_info \<Rightarrow> legacy_attestation \<Rightarrow> (('w, 'z) tee_state_scheme, unit) M" where
  "register_worker E orig ceseal_info attestation = transactional (
     bindM (ensure_signed orig) (\<lambda>_.
     bindM (getM (\<lambda>s. (now_secs E s, CesealBinAllowList s))) (\<lambda>(now, allowlist).
     bindM (lift_attestation (legacy_validate E attestation (registration_hash E ceseal_info) now (VerifyCeseal E) allowlist)) (\<lambda>f.
     register_validated E ceseal_info now (Some Ias) (sf_confidence_level f)))))"

definition register_worker_v2 :: "'w Config \<Rightarrow> origin \<Rightarrow> registration_info \<Rightarrow> attestation_report option \<Rightarrow> (('w, 'z) tee_state_scheme, unit) M" where
  "register_worker_v2 E orig ceseal_info attestation = transactional (
     bindM (ensure_signed orig) (\<lambda>_.
     bindM (getM (\<lambda>s. (now_secs E s, CesealBinAllowList s))) (\<lambda>(now, allowlist).
     bindM (lift_attestation (attestation_validate E attestation (registration_hash E ceseal_info) now
         (VerifyCeseal E) allowlist (NoneAttestationEnabled E))) (\<lambda>report.
     register_validated E ceseal_info now (cr_provider report) (cr_confidence_level report)))))"

definition update_worker_endpoint :: "'w Config \<Rightarrow> origin \<Rightarrow> endpoint_payload \<Rightarrow> string \<Rightarrow> (('w, 'z) tee_state_scheme, unit) M" where
  "update_worker_endpoint E orig payload signature = transactional (
     bindM (ensure_signed orig) (\<lambda>_.
     bindM (ensureM (length signature = 64) (tee_err tee_error.InvalidSignatureLength)) (\<lambda>_.
     bindM (ok_or (sr25519_signature E signature) (tee_err tee_error.MalformedSignature)) (\<lambda>sig.
     bindM (ensureM (sr25519_verify E sig (wrap_content_to_sign (encode E (S_Seq [S_Bytes (ep_pubkey payload),
         (case ep_endpoint payload of None \<Rightarrow> S_Seq [S_Num 0] | Some e \<Rightarrow> S_Seq [S_Num 1, S_Bytes e]),
         S_Num (ep_signing_time payload)])) EndpointInfo) (ep_pubkey payload))
       (tee_err tee_error.InvalidSignature)) (\<lambda>_.
     bindM (ok_or (ep_endpoint payload) (tee_err tee_error.EmptyEndpoint)) (\<lambda>endpoint.
     bindM (ensureM (endpoint \<noteq> []) (tee_err tee_error.EmptyEndpoint)) (\<lambda>_.
     bindM (getM (now_millis E)) (\<lambda>now.
     bindM (ensureM (ep_signing_time payload < now \<and> now \<le> wrapping_add 64 (ep_signing_time payload) (4 * 60 * 60 * 1000))
       (tee_err tee_error.InvalidEndpointSigningTime)) (\<lambda>_.
     bindM (getM (\<lambda>s. map_of (Workers s) (ep_pubkey payload) \<noteq> None)) (\<lambda>known.
     bindM (ensureM known (tee_err tee_error.InvalidWorkerPubKey)) (\<lambda>_.
     modM (\<lambda>s. s\<lparr>Endpoints := (Endpoints s)(ep_pubkey payload \<mapsto> endpoint)\<rparr>))))))))))))"

section \<open>Administration\<close>

definition add_ceseal :: "'w Config \<Rightarrow> origin \<Rightarrow> string \<Rightarrow> (('w, 'z) tee_state_scheme, unit) M" where
  "add_ceseal E orig ceseal_hash = transactional (
     bindM (ensure_governance E orig) (\<lambda>_.
     bindM (getM CesealBinAllowList) (\<lambda>allowlist.
     bindM (ensureM (ceseal_hash \<notin> set allowlist) (tee_err tee_error.CesealBinAlreadyExists)) (\<lambda>_.
     bindM (modM (\<lambda>s. s\<lparr>CesealBinAllowList := allowlist @ [ceseal_hash]\<rparr>)) (\<lambda>_.
     modM (\<lambda>s. s\<lparr>CesealBinAddedAt := (CesealBinAddedAt s)(ceseal_hash \<mapsto> block_number s)\<rparr>))))))"

definition remove_ceseal :: "'w Config \<Rightarrow> origin \<Rightarrow> string \<Rightarrow> (('w, 'z) tee_state_scheme, unit) M" where
  "remove_ceseal E orig ceseal_hash = transactional (
     bindM (ensure_governance E orig) (\<lambda>_.
     bindM (getM CesealBinAllowList) (\<lambda>allowlist.
     bindM (ensureM (ceseal_hash \<in> set allowlist) (tee_err tee_error.CesealBinNotFound)) (\<lambda>_.
     bindM (modM (\<lambda>s. s\<lparr>CesealBinAllowList := filter (\<lambda>h. h \<noteq> ceseal_hash) allowlist\<rparr>)) (\<lambda>_.
     modM (\<lambda>s. s\<lparr>CesealBinAddedAt := (CesealBinAddedAt s)(ceseal_hash := None)\<rparr>))))))"

definition set_minimum_ceseal_version :: "'w Config \<Rightarrow> origin \<Rightarrow> nat \<Rightarrow> nat \<Rightarrow> nat \<Rightarrow> (('w, 'z) tee_state_scheme, unit) M" where
  "set_minimum_ceseal_version E orig major minor patch = transactional (
     bindM (ensure_governance E orig) (\<lambda>_. modM (\<lambda>s. s\<lparr>MinimumCesealVersion := (major, minor, patch)\<rparr>)))"

definition migration_last_work :: "'w Config \<Rightarrow> origin \<Rightarrow> (('w, 'z) tee_state_scheme, unit) M" where
  "migration_last_work E orig = transactional (
     bindM (ensure_governance E orig) (\<lambda>_.
     bindM (getM block_number) (\<lambda>now.
     bindM (getM Workers) (\<lambda>ws. forM ws (\<lambda>w. last_work_put E (fst w) now)))))"

definition patch_clear_invalid_tee :: "'w Config \<Rightarrow> origin \<Rightarrow> (('w, 'z) tee_state_scheme, unit) M" where
  "patch_clear_invalid_tee E orig = transactional (
     bindM (ensure_governance E orig) (\<lambda>_. bindM (getM block_number) (\<lambda>now. clear_mission E now)))"

definition patch_clear_not_work_tee :: "'w Config \<Rightarrow> origin \<Rightarrow> (('w, 'z) tee_state_scheme, unit) M" where
  "patch_clear_not_work_tee E orig = transactional (
     bindM (ensure_governance E orig) (\<lambda>_.
     bindM (getM Workers) (\<lambda>ws. forM ws (\<lambda>w.
       bindM (getM (\<lambda>s. map_of (LastWork s) (fst w) \<noteq> None)) (\<lambda>works.
       if \<not> works then execute_exit (fst w) else retM ())))))"

definition force_clear_tee :: "'w Config \<Rightarrow> origin \<Rightarrow> string \<Rightarrow> (('w, 'z) tee_state_scheme, unit) M" where
  "force_clear_tee E orig puk = transactional (bindM (ensure_governance E orig) (\<lambda>_. execute_exit puk))"

definition set_note_stalled :: "'w Config \<Rightarrow> origin \<Rightarrow> bool \<Rightarrow> (('w, 'z) tee_state_scheme, unit) M" where
  "set_note_stalled E orig note_stalled = transactional (
     bindM (ensure_root orig) (\<lambda>_. modM (\<lambda>s. s\<lparr>NoteStalled := Some note_stalled\<rparr>)))"

definition check_time_unix :: "'w Config \<Rightarrow> nat \<Rightarrow> ('w, 'z) sys_state_scheme \<Rightarrow> bool" where
  "check_time_unix E signing_time s \<longleftrightarrow>
     signing_time < now_millis E s \<and> now_millis E s \<le> wrapping_add 64 signing_time (4 * 60 * 60 * 1000)"

section \<open>The trait \<open>TeeWorkerHandler\<close>\<close>

definition worker_role_of :: "string \<Rightarrow> ('w, 'z) tee_state_scheme \<Rightarrow> worker_role option" where
  "worker_role_of pbk s = map_option wi_role (map_of (Workers s) pbk)"

definition can_tag :: "string \<Rightarrow> ('w, 'z) tee_state_scheme \<Rightarrow> bool" where
  "can_tag pbk s \<longleftrightarrow> worker_role_of pbk s = Some Marker \<or> worker_role_of pbk s = Some Full"

definition can_verify :: "string \<Rightarrow> ('w, 'z) tee_state_scheme \<Rightarrow> bool" where
  "can_verify pbk s \<longleftrightarrow> worker_role_of pbk s = Some Verifier \<or> worker_role_of pbk s = Some Full"

definition can_cert :: "string \<Rightarrow> ('w, 'z) tee_state_scheme \<Rightarrow> bool" where
  "can_cert pbk s \<longleftrightarrow> worker_role_of pbk s = Some Marker \<or> worker_role_of pbk s = Some Full"

definition contains_scheduler :: "string \<Rightarrow> ('w, 'z) tee_state_scheme \<Rightarrow> bool" where
  "contains_scheduler pbk s \<longleftrightarrow> map_of (Workers s) pbk \<noteq> None"

definition is_bonded :: "string \<Rightarrow> ('w, 'z) tee_state_scheme \<Rightarrow> bool" where
  "is_bonded pbk s = (case map_of (Workers s) pbk of None \<Rightarrow> False | Some w \<Rightarrow> wi_stash_account w \<noteq> None)"

definition get_stash :: "string \<Rightarrow> (('w, 'z) tee_state_scheme, account) M" where
  "get_stash pbk =
     bindM (getM (\<lambda>s. map_of (Workers s) pbk)) (\<lambda>w.
     bindM (ok_or w (tee_err tee_error.NonTeeWorker)) (\<lambda>tee_info.
     ok_or (wi_stash_account tee_info) (tee_err tee_error.NonTeeWorker)))"

definition punish_scheduler :: "'w Config \<Rightarrow> string \<Rightarrow> (('w, 'z) tee_state_scheme, unit) M" where
  "punish_scheduler E pbk =
     bindM (getM (\<lambda>s. map_of (Workers s) pbk)) (\<lambda>w.
     bindM (ok_or w (tee_err tee_error.NonTeeWorker)) (\<lambda>tee_worker.
     case wi_stash_account tee_worker of
       Some stash_account \<Rightarrow>
         bindM (getM (\<lambda>s. staking_slash_scheduler E (world s) stash_account)) (\<lambda>slashed.
         bindM (ok_or slashed Panic) (\<lambda>wd.
         bindM (modM (\<lambda>s. s\<lparr>world := wd\<rparr>)) (\<lambda>_.
         record_punishment E stash_account)))
     | None \<Rightarrow> retM ()))"

definition get_pubkey_list :: "('w, 'z) tee_state_scheme \<Rightarrow> string list" where
  "get_pubkey_list s = ValidationTypeList s"

fun any_key_verifies :: "'w Config \<Rightarrow> string \<Rightarrow> string \<Rightarrow> string list \<Rightarrow> bool" where
  "any_key_verifies E sig hash [] = False"
| "any_key_verifies E sig hash (k # ks) = (if sr25519_verify E sig hash k then True else any_key_verifies E sig hash ks)"

definition verify_master_sig :: "'w Config \<Rightarrow> string \<Rightarrow> string \<Rightarrow> ('w, 'z) tee_state_scheme \<Rightarrow> bool" where
  "verify_master_sig E sig hash s = (case MasterPubkey s of
     None \<Rightarrow> False
   | Some cur_pubkey \<Rightarrow>
       (let flag = any_key_verifies E sig hash (OldMasterPubkeyList s)
        in sr25519_verify E sig hash cur_pubkey \<or> flag))"

definition update_work_block :: "'w Config \<Rightarrow> nat \<Rightarrow> string \<Rightarrow> (('w, 'z) tee_state_scheme, unit) M" where
  "update_work_block E now pbk = last_work_put E pbk now"

section \<open>A state for the examples\<close>

definition tee_example :: "ledger tee_state" where
  "tee_example = mq_state.extend (credit_state.extend credit_example (mq_state.fields Map.empty None []))
     (tee_state.fields [] None None None [] None [] Map.empty [] Map.empty Map.empty [] Map.empty (0, 0, 0) None)"

lemma tee_example_sel [simp]:
  "OffchainIngress tee_example = Map.empty" "world tee_example = ledger_of []" "block_number tee_example = 0"
  "Workers tee_example = []" "ValidationTypeList tee_example = []" "Endpoints tee_example = Map.empty"
  "WorkerAddedAt tee_example = Map.empty" "MasterPubkey tee_example = None" "MasterKeyFirstHolder tee_example = None"
  "OldMasterPubkey tee_example = None" "OldMasterPubkeyList tee_example = []" "LastWork tee_example = []"
  "LastRefresh tee_example = Map.empty" "CesealBinAllowList tee_example = []" "OutboundMessages tee_example = []"
  by (simp_all add: tee_example_def credit_example_def mq_state.defs credit_state.defs tee_state.defs)

end
