(* ===== verification/Run_Rules.thy ===== *)
theory Run_Rules
  imports Runtime_Env
begin

text \<open>
  Two ways to reason about a monadic run without executing it. The frame rules show that a run leaves a
  part of the state alone, whatever its result; they follow the shape of the program, so that the frame
  of an operation is found by applying them as introduction rules until only its writes remain. The
  weakest precondition \<open>wp m Q R s\<close> says that the run of \<open>m\<close> from \<open>s\<close> ends either with a value and a
  state that satisfy \<open>Q\<close> or with an error and a state that satisfy \<open>R\<close>; its rules are equations, so that
  the simplifier turns an operation into conditions on the state before it.
\<close>

section \<open>Frames\<close>

text \<open>A run that always leaves \<open>f\<close> alone.\<close>

definition frames :: "('s \<Rightarrow> 'a) \<Rightarrow> ('s \<Rightarrow> ('e + 'b) \<times> 's) \<Rightarrow> bool" where
  "frames f m \<longleftrightarrow> (\<forall>s. f (snd (m s)) = f s)"

lemma frames_keepsM: "frames f m \<longleftrightarrow> (\<forall>v. keepsM (\<lambda>s. f s = v) m)"
  by (simp add: frames_def keepsM_def)

lemma framesD: "frames f m \<Longrightarrow> m s = (r, s') \<Longrightarrow> f s' = f s"
  by (metis frames_def snd_conv)

lemma frames_bind: "frames f m \<Longrightarrow> (\<And>x. frames f (k x)) \<Longrightarrow> frames f (bindM m k)"
  unfolding frames_keepsM by (blast intro: keepsM_bind)

lemma frames_attempt: "frames f m \<Longrightarrow> frames f (attemptM m)"
  unfolding frames_keepsM by (blast intro: keepsM_attempt)

lemma frames_transactional: "frames f m \<Longrightarrow> frames f (transactional m)"
  unfolding frames_keepsM by (blast intro: keepsM_transactional keepsM_okM)

lemma frames_forM: "(\<And>x. frames f (g x)) \<Longrightarrow> frames f (forM xs g)"
  unfolding frames_keepsM by (blast intro: keepsM_forM)

lemma frames_pure: "frames f (retM x)" "frames f (failM e)" "frames f (getM g)" "frames f (ensureM b e)"
  "frames f (ok_or y e)" "frames f (ensure_signed orig)" "frames f (ensure_root orig)" "frames f (ensure_governance E orig)"
  by (auto simp: frames_def run_eval ensureM_def ok_or_def ensure_signed_def ensure_root_def ensure_governance_def
      split: option.splits origin.splits)

lemma frames_mod: "(\<And>s. f (g s) = f s) \<Longrightarrow> frames f (modM g)"
  by (simp add: frames_def run_eval)

lemma frames_mutate: "(\<And>v s. f (put v s) = f s) \<Longrightarrow> frames f (mutateM get put g)"
  by (simp add: frames_def mutateM_def split: prod.splits)

lemma frames_if: "frames f a \<Longrightarrow> frames f b \<Longrightarrow> frames f (if c then a else b)"
  by simp

lemma frames_option: "frames f a \<Longrightarrow> (\<And>x. frames f (b x)) \<Longrightarrow> frames f (case v of None \<Rightarrow> a | Some x \<Rightarrow> b x)"
  by (simp split: option.splits)

lemma frames_sum: "(\<And>x. frames f (a x)) \<Longrightarrow> (\<And>x. frames f (b x)) \<Longrightarrow> frames f (case v of Inl x \<Rightarrow> a x | Inr x \<Rightarrow> b x)"
  by (simp split: sum.splits)

lemma frames_prod: "(\<And>x y. frames f (a x y)) \<Longrightarrow> frames f (case v of (x, y) \<Rightarrow> a x y)"
  by (simp split: prod.splits)

lemma frames_foldM: "(\<And>x a. frames f (g x a)) \<Longrightarrow> frames f (foldM g xs a)"
  by (induction xs arbitrary: a) (simp_all add: frames_pure frames_bind)

lemma frames_map_err: "frames f m \<Longrightarrow> frames f (map_errM e m)"
  by (simp add: frames_def map_errM_def split: prod.splits sum.splits) (metis snd_conv)

lemma frames_world:
  assumes "\<And>w s. f (s\<lparr>world := w\<rparr>) = f s"
  shows "frames f (world_step g)" "frames f (world_upd h)"
  using assms by (simp_all add: frames_def world_step_def world_upd_def run_eval split: sum.splits)

lemmas frame_rules = frames_bind frames_attempt frames_transactional frames_forM frames_pure frames_if frames_option
  frames_sum frames_prod frames_foldM frames_map_err

section \<open>Weakest preconditions\<close>

named_theorems wp_simps "equations that push a postcondition through a run"

definition wp :: "('s \<Rightarrow> ('e + 'a) \<times> 's) \<Rightarrow> ('a \<Rightarrow> 's \<Rightarrow> bool) \<Rightarrow> ('e \<Rightarrow> 's \<Rightarrow> bool) \<Rightarrow> 's \<Rightarrow> bool" where
  "wp m Q R s = (case m s of (Inl e, s') \<Rightarrow> R e s' | (Inr x, s') \<Rightarrow> Q x s')"

lemma wp_bind [wp_simps]: "wp (bindM m k) Q R = wp m (\<lambda>x. wp (k x) Q R) R"
  by (simp add: fun_eq_iff wp_def bindM_def split: prod.splits sum.splits)

lemma wp_pure [wp_simps]:
  "wp (retM x) Q R = Q x" "wp (failM e) Q R = R e"
  "wp (getM f) Q R = (\<lambda>s. Q (f s) s)" "wp (modM g) Q' R = (\<lambda>s. Q' () (g s))"
  by (simp_all add: fun_eq_iff wp_def run_eval)

lemma wp_ensure [wp_simps]: "wp (ensureM b e) Q R = (\<lambda>s. (b \<longrightarrow> Q () s) \<and> (\<not> b \<longrightarrow> R e s))"
  by (simp add: fun_eq_iff wp_def ensureM_def)

lemma wp_ok_or [wp_simps]: "wp (ok_or v e) Q R = (\<lambda>s. (v = None \<longrightarrow> R e s) \<and> (\<forall>x. v = Some x \<longrightarrow> Q x s))"
  by (simp add: fun_eq_iff wp_def ok_or_def split: option.splits)

lemma wp_attempt [wp_simps]: "wp (attemptM m) Q R = wp m (\<lambda>x. Q (Inr x)) (\<lambda>e. Q (Inl e))"
  by (simp add: fun_eq_iff wp_def attemptM_def split: prod.splits sum.splits)

lemma wp_transactional [wp_simps]: "wp (transactional m) Q R = (\<lambda>s. wp m Q (\<lambda>e _. R e s) s)"
  by (simp add: fun_eq_iff wp_def transactional_def split: prod.splits sum.splits)

lemma wp_mutate [wp_simps]:
  "wp (mutateM get put f) Q R = (\<lambda>s. wp f (\<lambda>x v. Q x (put v s)) (\<lambda>e v. R e (put v s)) (get s))"
  by (simp add: fun_eq_iff wp_def mutateM_def split: prod.splits sum.splits)

lemma wp_origin [wp_simps]:
  "wp (ensure_signed orig) Q R = (\<lambda>s. (\<forall>a. orig = Signed a \<longrightarrow> Q a s) \<and> ((\<forall>a. orig \<noteq> Signed a) \<longrightarrow> R BadOrigin s))"
  "wp (ensure_root orig) Q' R = (\<lambda>s. (orig = Root \<longrightarrow> Q' () s) \<and> (orig \<noteq> Root \<longrightarrow> R BadOrigin s))"
  "wp (ensure_governance E orig) Q' R =
     (\<lambda>s. (governance_origin E orig \<longrightarrow> Q' () s) \<and> (\<not> governance_origin E orig \<longrightarrow> R BadOrigin s))"
  by (simp_all add: fun_eq_iff wp_def ensure_signed_def ensure_root_def ensure_governance_def ensureM_def run_eval split: origin.splits)

lemma wp_control [wp_simps]:
  "wp (if b then m else m') Q R = (\<lambda>s. (b \<longrightarrow> wp m Q R s) \<and> (\<not> b \<longrightarrow> wp m' Q R s))"
  "wp (case v of None \<Rightarrow> a | Some x \<Rightarrow> f x) Q R =
     (\<lambda>s. (v = None \<longrightarrow> wp a Q R s) \<and> (\<forall>x. v = Some x \<longrightarrow> wp (f x) Q R s))"
  "wp (case r of Inl e \<Rightarrow> g e | Inr y \<Rightarrow> h y) Q R =
     (\<lambda>s. (\<forall>e. r = Inl e \<longrightarrow> wp (g e) Q R s) \<and> (\<forall>y. r = Inr y \<longrightarrow> wp (h y) Q R s))"
  "wp (case p of (x, y) \<Rightarrow> k x y) Q R = (\<lambda>s. \<forall>x y. p = (x, y) \<longrightarrow> wp (k x y) Q R s)"
  by (simp_all add: fun_eq_iff split: option.splits sum.splits prod.splits)

lemma wp_mono: "wp m Q R s \<Longrightarrow> (\<And>x s'. Q x s' \<Longrightarrow> Q' x s') \<Longrightarrow> (\<And>e s'. R e s' \<Longrightarrow> R' e s') \<Longrightarrow> wp m Q' R' s"
  by (simp add: wp_def split: prod.splits sum.splits)

lemma wp_forM:
  assumes "\<And>x t. x \<in> set xs \<Longrightarrow> I t \<Longrightarrow> wp (f x) (\<lambda>_. I) R t" "I s"
  shows "wp (forM xs f) (\<lambda>_. I) R s"
  using assms
proof (induction xs arbitrary: s)
  case (Cons x xs)
  have "wp (f x) (\<lambda>_. I) R s" using Cons.prems by simp
  then show ?case unfolding forM.simps wp_bind by (rule wp_mono) (use Cons in auto)
qed (simp add: wp_pure)

lemma wp_D: "wp m Q R s \<Longrightarrow> m s = (Inr x, s') \<Longrightarrow> Q x s'"
  and wp_E: "wp m Q R s \<Longrightarrow> m s = (Inl e, s') \<Longrightarrow> R e s'"
  by (simp_all add: wp_def)

lemma wp_I: "(\<And>x s'. m s = (Inr x, s') \<Longrightarrow> Q x s') \<Longrightarrow> (\<And>e s'. m s = (Inl e, s') \<Longrightarrow> R e s') \<Longrightarrow> wp m Q R s"
  by (simp add: wp_def split: prod.splits sum.splits)

lemma keepsM_wp: "keepsM P m \<longleftrightarrow> (\<forall>s. P s \<longrightarrow> wp m (\<lambda>_. P) (\<lambda>_. P) s)"
  by (simp add: keepsM_def wp_def split: prod.splits sum.splits) (metis snd_conv surj_pair sum.exhaust)

text \<open>An extrinsic is rolled back on an error, so only its success matters for an invariant.\<close>

lemma keeps_wp: "(\<And>s. P s \<Longrightarrow> wp m (\<lambda>_. P) (\<lambda>_ _. True) s) \<Longrightarrow> keepsM P (transactional m)"
  by (intro keepsM_transactional keeps_okM_I) (blast dest: wp_D)

text \<open>An invariant that every call inside an operation keeps, failures included, is kept by the operation;
  the rules follow the shape of the program, as the frame rules do.\<close>

lemma keepsM_frame: "frames f m \<Longrightarrow> (\<And>s s'. f s' = f s \<Longrightarrow> P s \<Longrightarrow> P s') \<Longrightarrow> keepsM P m"
  unfolding frames_def keepsM_def by blast

lemma keepsM_mod: "(\<And>s. P s \<Longrightarrow> P (g s)) \<Longrightarrow> keepsM P (modM g)"
  by (simp add: keepsM_def run_eval)

lemma keepsM_control:
  "keepsM P a \<Longrightarrow> keepsM P b \<Longrightarrow> keepsM P (if c then a else b)"
  "keepsM P a' \<Longrightarrow> (\<And>x. keepsM P (b' x)) \<Longrightarrow> keepsM P (case v of None \<Rightarrow> a' | Some x \<Rightarrow> b' x)"
  "(\<And>x. keepsM P (c1 x)) \<Longrightarrow> (\<And>x. keepsM P (c2 x)) \<Longrightarrow> keepsM P (case r of Inl x \<Rightarrow> c1 x | Inr x \<Rightarrow> c2 x)"
  "(\<And>x y. keepsM P (k x y)) \<Longrightarrow> keepsM P (case p of (x, y) \<Rightarrow> k x y)"
  by (simp_all split: option.splits sum.splits prod.splits)

lemma keepsM_origin: "keepsM P (ensure_signed orig)" "keepsM P (ensure_root orig)" "keepsM P (ensure_governance E orig)"
  by (auto simp: keepsM_def run_eval ensure_signed_def ensure_root_def ensure_governance_def ensureM_def split: origin.splits)

lemma keepsM_foldM: "(\<And>x a. keepsM P (g x a)) \<Longrightarrow> keepsM P (foldM g xs a)"
  by (induction xs arbitrary: a) (simp_all add: keepsM_pure keepsM_bind)

lemmas keep_rules = keepsM_bind keepsM_attempt keepsM_forM keepsM_pure keepsM_control keepsM_origin
  keepsM_transactional [OF keepsM_okM]

text \<open>What a call establishes is available to the rest of the operation.\<close>

lemma wp_bindI: "wp m Q' R s \<Longrightarrow> (\<And>x s'. Q' x s' \<Longrightarrow> wp (k x) Q R s') \<Longrightarrow> wp (bindM m k) Q R s"
  unfolding wp_bind by (rule wp_mono)

lemma wp_frame: "frames f m \<Longrightarrow> (\<And>x s'. f s' = f s \<Longrightarrow> Q x s') \<Longrightarrow> (\<And>e s'. f s' = f s \<Longrightarrow> R e s') \<Longrightarrow> wp m Q R s"
  by (rule wp_I) (blast dest: framesD)+

lemma wp_keepsM: "keepsM P m \<Longrightarrow> P s \<Longrightarrow> (\<And>x s'. P s' \<Longrightarrow> Q x s') \<Longrightarrow> (\<And>e s'. P s' \<Longrightarrow> R e s') \<Longrightarrow> wp m Q R s"
  by (rule wp_I) (blast dest: keepsM_D)+

section \<open>Refinement\<close>

text \<open>A sequence of calls, with the result of each. An implementation refines a contract when an abstraction
  carries every call, result included, to the call of the contract; then it does so for every sequence.\<close>

fun trace :: "('c \<Rightarrow> 's \<Rightarrow> 'r \<times> 's) \<Rightarrow> 'c list \<Rightarrow> 's \<Rightarrow> 'r list \<times> 's" where
  "trace step [] s = ([], s)"
| "trace step (c # cs) s = (case step c s of (r, s') \<Rightarrow> case trace step cs s' of (rs, s'') \<Rightarrow> (r # rs, s''))"

locale refines =
  fixes inv :: "'s \<Rightarrow> bool" and abs :: "'s \<Rightarrow> 'a" and cstep :: "'c \<Rightarrow> 's \<Rightarrow> 'r \<times> 's" and astep :: "'c \<Rightarrow> 'a \<Rightarrow> 'r \<times> 'a"
  assumes inv_step: "inv s \<Longrightarrow> cstep c s = (r, s') \<Longrightarrow> inv s'"
    and simulates: "inv s \<Longrightarrow> cstep c s = (r, s') \<Longrightarrow> astep c (abs s) = (r, abs s')"
begin

lemma trace_refines:
  "inv s \<Longrightarrow> trace cstep cs s = (rs, s') \<Longrightarrow> inv s' \<and> trace astep cs (abs s) = (rs, abs s')"
proof (induction cs arbitrary: s rs)
  case (Cons c cs)
  obtain r t where c: "cstep c s = (r, t)" by fastforce
  obtain rs' where "trace cstep cs t = (rs', s')" "rs = r # rs'"
    using Cons.prems(2) c by (auto split: prod.splits)
  then show ?case using Cons.IH[of t rs'] inv_step[OF Cons.prems(1) c] simulates[OF Cons.prems(1) c] by simp
qed simp

end

end
