(* ===== verification/Tee_Laws.thy ===== *)
theory Tee_Laws
  imports Tee_Worker Run_Rules
begin

text \<open>
  The laws of the trusted-worker pallet: what its message handler does, the contract the message queue
  asks of it, the step relation of the pallet and its invariants, and the properties of the queue over
  the real handler.
\<close>

section \<open>Routing\<close>

definition outbound :: "message \<Rightarrow> ('w, 'z) mq_state_scheme \<Rightarrow> ('w, 'z) mq_state_scheme" where
  "outbound m s = (if should_push_message m then s\<lparr>OutboundMessages := OutboundMessages s @ [m]\<rparr> else s)"

lemmas tee_topic_defs = topic_key_submit_def topic_key_launch_def topic_key_apply_def topic_worker_event_def

lemma tee_topics [simp]:
  "topic_key_launch \<noteq> topic_key_submit" "topic_key_apply \<noteq> topic_key_submit" "topic_worker_event \<noteq> topic_key_submit"
  by (simp_all add: tee_topic_defs)

lemma tee_topics_offchain [simp]:
  "topic_is_offchain topic_key_launch" "topic_is_offchain topic_key_apply" "topic_is_offchain topic_worker_event"
  by (simp_all add: tee_topic_defs topic_is_offchain_def topic_is_valid_def RESERVED_BYTES_def)

lemma route_elsewhere: "m_destination m \<noteq> topic_key_submit \<Longrightarrow> route E n m s = (Inr (), s)"
  by (cases n) (simp_all add: run_eval)

lemma route_push:
  assumes "topic \<noteq> topic_key_submit"
  shows "tee_push E (route E n) topic p s = (Inr (), outbound (message_new tee_message_origin topic (encode E p)) s)"
  using assms by (simp add: tee_push_def push_message_to_def dispatch_message_def bindM_def run_eval
      route_elsewhere message_new_def outbound_def)

lemma quiet_push:
  "tee_push E (\<lambda>_. retM ()) topic p s = (Inr (), outbound (message_new tee_message_origin topic (encode E p)) s)"
  by (simp add: tee_push_def push_message_to_def dispatch_message_def bindM_def run_eval outbound_def)

text \<open>The depth at which routing is cut is irrelevant.\<close>

lemma route_quiet: "tee_push E (route E n) topic_key_launch p = tee_push E (\<lambda>_. retM ()) topic_key_launch p"
  by (rule ext) (simp add: route_push quiet_push)

lemma received_any_depth: "on_message_received E (route E n) sender k s = on_message_received E (\<lambda>_. retM ()) sender k s"
  unfolding on_message_received_def route_quiet ..

lemma route_depth: "route E n = route E 0"
proof (cases n)
  case (Suc k)
  then show ?thesis by (intro ext) (simp add: received_any_depth split: option.splits)
qed simp

lemma tee_push_run:
  assumes "topic \<noteq> topic_key_submit"
  shows "tee_push E (tee_notify E) topic p s = (Inr (), outbound (message_new tee_message_origin topic (encode E p)) s)"
  unfolding tee_notify_def by (rule route_push [OF assms])

lemma outbound_frame [simp]:
  "OffchainIngress (outbound m s) = OffchainIngress s" "world (outbound m s) = world s"
  "block_number (outbound m s) = block_number s"
  by (simp_all add: outbound_def)

lemma outbound_tee [simp]:
  "Workers (outbound m s) = Workers s" "ValidationTypeList (outbound m s) = ValidationTypeList s"
  "Endpoints (outbound m s) = Endpoints s" "WorkerAddedAt (outbound m s) = WorkerAddedAt s"
  "MasterPubkey (outbound m s) = MasterPubkey s" "MasterKeyFirstHolder (outbound m s) = MasterKeyFirstHolder s"
  "OldMasterPubkey (outbound m s) = OldMasterPubkey s" "OldMasterPubkeyList (outbound m s) = OldMasterPubkeyList s"
  "LastWork (outbound m s) = LastWork s"
  by (simp_all add: outbound_def)

text \<open>Either nothing happens, or the first holder's key becomes the master key.\<close>

lemma notify_effect:
  "snd (tee_notify E m s) = s \<or> (\<exists>k. MasterPubkey s = None \<and> MasterKeyFirstHolder s \<noteq> None
     \<and> m_sender m = Worker (the (MasterKeyFirstHolder s))
     \<and> decode_master_key_submission E (m_payload m) = Some k
     \<and> snd (tee_notify E m s) = snd (on_master_key_launched E
         (outbound (message_new tee_message_origin topic_key_launch (encode E (on_chain_launched k))) (s\<lparr>MasterPubkey := Some k\<rparr>))))"
  unfolding tee_notify_def route_depth [of E 1]
  by (auto simp: on_message_received_def quiet_push bindM_def run_eval ensureM_def ok_or_def
      split: option.splits message_origin.splits)

lemma notify_keeps_ingress: "OffchainIngress (snd (tee_notify E m s)) = OffchainIngress s"
  using notify_effect [of E m s] by (auto simp: on_master_key_launched_def run_eval)

interpretation tee_q: queue_notify "tee_notify E" for E :: "'w Config"
  by unfold_locales (rule notify_keeps_ingress)

section \<open>The step relation of the pallet\<close>

text \<open>
  One step is an extrinsic, a hook, a message of the queue, a call of the trait by another pallet, or a
  step of the rest of the chain, which changes the clock and the world but none of the pallet's storage.
\<close>

inductive tee_step :: "'w Config \<Rightarrow> ('w, 'z) tee_state_scheme \<Rightarrow> ('w, 'z) tee_state_scheme \<Rightarrow> bool" for E where
  step_refresh: "refresh_tee_status E orig ri att s = (r, s') \<Longrightarrow> tee_step E s s'"
| step_force_register: "force_register_worker E orig k ecdh stash s = (r, s') \<Longrightarrow> tee_step E s s'"
| step_register: "register_worker E orig ri latt s = (r, s') \<Longrightarrow> tee_step E s s'"
| step_register_v2: "register_worker_v2 E orig ri att s = (r, s') \<Longrightarrow> tee_step E s s'"
| step_endpoint: "update_worker_endpoint E orig ep sig s = (r, s') \<Longrightarrow> tee_step E s s'"
| step_launch: "launch_master_key E orig k s = (r, s') \<Longrightarrow> tee_step E s s'"
| step_clear: "clear_master_key E orig s = (r, s') \<Longrightarrow> tee_step E s s'"
| step_apply: "apply_master_key E orig ap sig s = (r, s') \<Longrightarrow> tee_step E s s'"
| step_holder: "change_first_holder E orig k s = (r, s') \<Longrightarrow> tee_step E s s'"
| step_add_ceseal: "add_ceseal E orig h s = (r, s') \<Longrightarrow> tee_step E s s'"
| step_remove_ceseal: "remove_ceseal E orig h s = (r, s') \<Longrightarrow> tee_step E s s'"
| step_version: "set_minimum_ceseal_version E orig a b c s = (r, s') \<Longrightarrow> tee_step E s s'"
| step_migration: "migration_last_work E orig s = (r, s') \<Longrightarrow> tee_step E s s'"
| step_clear_invalid: "patch_clear_invalid_tee E orig s = (r, s') \<Longrightarrow> tee_step E s s'"
| step_clear_idle: "patch_clear_not_work_tee E orig s = (r, s') \<Longrightarrow> tee_step E s s'"
| step_force_clear: "force_clear_tee E orig k s = (r, s') \<Longrightarrow> tee_step E s s'"
| step_stalled: "set_note_stalled E orig b s = (r, s') \<Longrightarrow> tee_step E s s'"
| step_init: "tee_on_initialize E now s = (r, s') \<Longrightarrow> tee_step E s s'"
| step_sync: "sync_offchain_message E (tee_notify E) MasterPubkey orig sm s = (r, s') \<Longrightarrow> tee_step E s s'"
| step_push: "mq_push_message E (tee_notify E) orig dest p s = (r, s') \<Longrightarrow> tee_step E s s'"
| step_force_push: "force_push_pallet_message E (tee_notify E) orig dest p s = (r, s') \<Longrightarrow> tee_step E s s'"
| step_mq_init: "mq_on_initialize (tee_notify E) s = (r, s') \<Longrightarrow> tee_step E s s'"
| step_worked: "update_work_block E now k s = (r, s') \<Longrightarrow> tee_step E s s'"
| step_punish: "punish_scheduler E k s = (r, s') \<Longrightarrow> tee_step E s s'"
| step_block: "tee_step E s (s\<lparr>block_number := n, world := w\<rparr>)"

definition tee_genesis :: "('w, 'z) tee_state_scheme \<Rightarrow> bool" where
  "tee_genesis s \<longleftrightarrow> Workers s = [] \<and> ValidationTypeList s = [] \<and> Endpoints s = Map.empty \<and> WorkerAddedAt s = Map.empty \<and>
     MasterPubkey s = None \<and> MasterKeyFirstHolder s = None \<and> OldMasterPubkey s = None \<and> OldMasterPubkeyList s = []"

definition registry_inv :: "'w Config \<Rightarrow> ('w, 'z) tee_state_scheme \<Rightarrow> bool" where
  "registry_inv E s \<longleftrightarrow> distinct (map fst (Workers s)) \<and>
     distinct (ValidationTypeList s) \<and> length (ValidationTypeList s) \<le> SchedulerMaximum E \<and>
     (\<forall>k \<in> set (ValidationTypeList s). can_verify k s) \<and>
     (\<forall>k. Endpoints s k \<noteq> None \<longrightarrow> contains_scheduler k s) \<and>
     (\<forall>k. WorkerAddedAt s k \<noteq> None \<longleftrightarrow> contains_scheduler k s)"

definition key_inv :: "('w, 'z) tee_state_scheme \<Rightarrow> bool" where
  "key_inv s \<longleftrightarrow> (MasterPubkey s \<noteq> None \<longrightarrow> MasterKeyFirstHolder s \<noteq> None) \<and>
     OldMasterPubkey s = None \<and> OldMasterPubkeyList s = []"

section \<open>Steps that leave a part of the state alone\<close>

text \<open>What the registry invariant, and what the key invariant, reads.\<close>

definition registry :: "('w, 'z) tee_state_scheme
    \<Rightarrow> (string \<times> worker_info) list \<times> string list \<times> (string \<Rightarrow> string option) \<times> (string \<Rightarrow> nat option)" where
  "registry s = (Workers s, ValidationTypeList s, Endpoints s, WorkerAddedAt s)"

definition keys :: "('w, 'z) tee_state_scheme \<Rightarrow> string option \<times> string option \<times> string option \<times> string list" where
  "keys s = (MasterPubkey s, MasterKeyFirstHolder s, OldMasterPubkey s, OldMasterPubkeyList s)"

lemma registry_inv_cong: "registry s' = registry s \<Longrightarrow> registry_inv E s' = registry_inv E s"
  by (simp add: registry_def registry_inv_def can_verify_def worker_role_of_def contains_scheduler_def)

lemma key_inv_cong: "keys s' = keys s \<Longrightarrow> key_inv s' = key_inv s"
  by (simp add: keys_def key_inv_def)

lemma outbound_parts [simp]: "registry (outbound m s) = registry s" "keys (outbound m s) = keys s"
  by (simp_all add: registry_def keys_def)

lemma frames_lift: "frames f (lift_attestation a)"
  by (simp add: lift_attestation_def frames_pure split: sum.splits)

lemmas tee_frames = frame_rules frames_lift frames_mod frames_mutate

lemma tee_push_frames:
  assumes "topic \<noteq> topic_key_submit"
  shows "frames registry (tee_push E (tee_notify E) topic p)" "frames keys (tee_push E (tee_notify E) topic p)"
  by (simp_all add: frames_def tee_push_run [OF assms])

lemma notify_registry: "frames registry (tee_notify E m)"
  unfolding frames_def
proof
  fix s
  show "registry (snd (tee_notify E m s)) = registry s"
    using notify_effect [of E m s] by (auto simp: on_master_key_launched_def run_eval registry_def)
qed

lemma dispatch_registry: "frames registry (dispatch_message (tee_notify E) m)"
  unfolding dispatch_message_def
  by (intro tee_frames notify_registry) (simp_all add: registry_def)

lemma check_message_frames: "frames f (check_message E supplier sm)"
  unfolding check_message_def mq_verify_signature_def
  by (cases "m_sender (sm_message sm)") (auto intro!: frame_rules)

lemma punish_frames:
  "frames registry (punish_scheduler E k)" "frames keys (punish_scheduler E k)"
  unfolding punish_scheduler_def record_punishment_def
  by (intro tee_frames; simp add: registry_def keys_def counter_put_def)+

lemmas tee_unfold = launch_master_key_def clear_master_key_def apply_master_key_def change_first_holder_def
  add_ceseal_def remove_ceseal_def set_minimum_ceseal_version_def migration_last_work_def set_note_stalled_def
  mq_push_message_def force_push_pallet_message_def mq_on_initialize_def update_work_block_def last_work_put_def
  reset_ingress_channel_seq_def

lemma registry_frames:
  "frames registry (launch_master_key E orig k)" "frames registry (clear_master_key E orig)"
  "frames registry (apply_master_key E orig ap sig)" "frames registry (change_first_holder E orig k)"
  "frames registry (add_ceseal E orig h)" "frames registry (remove_ceseal E orig h)"
  "frames registry (set_minimum_ceseal_version E orig a b c)" "frames registry (migration_last_work E orig)"
  "frames registry (set_note_stalled E orig flag)" "frames registry (mq_push_message E (tee_notify E) orig dest p)"
  "frames registry (force_push_pallet_message E (tee_notify E) orig dest p)"
  "frames registry (mq_on_initialize (tee_notify E))" "frames registry (update_work_block E now k)"
  unfolding tee_unfold
  by (intro tee_frames tee_push_frames dispatch_registry; simp add: registry_def)+

lemma sync_registry: "frames registry (sync_offchain_message E (tee_notify E) MasterPubkey orig sm)"
  unfolding sync_offchain_message_def Let_def
  by (intro tee_frames check_message_frames dispatch_registry) (simp add: registry_def)

lemma key_frames:
  "frames keys (apply_master_key E orig ap sig)"
  "frames keys (add_ceseal E orig h)" "frames keys (remove_ceseal E orig h)"
  "frames keys (set_minimum_ceseal_version E orig a b c)" "frames keys (migration_last_work E orig)"
  "frames keys (set_note_stalled E orig flag)" "frames keys (update_work_block E now k)"
  unfolding tee_unfold
  by (intro tee_frames tee_push_frames; simp add: keys_def)+

lemma registering_keys:
  "frames keys (refresh_tee_status E orig ri att)" "frames keys (force_register_worker E orig k ecdh stash)"
  "frames keys (register_worker E orig ri latt)" "frames keys (register_worker_v2 E orig ri att)"
  "frames keys (update_worker_endpoint E orig ep sig)"
  unfolding refresh_tee_status_def force_register_worker_def register_worker_def register_worker_v2_def
    register_validated_def update_worker_endpoint_def worker_put_def last_work_put_def Let_def
  by (intro tee_frames tee_push_frames; simp add: keys_def)+

lemma exit_keys: "frames keys (execute_exit k)"
  unfolding execute_exit_def by (intro tee_frames; simp add: keys_def)

lemma clearing_keys:
  "frames keys (clear_mission E now)" "frames keys (tee_on_initialize E now)" "frames keys (patch_clear_invalid_tee E orig)"
  "frames keys (patch_clear_not_work_tee E orig)" "frames keys (force_clear_tee E orig k)"
  unfolding clear_mission_def tee_on_initialize_def patch_clear_invalid_tee_def patch_clear_not_work_tee_def force_clear_tee_def
  by (intro tee_frames exit_keys; simp add: keys_def)+

section \<open>Preservation of the invariants\<close>

lemma registry_inv_frame: "frames registry m \<Longrightarrow> registry_inv E s \<Longrightarrow> m s = (r, s') \<Longrightarrow> registry_inv E s'"
  using registry_inv_cong [of s' s E] framesD [of registry m s r s'] by simp

lemma key_inv_frame: "frames keys m \<Longrightarrow> key_inv s \<Longrightarrow> m s = (r, s') \<Longrightarrow> key_inv s'"
  using key_inv_cong [of s' s] framesD [of keys m s r s'] by simp

text \<open>The registry invariant over the values it reads, with the workers as a map.\<close>

definition verifies :: "(string \<Rightarrow> worker_info option) \<Rightarrow> string \<Rightarrow> bool" where
  "verifies m k \<longleftrightarrow> (\<exists>w. m k = Some w \<and> wi_role w \<noteq> Marker)"

definition reg_ok :: "nat \<Rightarrow> (string \<Rightarrow> worker_info option) \<Rightarrow> string list \<Rightarrow> (string \<Rightarrow> string option) \<Rightarrow> (string \<Rightarrow> nat option) \<Rightarrow> bool" where
  "reg_ok n m vt ep added \<longleftrightarrow> distinct vt \<and> length vt \<le> n \<and> (\<forall>k \<in> set vt. verifies m k) \<and>
     dom ep \<subseteq> dom m \<and> dom added = dom m"

lemma can_verify_verifies: "can_verify k s = verifies (map_of (Workers s)) k"
  unfolding can_verify_def worker_role_of_def verifies_def
proof (cases "map_of (Workers s) k")
  case (Some w)
  then show "(map_option wi_role (map_of (Workers s) k) = Some Verifier \<or> map_option wi_role (map_of (Workers s) k) = Some Full) =
      (\<exists>w. map_of (Workers s) k = Some w \<and> wi_role w \<noteq> Marker)" by (cases "wi_role w") simp_all
qed simp

lemma registry_inv_ok: "registry_inv E s \<longleftrightarrow> distinct (map fst (Workers s)) \<and>
    reg_ok (SchedulerMaximum E) (map_of (Workers s)) (ValidationTypeList s) (Endpoints s) (WorkerAddedAt s)"
  unfolding registry_inv_def reg_ok_def can_verify_verifies contains_scheduler_def dom_def set_eq_iff subset_eq mem_Collect_eq
  by blast

lemma reg_ok_put:
  assumes "reg_ok n m vt ep added" "k \<in> set vt \<Longrightarrow> wi_role w \<noteq> Marker"
  shows "reg_ok n (m(k \<mapsto> w)) vt ep (added(k \<mapsto> b))"
  using assms by (auto simp: reg_ok_def verifies_def)

lemma reg_ok_update:
  assumes "reg_ok n m vt ep added" "m k = Some w'" "wi_role w = wi_role w'"
  shows "reg_ok n (m(k \<mapsto> w)) vt ep added"
  using assms by (auto simp: reg_ok_def verifies_def)

lemma reg_ok_list:
  assumes "reg_ok n m vt ep added" "verifies m k" "k \<notin> set vt" "length vt < n"
  shows "reg_ok n m (vt @ [k]) ep added"
  using assms by (auto simp: reg_ok_def)

lemma reg_ok_exit:
  assumes "reg_ok n m vt ep added"
  shows "reg_ok n (m(k := None)) (filter (\<lambda>g. g \<noteq> k) vt) (ep(k := None)) (added(k := None))"
  using assms by (auto simp: reg_ok_def verifies_def intro: le_trans [OF length_filter_le])

lemma reg_ok_endpoint: "reg_ok n m vt ep added \<Longrightarrow> m k \<noteq> None \<Longrightarrow> reg_ok n m vt (ep(k \<mapsto> e)) added"
  by (auto simp: reg_ok_def)

lemma map_of_assoc_put: "map_of (assoc_put h k v xs) = (map_of xs)(k \<mapsto> v)"
  by (simp add: fun_eq_iff)

lemma registry_inv_eq:
  assumes "registry s' = (ws, vt, ep, added)" "distinct (map fst ws)" "reg_ok (SchedulerMaximum E) (map_of ws) vt ep added"
  shows "registry_inv E s'"
  using assms by (simp add: registry_inv_ok registry_def)

lemma keeps_registry_inv:
  assumes "\<And>s x s'. registry_inv E s \<Longrightarrow> m s = (Inr x, s') \<Longrightarrow> \<exists>ws vt ep added. registry s' = (ws, vt, ep, added) \<and>
    distinct (map fst ws) \<and> reg_ok (SchedulerMaximum E) (map_of ws) vt ep added"
  shows "keepsM (registry_inv E) (transactional m)"
proof (intro keepsM_transactional keeps_okM_I)
  fix s x s'
  assume "registry_inv E s" "m s = (Inr x, s')"
  from assms [OF this] show "registry_inv E s'" by (elim exE conjE) (rule registry_inv_eq)
qed

lemma exit_ok: "execute_exit k s = (Inr u, s') \<Longrightarrow> registry s' = (assoc_del k (Workers s),
    filter (\<lambda>g. g \<noteq> k) (ValidationTypeList s), (Endpoints s)(k := None), (WorkerAddedAt s)(k := None))"
  by (auto simp: execute_exit_def run_simps registry_def split: option.splits)

lemma exit_error: "execute_exit k s = (Inl e, s') \<Longrightarrow> s' = s \<and> MasterKeyFirstHolder s = Some k"
  by (auto simp: execute_exit_def bindM_Inl run_simps split: option.splits)

lemma registry_inv_exit: "keepsM (registry_inv E) (execute_exit k)"
proof (rule keepsM_I)
  fix s s' r
  assume a: "registry_inv E s" "execute_exit k s = (r, s')"
  show "registry_inv E s'"
  proof (cases r)
    case (Inl e)
    with a exit_error [of k s e s'] show ?thesis by simp
  next
    case (Inr u)
    with a exit_ok [of k s u s'] have "registry s' = (assoc_del k (Workers s), filter (\<lambda>g. g \<noteq> k) (ValidationTypeList s),
        (Endpoints s)(k := None), (WorkerAddedAt s)(k := None))" by simp
    then show ?thesis by (rule registry_inv_eq) (use a(1) in \<open>simp_all add: registry_inv_ok reg_ok_exit\<close>)
  qed
qed

lemma wp_lift [wp_simps]: "wp (lift_attestation a) Q R =
    (\<lambda>s. (\<forall>e. a = Inl e \<longrightarrow> R (of_attestation e) s) \<and> (\<forall>x. a = Inr x \<longrightarrow> Q x s))"
  by (simp add: lift_attestation_def wp_simps)

lemma wp_tee_push [wp_simps]: "topic \<noteq> topic_key_submit \<Longrightarrow> wp (tee_push E (tee_notify E) topic p) Q R =
    (\<lambda>s. Q () (outbound (message_new tee_message_origin topic (encode E p)) s))"
  by (simp add: fun_eq_iff wp_def tee_push_run)

lemmas reg_simps = registry_inv_ok map_of_assoc_put reg_ok_put reg_ok_update reg_ok_list reg_ok_endpoint

lemma registry_inv_refresh: "keepsM (registry_inv E) (refresh_tee_status E orig ri att)"
  unfolding refresh_tee_status_def
  by (rule keeps_wp) (simp add: wp_simps worker_put_def reg_simps)

lemma registry_inv_endpoint: "keepsM (registry_inv E) (update_worker_endpoint E orig ep sig)"
  unfolding update_worker_endpoint_def
  by (rule keeps_wp) (simp add: wp_simps reg_simps)

lemma registry_inv_force_register: "keepsM (registry_inv E) (force_register_worker E orig k ecdh stash)"
  unfolding force_register_worker_def
  by (rule keeps_wp) (simp add: wp_simps worker_put_def reg_simps)

lemma reg_ok_fresh: "reg_ok n m vt ep added \<Longrightarrow> m k = None \<Longrightarrow> k \<notin> set vt"
  by (auto simp: reg_ok_def verifies_def)

lemma reg_ok_enter:
  assumes "reg_ok n m vt ep added" "m k = None" "wi_role w \<noteq> Marker" "length vt < n"
  shows "reg_ok n (m(k \<mapsto> w)) (vt @ [k]) ep (added(k \<mapsto> b))"
  using assms reg_ok_fresh [OF assms(1,2)]
  by (intro reg_ok_list reg_ok_put) (simp_all add: verifies_def)

lemma reg_ok_enter_marker:
  assumes "reg_ok n m vt ep added" "m k = None"
  shows "reg_ok n (m(k \<mapsto> w)) vt ep (added(k \<mapsto> b))"
  using assms reg_ok_fresh [OF assms] by (intro reg_ok_put) simp_all

lemma wp_validated:
  assumes "registry_inv E s"
  shows "wp (register_validated E ri now provider c) (\<lambda>_. registry_inv E) (\<lambda>_ _. True) s"
  using assms
  by (simp add: register_validated_def Let_def wp_simps worker_put_def last_work_put_def registry_inv_ok map_of_assoc_put
      reg_ok_enter reg_ok_enter_marker run_simps)

lemma registry_inv_register:
  "keepsM (registry_inv E) (register_worker E orig ri latt)" "keepsM (registry_inv E) (register_worker_v2 E orig ri att)"
  unfolding register_worker_def register_worker_v2_def
  by (rule keeps_wp; simp add: wp_simps wp_validated)+

lemma registry_inv_clear_mission: "keepsM (registry_inv E) (clear_mission E now)"
proof -
  have upd: "registry_inv E (s\<lparr>LastWork := l, LastRefresh := r\<rparr>) = registry_inv E s" for s :: "('a, 'z) tee_state_scheme" and l r
    by (rule registry_inv_cong) (simp add: registry_def)
  have step: "wp (execute_exit k) (\<lambda>_ t. registry_inv E (t\<lparr>LastWork := assoc_del k (LastWork t), LastRefresh := (LastRefresh t)(k := None)\<rparr>))
      (\<lambda>_. registry_inv E) t" if "registry_inv E t" for k and t :: "('a, 'z) tee_state_scheme"
    unfolding upd by (rule registry_inv_exit [unfolded keepsM_wp, rule_format, OF that])
  show ?thesis unfolding clear_mission_def
    by (intro keepsM_bind keepsM_forM keepsM_pure) (auto simp: keepsM_wp wp_simps step)
qed

lemma registry_inv_clearing:
  "keepsM (registry_inv E) (tee_on_initialize E now)" "keepsM (registry_inv E) (patch_clear_invalid_tee E orig)"
  "keepsM (registry_inv E) (patch_clear_not_work_tee E orig)" "keepsM (registry_inv E) (force_clear_tee E orig k)"
  unfolding tee_on_initialize_def patch_clear_invalid_tee_def patch_clear_not_work_tee_def force_clear_tee_def ensure_governance_def
  by (simp add: keepsM_pure registry_inv_clear_mission,
      (intro keepsM_transactional keepsM_okM keepsM_bind keepsM_pure keepsM_forM registry_inv_clear_mission registry_inv_exit,
       (simp add: keepsM_pure registry_inv_exit)?)+)

lemmas registry_inv_steps = registry_inv_frame [OF registry_frames(1)] registry_inv_frame [OF registry_frames(2)]
  registry_inv_frame [OF registry_frames(3)] registry_inv_frame [OF registry_frames(4)]
  registry_inv_frame [OF registry_frames(5)] registry_inv_frame [OF registry_frames(6)]
  registry_inv_frame [OF registry_frames(7)] registry_inv_frame [OF registry_frames(8)]
  registry_inv_frame [OF registry_frames(9)] registry_inv_frame [OF registry_frames(10)]
  registry_inv_frame [OF registry_frames(11)] registry_inv_frame [OF registry_frames(12)]
  registry_inv_frame [OF registry_frames(13)] registry_inv_frame [OF sync_registry] registry_inv_frame [OF punish_frames(1)]
  keepsM_D [OF registry_inv_refresh] keepsM_D [OF registry_inv_force_register] keepsM_D [OF registry_inv_endpoint]
  keepsM_D [OF registry_inv_register(1)] keepsM_D [OF registry_inv_register(2)]
  keepsM_D [OF registry_inv_clearing(1)] keepsM_D [OF registry_inv_clearing(2)]
  keepsM_D [OF registry_inv_clearing(3)] keepsM_D [OF registry_inv_clearing(4)]

text \<open>The registry invariant holds after every step.\<close>

lemma registry_inv_step: "tee_step E s s' \<Longrightarrow> registry_inv E s \<Longrightarrow> registry_inv E s'"
proof (induction rule: tee_step.induct)
  case step_block
  then show ?case by (simp add: registry_inv_ok)
qed (erule (1) registry_inv_steps)+

section \<open>The master key\<close>

text \<open>
  The first value entered as the master key stays: the only operation that removes it,
  \<open>clear_master_key\<close>, needs \<open>OldMasterPubkey\<close>, which nothing ever writes.
\<close>

definition key_from :: "string option \<Rightarrow> ('w, 'z) tee_state_scheme \<Rightarrow> bool" where
  "key_from k s \<longleftrightarrow> key_inv s \<and> (k \<noteq> None \<longrightarrow> MasterPubkey s = k)"

lemma key_from_frame: "frames keys m \<Longrightarrow> key_from k s \<Longrightarrow> m s = (r, s') \<Longrightarrow> key_from k s'"
  using framesD [of keys m s r s'] key_inv_cong [of s' s] by (simp add: key_from_def keys_def)

lemma key_from_mod: "(\<And>s. keys (g s) = keys s) \<Longrightarrow> keepsM (key_from k) (modM g)"
  using key_inv_cong by (auto simp: keepsM_def run_eval key_from_def keys_def)

lemma clear_master_key_fails:
  assumes "OldMasterPubkey s = None"
  shows "\<exists>e. clear_master_key E orig s = (Inl e, s) \<and>
    e \<in> {BadOrigin, tee_err tee_error.MasterKeyAlreadyLaunched, tee_err tee_error.MasterKeyLaunching, tee_err tee_error.WorkerNotFound}"
proof -
  have "wp (clear_master_key E orig) (\<lambda>_ _. False) (\<lambda>e t. t = s \<and> e \<in> {BadOrigin, tee_err tee_error.MasterKeyAlreadyLaunched,
      tee_err tee_error.MasterKeyLaunching, tee_err tee_error.WorkerNotFound}) s"
    using assms by (simp add: clear_master_key_def wp_simps)
  then show ?thesis by (auto simp: wp_def split: prod.splits sum.splits)
qed

lemma key_from_notify: "keepsM (key_from k) (tee_notify E m)"
  unfolding keepsM_def
proof (intro allI impI)
  fix s :: "('a, 'z) tee_state_scheme"
  assume "key_from k s"
  then show "key_from k (snd (tee_notify E m s))"
    using notify_effect [of E m s] by (auto simp: key_from_def key_inv_def on_master_key_launched_def run_eval)
qed

lemma key_from_dispatch: "keepsM (key_from k) (dispatch_message (tee_notify E) m)"
  unfolding dispatch_message_def
  by (intro keepsM_bind keepsM_attempt key_from_notify)
    (simp add: keepsM_pure key_from_mod keys_def)

lemma key_from_check: "keepsM P (check_message E supplier sm)"
  unfolding check_message_def mq_verify_signature_def
  by (cases "m_sender (sm_message sm)") (auto intro!: keepsM_bind keepsM_pure)

lemma key_from_messages:
  "keepsM (key_from k) (sync_offchain_message E (tee_notify E) MasterPubkey orig sm)"
  "keepsM (key_from k) (mq_push_message E (tee_notify E) orig dest p)"
  "keepsM (key_from k) (force_push_pallet_message E (tee_notify E) orig dest p)"
  "keepsM (key_from k) (mq_on_initialize (tee_notify E))"
proof -
  have signed: "keepsM P (ensure_signed orig)" "keepsM P (ensure_root orig)" for P :: "('a, 'z) tee_state_scheme \<Rightarrow> bool"
    by (auto simp: ensure_signed_def ensure_root_def keepsM_pure split: origin.splits)
  show "keepsM (key_from k) (sync_offchain_message E (tee_notify E) MasterPubkey orig sm)"
    unfolding sync_offchain_message_def Let_def
    by (intro keepsM_transactional keepsM_okM keepsM_bind keepsM_pure key_from_check key_from_dispatch signed key_from_mod)
      (simp add: keys_def)
qed (unfold mq_push_message_def force_push_pallet_message_def mq_on_initialize_def ensure_signed_def ensure_root_def,
   (intro keepsM_transactional keepsM_okM keepsM_bind keepsM_pure key_from_dispatch key_from_mod keepsM_forM;
     auto simp: keys_def keepsM_pure key_from_dispatch intro!: keepsM_forM split: origin.splits option.splits)+)

lemma key_from_key_ops:
  "keepsM (key_from k) (launch_master_key E orig w)" "keepsM (key_from k) (change_first_holder E orig w)"
  unfolding launch_master_key_def change_first_holder_def
  by (rule keeps_wp; auto simp: wp_simps key_from_def key_inv_def)+

lemma key_from_clear: "keepsM (key_from k) (clear_master_key E orig)"
proof (rule keepsM_I)
  fix s s' :: "('a, 'b) tee_state_scheme" and r
  assume k: "key_from k s" and run: "clear_master_key E orig s = (r, s')"
  then obtain e where "clear_master_key E orig s = (Inl e, s)"
    using clear_master_key_fails [of s E orig] by (auto simp: key_from_def key_inv_def)
  with k run show "key_from k s'" by simp
qed

lemmas key_from_steps = key_from_frame [OF key_frames(1)] key_from_frame [OF key_frames(2)] key_from_frame [OF key_frames(3)]
  key_from_frame [OF key_frames(4)] key_from_frame [OF key_frames(5)] key_from_frame [OF key_frames(6)]
  key_from_frame [OF key_frames(7)] key_from_frame [OF registering_keys(1)] key_from_frame [OF registering_keys(2)]
  key_from_frame [OF registering_keys(3)] key_from_frame [OF registering_keys(4)] key_from_frame [OF registering_keys(5)]
  key_from_frame [OF clearing_keys(2)] key_from_frame [OF clearing_keys(3)] key_from_frame [OF clearing_keys(4)]
  key_from_frame [OF clearing_keys(5)] key_from_frame [OF punish_frames(2)]
  keepsM_D [OF key_from_messages(1)] keepsM_D [OF key_from_messages(2)] keepsM_D [OF key_from_messages(3)]
  keepsM_D [OF key_from_messages(4)] keepsM_D [OF key_from_key_ops(1)] keepsM_D [OF key_from_key_ops(2)]
  keepsM_D [OF key_from_clear]

lemma key_from_step: "tee_step E s s' \<Longrightarrow> key_from k s \<Longrightarrow> key_from k s'"
proof (induction rule: tee_step.induct)
  case step_block
  then show ?case by (simp add: key_from_def key_inv_def)
qed (erule (1) key_from_steps)+

lemma tee_invariant:
  assumes "(tee_step E)\<^sup>*\<^sup>* s s'"
  shows "registry_inv E s \<Longrightarrow> registry_inv E s'" "key_from k s \<Longrightarrow> key_from k s'"
  using assms by (induction rule: rtranclp_induct) (auto dest: registry_inv_step key_from_step)

lemma genesis_inv: "tee_genesis s \<Longrightarrow> registry_inv E s \<and> key_inv s"
  by (auto simp: tee_genesis_def registry_inv_ok reg_ok_def key_inv_def)

section \<open>Workers that stop working\<close>

text \<open>The workers whose last work is too old, the first holder excepted.\<close>

definition stale :: "'w Config \<Rightarrow> nat \<Rightarrow> string option \<Rightarrow> string \<times> nat \<Rightarrow> bool" where
  "stale E now holder x \<longleftrightarrow> saturating_add 32 (snd x) (AtLeastWorkBlock E) < now \<and> holder \<noteq> Some (fst x)"

lemma exit_run:
  "execute_exit k s = (if MasterKeyFirstHolder s = Some k then (Inl (tee_err tee_error.CannotExitMasterKeyHolder), s)
     else (Inr (), s\<lparr>Workers := assoc_del k (Workers s), WorkerAddedAt := (WorkerAddedAt s)(k := None),
       Endpoints := (Endpoints s)(k := None), ValidationTypeList := filter (\<lambda>g. g \<noteq> k) (ValidationTypeList s)\<rparr>))"
  by (cases "MasterKeyFirstHolder s") (auto simp: execute_exit_def bindM_def run_eval ensureM_def)

definition without :: "(string \<Rightarrow> 'v option) \<Rightarrow> string set \<Rightarrow> string \<Rightarrow> 'v option" where
  "without m K = (\<lambda>k. if k \<in> K then None else m k)"

definition drop_workers :: "string set \<Rightarrow> ('w, 'z) tee_state_scheme \<Rightarrow> ('w, 'z) tee_state_scheme" where
  "drop_workers K s = s\<lparr>Workers := filter (\<lambda>x. fst x \<notin> K) (Workers s), WorkerAddedAt := without (WorkerAddedAt s) K,
     Endpoints := without (Endpoints s) K, ValidationTypeList := filter (\<lambda>g. g \<notin> K) (ValidationTypeList s),
     LastWork := filter (\<lambda>x. fst x \<notin> K) (LastWork s), LastRefresh := without (LastRefresh s) K\<rparr>"

lemma without_simps: "without m {} = m" "without (m(k := None)) K = without m (insert k K)"
  by (auto simp: without_def)

lemma drop_workers_empty: "drop_workers {} s = s"
  by (simp add: drop_workers_def without_simps)

lemma drop_workers_insert:
  "drop_workers K (s\<lparr>Workers := assoc_del k (Workers s), WorkerAddedAt := (WorkerAddedAt s)(k := None),
       Endpoints := (Endpoints s)(k := None), ValidationTypeList := filter (\<lambda>g. g \<noteq> k) (ValidationTypeList s),
       LastWork := assoc_del k (LastWork s), LastRefresh := (LastRefresh s)(k := None)\<rparr>) = drop_workers (insert k K) s"
  by (simp add: drop_workers_def assoc_del_def without_simps)

lemma clear_loop:
  "forM entries (\<lambda>x. case x of (pubkey, last_block) \<Rightarrow>
       if saturating_add 32 last_block (AtLeastWorkBlock E) < now
       then bindM (attemptM (execute_exit pubkey)) (\<lambda>r.
         case r of Inl e \<Rightarrow> retM ()
         | Inr u \<Rightarrow> modM (\<lambda>s. s\<lparr>LastWork := assoc_del pubkey (LastWork s),
                                LastRefresh := (LastRefresh s)(pubkey := None)\<rparr>))
       else retM ()) s =
   (Inr (), drop_workers (fst ` {x \<in> set entries. stale E now (MasterKeyFirstHolder s) x}) s)"
proof (induction entries arbitrary: s)
  case Nil
  then show ?case by (simp add: run_eval drop_workers_empty)
next
  case (Cons x xs)
  obtain k b where x: "x = (k, b)" by (cases x)
  have sets: "{y \<in> set ((k, b) # xs). stale E now h y} = (if stale E now h (k, b)
      then insert (k, b) {y \<in> set xs. stale E now h y} else {y \<in> set xs. stale E now h y})" for h by auto
  show ?case
  proof (cases "stale E now (MasterKeyFirstHolder s) (k, b)")
    case True
    then show ?thesis unfolding x sets
      using Cons.IH drop_workers_insert [of _ s k]
      by (simp add: bindM_def run_eval exit_run stale_def)
  next
    case False
    then show ?thesis unfolding x sets
      using Cons.IH by (auto simp: bindM_def run_eval exit_run stale_def)
  qed
qed

section \<open>Properties\<close>

text \<open>C8. Exactly once, in order. Whatever messages are submitted to the queue, by whomever and in whatever
  order, with the runtime's real handler behind it, the accepted messages of each sender carry the
  consecutive numbers from the one the chain expected before to the one it expects afterwards: nothing
  is accepted twice, skipped or reordered.\<close>

theorem messages_accepted_in_order:
  assumes "relay E (tee_notify E) MasterPubkey cs s = (acc, s')" "expected_seq s x + length cs < 2 ^ 64"
  shows "map sm_sequence (filter (\<lambda>sm. m_sender (sm_message sm) = x) acc) = [expected_seq s x ..< expected_seq s' x]"
  using tee_q.relay_in_order [OF assms(2,1)] by blast

definition key_example :: string where "key_example = replicate 64 (CHR ''k'')"

definition submission_example :: "nat \<Rightarrow> signed_message" where
  "submission_example n = \<lparr>sm_message = \<lparr>m_sender = Worker key_example, m_destination = ''^topic'', m_payload = ''x''\<rparr>,
     sm_sequence = n, sm_signature = key_example\<rparr>"

lemma submission_signed:
  "worker_signed ledger_runtime key_example (submission_example n)" "length (sm_signature (submission_example n)) = 64"
  "m_sender (sm_message (submission_example n)) = Worker key_example" "sm_sequence (submission_example n) = n"
  "topic_is_valid (m_destination (sm_message (submission_example n)))"
  by (simp_all add: worker_signed_def submission_example_def key_example_def topic_is_valid_def RESERVED_BYTES_def)

theorem messages_accepted_in_order_witness:
  "\<exists>acc s'. relay ledger_runtime (tee_notify ledger_runtime) MasterPubkey
      [(Signed 1, submission_example 0), (Signed 2, submission_example 0), (Signed 2, submission_example 7)] tee_example = (acc, s')
    \<and> map sm_sequence (filter (\<lambda>sm. m_sender (sm_message sm) = Worker key_example) acc) =
        [expected_seq tee_example (Worker key_example) ..< expected_seq s' (Worker key_example)]"
proof -
  obtain acc s' where r: "relay ledger_runtime (tee_notify ledger_runtime) MasterPubkey
      [(Signed 1, submission_example 0), (Signed 2, submission_example 0), (Signed 2, submission_example 7)] tee_example = (acc, s')"
    by (metis surj_pair)
  with messages_accepted_in_order [OF r, of "Worker key_example"] show ?thesis by (auto simp: expected_seq_def)
qed

lemma seq_below:
  assumes "map f xs = [a ..< b]" "x \<in> set xs"
  shows "f x < b"
proof -
  have "f x \<in> set (map f xs)" using assms(2) by simp
  then show ?thesis unfolding assms(1) by simp
qed

text \<open>C18. End to end. Whatever a worker pushes into its outgoing channel while the chain's number for it agrees
  with the channel's is accepted by the chain when the channel's messages are submitted in order, and
  purging the queue with the chain's new number leaves the channel empty, ready for the next messages.
  The signer must produce signatures of 64 bytes that verify under the worker's key.\<close>

theorem messages_delivered:
  assumes chan: "channel_entry q (mc_sender mc) = \<lparr>ch_sequence = expected_seq s (Worker k), ch_messages = [], ch_dummy = False\<rparr>"
    and worker: "mc_sender mc = Worker k"
    and bound: "expected_seq s (Worker k) + length ps < 2 ^ 64"
    and topics: "\<forall>p \<in> set ps. topic_is_valid (snd p)"
    and signer: "\<forall>data. length (mc_signer mc data) = 64 \<and> (\<exists>sig. sr25519_signature E (mc_signer mc data) = Some sig \<and>
        sr25519_verify E sig data k)"
  shows "\<exists>s'. relay E (tee_notify E) MasterPubkey
        (map (\<lambda>sm. (Signed a, sm)) (messages_of (Worker k) (foldl (\<lambda>q p. push_data E mc (fst p) (snd p) q) q ps))) s
      = (messages_of (Worker k) (foldl (\<lambda>q p. push_data E mc (fst p) (snd p) q) q ps), s')
    \<and> messages_of (Worker k) (purge (expected_seq s') (foldl (\<lambda>q p. push_data E mc (fst p) (snd p) q) q ps)) = []
    \<and> expected_seq s' (Worker k) = expected_seq s (Worker k) + length ps"
proof -
  let ?n = "expected_seq s (Worker k)" and ?q = "foldl (\<lambda>q p. push_data E mc (fst p) (snd p) q) q ps"
  let ?ms = "map2 (\<lambda>p n. sign_message E (prepare_with_data mc (fst p) (snd p)) n) ps [?n ..< ?n + length ps]"
  have entry: "channel_entry ?q (Worker k) = \<lparr>ch_sequence = ?n + length ps, ch_messages = ?ms, ch_dummy = False\<rparr>"
    using pushes_entry [of q mc ps E] chan bound worker by simp
  then have ms: "messages_of (Worker k) ?q = ?ms" by (simp add: messages_of_entry)
  have good: "\<forall>sm \<in> set ?ms. m_sender (sm_message sm) = Worker k \<and> topic_is_valid (m_destination (sm_message sm)) \<and> worker_signed E k sm"
    using topics signer worker
    by (auto simp: sign_message_def prepare_with_data_def worker_signed_def wrap_content_to_sign_def data_be_signed_def
        dest!: set_zip_leftD)
  have seqs: "map sm_sequence ?ms = [?n ..< ?n + length ?ms]"
    by (rule nth_equalityI) (simp_all add: sign_message_def)
  have "\<exists>s'. relay E (tee_notify E) MasterPubkey (map (\<lambda>sm. (Signed a, sm)) ?ms) s = (?ms, s')
      \<and> expected_seq s' (Worker k) = ?n + length ?ms"
    by (rule tee_q.relay_all [OF good seqs]) (use bound in simp)
  then obtain s' where s': "relay E (tee_notify E) MasterPubkey (map (\<lambda>sm. (Signed a, sm)) ?ms) s = (?ms, s')"
    "expected_seq s' (Worker k) = ?n + length ps" by auto
  have len: "length ?ms = length ps" by simp
  have "sm_sequence sm < ?n + length ps" if "sm \<in> set ?ms" for sm
    using seq_below [OF seqs that] unfolding len .
  then have "messages_of (Worker k) (purge (expected_seq s') ?q) = []"
    by (simp add: messages_of_entry purge_entry entry s'(2) filter_empty_conv not_le del: set_map set_zip)
  with s' show ?thesis unfolding ms by blast
qed

theorem messages_delivered_witness:
  "\<exists>s'. relay ledger_runtime (tee_notify ledger_runtime) MasterPubkey
      (map (\<lambda>sm. (Signed 1, sm)) (messages_of (Worker key_example)
        (foldl (\<lambda>q p. push_data ledger_runtime \<lparr>mc_sender = Worker key_example, mc_signer = (\<lambda>_. key_example)\<rparr> (fst p) (snd p) q)
          [] [(''a'', ''^topic''), (''b'', ''^topic'')]))) tee_example
    = (messages_of (Worker key_example)
        (foldl (\<lambda>q p. push_data ledger_runtime \<lparr>mc_sender = Worker key_example, mc_signer = (\<lambda>_. key_example)\<rparr> (fst p) (snd p) q)
          [] [(''a'', ''^topic''), (''b'', ''^topic'')]), s')
    \<and> expected_seq s' (Worker key_example) = 2"
proof -
  let ?mc = "\<lparr>mc_sender = Worker key_example, mc_signer = (\<lambda>_. key_example)\<rparr>" and ?ps = "[(''a'', ''^topic''), (''b'', ''^topic'')]"
  let ?q = "foldl (\<lambda>q p. push_data ledger_runtime ?mc (fst p) (snd p) q) [] ?ps"
  have 0: "expected_seq tee_example (Worker key_example) = 0" by (simp add: expected_seq_def)
  have len: "length key_example = 64" by (simp add: key_example_def)
  have "\<exists>s'. relay ledger_runtime (tee_notify ledger_runtime) MasterPubkey
      (map (\<lambda>sm. (Signed 1, sm)) (messages_of (Worker key_example) ?q)) tee_example = (messages_of (Worker key_example) ?q, s')
    \<and> messages_of (Worker key_example) (purge (expected_seq s') ?q) = []
    \<and> expected_seq s' (Worker key_example) = expected_seq tee_example (Worker key_example) + length ?ps"
    by (rule messages_delivered)
      (simp_all add: 0 len channel_entry_def channel_default_def topic_is_valid_def RESERVED_BYTES_def)
  then obtain s' where "relay ledger_runtime (tee_notify ledger_runtime) MasterPubkey
      (map (\<lambda>sm. (Signed 1, sm)) (messages_of (Worker key_example) ?q)) tee_example = (messages_of (Worker key_example) ?q, s')"
    "expected_seq s' (Worker key_example) = expected_seq tee_example (Worker key_example) + length ?ps" by (elim exE conjE)
  then show ?thesis unfolding 0 by (intro exI conjI) (assumption, simp)
qed

text \<open>C12. The registry stays consistent. In every state reached from an empty registry, by any sequence of the
  pallet's extrinsics, hooks, messages and calls by other pallets: \<open>ValidationTypeList\<close>, from which the
  verifiers of proofs are drawn, has no duplicates, respects its bound and lists only registered workers
  whose role may verify; endpoints belong to registered workers; and \<open>WorkerAddedAt\<close> knows exactly the
  registered workers.\<close>

theorem registry_consistent:
  assumes "tee_genesis s" "(tee_step E)\<^sup>*\<^sup>* s s'"
  shows "registry_inv E s'"
  using tee_invariant(1) [OF assms(2)] genesis_inv [OF assms(1)] by blast

theorem registry_consistent_witness:
  "registry_inv ledger_runtime (snd (force_register_worker ledger_runtime Root key_example ''e'' None tee_example))"
proof -
  have "tee_step ledger_runtime tee_example (snd (force_register_worker ledger_runtime Root key_example ''e'' None tee_example))"
    by (rule tee_step.step_force_register [OF prod.collapse [symmetric]])
  then show ?thesis by (intro registry_consistent [OF _ r_into_rtranclp]) (simp_all add: tee_genesis_def)
qed



text \<open>Workers that stop working leave, all of them and only they. \<open>clear_mission\<close> removes exactly the workers whose
  last work is more than \<open>AtLeastWorkBlock\<close> blocks ago, from every map of the pallet, except the first
  holder of the master key; it never fails, and everything else stays as it was.\<close>

theorem clear_mission_exact:
  "clear_mission E now s =
     (Inr (), drop_workers (fst ` {x \<in> set (LastWork s). stale E now (MasterKeyFirstHolder s) x}) s)"
  by (simp add: clear_mission_def bindM_def run_eval clear_loop)

lemma validated_ok:
  assumes "register_validated E ri now provider c s = (Inr u, s')"
  shows "map_of (Workers s) (ri_pubkey ri) = None
    \<and> (case ri_operator ri of None \<Rightarrow> ri_role ri = Marker
       | Some acc \<Rightarrow> staking_bonded E (world s) acc \<noteq> None \<and> ri_role ri \<noteq> Marker)
    \<and> map_of (Workers s') = (map_of (Workers s))(ri_pubkey ri \<mapsto>
        \<lparr>wi_pubkey = ri_pubkey ri, wi_ecdh_pubkey = ri_ecdh_pubkey ri, wi_version = ri_version ri, wi_last_updated = now,
         wi_stash_account = ri_operator ri, wi_attestation_provider = provider, wi_confidence_level = c,
         wi_features = ri_features ri, wi_role = ri_role ri\<rparr>)"
    (is "?P s'")
proof -
  have "wp (register_validated E ri now provider c) (\<lambda>_. ?P) (\<lambda>_ _. True) s"
    by (cases "ri_role ri"; cases "ri_operator ri")
      (simp_all add: register_validated_def Let_def wp_simps worker_put_def last_work_put_def map_of_assoc_put run_simps
        fun_upd_def)
  from wp_D [OF this assms] show ?thesis .
qed

text \<open>C22. Only attested workers enter. When \<open>register_worker_v2\<close> succeeds, the key was new, the attestation was accepted
  (an enclave report of an admitted binary with a confidence level of 1 to 5, or no report where the
  runtime opts out, with the level 128), an operator was bonded and the role may verify, or there was no
  operator and the role is \<open>Marker\<close>; and exactly this worker was entered, with the report's level and provider.\<close>

theorem registered_worker_attested:
  assumes "register_worker_v2 E orig ri att s = (Inr u, s')"
  shows "\<exists>report. attestation_validate E att (registration_hash E ri) (now_secs E s) (VerifyCeseal E) (CesealBinAllowList s)
        (NoneAttestationEnabled E) = Inr report
    \<and> (att = None \<and> NoneAttestationEnabled E \<and> cr_confidence_level report = 128
       \<or> att \<noteq> None \<and> report_sound (CesealBinAllowList s) (VerifyCeseal E) report)
    \<and> map_of (Workers s) (ri_pubkey ri) = None
    \<and> (case ri_operator ri of None \<Rightarrow> ri_role ri = Marker
       | Some acc \<Rightarrow> staking_bonded E (world s) acc \<noteq> None \<and> ri_role ri \<noteq> Marker)
    \<and> map_of (Workers s') = (map_of (Workers s))(ri_pubkey ri \<mapsto>
        \<lparr>wi_pubkey = ri_pubkey ri, wi_ecdh_pubkey = ri_ecdh_pubkey ri, wi_version = ri_version ri, wi_last_updated = now_secs E s,
         wi_stash_account = ri_operator ri, wi_attestation_provider = cr_provider report,
         wi_confidence_level = cr_confidence_level report, wi_features = ri_features ri, wi_role = ri_role ri\<rparr>)"
proof -
  obtain report where v: "attestation_validate E att (registration_hash E ri) (now_secs E s) (VerifyCeseal E)
      (CesealBinAllowList s) (NoneAttestationEnabled E) = Inr report"
    and r: "register_validated E ri (now_secs E s) (cr_provider report) (cr_confidence_level report) s = (Inr u, s')"
    using assms by (auto simp: register_worker_v2_def run_simps lift_attestation_def split: sum.splits)
  show ?thesis using v validate_sound [OF v] validated_ok [OF r] by blast
qed

definition registration_example :: registration_info where
  "registration_example = \<lparr>ri_version = 1, ri_machine_id = [], ri_pubkey = key_example, ri_ecdh_pubkey = ''e'', ri_operator = Some 3,
     ri_genesis_block_hash = [], ri_features = [], ri_role = Verifier\<rparr>"

theorem registered_worker_attested_witness:
  "\<exists>s'. register_worker_v2 ledger_runtime (Signed 1) registration_example None tee_example = (Inr (), s')
     \<and> map_option wi_confidence_level (map_of (Workers s') key_example) = Some 128"
proof -
  obtain s' where s': "register_worker_v2 ledger_runtime (Signed 1) registration_example None tee_example = (Inr (), s')"
    by (auto simp: register_worker_v2_def register_validated_def registration_example_def Let_def run_simps lift_attestation_def
        attestation_validate_def tee_push_run worker_put_def last_work_put_def)
  from registered_worker_attested [OF s'] have "map_option wi_confidence_level (map_of (Workers s') key_example) = Some 128"
    by (auto simp: registration_example_def)
  with s' show ?thesis by blast
qed

end
