(* ===== verification/Cacher.thy ===== *)
theory Cacher
  imports Ledger_Runtime Run_Rules
begin

text \<open>
  \<open>pallets/cacher\<close>: the registry of download caches and the payment of their bills. A payment is one
  extrinsic over a list of bills, so it is all or nothing.
\<close>

datatype ip_address = IPV4 "nat list" nat | IPV6 "nat list" nat

record cacher_info =
  ca_payee :: account
  ca_ip :: ip_address
  ca_byte_price :: nat

record bill =
  bl_id :: string
  bl_to :: account
  bl_amount :: nat
  bl_file_hash :: string
  bl_slice_hash :: string
  bl_expiration_time :: nat

record 'w cacher_state = "'w sys_state" +
  Cachers :: "account \<Rightarrow> cacher_info option"

definition cacher_register :: "origin \<Rightarrow> cacher_info \<Rightarrow> (('w, 'z) cacher_state_scheme, unit) M" where
  "cacher_register orig info = transactional (
     bindM (ensure_signed orig) (\<lambda>sender.
     bindM (getM (\<lambda>s. Cachers s sender = None)) (\<lambda>fresh.
     bindM (ensureM fresh (CacherE cacher_error.AlreadyRegistered)) (\<lambda>_.
     modM (\<lambda>s. s\<lparr>Cachers := (Cachers s)(sender \<mapsto> info)\<rparr>)))))"

definition cacher_update :: "origin \<Rightarrow> cacher_info \<Rightarrow> (('w, 'z) cacher_state_scheme, unit) M" where
  "cacher_update orig info = transactional (
     bindM (ensure_signed orig) (\<lambda>sender.
     bindM (getM (\<lambda>s. Cachers s sender \<noteq> None)) (\<lambda>known.
     bindM (ensureM known (CacherE cacher_error.UnRegistered)) (\<lambda>_.
     bindM (getM (\<lambda>s. Cachers s sender)) (\<lambda>info_opt.
     bindM (ok_or info_opt (CacherE cacher_error.OptionParseError)) (\<lambda>_.
     modM (\<lambda>s. s\<lparr>Cachers := (Cachers s)(sender \<mapsto> info)\<rparr>)))))))"

definition cacher_logout :: "origin \<Rightarrow> (('w, 'z) cacher_state_scheme, unit) M" where
  "cacher_logout orig = transactional (
     bindM (ensure_signed orig) (\<lambda>sender.
     bindM (getM (\<lambda>s. Cachers s sender \<noteq> None)) (\<lambda>known.
     bindM (ensureM known (CacherE cacher_error.UnRegistered)) (\<lambda>_.
     modM (\<lambda>s. s\<lparr>Cachers := (Cachers s)(sender := None)\<rparr>)))))"

definition cacher_pay :: "'w Config \<Rightarrow> origin \<Rightarrow> bill list \<Rightarrow> (('w, 'z) cacher_state_scheme, unit) M" where
  "cacher_pay E orig bills = transactional (
     bindM (ensure_signed orig) (\<lambda>sender.
     forM bills (\<lambda>b. transfer E sender (bl_to b) (bl_amount b))))"

section \<open>Payments\<close>

definition billed :: "account \<Rightarrow> bill list \<Rightarrow> nat" where
  "billed a bills = sum_list (map bl_amount (filter (\<lambda>b. bl_to b = a) bills))"

definition billed_others :: "account \<Rightarrow> bill list \<Rightarrow> nat" where
  "billed_others a bills = sum_list (map bl_amount (filter (\<lambda>b. bl_to b \<noteq> a) bills))"

lemma transfer_run:
  "transfer E a b v s = (Inr (), s') \<Longrightarrow> \<exists>w. cur_transfer E (world s) a b v = Inr w \<and> s' = s\<lparr>world := w\<rparr>"
  by (auto simp: transfer_def world_step_def run_simps run_eval bindM_def split: sum.splits)

lemma pay_loop:
  assumes law: "transfer_law E" and run: "forM bills (\<lambda>b. transfer E a (bl_to b) (bl_amount b)) s = (Inr (), s')"
  shows "(\<exists>w. s' = s\<lparr>world := w\<rparr>)
    \<and> cur_free_balance E (world s') a + billed_others a bills = cur_free_balance E (world s) a
    \<and> (\<forall>c. c \<noteq> a \<longrightarrow> cur_free_balance E (world s') c = cur_free_balance E (world s) c + billed c bills)"
  using run
proof (induction bills arbitrary: s)
  case Nil
  then show ?case by (simp add: run_eval billed_def billed_others_def) (metis sys_state.surjective sys_state.update_convs(1))
next
  case (Cons b bills)
  obtain t where t: "transfer E a (bl_to b) (bl_amount b) s = (Inr (), t)"
    and rest: "forM bills (\<lambda>b. transfer E a (bl_to b) (bl_amount b)) t = (Inr (), s')"
    using Cons.prems by (auto simp: run_simps)
  obtain w where w: "cur_transfer E (world s) a (bl_to b) (bl_amount b) = Inr w" "t = s\<lparr>world := w\<rparr>"
    using transfer_run[OF t] by blast
  have "if a = bl_to b then cur_free_balance E w = cur_free_balance E (world s)
    else bl_amount b \<le> cur_free_balance E (world s) a \<and> cur_free_balance E w = (cur_free_balance E (world s))
          (a := cur_free_balance E (world s) a - bl_amount b, bl_to b := cur_free_balance E (world s) (bl_to b) + bl_amount b)"
    using law w(1) unfolding transfer_law_def by blast
  then show ?case using Cons.IH[OF rest] w(2)
    by (auto simp: billed_def billed_others_def split: if_splits)
qed

text \<open>Paying bills is exact and all or nothing. When \<open>pay\<close> succeeds, every payee has received the sum of the bills in
  its name, the payer has lost exactly the sum of the bills of the others, and nothing else of the state changed;
  when one bill cannot be paid, the whole payment leaves no trace.\<close>

theorem pay_exact:
  assumes "transfer_law E" "cacher_pay E (Signed a) bills s = (r, s')"
  shows "case r of
      Inl e \<Rightarrow> s' = s
    | Inr x \<Rightarrow> (\<exists>w. s' = s\<lparr>world := w\<rparr>)
        \<and> cur_free_balance E (world s') a + billed_others a bills = cur_free_balance E (world s) a
        \<and> (\<forall>c. c \<noteq> a \<longrightarrow> cur_free_balance E (world s') c = cur_free_balance E (world s) c + billed c bills)"
proof (cases r)
  case (Inl e)
  then show ?thesis using assms(2) by (auto simp: cacher_pay_def transactional_def split: prod.splits sum.splits)
next
  case (Inr x)
  then have "forM bills (\<lambda>b. transfer E a (bl_to b) (bl_amount b)) s = (Inr (), s')"
    using assms(2) by (auto simp: cacher_pay_def run_simps ensure_signed_def run_eval bindM_def)
  then show ?thesis using pay_loop[OF assms(1)] Inr by simp
qed

definition cacher_example :: "ledger cacher_state" where
  "cacher_example = \<lparr>world = ledger_of [(10, 100), (20, 5)], block_number = 0, Cachers = Map.empty\<rparr>"

definition bill_example :: "account \<Rightarrow> nat \<Rightarrow> bill" where
  "bill_example a v = \<lparr>bl_id = '''', bl_to = a, bl_amount = v, bl_file_hash = '''', bl_slice_hash = '''', bl_expiration_time = 0\<rparr>"

theorem pay_exact_witness:
  "\<exists>s'. cacher_pay ledger_runtime (Signed 10) [bill_example 20 30, bill_example 30 40, bill_example 20 2] cacher_example = (Inr (), s')
     \<and> lg_free (world s') 10 + 72 = 100 \<and> lg_free (world s') 20 = 37"
proof -
  let ?bs = "[bill_example 20 30, bill_example 30 40, bill_example 20 2]"
  obtain s' where r: "cacher_pay ledger_runtime (Signed 10) ?bs cacher_example = (Inr (), s')"
    by (simp add: cacher_pay_def transactional_def ensure_signed_def transfer_def world_step_def bindM_def run_eval bill_example_def
        cacher_example_def ledger_transfer_def ledger_of_def)
  have b: "billed_others 10 ?bs = 72" "billed 20 ?bs = 32" by (simp_all add: billed_others_def billed_def bill_example_def)
  from pay_exact[OF ledger_laws(1) r] have "lg_free (world s') 10 + 72 = lg_free (world cacher_example) 10"
    "lg_free (world s') 20 = lg_free (world cacher_example) 20 + 32" by (simp_all add: b)
  then show ?thesis using r by (simp add: cacher_example_def ledger_of_def)
qed

end
