(* ===== verification/Sminer.thy ===== *)
theory Sminer
  imports Tee_Worker Run_Rules
begin

text \<open>
  \<open>pallets/sminer\<close>: storage miners. A miner registers with a collateral for the space it declares,
  becomes active with a proof-of-space key, is rewarded by orders that are paid out over
  \<open>RELEASE_NUMBER\<close> days, is punished out of its collateral, and leaves by preparation, exit and
  withdrawal, or by force. The last part is the trait \<open>MinerControl\<close>, through which the file bank and
  the audit use the pallet. \<open>try_mutate\<close> reads the entry, runs its steps and writes the entry at the end;
  \<open>mutate\<close> writes it even when the closure fails. Sums written \<open>+\<close> in the source wrap.
\<close>

section \<open>Constants\<close>

definition STATE_NOT_READY :: string where "STATE_NOT_READY = ''not ready''"
definition STATE_POSITIVE :: string where "STATE_POSITIVE = ''positive''"
definition STATE_FROZEN :: string where "STATE_FROZEN = ''frozen''"
definition STATE_EXIT :: string where "STATE_EXIT = ''exit''"
definition STATE_LOCK :: string where "STATE_LOCK = ''lock''"
definition STATE_OFFLINE :: string where "STATE_OFFLINE = ''offline''"
definition FAUCET_VALUE :: nat where "FAUCET_VALUE = 10000000000000000000000"
definition IDLE_MUTI :: nat where "IDLE_MUTI = 300000000"
definition SERVICE_MUTI :: nat where "SERVICE_MUTI = 700000000"
definition RELEASE_NUMBER :: nat where "RELEASE_NUMBER = 90"
definition AOIR_PERCENT :: nat where "AOIR_PERCENT = 500000000"
definition IDLE_PUNI_MUTI :: nat where "IDLE_PUNI_MUTI = 100000000"
definition SERVICE_PUNI_MUTI :: nat where "SERVICE_PUNI_MUTI = 50000000"
definition BASE_UNIT :: nat where "BASE_UNIT = 4000000000000000000000"

lemmas state_defs = STATE_NOT_READY_def STATE_POSITIVE_def STATE_FROZEN_def STATE_EXIT_def STATE_LOCK_def STATE_OFFLINE_def

section \<open>Storage\<close>

record pois_key =
  pk_g :: string
  pk_n :: string

record space_proof_info =
  sp_miner :: account
  sp_front :: nat
  sp_rear :: nat
  sp_pois_key :: pois_key
  sp_accumulator :: string

record miner_info =
  mi_beneficiary :: account
  mi_staking_account :: account
  mi_peer_id :: string
  mi_collaterals :: nat
  mi_debt :: nat
  mi_state :: string
  mi_declaration_space :: nat
  mi_idle_space :: nat
  mi_service_space :: nat
  mi_lock_space :: nat
  mi_space_proof_info :: "space_proof_info option"
  mi_service_bloom_filter :: bloom_filter
  mi_tee_signature :: string

record reward_order =
  ro_receive_count :: nat
  ro_max_count :: nat
  ro_atonce :: bool
  ro_order_reward :: nat
  ro_each_amount :: nat
  ro_last_receive_block :: nat

record miner_reward =
  rw_total_reward :: nat
  rw_reward_issued :: nat
  rw_order_list :: "reward_order list"

record restoral_target_info =
  rt_miner :: account
  rt_service_space :: nat
  rt_restored_space :: nat
  rt_cooling_block :: nat

record complete_info =
  ci_miner_count :: nat
  ci_total_power :: nat

record miner_complete_info =
  mc_era_index :: nat
  mc_issued :: bool
  mc_finsh_block :: nat
  mc_power :: nat

record 'w sminer_state = "'w tee_state" +
  MinerItems :: "account \<Rightarrow> miner_info option"
  MinerItemsCount :: nat
  AllMiner :: "account list"
  RewardMap :: "account \<Rightarrow> miner_reward option"
  FaucetRecordMap :: "account \<Rightarrow> nat option"
  MinerPublicKey :: "string \<Rightarrow> account option"
  Expenders :: "(nat \<times> nat \<times> nat) option"
  MinerLock :: "account \<Rightarrow> nat option"
  RestoralTarget :: "account \<Rightarrow> restoral_target_info option"
  StakingStartBlock :: "account \<Rightarrow> nat option"
  PendingReplacements :: "account \<Rightarrow> nat"
  FacuetReleaseRecord :: nat
  ReturnStakingSchedule :: "nat \<Rightarrow> (account \<times> account \<times> nat) list"
  CompleteSnapShot :: "nat \<Rightarrow> complete_info"
  CompleteMinerSnapShot :: "account \<Rightarrow> miner_complete_info list"
  FacuetWhitelist :: "account option"

abbreviation sminer_err :: "sminer_error \<Rightarrow> dispatch_error" where
  "sminer_err \<equiv> SminerE"

definition miner_put :: "account \<Rightarrow> miner_info \<Rightarrow> (('w, 'z) sminer_state_scheme, unit) M" where
  "miner_put a m = modM (\<lambda>s. s\<lparr>MinerItems := (MinerItems s)(a \<mapsto> m),
     MinerItemsCount := (if MinerItems s a = None then MinerItemsCount s + 1 else MinerItemsCount s)\<rparr>)"

definition miner_get :: "account \<Rightarrow> sminer_error \<Rightarrow> (('w, 'z) sminer_state_scheme, miner_info) M" where
  "miner_get a e = bindM (getM (\<lambda>s. MinerItems s a)) (\<lambda>m. ok_or m (sminer_err e))"

section \<open>Auxiliary functions\<close>

definition calculate_power :: "'w Config \<Rightarrow> nat \<Rightarrow> nat \<Rightarrow> nat" where
  "calculate_power E idle_space service_space =
     wrapping_add 128 (mul_floor E IDLE_MUTI idle_space) (mul_floor E SERVICE_MUTI service_space)"

definition calculate_limit_by_space :: "nat \<Rightarrow> ('s, nat) M" where
  "calculate_limit_by_space space =
     bindM (ok_or (checked_div space T_BYTE) (sminer_err sminer_error.Overflow)) (\<lambda>q.
     bindM (if space mod T_BYTE \<noteq> 0 then ok_or (checked_add 128 q 1) (sminer_err sminer_error.Overflow) else retM q) (\<lambda>tib_count.
     ok_or (checked_mul 128 tib_count BASE_UNIT) (sminer_err sminer_error.Overflow)))"

definition str_to_bound :: "'w Config \<Rightarrow> string \<Rightarrow> ('s, string) M" where
  "str_to_bound E param = ok_or (if length param \<le> ItemLimit E then Some param else None) (sminer_err sminer_error.Overflow)"

definition check_state :: "account \<Rightarrow> (('w, 'z) sminer_state_scheme, string) M" where
  "check_state acc = bindM (miner_get acc sminer_error.NotMiner) (\<lambda>m. retM (mi_state m))"

definition sub_miner_idle_space :: "account \<Rightarrow> nat \<Rightarrow> (('w, 'z) sminer_state_scheme, unit) M" where
  "sub_miner_idle_space acc increment =
     bindM (getM (\<lambda>s. MinerItems s acc)) (\<lambda>m_opt. case m_opt of
       None \<Rightarrow> retM ()
     | Some _ \<Rightarrow>
         bindM (check_state acc) (\<lambda>state.
         if state = STATE_EXIT then retM ()
         else bindM (miner_get acc sminer_error.ConversionError) (\<lambda>m.
              bindM (ok_or (checked_sub (mi_idle_space m) increment) (sminer_err sminer_error.Overflow)) (\<lambda>v.
              miner_put acc (m\<lparr>mi_idle_space := v\<rparr>)))))"

definition deposit_punish :: "'w Config \<Rightarrow> account \<Rightarrow> nat \<Rightarrow> (('w, 'z) sminer_state_scheme, unit) M" where
  "deposit_punish E miner punish_amount =
     bindM (miner_get miner sminer_error.NotMiner) (\<lambda>m.
     bindM (if punish_amount < mi_collaterals m
       then bindM (if mi_staking_account m = get_reservoir_acc E then punish_gate E miner punish_amount False else retM ()) (\<lambda>_.
            bindM (unreserve E (mi_staking_account m) punish_amount) (\<lambda>_.
            bindM (send_to_pid E (mi_staking_account m) punish_amount) (\<lambda>_.
            bindM (ok_or (checked_sub (mi_collaterals m) punish_amount) (sminer_err sminer_error.Overflow)) (\<lambda>c.
            retM (m\<lparr>mi_collaterals := c\<rparr>)))))
       else bindM (if mi_staking_account m = get_reservoir_acc E then punish_gate E miner punish_amount False else retM ()) (\<lambda>_.
            bindM (unreserve E (mi_staking_account m) (mi_collaterals m)) (\<lambda>_.
            bindM (send_to_pid E (mi_staking_account m) (mi_collaterals m)) (\<lambda>_.
            let m' = m\<lparr>mi_collaterals := 0\<rparr> in
            bindM (ok_or (checked_sub punish_amount (mi_collaterals m')) (sminer_err sminer_error.Overflow)) (\<lambda>d.
            retM (m'\<lparr>mi_debt := d\<rparr>)))))) (\<lambda>m.
     bindM (calculate_limit_by_space (calculate_power E (mi_idle_space m) (mi_service_space m))) (\<lambda>limit.
     bindM (ok_or (try_into 128 limit) (sminer_err sminer_error.Overflow)) (\<lambda>limit.
     bindM (if mi_collaterals m < limit
       then bindM (str_to_bound E STATE_FROZEN) (\<lambda>st. retM (m\<lparr>mi_state := st\<rparr>)) else retM m) (\<lambda>m.
     miner_put miner m)))))"

definition sminer_execute_exit :: "'w Config \<Rightarrow> account \<Rightarrow> (('w, 'z) sminer_state_scheme, unit) M" where
  "sminer_execute_exit E acc =
     bindM (modM (\<lambda>s. s\<lparr>AllMiner := filter (\<lambda>x. x \<noteq> acc) (AllMiner s)\<rparr>)) (\<lambda>_.
     bindM (miner_get acc sminer_error.Unexpected) (\<lambda>m.
     bindM (str_to_bound E STATE_EXIT) (\<lambda>st.
     miner_put acc (m\<lparr>mi_state := st\<rparr>))))"

definition create_restoral_target :: "'w Config \<Rightarrow> account \<Rightarrow> nat \<Rightarrow> (('w, 'z) sminer_state_scheme, unit) M" where
  "create_restoral_target E miner service_space =
     bindM (ok_or (checked_div service_space T_BYTE) (sminer_err sminer_error.Overflow)) (\<lambda>a.
     bindM (ok_or (checked_add 128 a 1) (sminer_err sminer_error.Overflow)) (\<lambda>b.
     bindM (ok_or (try_into 128 (OneDay E)) (sminer_err sminer_error.Overflow)) (\<lambda>one_day.
     bindM (ok_or (checked_mul 128 b one_day) (sminer_err sminer_error.Overflow)) (\<lambda>c.
     bindM (getM block_number) (\<lambda>now.
     bindM (ok_or (checked_add 32 now (saturated_into 32 (as_cast 32 c))) (sminer_err sminer_error.Overflow)) (\<lambda>block.
     modM (\<lambda>s. s\<lparr>RestoralTarget := (RestoralTarget s)(miner \<mapsto> \<lparr>rt_miner = miner, rt_service_space = service_space,
       rt_restored_space = 0, rt_cooling_block = block\<rparr>)\<rparr>)))))))"

definition pois_key_scale :: "pois_key \<Rightarrow> scale" where
  "pois_key_scale k = S_Seq [S_Bytes (pk_g k), S_Bytes (pk_n k)]"

definition space_proof_scale :: "space_proof_info \<Rightarrow> scale" where
  "space_proof_scale i = S_Seq [S_Num (sp_miner i), S_Num (sp_front i), S_Num (sp_rear i), pois_key_scale (sp_pois_key i),
     S_Bytes (sp_accumulator i)]"

definition sminer_withdraw :: "'w Config \<Rightarrow> account \<Rightarrow> (('w, 'z) sminer_state_scheme, unit) M" where
  "sminer_withdraw E miner =
     bindM (miner_get miner sminer_error.NotMiner) (\<lambda>m.
     bindM (if mi_staking_account m = get_reservoir_acc E then redeem_gate E miner (mi_collaterals m) False else retM ()) (\<lambda>_.
     bindM (unreserve E (mi_staking_account m) (mi_collaterals m)) (\<lambda>_.
     bindM (ok_or (mi_space_proof_info m) (sminer_err sminer_error.NotpositiveState)) (\<lambda>i.
     let hashing = sha2_256 E (encode E (pois_key_scale (sp_pois_key i))) in
     bindM (modM (\<lambda>s. s\<lparr>MinerPublicKey := (MinerPublicKey s)(hashing := None)\<rparr>)) (\<lambda>_.
     modM (\<lambda>s. s\<lparr>PendingReplacements := (PendingReplacements s)(miner := 0)\<rparr>))))))"

section \<open>Space of a miner\<close>

text \<open>\<open>try_mutate\<close> on an entry of \<open>MinerItems\<close>: a missing entry is the error \<open>e\<close>.\<close>

definition miner_try_mutate :: "account \<Rightarrow> sminer_error \<Rightarrow> (miner_info \<Rightarrow> (('w, 'z) sminer_state_scheme, miner_info \<times> 'a) M)
    \<Rightarrow> (('w, 'z) sminer_state_scheme, 'a) M" where
  "miner_try_mutate acc e f =
     bindM (miner_get acc e) (\<lambda>m. bindM (f m) (\<lambda>(m', r). bindM (miner_put acc m') (\<lambda>_. retM r)))"

definition sm_add :: "nat \<Rightarrow> nat \<Rightarrow> ('s, nat) M" where
  "sm_add a b = ok_or (checked_add 128 a b) (sminer_err sminer_error.Overflow)"

definition sm_sub :: "nat \<Rightarrow> nat \<Rightarrow> ('s, nat) M" where
  "sm_sub a b = ok_or (checked_sub a b) (sminer_err sminer_error.Overflow)"

definition add_miner_idle_space :: "account \<Rightarrow> string \<Rightarrow> nat \<Rightarrow> nat \<Rightarrow> string \<Rightarrow> (('w, 'z) sminer_state_scheme, nat) M" where
  "add_miner_idle_space acc accumulator check_front rear tee_sig =
     miner_try_mutate acc sminer_error.NotMiner (\<lambda>m.
     bindM (ensureM (mi_state m = STATE_POSITIVE) (sminer_err sminer_error.NotpositiveState)) (\<lambda>_.
     bindM (ok_or (mi_space_proof_info m) (sminer_err sminer_error.NotpositiveState)) (\<lambda>i.
     bindM (ensureM (check_front = sp_front i) (sminer_err sminer_error.CountError)) (\<lambda>_.
     bindM (ensureM (sp_rear i < rear) (sminer_err sminer_error.CountError)) (\<lambda>_.
     bindM (sm_sub rear (sp_rear i)) (\<lambda>count.
     bindM (ok_or (checked_mul 128 IDLE_SEG_SIZE count) (sminer_err sminer_error.Overflow)) (\<lambda>idle_space.
     bindM (sm_add (mi_idle_space m) idle_space) (\<lambda>idle.
     bindM (sm_add idle (mi_service_space m)) (\<lambda>x.
     bindM (sm_add x (mi_lock_space m)) (\<lambda>currency_cert_space.
     bindM (ensureM (currency_cert_space \<le> mi_declaration_space m) (sminer_err sminer_error.ExceedingDeclarationSpace)) (\<lambda>_.
     retM (m\<lparr>mi_idle_space := idle, mi_tee_signature := tee_sig,
             mi_space_proof_info := Some (i\<lparr>sp_rear := rear, sp_accumulator := accumulator\<rparr>)\<rparr>, idle_space))))))))))))"

definition delete_idle_update_accu :: "account \<Rightarrow> string \<Rightarrow> nat \<Rightarrow> nat \<Rightarrow> string \<Rightarrow> (('w, 'z) sminer_state_scheme, nat) M" where
  "delete_idle_update_accu acc accumulator front check_rear tee_sig =
     miner_try_mutate acc sminer_error.NotMiner (\<lambda>m.
     bindM (ok_or (mi_space_proof_info m) (sminer_err sminer_error.NotpositiveState)) (\<lambda>i.
     bindM (ensureM (check_rear = sp_rear i) (sminer_err sminer_error.CountError)) (\<lambda>_.
     bindM (ensureM (sp_front i < front) (sminer_err sminer_error.CountError)) (\<lambda>_.
     retM (m\<lparr>mi_tee_signature := tee_sig, mi_space_proof_info := Some (i\<lparr>sp_front := front, sp_accumulator := accumulator\<rparr>)\<rparr>,
           front - sp_front i)))))"

definition delete_idle_update_space :: "account \<Rightarrow> nat \<Rightarrow> (('w, 'z) sminer_state_scheme, unit) M" where
  "delete_idle_update_space acc idle_space =
     miner_try_mutate acc sminer_error.NotMiner (\<lambda>m.
     bindM (sm_sub (mi_idle_space m) idle_space) (\<lambda>v. retM (m\<lparr>mi_idle_space := v\<rparr>, ())))"

definition add_miner_service_space :: "account \<Rightarrow> nat \<Rightarrow> (('w, 'z) sminer_state_scheme, unit) M" where
  "add_miner_service_space acc increment =
     bindM (getM (\<lambda>s. MinerItems s acc)) (\<lambda>m_opt. case m_opt of
       None \<Rightarrow> retM ()
     | Some _ \<Rightarrow>
         bindM (check_state acc) (\<lambda>state.
         if state = STATE_EXIT then retM ()
         else miner_try_mutate acc sminer_error.ConversionError (\<lambda>m.
              bindM (sm_add (mi_service_space m) increment) (\<lambda>v. retM (m\<lparr>mi_service_space := v\<rparr>, ())))))"

definition sub_miner_service_space :: "account \<Rightarrow> nat \<Rightarrow> (('w, 'z) sminer_state_scheme, unit) M" where
  "sub_miner_service_space acc increment =
     bindM (getM (\<lambda>s. MinerItems s acc)) (\<lambda>m_opt. case m_opt of
       None \<Rightarrow> retM ()
     | Some _ \<Rightarrow>
         bindM (check_state acc) (\<lambda>state.
         if state = STATE_EXIT then retM ()
         else miner_try_mutate acc sminer_error.ConversionError (\<lambda>m.
              bindM (sm_sub (mi_service_space m) increment) (\<lambda>v. retM (m\<lparr>mi_service_space := v\<rparr>, ())))))"

text \<open>The loops over the hashes of a deal, on the filter of the entry.\<close>

fun bloom_all :: "(nat list \<Rightarrow> bloom_filter \<Rightarrow> (bloom_error + unit) \<times> bloom_filter) \<Rightarrow> nat list list \<Rightarrow> bloom_filter
    \<Rightarrow> bloom_filter option" where
  "bloom_all f [] b = Some b"
| "bloom_all f (elem # es) b = (case f elem b of (Inl _, _) \<Rightarrow> None | (Inr _, b') \<Rightarrow> bloom_all f es b')"

definition insert_service_bloom :: "account \<Rightarrow> nat list list \<Rightarrow> (('w, 'z) sminer_state_scheme, unit) M" where
  "insert_service_bloom acc hash_list =
     miner_try_mutate acc sminer_error.NotMiner (\<lambda>m.
     bindM (ok_or (bloom_all bloom_insert hash_list (mi_service_bloom_filter m)) (sminer_err sminer_error.BloomElemPushError)) (\<lambda>b.
     retM (m\<lparr>mi_service_bloom_filter := b\<rparr>, ())))"

definition delete_service_bloom :: "account \<Rightarrow> nat list list \<Rightarrow> (('w, 'z) sminer_state_scheme, unit) M" where
  "delete_service_bloom acc hash_list =
     miner_try_mutate acc sminer_error.NotMiner (\<lambda>m.
     bindM (ok_or (bloom_all bloom_delete hash_list (mi_service_bloom_filter m)) (sminer_err sminer_error.BloomElemPushError)) (\<lambda>b.
     retM (m\<lparr>mi_service_bloom_filter := b\<rparr>, ())))"

definition lock_space :: "account \<Rightarrow> nat \<Rightarrow> (('w, 'z) sminer_state_scheme, unit) M" where
  "lock_space acc space =
     miner_try_mutate acc sminer_error.NotExisted (\<lambda>m.
     bindM (sm_add (mi_lock_space m) space) (\<lambda>l.
     bindM (sm_sub (mi_idle_space m) space) (\<lambda>i. retM (m\<lparr>mi_lock_space := l, mi_idle_space := i\<rparr>, ()))))"

definition unlock_space :: "account \<Rightarrow> nat \<Rightarrow> (('w, 'z) sminer_state_scheme, unit) M" where
  "unlock_space acc space =
     bindM (getM (\<lambda>s. MinerItems s acc)) (\<lambda>m_opt. case m_opt of
       None \<Rightarrow> retM ()
     | Some m \<Rightarrow>
         bindM (sm_sub (mi_lock_space m) space) (\<lambda>l.
         bindM (sm_add (mi_idle_space m) space) (\<lambda>i. miner_put acc (m\<lparr>mi_lock_space := l, mi_idle_space := i\<rparr>))))"

definition unlock_space_direct :: "account \<Rightarrow> nat \<Rightarrow> (('w, 'z) sminer_state_scheme, unit) M" where
  "unlock_space_direct acc space =
     bindM (getM (\<lambda>s. MinerItems s acc)) (\<lambda>m_opt. case m_opt of
       None \<Rightarrow> retM ()
     | Some m \<Rightarrow> bindM (sm_sub (mi_lock_space m) space) (\<lambda>l. miner_put acc (m\<lparr>mi_lock_space := l\<rparr>)))"

definition unlock_space_to_service :: "account \<Rightarrow> nat \<Rightarrow> (('w, 'z) sminer_state_scheme, unit) M" where
  "unlock_space_to_service acc space =
     miner_try_mutate acc sminer_error.NotExisted (\<lambda>m.
     bindM (sm_sub (mi_lock_space m) space) (\<lambda>l.
     bindM (sm_add (mi_service_space m) space) (\<lambda>v. retM (m\<lparr>mi_lock_space := l, mi_service_space := v\<rparr>, ()))))"

section \<open>Rewards\<close>

definition issue_one :: "'w Config \<Rightarrow> miner_complete_info \<Rightarrow> (('w, 'z) sminer_state_scheme, reward_order option) M" where
  "issue_one E sn =
     (if mc_issued sn then retM None
      else bindM (getM (\<lambda>s. staking_current_era E (world s))) (\<lambda>cur_era.
        if cur_era \<le> mc_era_index sn then retM None
        else bindM (getM (\<lambda>s. ci_total_power (CompleteSnapShot s (mc_era_index sn)))) (\<lambda>total_power.
             bindM (get_round_reward (mc_era_index sn)) (\<lambda>total_reward.
             bindM (ensureM (total_reward \<noteq> 0) (sminer_err sminer_error.Unexpected)) (\<lambda>_.
             let this_round_reward = mul_floor E (perbill_from_rational E (mc_power sn) total_power) total_reward in
             bindM (sub_round_reward (mc_era_index sn) this_round_reward) (\<lambda>_.
             bindM (ok_or (checked_div (mul_floor E AOIR_PERCENT this_round_reward) RELEASE_NUMBER) (sminer_err sminer_error.Overflow)) (\<lambda>each.
             retM (Some \<lparr>ro_receive_count = 0, ro_max_count = RELEASE_NUMBER, ro_atonce = False,
               ro_order_reward = this_round_reward, ro_each_amount = each, ro_last_receive_block = mc_finsh_block sn\<rparr>))))))))"

text \<open>The loop over the snapshots; the list with its marks is written back even when the loop fails.\<close>

fun issue_loop :: "'w Config \<Rightarrow> miner_complete_info list
    \<Rightarrow> (('w, 'z) sminer_state_scheme, miner_complete_info list \<times> (dispatch_error + reward_order list)) M" where
  "issue_loop E [] = retM ([], Inr [])"
| "issue_loop E (sn # sns) = bindM (attemptM (issue_one E sn)) (\<lambda>r. case r of
     Inl e \<Rightarrow> retM (sn # sns, Inl e)
   | Inr order \<Rightarrow> bindM (issue_loop E sns) (\<lambda>(sns', r').
       retM (case order of
         None \<Rightarrow> (sn # sns', r')
       | Some ord \<Rightarrow> (sn\<lparr>mc_issued := True\<rparr> # sns', case r' of Inl e \<Rightarrow> Inl e | Inr os \<Rightarrow> Inr (ord # os)))))"

definition snapshot_put :: "account \<Rightarrow> miner_complete_info list \<Rightarrow> (('w, 'z) sminer_state_scheme, unit) M" where
  "snapshot_put a l = modM (\<lambda>s. s\<lparr>CompleteMinerSnapShot := (CompleteMinerSnapShot s)(a := l)\<rparr>)"

definition issue_orders :: "'w Config \<Rightarrow> account \<Rightarrow> (('w, 'z) sminer_state_scheme, reward_order list) M" where
  "issue_orders E miner =
     bindM (getM (\<lambda>s. CompleteMinerSnapShot s miner)) (\<lambda>snap_shot_list.
     bindM (issue_loop E snap_shot_list) (\<lambda>(l, r). case r of
       Inl e \<Rightarrow> bindM (snapshot_put miner l) (\<lambda>_. failM e)
     | Inr os \<Rightarrow> bindM (snapshot_put miner (filter (\<lambda>x. \<not> mc_issued x) l)) (\<lambda>_. retM os)))"

definition reward_put :: "account \<Rightarrow> miner_reward \<Rightarrow> (('w, 'z) sminer_state_scheme, unit) M" where
  "reward_put a r = modM (\<lambda>s. s\<lparr>RewardMap := (RewardMap s)(a \<mapsto> r)\<rparr>)"

definition take_order :: "'w Config \<Rightarrow> bool \<Rightarrow> reward_order \<Rightarrow> miner_reward \<times> nat
    \<Rightarrow> (('w, 'z) sminer_state_scheme, miner_reward \<times> nat) M" where
  "take_order E flag order = (\<lambda>(rw, new_reward).
     if flag
     then bindM (sm_add (rw_total_reward rw) (ro_order_reward order)) (\<lambda>total.
          bindM (sm_add new_reward (ro_order_reward order)) (\<lambda>new_reward.
          bindM (ok_or (try_push RELEASE_NUMBER (rw_order_list rw) order) (sminer_err sminer_error.BoundedVecError)) (\<lambda>l.
          retM (rw\<lparr>rw_total_reward := total, rw_order_list := l\<rparr>, new_reward))))
     else bindM (sm_add new_reward (ro_order_reward order)) (\<lambda>new_reward.
          bindM (reward_reserve E (ro_order_reward order)) (\<lambda>_. retM (rw, new_reward))))"

definition calculate_miner_reward :: "'w Config \<Rightarrow> account \<Rightarrow> (('w, 'z) sminer_state_scheme, unit) M" where
  "calculate_miner_reward E miner =
     bindM (issue_orders E miner) (\<lambda>order_list.
     if order_list = [] then retM ()
     else bindM (getM (\<lambda>s. RewardMap s miner)) (\<lambda>rw.
          bindM (ok_or rw (sminer_err sminer_error.Unexpected)) (\<lambda>rw.
          bindM (foldM (take_order E (length (rw_order_list rw) \<noteq> RELEASE_NUMBER)) order_list (rw, 0)) (\<lambda>(rw', new_reward).
          bindM (sub_reward E new_reward) (\<lambda>_. reward_put miner rw')))))"

text \<open>What one order pays at block \<open>now\<close>; the accumulator is the sum over the orders so far.\<close>

definition avail_count :: "reward_order \<Rightarrow> nat \<Rightarrow> ('s, nat) M" where
  "avail_count order count =
     (if ro_max_count order < saturating_add 8 (ro_receive_count order) (saturated_into 8 count)
      then ok_or (checked_sub (ro_max_count order) (ro_receive_count order)) (sminer_err sminer_error.Unexpected)
      else retM (saturated_into 8 count))"

definition pay_instalments :: "'w Config \<Rightarrow> nat \<Rightarrow> reward_order \<Rightarrow> nat \<Rightarrow> ('s, reward_order \<times> nat) M" where
  "pay_instalments E now order avail_reward =
     bindM (sm_sub now (ro_last_receive_block order)) (\<lambda>diff.
     if OneDay E \<le> diff
     then bindM (ok_or (checked_div diff (OneDay E)) (sminer_err sminer_error.Overflow)) (\<lambda>count.
          bindM (avail_count order count) (\<lambda>n.
          if 0 < n
          then bindM (ok_or (checked_mul 128 (ro_each_amount order) n) (sminer_err sminer_error.Overflow)) (\<lambda>r.
               bindM (sm_add avail_reward r) (\<lambda>avail.
               bindM (ok_or (checked_add 8 (ro_receive_count order) n) (sminer_err sminer_error.Overflow)) (\<lambda>c.
               retM (order\<lparr>ro_receive_count := c, ro_last_receive_block := now\<rparr>, avail))))
          else retM (order, avail_reward)))
     else retM (order, avail_reward))"

definition pay_order :: "'w Config \<Rightarrow> nat \<Rightarrow> reward_order \<Rightarrow> nat \<Rightarrow> ('s, reward_order \<times> nat) M" where
  "pay_order E now order avail_reward =
     bindM (pay_instalments E now order avail_reward) (\<lambda>(order, avail).
     if \<not> ro_atonce order
     then bindM (sm_add avail (mul_floor E AOIR_PERCENT (ro_order_reward order))) (\<lambda>avail.
          retM (order\<lparr>ro_atonce := True\<rparr>, avail))
     else retM (order, avail))"

fun pay_orders :: "'w Config \<Rightarrow> nat \<Rightarrow> reward_order list \<Rightarrow> nat \<Rightarrow> ('s, reward_order list \<times> nat) M" where
  "pay_orders E now [] avail = retM ([], avail)"
| "pay_orders E now (ord # os) avail =
     bindM (pay_order E now ord avail) (\<lambda>(ord', avail').
     bindM (pay_orders E now os avail') (\<lambda>(os', avail''). retM (ord' # os', avail'')))"

definition distribute_rewards :: "'w Config \<Rightarrow> account \<Rightarrow> account \<Rightarrow> (('w, 'z) sminer_state_scheme, unit) M" where
  "distribute_rewards E miner beneficiary =
     bindM (getM (\<lambda>s. RewardMap s miner)) (\<lambda>rw.
     bindM (ok_or rw (sminer_err sminer_error.Unexpected)) (\<lambda>rw.
     bindM (getM block_number) (\<lambda>now.
     bindM (pay_orders E now (rw_order_list rw) 0) (\<lambda>(orders, avail_reward).
     bindM (sm_add (rw_reward_issued rw) avail_reward) (\<lambda>issued.
     bindM (send_reward_to_miner E beneficiary avail_reward) (\<lambda>_.
     reward_put miner (rw\<lparr>rw_order_list := filter (\<lambda>x. ro_max_count x \<noteq> ro_receive_count x) orders,
       rw_reward_issued := issued\<rparr>)))))))"

section \<open>Punishments and the forced exit\<close>

definition power_limit :: "'w Config \<Rightarrow> nat \<Rightarrow> nat \<Rightarrow> ('s, nat) M" where
  "power_limit E idle_space service_space =
     bindM (calculate_limit_by_space (calculate_power E idle_space service_space)) (\<lambda>limit.
     ok_or (try_into 128 limit) (sminer_err sminer_error.Overflow))"

definition clear_punish :: "'w Config \<Rightarrow> account \<Rightarrow> nat \<Rightarrow> nat \<Rightarrow> nat \<Rightarrow> (('w, 'z) sminer_state_scheme, unit) M" where
  "clear_punish E miner idle_space service_space count =
     bindM (power_limit E idle_space service_space) (\<lambda>limit.
     bindM (getM (\<lambda>s. RewardMap s miner)) (\<lambda>rw.
     bindM (ok_or rw (sminer_err sminer_error.NotMiner)) (\<lambda>rw.
     deposit_punish E miner
       (if rw_total_reward rw = 0 then 100
        else if count = 1 then 0
        else if count = 2 then mul_floor E 50000000 limit
        else mul_floor E 150000000 limit))))"

definition idle_punish :: "'w Config \<Rightarrow> account \<Rightarrow> nat \<Rightarrow> nat \<Rightarrow> (('w, 'z) sminer_state_scheme, unit) M" where
  "idle_punish E miner idle_space service_space =
     bindM (power_limit E idle_space service_space) (\<lambda>limit. deposit_punish E miner (mul_floor E IDLE_PUNI_MUTI limit))"

definition service_punish :: "'w Config \<Rightarrow> account \<Rightarrow> nat \<Rightarrow> nat \<Rightarrow> (('w, 'z) sminer_state_scheme, unit) M" where
  "service_punish E miner idle_space service_space =
     bindM (power_limit E idle_space service_space) (\<lambda>limit. deposit_punish E miner (mul_floor E SERVICE_PUNI_MUTI limit))"

text \<open>What a miner that never earned, and one that did, gets back of its collateral at a forced exit.\<close>

definition return_collateral :: "'w Config \<Rightarrow> account \<Rightarrow> miner_info \<Rightarrow> (('w, 'z) sminer_state_scheme, unit) M" where
  "return_collateral E acc m =
     bindM (if mi_staking_account m = get_reservoir_acc E then redeem_gate E acc (mi_collaterals m) False else retM ()) (\<lambda>_.
     unreserve E (mi_staking_account m) (mi_collaterals m))"

definition schedule_return :: "'w Config \<Rightarrow> account \<Rightarrow> miner_info \<Rightarrow> miner_reward \<Rightarrow> (('w, 'z) sminer_state_scheme, unit) M" where
  "schedule_return E acc m reward_info =
     bindM (calculate_miner_reward E acc) (\<lambda>_.
     bindM (distribute_rewards E acc (mi_beneficiary m)) (\<lambda>_.
     bindM (sm_sub (rw_total_reward reward_info) (rw_reward_issued reward_info)) (\<lambda>residue_reward.
     bindM (add_reward residue_reward) (\<lambda>_.
     bindM (getM (\<lambda>s. StakingStartBlock s acc)) (\<lambda>b.
     bindM (ok_or b (sminer_err sminer_error.BugInvalid)) (\<lambda>start_block.
     bindM (ok_or (checked_add 32 start_block (StakingLockBlock E)) (sminer_err sminer_error.Overflow)) (\<lambda>exec_block.
     bindM (getM (\<lambda>s. ReturnStakingSchedule s exec_block)) (\<lambda>l.
     bindM (ok_or (try_push (ItemLimit E) l (acc, mi_staking_account m, mi_collaterals m)) (sminer_err sminer_error.BoundedVecError)) (\<lambda>l'.
     modM (\<lambda>s. s\<lparr>ReturnStakingSchedule := (ReturnStakingSchedule s)(exec_block := l')\<rparr>))))))))))"

definition force_miner_exit :: "'w Config \<Rightarrow> account \<Rightarrow> (('w, 'z) sminer_state_scheme, unit) M" where
  "force_miner_exit E acc =
     bindM (modM (\<lambda>s. s\<lparr>AllMiner := filter (\<lambda>x. x \<noteq> acc) (AllMiner s)\<rparr>)) (\<lambda>_.
     bindM (miner_try_mutate acc sminer_error.Unexpected (\<lambda>m.
       bindM (getM (\<lambda>s. RewardMap s acc)) (\<lambda>rw.
       bindM (case rw of
           None \<Rightarrow> retM ()
         | Some reward_info \<Rightarrow> if rw_total_reward reward_info = 0 then return_collateral E acc m
                               else schedule_return E acc m reward_info) (\<lambda>_.
       bindM (sub_total_idle_space (wrapping_add 128 (mi_idle_space m) (mi_lock_space m))) (\<lambda>_.
       bindM (create_restoral_target E acc (wrapping_add 128 (mi_service_space m) (mi_lock_space m))) (\<lambda>_.
       bindM (str_to_bound E STATE_OFFLINE) (\<lambda>st.
       bindM (ok_or (mi_space_proof_info m) (sminer_err sminer_error.NotpositiveState)) (\<lambda>i.
       let hashing = sha2_256 E (encode E (pois_key_scale (sp_pois_key i))) in
       bindM (modM (\<lambda>s. s\<lparr>MinerPublicKey := (MinerPublicKey s)(hashing := None)\<rparr>)) (\<lambda>_.
       retM (m\<lparr>mi_state := st\<rparr>, ())))))))))) (\<lambda>_.
     modM (\<lambda>s. s\<lparr>CompleteMinerSnapShot := (CompleteMinerSnapShot s)(acc := []), RewardMap := (RewardMap s)(acc := None),
       PendingReplacements := (PendingReplacements s)(acc := 0)\<rparr>)))"

definition update_restoral_target :: "account \<Rightarrow> nat \<Rightarrow> (('w, 'z) sminer_state_scheme, unit) M" where
  "update_restoral_target miner service_space =
     bindM (getM (\<lambda>s. RestoralTarget s miner)) (\<lambda>t.
     bindM (ok_or t (sminer_err sminer_error.NotExisted)) (\<lambda>info.
     bindM (sm_add (rt_restored_space info) service_space) (\<lambda>v.
     modM (\<lambda>s. s\<lparr>RestoralTarget := (RestoralTarget s)(miner \<mapsto> info\<lparr>rt_restored_space := v\<rparr>)\<rparr>))))"

section \<open>The trait MinerControl: queries, snapshots and replacements\<close>

definition get_power :: "account \<Rightarrow> (('w, 'z) sminer_state_scheme, nat \<times> nat) M" where
  "get_power acc = bindM (miner_get acc sminer_error.NotMiner) (\<lambda>m. retM (mi_idle_space m, mi_service_space m))"

definition get_miner_idle_space :: "account \<Rightarrow> (('w, 'z) sminer_state_scheme, nat) M" where
  "get_miner_idle_space acc = bindM (miner_get acc sminer_error.NotExisted) (\<lambda>m. retM (mi_idle_space m))"

definition miner_is_exist :: "account \<Rightarrow> ('w, 'z) sminer_state_scheme \<Rightarrow> bool" where
  "miner_is_exist acc s \<longleftrightarrow> MinerItems s acc \<noteq> None"

definition get_miner_state :: "account \<Rightarrow> (('w, 'z) sminer_state_scheme, string) M" where
  "get_miner_state acc = bindM (miner_get acc sminer_error.NotMiner) (\<lambda>m. retM (mi_state m))"

definition get_all_miner :: "(('w, 'z) sminer_state_scheme, account list) M" where
  "get_all_miner = getM AllMiner"

definition get_miner_count :: "('w, 'z) sminer_state_scheme \<Rightarrow> nat" where
  "get_miner_count s = MinerItemsCount s"

definition record_snap_shot :: "'w Config \<Rightarrow> account \<Rightarrow> nat \<Rightarrow> nat \<Rightarrow> (('w, 'z) sminer_state_scheme, unit) M" where
  "record_snap_shot E miner miner_idle_space miner_service_space =
     bindM (getM block_number) (\<lambda>now.
     bindM (getM (\<lambda>s. staking_current_era E (world s))) (\<lambda>era.
     let power = calculate_power E miner_idle_space miner_service_space in
     bindM (getM (\<lambda>s. CompleteMinerSnapShot s miner)) (\<lambda>l.
     if length l = RELEASE_NUMBER then retM ()
     else
       bindM (mutateM (\<lambda>s. CompleteSnapShot s era) (\<lambda>v s. s\<lparr>CompleteSnapShot := (CompleteSnapShot s)(era := v)\<rparr>)
         (\<lambda>c. case checked_add 32 (ci_miner_count c) 1 of
            None \<Rightarrow> (Inl (sminer_err sminer_error.Overflow), c)
          | Some n \<Rightarrow> (case checked_add 128 (ci_total_power c) power of
              None \<Rightarrow> (Inl (sminer_err sminer_error.Overflow), c\<lparr>ci_miner_count := n\<rparr>)
            | Some p \<Rightarrow> (Inr (), c\<lparr>ci_miner_count := n, ci_total_power := p\<rparr>)))) (\<lambda>_.
       bindM (ok_or (try_push RELEASE_NUMBER l \<lparr>mc_era_index = era, mc_issued = False, mc_finsh_block = now, mc_power = power\<rparr>)
         (sminer_err sminer_error.Overflow)) (\<lambda>l'.
       snapshot_put miner l')))))"

definition is_positive :: "account \<Rightarrow> (('w, 'z) sminer_state_scheme, bool) M" where
  "is_positive miner = bindM (get_miner_state miner) (\<lambda>st. retM (st = STATE_POSITIVE))"

definition is_lock :: "account \<Rightarrow> (('w, 'z) sminer_state_scheme, bool) M" where
  "is_lock miner = bindM (get_miner_state miner) (\<lambda>st. retM (st = STATE_LOCK))"

definition update_miner_state :: "'w Config \<Rightarrow> account \<Rightarrow> string \<Rightarrow> (('w, 'z) sminer_state_scheme, unit) M" where
  "update_miner_state E miner state =
     bindM (ensureM (state \<in> {STATE_POSITIVE, STATE_FROZEN, STATE_EXIT, STATE_LOCK}) (sminer_err sminer_error.Overflow)) (\<lambda>_.
     miner_try_mutate miner sminer_error.NotMiner (\<lambda>m.
     bindM (ensureM (length state \<le> ItemLimit E) (sminer_err sminer_error.BoundedVecError)) (\<lambda>_.
     retM (m\<lparr>mi_state := state\<rparr>, ()))))"

definition get_expenders :: "(('w, 'z) sminer_state_scheme, nat \<times> nat \<times> nat) M" where
  "get_expenders = bindM (getM Expenders) (\<lambda>e. ok_or e (sminer_err sminer_error.Unexpected))"

definition get_miner_snapshot :: "account
    \<Rightarrow> (('w, 'z) sminer_state_scheme, nat \<times> nat \<times> bloom_filter \<times> space_proof_info \<times> string) M" where
  "get_miner_snapshot miner =
     bindM (miner_get miner sminer_error.NotMiner) (\<lambda>m.
     bindM (ok_or (mi_space_proof_info m) (sminer_err sminer_error.Unexpected)) (\<lambda>i.
     retM (mi_idle_space m, mi_service_space m, mi_service_bloom_filter m, i, mi_tee_signature m)))"

definition restoral_target_is_exist :: "account \<Rightarrow> ('w, 'z) sminer_state_scheme \<Rightarrow> bool" where
  "restoral_target_is_exist miner s \<longleftrightarrow> RestoralTarget s miner \<noteq> None"

definition pending_put :: "account \<Rightarrow> nat \<Rightarrow> (('w, 'z) sminer_state_scheme, unit) M" where
  "pending_put a v = modM (\<lambda>s. s\<lparr>PendingReplacements := (PendingReplacements s)(a := v)\<rparr>)"

definition increase_replace_space :: "account \<Rightarrow> nat \<Rightarrow> (('w, 'z) sminer_state_scheme, unit) M" where
  "increase_replace_space miner space =
     bindM (getM (\<lambda>s. PendingReplacements s miner)) (\<lambda>p. bindM (sm_add p space) (\<lambda>v. pending_put miner v))"

definition decrease_replace_space :: "account \<Rightarrow> nat \<Rightarrow> (('w, 'z) sminer_state_scheme, unit) M" where
  "decrease_replace_space miner space =
     bindM (getM (\<lambda>s. PendingReplacements s miner)) (\<lambda>p.
     bindM (ensureM (p div IDLE_SEG_SIZE \<noteq> 0) (sminer_err sminer_error.InsufficientReplaceable)) (\<lambda>_.
     bindM (sm_sub p space) (\<lambda>v. pending_put miner v)))"

section \<open>The hook and the extrinsics\<close>

text \<open>The collateral of a miner that was forced to exit comes back when its staking period ends.\<close>

definition sminer_on_initialize :: "'w Config \<Rightarrow> nat \<Rightarrow> (('w, 'z) sminer_state_scheme, unit) M" where
  "sminer_on_initialize E now =
     bindM (getM (\<lambda>s. ReturnStakingSchedule s now)) (\<lambda>miner_list.
     forM miner_list (\<lambda>(miner, staking_acc, collaterals).
       bindM (if get_reservoir_acc E = staking_acc
              then bindM (attemptM (redeem_gate E miner collaterals False)) (\<lambda>_. retM ()) else retM ()) (\<lambda>_.
       unreserve E staking_acc collaterals)))"

definition new_miner :: "account \<Rightarrow> account \<Rightarrow> string \<Rightarrow> nat \<Rightarrow> string \<Rightarrow> nat \<Rightarrow> miner_info" where
  "new_miner beneficiary staking_account peer_id collaterals state declaration_space =
     \<lparr>mi_beneficiary = beneficiary, mi_staking_account = staking_account, mi_peer_id = peer_id, mi_collaterals = collaterals,
      mi_debt = 0, mi_state = state, mi_declaration_space = declaration_space, mi_idle_space = 0, mi_service_space = 0,
      mi_lock_space = 0, mi_space_proof_info = None, mi_service_bloom_filter = bloom_default,
      mi_tee_signature = replicate 64 CHR 0x00\<rparr>"

definition new_reward :: miner_reward where
  "new_reward = \<lparr>rw_total_reward = 0, rw_reward_issued = 0, rw_order_list = []\<rparr>"

definition declared_limit :: "nat \<Rightarrow> ('s, nat) M" where
  "declared_limit space =
     bindM (calculate_limit_by_space space) (\<lambda>l. ok_or (try_into 128 l) (sminer_err sminer_error.Overflow))"

definition regnstk :: "'w Config \<Rightarrow> origin \<Rightarrow> account \<Rightarrow> string \<Rightarrow> nat \<Rightarrow> nat \<Rightarrow> (('w, 'z) sminer_state_scheme, unit) M" where
  "regnstk E orig beneficiary peer_id staking_val tib_count = transactional (
     bindM (ensure_signed orig) (\<lambda>sender.
     bindM (getM (\<lambda>s. MinerItems s sender = None)) (\<lambda>fresh.
     bindM (ensureM fresh (sminer_err sminer_error.AlreadyRegistered)) (\<lambda>_.
     bindM (ok_or (checked_mul 128 T_BYTE tib_count) (sminer_err sminer_error.Overflow)) (\<lambda>declaration_space.
     bindM (declared_limit declaration_space) (\<lambda>base_limit.
     bindM (ensureM (base_limit \<le> staking_val) (sminer_err sminer_error.CollateralNotUp)) (\<lambda>_.
     bindM (reserve E sender staking_val) (\<lambda>_.
     bindM (getM block_number) (\<lambda>now.
     bindM (modM (\<lambda>s. s\<lparr>StakingStartBlock := (StakingStartBlock s)(sender \<mapsto> now)\<rparr>)) (\<lambda>_.
     bindM (str_to_bound E STATE_NOT_READY) (\<lambda>st.
     bindM (miner_put sender (new_miner beneficiary sender peer_id staking_val st declaration_space)) (\<lambda>_.
     reward_put sender new_reward))))))))))))"

definition regnstk_assign_staking :: "'w Config \<Rightarrow> origin \<Rightarrow> account \<Rightarrow> string \<Rightarrow> account \<Rightarrow> nat
    \<Rightarrow> (('w, 'z) sminer_state_scheme, unit) M" where
  "regnstk_assign_staking E orig beneficiary peer_id staking_account tib_count = transactional (
     bindM (ensure_signed orig) (\<lambda>sender.
     bindM (getM (\<lambda>s. MinerItems s sender = None)) (\<lambda>fresh.
     bindM (ensureM fresh (sminer_err sminer_error.AlreadyRegistered)) (\<lambda>_.
     bindM (ok_or (checked_mul 128 T_BYTE tib_count) (sminer_err sminer_error.Overflow)) (\<lambda>declaration_space.
     bindM (if staking_account = get_reservoir_acc E
            then bindM (ok_or (checked_mul 128 tib_count BASE_UNIT) (sminer_err sminer_error.Overflow)) (\<lambda>v.
                 bindM (ok_or (try_into 128 v) (sminer_err sminer_error.Overflow)) (\<lambda>need_staking.
                 bindM (check_qualification sender need_staking) (\<lambda>_.
                 bindM (staking_gate E sender need_staking True) (\<lambda>_.
                 bindM (getM block_number) (\<lambda>now.
                 bindM (modM (\<lambda>s. s\<lparr>StakingStartBlock := (StakingStartBlock s)(sender \<mapsto> now)\<rparr>)) (\<lambda>_.
                 retM need_staking))))))
            else retM 0) (\<lambda>need_staking.
     bindM (str_to_bound E STATE_NOT_READY) (\<lambda>st.
     bindM (miner_put sender (new_miner beneficiary staking_account peer_id need_staking st declaration_space)) (\<lambda>_.
     reward_put sender new_reward))))))))"

text \<open>The part of an increase that pays the debt; the rest is what is added to the collateral.\<close>

definition pay_debt :: "'w Config \<Rightarrow> account \<Rightarrow> nat \<Rightarrow> miner_info \<Rightarrow> (('w, 'z) sminer_state_scheme, miner_info \<times> nat) M" where
  "pay_debt E sender collaterals m =
     (let payer = (if mi_staking_account m = get_reservoir_acc E then mi_staking_account m else sender) in
      if 0 < mi_debt m
      then if collaterals < mi_debt m
           then bindM (sm_sub (mi_debt m) collaterals) (\<lambda>d.
                bindM (send_to_pid E payer collaterals) (\<lambda>_. retM (m\<lparr>mi_debt := d\<rparr>, 0)))
           else bindM (sm_sub collaterals (mi_debt m)) (\<lambda>remaining.
                bindM (send_to_pid E payer (mi_debt m)) (\<lambda>_. retM (m\<lparr>mi_debt := 0\<rparr>, remaining)))
      else retM (m, collaterals))"

definition increase_collateral :: "'w Config \<Rightarrow> origin \<Rightarrow> account \<Rightarrow> nat \<Rightarrow> (('w, 'z) sminer_state_scheme, unit) M" where
  "increase_collateral E orig miner collaterals = transactional (
     bindM (ensure_signed orig) (\<lambda>sender.
     bindM (getM (\<lambda>s. MinerItems s miner \<noteq> None)) (\<lambda>known.
     bindM (ensureM known (sminer_err sminer_error.NotMiner)) (\<lambda>_.
     miner_try_mutate miner sminer_error.ConversionError (\<lambda>m.
     bindM (ensureM (mi_state m \<noteq> STATE_OFFLINE) (sminer_err sminer_error.StateError)) (\<lambda>_.
     bindM (ensureM (mi_state m \<noteq> STATE_LOCK) (sminer_err sminer_error.StateError)) (\<lambda>_.
     bindM (ensureM (mi_state m \<noteq> STATE_EXIT) (sminer_err sminer_error.StateError)) (\<lambda>_.
     bindM (ensureM (mi_staking_account m = sender \<or> mi_staking_account m = get_reservoir_acc E) (sminer_err sminer_error.NotStakingAcc)) (\<lambda>_.
     bindM (if mi_staking_account m = get_reservoir_acc E
            then bindM (ensureM (sender = miner) (sminer_err sminer_error.NotStakingAcc)) (\<lambda>_. check_qualification sender collaterals)
            else retM ()) (\<lambda>_.
     bindM (pay_debt E sender collaterals m) (\<lambda>(m, remaining).
     bindM (sm_add (mi_collaterals m) remaining) (\<lambda>c.
     let m = m\<lparr>mi_collaterals := c\<rparr> in
     bindM (if mi_state m = STATE_FROZEN
            then bindM (declared_limit (mi_declaration_space m)) (\<lambda>limit.
                 if limit \<le> mi_collaterals m
                 then bindM (str_to_bound E STATE_POSITIVE) (\<lambda>st. retM (m\<lparr>mi_state := st\<rparr>)) else retM m)
            else retM m) (\<lambda>m.
     bindM (getM block_number) (\<lambda>now.
     bindM (modM (\<lambda>s. s\<lparr>StakingStartBlock := (StakingStartBlock s)(miner \<mapsto> now)\<rparr>)) (\<lambda>_.
     bindM (if mi_staking_account m = get_reservoir_acc E then staking_gate E miner remaining True
            else reserve E sender remaining) (\<lambda>_.
     retM (m, ())))))))))))))))))"

definition update_beneficiary :: "origin \<Rightarrow> account \<Rightarrow> (('w, 'z) sminer_state_scheme, unit) M" where
  "update_beneficiary orig beneficiary = transactional (
     bindM (ensure_signed orig) (\<lambda>sender.
     bindM (getM (\<lambda>s. MinerItems s sender \<noteq> None)) (\<lambda>known.
     bindM (ensureM known (sminer_err sminer_error.NotMiner)) (\<lambda>_.
     miner_try_mutate sender sminer_error.ConversionError (\<lambda>m. retM (m\<lparr>mi_beneficiary := beneficiary\<rparr>, ()))))))"

definition update_peer_id :: "origin \<Rightarrow> string \<Rightarrow> (('w, 'z) sminer_state_scheme, unit) M" where
  "update_peer_id orig peer_id = transactional (
     bindM (ensure_signed orig) (\<lambda>sender.
     bindM (getM (\<lambda>s. MinerItems s sender \<noteq> None)) (\<lambda>known.
     bindM (ensureM known (sminer_err sminer_error.NotMiner)) (\<lambda>_.
     miner_try_mutate sender sminer_error.ConversionError (\<lambda>m. retM (m\<lparr>mi_peer_id := peer_id\<rparr>, ()))))))"

definition receive_reward :: "'w Config \<Rightarrow> origin \<Rightarrow> (('w, 'z) sminer_state_scheme, unit) M" where
  "receive_reward E orig = transactional (
     bindM (ensure_signed orig) (\<lambda>sender.
     bindM (getM (\<lambda>s. MinerItems s sender)) (\<lambda>m_opt. case m_opt of
       None \<Rightarrow> retM ()
     | Some m \<Rightarrow>
         bindM (ensureM (mi_state m = STATE_POSITIVE \<or> mi_state m = STATE_EXIT) (sminer_err sminer_error.NotpositiveState)) (\<lambda>_.
         bindM (calculate_miner_reward E sender) (\<lambda>_.
         distribute_rewards E sender (mi_beneficiary m))))))"

definition miner_exit_prep :: "'w Config \<Rightarrow> origin \<Rightarrow> account \<Rightarrow> (('w, 'z) sminer_state_scheme, unit) M" where
  "miner_exit_prep E orig miner = transactional (
     bindM (ensure_signed orig) (\<lambda>sender.
     bindM (getM block_number) (\<lambda>now.
     bindM (getM (\<lambda>s. MinerLock s miner)) (\<lambda>lock.
     bindM (case lock of None \<Rightarrow> retM () | Some lock_time \<Rightarrow> ensureM (lock_time < now) (sminer_err sminer_error.StateError)) (\<lambda>_.
     bindM (getM (\<lambda>s. StakingStartBlock s miner)) (\<lambda>b.
     bindM (ok_or b (sminer_err sminer_error.BugInvalid)) (\<lambda>staking_start_block.
     bindM (ensureM (wrapping_add 32 staking_start_block (StakingLockBlock E) < now) (sminer_err sminer_error.InsufficientStakingPeriod)) (\<lambda>_.
     bindM (miner_try_mutate sender sminer_error.NotExisted (\<lambda>m.
       bindM (ensureM (\<not> (sender \<noteq> miner \<and> sender \<noteq> mi_staking_account m)) (sminer_err sminer_error.NotStakingAcc)) (\<lambda>_.
       bindM (ensureM (mi_state m = STATE_POSITIVE) (sminer_err sminer_error.StateError)) (\<lambda>_.
       bindM (ensureM (mi_lock_space m = 0) (sminer_err sminer_error.StateError)) (\<lambda>_.
       bindM (str_to_bound E STATE_LOCK) (\<lambda>st. retM (m\<lparr>mi_state := st\<rparr>, ()))))))) (\<lambda>_.
     bindM (ok_or (checked_mul 32 (OneDay E) 15) (sminer_err sminer_error.Overflow)) (\<lambda>d.
     bindM (ok_or (checked_add 32 d now) (sminer_err sminer_error.Overflow)) (\<lambda>lock_time.
     bindM (modM (\<lambda>s. s\<lparr>MinerLock := (MinerLock s)(miner \<mapsto> lock_time)\<rparr>)) (\<lambda>_.
     let task_id = blake2_256 E (encode E (S_Num miner)) in
     bindM (preimages_bound E (Call_miner_exit miner)) (\<lambda>_.
     map_errM (sminer_err sminer_error.Unexpected) (schedule_named E task_id lock_time (Call_miner_exit miner)))))))))))))))"

definition miner_exit :: "'w Config \<Rightarrow> origin \<Rightarrow> account \<Rightarrow> (('w, 'z) sminer_state_scheme, unit) M" where
  "miner_exit E orig miner = transactional (
     bindM (ensure_root orig) (\<lambda>_.
     bindM (miner_get miner sminer_error.NotExisted) (\<lambda>m.
     bindM (ensureM (mi_state m = STATE_LOCK) (sminer_err sminer_error.StateError)) (\<lambda>_.
     bindM (sub_total_idle_space (mi_idle_space m)) (\<lambda>_.
     bindM (sminer_execute_exit E miner) (\<lambda>_.
     create_restoral_target E miner (wrapping_add 128 (mi_service_space m) (mi_lock_space m))))))))"

definition miner_withdraw :: "'w Config \<Rightarrow> origin \<Rightarrow> (('w, 'z) sminer_state_scheme, unit) M" where
  "miner_withdraw E orig = transactional (
     bindM (ensure_signed orig) (\<lambda>sender.
     bindM (getM (\<lambda>s. RestoralTarget s sender)) (\<lambda>t.
     bindM (ok_or t (sminer_err sminer_error.StateError)) (\<lambda>restoral_info.
     bindM (getM block_number) (\<lambda>now.
     bindM (ensureM (\<not> (now < rt_cooling_block restoral_info \<and> rt_restored_space restoral_info \<noteq> rt_service_space restoral_info))
       (sminer_err sminer_error.StateError)) (\<lambda>_.
     sminer_withdraw E sender))))))"

definition faucet_top_up :: "'w Config \<Rightarrow> origin \<Rightarrow> nat \<Rightarrow> (('w, 'z) sminer_state_scheme, unit) M" where
  "faucet_top_up E orig award = transactional (
     bindM (ensure_signed orig) (\<lambda>sender. transfer E sender (FaucetId E) award))"

definition faucet_record :: "account \<Rightarrow> nat \<Rightarrow> (('w, 'z) sminer_state_scheme, unit) M" where
  "faucet_record to_acc b = modM (\<lambda>s. s\<lparr>FaucetRecordMap := (FaucetRecordMap s)(to_acc \<mapsto> b)\<rparr>)"

definition faucet :: "'w Config \<Rightarrow> origin \<Rightarrow> account \<Rightarrow> (('w, 'z) sminer_state_scheme, unit) M" where
  "faucet E orig to_acc = transactional (
     bindM (ensure_signed orig) (\<lambda>sender.
     bindM (getM FacuetWhitelist) (\<lambda>w.
     bindM (ok_or w (sminer_err sminer_error.NotSetWhite)) (\<lambda>white.
     bindM (ensureM (sender = white) (sminer_err sminer_error.WrongOrigin)) (\<lambda>_.
     bindM (ok_or (try_into 128 FAUCET_VALUE) (sminer_err sminer_error.ConversionError)) (\<lambda>facuet_value.
     bindM (getM block_number) (\<lambda>now.
     bindM (getM (\<lambda>s. FaucetRecordMap s to_acc)) (\<lambda>rec. case rec of
       None \<Rightarrow>
         bindM (faucet_record to_acc 0) (\<lambda>_.
         bindM (transfer E (FaucetId E) to_acc facuet_value) (\<lambda>_.
         faucet_record to_acc now))
     | Some last_claim_time \<Rightarrow>
         bindM (if saturated_into 32 (OneDay E) \<le> now
                then bindM (sm_sub now (saturated_into 32 (OneDay E))) (\<lambda>d. retM (last_claim_time \<le> d))
                else retM (last_claim_time \<le> 0)) (\<lambda>flag.
         bindM (ensureM flag (sminer_err sminer_error.LessThan24Hours)) (\<lambda>_.
         bindM (getM FacuetReleaseRecord) (\<lambda>released.
         bindM (ok_or (try_into 128 (MaximumRelease E)) (sminer_err sminer_error.ConversionError)) (\<lambda>mx.
         bindM (sm_add released facuet_value) (\<lambda>released'.
         bindM (ensureM (released' \<le> mx) (sminer_err sminer_error.ExceedRelease)) (\<lambda>_.
         bindM (modM (\<lambda>s. s\<lparr>FacuetReleaseRecord := released'\<rparr>)) (\<lambda>_.
         bindM (transfer E (FaucetId E) to_acc facuet_value) (\<lambda>_.
         faucet_record to_acc now))))))))))))))))"

definition update_expender :: "origin \<Rightarrow> nat \<Rightarrow> nat \<Rightarrow> nat \<Rightarrow> (('w, 'z) sminer_state_scheme, unit) M" where
  "update_expender orig k n d = transactional (
     bindM (ensure_root orig) (\<lambda>_. modM (\<lambda>s. s\<lparr>Expenders := Some (k, n, d)\<rparr>)))"

definition register_pois_key :: "'w Config \<Rightarrow> origin \<Rightarrow> pois_key \<Rightarrow> string \<Rightarrow> string \<Rightarrow> string
    \<Rightarrow> (('w, 'z) sminer_state_scheme, unit) M" where
  "register_pois_key E orig pkey tee_sig_need_verify tee_sig tee_puk = transactional (
     bindM (ensure_signed orig) (\<lambda>sender.
     bindM (getM (\<lambda>s. MinerItems s sender \<noteq> None)) (\<lambda>known.
     bindM (ensureM known (sminer_err sminer_error.NotMiner)) (\<lambda>_.
     let space_proof_info = \<lparr>sp_miner = sender, sp_front = 0, sp_rear = 0, sp_pois_key = pkey, sp_accumulator = pk_g pkey\<rparr>;
         original_text = sha2_256 E (encode E (space_proof_scale space_proof_info) @ encode E (S_Bytes tee_puk)) in
     bindM (ok_or (sr25519_signature E tee_sig_need_verify) (sminer_err sminer_error.MalformedSignature)) (\<lambda>sig.
     bindM (getM (verify_master_sig E sig original_text)) (\<lambda>verified.
     bindM (ensureM verified (sminer_err sminer_error.VerifyTeeSigFailed)) (\<lambda>_.
     bindM (getM block_number) (\<lambda>now.
     bindM (update_work_block E now tee_puk) (\<lambda>_.
     bindM (ok_or (sr25519_signature E tee_sig) (sminer_err sminer_error.MalformedSignature)) (\<lambda>sig.
     bindM (modM (\<lambda>s. s\<lparr>MinerPublicKey := (MinerPublicKey s)(original_text \<mapsto> sender)\<rparr>)) (\<lambda>_.
     bindM (miner_try_mutate sender sminer_error.NotMiner (\<lambda>m.
       bindM (ensureM (mi_state m = STATE_NOT_READY) (sminer_err sminer_error.StateError)) (\<lambda>_.
       bindM (declared_limit (mi_declaration_space m)) (\<lambda>base_limit.
       bindM (str_to_bound E (if base_limit \<le> mi_collaterals m then STATE_POSITIVE else STATE_FROZEN)) (\<lambda>st.
       retM (m\<lparr>mi_space_proof_info := Some space_proof_info, mi_state := st, mi_tee_signature := sig\<rparr>, ())))))) (\<lambda>_.
     bindM (getM AllMiner) (\<lambda>all_miner.
     bindM (ok_or (try_push (ItemLimit E) all_miner sender) (sminer_err sminer_error.StorageLimitReached)) (\<lambda>l.
     modM (\<lambda>s. s\<lparr>AllMiner := l\<rparr>)))))))))))))))"

definition increase_declaration_space :: "'w Config \<Rightarrow> origin \<Rightarrow> nat \<Rightarrow> (('w, 'z) sminer_state_scheme, unit) M" where
  "increase_declaration_space E orig tib_count = transactional (
     bindM (ensure_signed orig) (\<lambda>sender.
     bindM (getM (\<lambda>s. MinerItems s sender \<noteq> None)) (\<lambda>known.
     bindM (ensureM known (sminer_err sminer_error.NotMiner)) (\<lambda>_.
     bindM (ok_or (checked_mul 128 T_BYTE tib_count) (sminer_err sminer_error.Overflow)) (\<lambda>increase_space.
     miner_try_mutate sender sminer_error.ConversionError (\<lambda>m.
     bindM (ensureM (mi_state m = STATE_POSITIVE) (sminer_err sminer_error.StateError)) (\<lambda>_.
     bindM (sm_add (mi_declaration_space m) increase_space) (\<lambda>d.
     bindM (declared_limit d) (\<lambda>base_limit.
     bindM (if mi_collaterals m < base_limit then str_to_bound E STATE_FROZEN else retM (mi_state m)) (\<lambda>st.
     retM (m\<lparr>mi_declaration_space := d, mi_state := st\<rparr>, ())))))))))))"

definition clear_miner_service :: "origin \<Rightarrow> account \<Rightarrow> (('w, 'z) sminer_state_scheme, unit) M" where
  "clear_miner_service orig miner = transactional (
     bindM (ensure_root orig) (\<lambda>_.
     miner_try_mutate miner sminer_error.ConversionError (\<lambda>m.
     retM (m\<lparr>mi_service_space := 0, mi_service_bloom_filter := bloom_default\<rparr>, ()))))"

definition set_facuet_whitelist :: "origin \<Rightarrow> account \<Rightarrow> (('w, 'z) sminer_state_scheme, unit) M" where
  "set_facuet_whitelist orig acc = transactional (
     bindM (ensure_root orig) (\<lambda>_. modM (\<lambda>s. s\<lparr>FacuetWhitelist := Some acc\<rparr>)))"

section \<open>A state for the examples\<close>

definition sminer_example :: "ledger sminer_state" where
  "sminer_example = tee_state.extend tee_example
     (sminer_state.fields Map.empty 0 [] Map.empty Map.empty Map.empty None Map.empty Map.empty Map.empty (\<lambda>_. 0) 0 (\<lambda>_. [])
       (\<lambda>_. \<lparr>ci_miner_count = 0, ci_total_power = 0\<rparr>) (\<lambda>_. []) None)"

lemma sminer_example_sel [simp]:
  "world sminer_example = ledger_of []" "block_number sminer_example = 0" "MinerItems sminer_example = Map.empty"
  "AllMiner sminer_example = []" "RewardMap sminer_example = Map.empty" "MinerLock sminer_example = Map.empty"
  "RestoralTarget sminer_example = Map.empty" "StakingStartBlock sminer_example = Map.empty"
  "CompleteMinerSnapShot sminer_example = (\<lambda>_. [])" "PendingReplacements sminer_example = (\<lambda>_. 0)"
  by (simp_all add: sminer_example_def tee_example_def credit_example_def mq_state.defs credit_state.defs tee_state.defs sminer_state.defs)

end
