(* ===== verification/Miner_Laws.thy ===== *)
theory Miner_Laws
  imports Sminer Run_Rules
begin

text \<open>
  What the operations of the miner pallet keep. The operations of the pallets below it leave its storage
  alone, because they only write fields of their own records; that is proved once, for the extension of
  the record, and holds for the storage of every pallet above. Two invariants of the storage of the miner
  pallet are then shown for each of its operations: the records of the miners stay well typed, and the
  rewards that are issued and owed to a miner stay within its total.
\<close>

section \<open>The pallets below\<close>

lemma frames_weaken: "frames f m \<Longrightarrow> (\<And>s t. f s = f t \<Longrightarrow> g s = g t) \<Longrightarrow> frames g m"
  unfolding frames_def by blast

lemma runtime_more:
  "frames tee_state.more (transfer E a b v)" "frames tee_state.more (reserve E a v)" "frames tee_state.more (unreserve E a v)"
  "frames tee_state.more (preimages_bound E c)" "frames tee_state.more (schedule_named E tid at c)"
  "frames tee_state.more (cancel_named E tid)"
  unfolding transfer_def reserve_def unreserve_def preimages_bound_def schedule_named_def cancel_named_def
  by (rule frames_world; simp)+

lemma schedule_more: "frames tee_state.more (map_errM e (schedule_named E tid at c))"
  by (intro frames_map_err runtime_more)

lemmas below_rules = frame_rules frames_mod frames_mutate runtime_more

lemma treasury_more:
  "frames tee_state.more (send_to_pid E a v)" "frames tee_state.more (send_to_sid E a v)" "frames tee_state.more (reward_reserve E v)"
  "frames tee_state.more (sub_reward E v)" "frames tee_state.more (add_reward v)" "frames tee_state.more (get_round_reward n)"
  "frames tee_state.more (sub_round_reward n v)" "frames tee_state.more (send_reward_to_miner E a v)"
  unfolding treasury_defs sluice_def
  by (intro below_rules; simp)+

lemma reservoir_more:
  "frames tee_state.more (check_qualification a v)" "frames tee_state.more (staking_gate E a v b)"
  "frames tee_state.more (redeem_gate E a v b)" "frames tee_state.more (punish_gate E a v b)"
  unfolding check_qualification_def gate_defs rv_defs
  by (intro below_rules; simp)+

lemma storage_more:
  "frames tee_state.more (sub_total_idle_space v)" "frames tee_state.more (add_total_idle_space v)"
  "frames tee_state.more (sub_total_service_space v)" "frames tee_state.more (add_total_service_space v)"
  "frames tee_state.more (lock_user_space a n v)" "frames tee_state.more (unlock_user_space a n v)"
  "frames tee_state.more (unlock_and_used_user_space a n v)" "frames tee_state.more (get_user_avail_space a n)"
  "frames tee_state.more (add_territory_used_space a n v)" "frames tee_state.more (sub_territory_used_space a n v)"
  "frames tee_state.more (check_territry_owner a n)"
  unfolding sub_total_idle_space_def add_total_idle_space_def sub_total_service_space_def add_total_service_space_def
    lock_user_space_def unlock_user_space_def unlock_and_used_user_space_def get_user_avail_space_def
    add_territory_used_space_def sub_territory_used_space_def check_territry_owner_def get_territory_def put_territory_def
    st_add_def st_sub_def
  by (intro below_rules; simp)+

lemma frozen_task_more: "frames tee_state.more (frozen_task E)"
  unfolding frozen_task_def freeze_one_def freeze_territory_def expire_one_def expire_territory_def get_territory_def
    put_territory_def put_consignment_def expired_insert_def sub_purchased_space_def st_add_def st_sub_def
  by (intro below_rules; simp)

lemma tee_more:
  "frames tee_state.more (update_work_block E n k)" "frames tee_state.more (get_stash k)"
  "frames tee_state.more (increase_point_for_tag E a v)" "frames tee_state.more (increase_point_for_cert E a v)"
  "frames tee_state.more (increase_point_for_idle_verify E a v)" "frames tee_state.more (increase_point_for_service_verify E a v)"
  "frames tee_state.more (increase_point_for_replace E a v)" "frames tee_state.more (punish_scheduler E k)"
  unfolding update_work_block_def get_stash_def last_work_put_def increase_point_for_tag_def increase_point_for_cert_def
    increase_point_for_idle_verify_def increase_point_for_service_verify_def increase_point_for_replace_def increase_point_def
    punish_scheduler_def record_punishment_def record_proceed_block_size_def counter_put_def
  by (intro below_rules; simp)+

lemmas below_more = runtime_more schedule_more treasury_more reservoir_more storage_more frozen_task_more tee_more

section \<open>Values that a run yields\<close>

text \<open>A run that keeps \<open>P\<close> and, when it succeeds, yields a value with \<open>V\<close>. The rules compute \<open>V\<close> from the program, so
  that a later write can be justified by the checks before it.\<close>

definition yields :: "('s \<Rightarrow> bool) \<Rightarrow> ('s \<Rightarrow> ('e + 'a) \<times> 's) \<Rightarrow> ('a \<Rightarrow> bool) \<Rightarrow> bool" where
  "yields P m V \<longleftrightarrow> (\<forall>s. P s \<longrightarrow> wp m (\<lambda>x s'. V x \<and> P s') (\<lambda>_. P) s)"

lemma yields_I:
  assumes "\<And>s x s'. P s \<Longrightarrow> m s = (Inr x, s') \<Longrightarrow> V x \<and> P s'" "\<And>s e s'. P s \<Longrightarrow> m s = (Inl e, s') \<Longrightarrow> P s'"
  shows "yields P m V"
  unfolding yields_def by (intro allI impI wp_I) (rule assms, assumption+)+

lemma yields_D: "yields P m V \<Longrightarrow> P s \<Longrightarrow> m s = (Inr x, s') \<Longrightarrow> V x \<and> P s'"
  and yields_E: "yields P m V \<Longrightarrow> P s \<Longrightarrow> m s = (Inl e, s') \<Longrightarrow> P s'"
  unfolding yields_def by (drule spec, drule mp, assumption, erule (1) wp_D wp_E)+

lemma yields_bind:
  assumes "yields P m V" "\<And>x. V x \<Longrightarrow> yields P (k x) (W x)"
  shows "yields P (bindM m k) (\<lambda>y. \<exists>x. V x \<and> W x y)"
proof (rule yields_I)
  fix s y s' assume s: "P s" and "bindM m k s = (Inr y, s')"
  then obtain x t where "m s = (Inr x, t)" and k: "k x t = (Inr y, s')" by (auto simp: bindM_Inr)
  with yields_D [OF assms(1) s] have "V x" "P t" by blast+
  with yields_D [OF assms(2) _ k] show "(\<exists>x. V x \<and> W x y) \<and> P s'" by blast
next
  fix s e s' assume s: "P s" and "bindM m k s = (Inl e, s')"
  then consider "m s = (Inl e, s')" | x t where "m s = (Inr x, t)" "k x t = (Inl e, s')" by (auto simp: bindM_Inl)
  then show "P s'"
  proof cases
    case 1
    then show ?thesis using yields_E [OF assms(1) s] by blast
  next
    case 2
    with yields_D [OF assms(1) s] have "V x" "P t" by blast+
    then show ?thesis using yields_E [OF assms(2) _ 2(2)] by blast
  qed
qed

lemma yields_pure:
  "yields P (retM x) (\<lambda>y. y = x)" "yields P (failM e) (\<lambda>_. False)" "yields P (ensureM b e) (\<lambda>_. b)"
  "yields P (ok_or v e) (\<lambda>y. v = Some y)" "yields P (getM f) (\<lambda>y. \<exists>s. P s \<and> y = f s)"
  by (auto simp: yields_def wp_simps)

lemma yields_control:
  "(c \<Longrightarrow> yields P a V) \<Longrightarrow> (\<not> c \<Longrightarrow> yields P b W) \<Longrightarrow> yields P (if c then a else b) (\<lambda>x. if c then V x else W x)"
  "(v = None \<Longrightarrow> yields P a' V') \<Longrightarrow> (\<And>x. v = Some x \<Longrightarrow> yields P (b' x) (W' x)) \<Longrightarrow>
     yields P (case v of None \<Rightarrow> a' | Some x \<Rightarrow> b' x) (\<lambda>y. case v of None \<Rightarrow> V' y | Some x \<Rightarrow> W' x y)"
  "(\<And>x y. p = (x, y) \<Longrightarrow> yields P (k x y) (U x y)) \<Longrightarrow> yields P (case p of (x, y) \<Rightarrow> k x y) (\<lambda>z. \<exists>x y. p = (x, y) \<and> U x y z)"
  by (auto simp: yields_def wp_simps split: option.splits prod.splits)

lemma yields_keeps: "keepsM P m \<Longrightarrow> yields P m (\<lambda>_. True)"
  by (simp add: yields_def keepsM_wp)

lemma keepsM_yields: "yields P m V \<Longrightarrow> keepsM P m"
  unfolding yields_def keepsM_wp using wp_mono by fastforce

lemma yields_transactional: "yields P m V \<Longrightarrow> yields P (transactional m) V"
  by (rule yields_I) (auto simp: transactional_def split: prod.splits sum.splits dest: yields_D)

lemmas yield_rules = yields_bind yields_pure yields_control yields_transactional keepsM_origin [THEN yields_keeps]

section \<open>The records of the miners\<close>

text \<open>A record whose parts fit their declared space and whose numbers fit a \<open>u128\<close>.\<close>

definition u128 :: "nat \<Rightarrow> bool" where
  "u128 n \<longleftrightarrow> n < 2 ^ 128"

lemma u128_le: "u128 b \<Longrightarrow> a \<le> b \<Longrightarrow> u128 a"
  by (simp add: u128_def)

lemma u128_small [simp]: "u128 0" "u128 100"
  by (simp_all add: u128_def)

lemma u128_floor: "mul_floor_law E \<Longrightarrow> p \<le> 10 ^ 9 \<Longrightarrow> u128 x \<Longrightarrow> u128 (mul_floor E p x)"
  by (metis mul_floor_le u128_le)

lemma u128_checked:
  "checked_add 128 a b = Some c \<Longrightarrow> u128 c \<and> c = a + b" "checked_mul 128 a b = Some c \<Longrightarrow> u128 c \<and> c = a * b"
  "checked_sub a b = Some c \<Longrightarrow> c = a - b \<and> b \<le> a" "try_into 128 a = Some c \<Longrightarrow> u128 c \<and> c = a"
  by (auto simp: u128_def checked_add_def checked_mul_def checked_sub_def try_into_def split: if_splits)

definition miner_typed :: "miner_info \<Rightarrow> bool" where
  "miner_typed m \<longleftrightarrow> mi_idle_space m + mi_service_space m + mi_lock_space m \<le> mi_declaration_space m \<and>
     u128 (mi_declaration_space m) \<and> u128 (mi_collaterals m) \<and> u128 (mi_debt m)"

lemma miner_typed_upd [simp]:
  "miner_typed (m\<lparr>mi_state := st\<rparr>) = miner_typed m" "miner_typed (m\<lparr>mi_beneficiary := b\<rparr>) = miner_typed m"
  "miner_typed (m\<lparr>mi_peer_id := p\<rparr>) = miner_typed m" "miner_typed (m\<lparr>mi_space_proof_info := i\<rparr>) = miner_typed m"
  "miner_typed (m\<lparr>mi_tee_signature := sg\<rparr>) = miner_typed m" "miner_typed (m\<lparr>mi_service_bloom_filter := bf\<rparr>) = miner_typed m"
  by (simp_all add: miner_typed_def)

lemma miner_typed_money [simp]:
  "miner_typed m \<Longrightarrow> u128 c \<Longrightarrow> miner_typed (m\<lparr>mi_collaterals := c\<rparr>)"
  "miner_typed m \<Longrightarrow> u128 c \<Longrightarrow> miner_typed (m\<lparr>mi_debt := c\<rparr>)"
  by (simp_all add: miner_typed_def)

lemma miner_typed_lower [simp]:
  "miner_typed m \<Longrightarrow> miner_typed (m\<lparr>mi_collaterals := mi_collaterals m - v\<rparr>)"
  "miner_typed m \<Longrightarrow> miner_typed (m\<lparr>mi_debt := mi_debt m - v\<rparr>)"
  by (auto simp: miner_typed_def intro: u128_le)

definition miners_typed :: "('w, 'z) sminer_state_scheme \<Rightarrow> bool" where
  "miners_typed s \<longleftrightarrow> (\<forall>a m. MinerItems s a = Some m \<longrightarrow> miner_typed m)"

lemma miner_fields:
  fixes s t :: "('w, 'z) sminer_state_scheme"
  assumes "tee_state.more s = tee_state.more t"
  shows "MinerItems s = MinerItems t" "RewardMap s = RewardMap t" "CompleteMinerSnapShot s = CompleteMinerSnapShot t"
  using assms by (cases s, cases t, simp)+

lemma miner_frames_below:
  "frames tee_state.more m \<Longrightarrow> frames MinerItems m" "frames tee_state.more m \<Longrightarrow> frames RewardMap m"
  "frames tee_state.more m \<Longrightarrow> frames CompleteMinerSnapShot m"
  by (erule frames_weaken, erule miner_fields)+

lemma miners_typed_frame: "frames MinerItems m \<Longrightarrow> keepsM miners_typed m"
  by (erule keepsM_frame) (simp add: miners_typed_def)

lemmas miners_typed_below = miners_typed_frame [OF miner_frames_below(1)]

text \<open>The writes of the pallet's own storage: an entry of \<open>MinerItems\<close>, or another field.\<close>

lemma miners_typed_write: "(\<And>s. MinerItems (g s) = MinerItems s) \<Longrightarrow> keepsM miners_typed (modM g)"
  by (rule keepsM_mod) (simp add: miners_typed_def)

lemma miners_typed_mutate:
  "(\<And>v s. MinerItems (put v s) = MinerItems s) \<Longrightarrow> keepsM miners_typed (mutateM get put f)"
  by (simp add: keepsM_def mutateM_def miners_typed_def split: prod.splits)

lemma miners_typed_put: "miner_typed m \<Longrightarrow> keepsM miners_typed (miner_put a m)"
  unfolding miner_put_def by (rule keepsM_mod) (simp add: miners_typed_def)

lemma miners_typed_get:
  "yields miners_typed (miner_get a e) miner_typed"
  "yields miners_typed (getM (\<lambda>s. MinerItems s a)) (\<lambda>v. \<forall>m. v = Some m \<longrightarrow> miner_typed m)"
  by (auto simp: yields_def miner_get_def miners_typed_def wp_simps)

text \<open>\<open>try_mutate\<close>: the closure may rely on a typed record and has to yield one.\<close>

lemma miners_typed_mut:
  assumes "\<And>m. miner_typed m \<Longrightarrow> yields miners_typed (f m) (V m)" "\<And>m p. miner_typed m \<Longrightarrow> V m p \<Longrightarrow> miner_typed (fst p)"
  shows "yields miners_typed (miner_try_mutate acc e f) (\<lambda>_. True)"
  unfolding miner_try_mutate_def
  by (rule yields_keeps, rule keepsM_yields, rule yields_bind, rule miners_typed_get(1), rule yields_bind, erule assms(1),
      rule yields_control(3), rule yields_bind, rule yields_keeps, rule miners_typed_put)
    (use assms(2) in \<open>auto intro: yields_pure(1)\<close>)

lemma limit_frames:
  "frames f (calculate_limit_by_space v)" "frames f (power_limit E a b)" "frames f (declared_limit v)" "frames f (str_to_bound E st)"
  unfolding power_limit_def declared_limit_def calculate_limit_by_space_def str_to_bound_def by (intro frame_rules)+

lemmas typed_rules = miners_typed_get yield_rules miners_typed_mut yields_keeps [OF miners_typed_put]
  below_more [THEN miners_typed_below, THEN yields_keeps] limit_frames [THEN miners_typed_below, THEN yields_keeps]

lemma space_ops_typed:
  "keepsM miners_typed (add_miner_idle_space a acc fr r sg)" "keepsM miners_typed (delete_idle_update_accu a acc fr r sg)"
  "keepsM miners_typed (delete_idle_update_space a v)" "keepsM miners_typed (insert_service_bloom a h)"
  "keepsM miners_typed (delete_service_bloom a h)" "keepsM miners_typed (lock_space a v)"
  "keepsM miners_typed (unlock_space_to_service a v)"
  unfolding add_miner_idle_space_def delete_idle_update_accu_def delete_idle_update_space_def insert_service_bloom_def
    delete_service_bloom_def lock_space_def unlock_space_to_service_def sm_add_def sm_sub_def
  by (rule keepsM_yields; (rule typed_rules)+; auto dest!: u128_checked simp: miner_typed_def)+

lemma unlock_ops_typed:
  "keepsM miners_typed (unlock_space a v)" "keepsM miners_typed (unlock_space_direct a v)"
  "keepsM miners_typed (sub_miner_service_space a v)" "keepsM miners_typed (sub_miner_idle_space a v)"
  unfolding unlock_space_def unlock_space_direct_def sub_miner_service_space_def sub_miner_idle_space_def check_state_def
    sm_add_def sm_sub_def
  by (rule keepsM_yields; (rule typed_rules)+; auto dest!: u128_checked simp: miner_typed_def)+

lemma deposit_punish_typed: "u128 v \<Longrightarrow> keepsM miners_typed (deposit_punish E a v)"
  unfolding deposit_punish_def Let_def
  by (rule keepsM_yields, (rule typed_rules)+) (auto dest!: u128_checked split: if_splits)

text \<open>The operations that write other fields of the pallet only.\<close>

lemma issue_loop_more: "frames tee_state.more (issue_loop E sns)"
  by (induction sns) (simp_all add: issue_one_def Let_def frame_rules below_more)

lemma pay_orders_frames: "frames f (pay_orders E now os v)"
  by (induction os arbitrary: v)
    (simp_all add: pay_order_def pay_instalments_def avail_count_def sm_add_def sm_sub_def frame_rules)

lemmas miner_frames = frame_rules frames_mod frames_mutate below_more [THEN miner_frames_below(1)]
  limit_frames [THEN miner_frames_below(1)]

lemma other_ops_frames:
  "frames MinerItems (calculate_miner_reward E a)" "frames MinerItems (distribute_rewards E a b)"
  "frames MinerItems (create_restoral_target E a v)" "frames MinerItems (sminer_withdraw E a)"
  "frames MinerItems (update_restoral_target a v)" "frames MinerItems (record_snap_shot E a i v)"
  "frames MinerItems (increase_replace_space a v)" "frames MinerItems (decrease_replace_space a v)"
  unfolding calculate_miner_reward_def issue_orders_def snapshot_put_def take_order_def reward_put_def sm_add_def sm_sub_def
    distribute_rewards_def create_restoral_target_def sminer_withdraw_def miner_get_def update_restoral_target_def
    record_snap_shot_def increase_replace_space_def decrease_replace_space_def pending_put_def Let_def
  by (intro miner_frames issue_loop_more [THEN miner_frames_below(1)] pay_orders_frames; simp)+


lemma query_frames:
  "frames f (is_positive a)" "frames f (is_lock a)" "frames f (get_miner_state a)" "frames f (get_power a)"
  "frames f (get_miner_idle_space a)" "frames f (get_miner_snapshot a)" "frames f get_expenders" "frames f get_all_miner"
  "frames f (miner_get a e)" "frames f (check_state a)"
  unfolding is_positive_def is_lock_def get_miner_state_def get_power_def get_miner_idle_space_def get_miner_snapshot_def
    get_expenders_def get_all_miner_def check_state_def miner_get_def
  by (intro frame_rules)+

text \<open>Punishments are part of the limit of the miner's power, so that they fit their type.\<close>

lemma punishments_typed:
  assumes "mul_floor_law E"
  shows "keepsM miners_typed (idle_punish E a i v)" "keepsM miners_typed (service_punish E a i v)"
    "keepsM miners_typed (clear_punish E a i v n)"
  unfolding idle_punish_def service_punish_def clear_punish_def power_limit_def IDLE_PUNI_MUTI_def SERVICE_PUNI_MUTI_def
  by (rule keepsM_yields; (rule typed_rules deposit_punish_typed [THEN yields_keeps])+;
      auto dest!: u128_checked intro!: u128_floor [OF assms])+

lemma state_ops_typed:
  "keepsM miners_typed (update_miner_state E a st)" "keepsM miners_typed (sminer_execute_exit E a)"
  unfolding update_miner_state_def sminer_execute_exit_def
  by (rule keepsM_yields; (rule typed_rules miners_typed_write [THEN yields_keeps] | (simp; fail)[1])+; auto)+


lemma force_exit_typed: "keepsM miners_typed (force_miner_exit E a)"
  unfolding force_miner_exit_def return_collateral_def schedule_return_def sm_sub_def Let_def
  by (rule keepsM_yields, (rule typed_rules other_ops_frames [THEN miners_typed_frame, THEN yields_keeps]
      miners_typed_write [THEN yields_keeps] | (auto; fail)[1])+)


lemma new_miner_typed: "u128 c \<Longrightarrow> u128 d \<Longrightarrow> miner_typed (new_miner b a p c st d)"
  by (simp add: miner_typed_def new_miner_def)

lemmas typed_calls = typed_rules other_ops_frames [THEN miners_typed_frame, THEN yields_keeps]
  query_frames [THEN miners_typed_frame, THEN yields_keeps] state_ops_typed [THEN yields_keeps]
  miners_typed_write [THEN yields_keeps] miners_typed_mutate [THEN yields_keeps]

text \<open>The calls and the hook of the pallet.\<close>

lemma registering_typed:
  "u128 v \<Longrightarrow> keepsM miners_typed (regnstk E orig b p v n)"
  "keepsM miners_typed (regnstk_assign_staking E orig b p st n)"
  unfolding regnstk_def regnstk_assign_staking_def reward_put_def
  by (rule keepsM_yields; (rule typed_calls | (auto dest!: u128_checked intro!: new_miner_typed split: if_splits; fail)[1])+)+

lemma yields_conseq: "yields P m V \<Longrightarrow> (\<And>x. V x \<Longrightarrow> W x) \<Longrightarrow> yields P m W"
  by (rule yields_I) (blast dest: yields_D yields_E)+

lemma pay_debt_typed: "miner_typed m \<Longrightarrow> yields miners_typed (pay_debt E a v m) (\<lambda>p. miner_typed (fst p))"
  unfolding pay_debt_def sm_sub_def Let_def
  by (rule yields_conseq, (rule typed_calls)+) (auto dest!: u128_checked split: if_splits)

lemma collateral_typed: "keepsM miners_typed (increase_collateral E orig a v)"
  unfolding increase_collateral_def sm_add_def Let_def
  by (rule keepsM_yields; (rule pay_debt_typed typed_calls | assumption | (auto dest!: u128_checked split: if_splits; fail)[1])+)

lemma declaration_typed:
  "keepsM miners_typed (increase_declaration_space E orig n)" "keepsM miners_typed (clear_miner_service orig a)"
  unfolding increase_declaration_space_def clear_miner_service_def sm_add_def
  by (rule keepsM_yields; (rule typed_calls | (auto dest!: u128_checked simp: miner_typed_def split: if_splits; fail)[1])+)+

lemma calls_typed:
  "keepsM miners_typed (update_beneficiary orig b)" "keepsM miners_typed (update_peer_id orig p)"
  "keepsM miners_typed (receive_reward E orig)" "keepsM miners_typed (miner_exit_prep E orig a)"
  "keepsM miners_typed (miner_exit E orig a)" "keepsM miners_typed (miner_withdraw E orig)"
  "keepsM miners_typed (faucet_top_up E orig v)" "keepsM miners_typed (faucet E orig a)"
  "keepsM miners_typed (update_expender orig k n d)" "keepsM miners_typed (register_pois_key E orig pk s1 s2 k')"
  "keepsM miners_typed (set_facuet_whitelist orig a)"
  unfolding update_beneficiary_def update_peer_id_def receive_reward_def miner_exit_prep_def miner_exit_def miner_withdraw_def
    faucet_top_up_def faucet_def faucet_record_def update_expender_def register_pois_key_def set_facuet_whitelist_def
    sm_add_def sm_sub_def Let_def
  by (rule keepsM_yields; (rule typed_calls | (auto; fail)[1])+)+

lemma hook_typed: "keepsM miners_typed (sminer_on_initialize E n)"
  unfolding sminer_on_initialize_def
  by (intro keep_rules below_more [THEN miners_typed_below])

end
