(* ===== verification/Reward_Laws.thy ===== *)
theory Reward_Laws
  imports Miner_Laws
begin

text \<open>
  The rewards of a miner. An order owes its instalments that are still to come and, until it is paid, the
  half that is paid at once; what a miner was issued and what its orders owe never exceed its total. The
  invariant is shown for the issue of new orders, the payment of the due parts and the forced exit.
\<close>

section \<open>What an order owes\<close>

definition owed :: "'w Config \<Rightarrow> reward_order \<Rightarrow> nat" where
  "owed E ord = ro_each_amount ord * (ro_max_count ord - ro_receive_count ord) +
     (if ro_atonce ord then 0 else mul_floor E AOIR_PERCENT (ro_order_reward ord))"

definition order_ok :: "reward_order \<Rightarrow> bool" where
  "order_ok ord \<longleftrightarrow> ro_receive_count ord \<le> ro_max_count ord \<and> ro_max_count ord = RELEASE_NUMBER"

definition reward_ok :: "'w Config \<Rightarrow> miner_reward \<Rightarrow> bool" where
  "reward_ok E rw \<longleftrightarrow> u128 (rw_total_reward rw) \<and> length (rw_order_list rw) \<le> RELEASE_NUMBER \<and> list_all order_ok (rw_order_list rw) \<and>
     rw_reward_issued rw + (\<Sum>ord\<leftarrow>rw_order_list rw. owed E ord) \<le> rw_total_reward rw"

definition rewards_ok :: "'w Config \<Rightarrow> ('w, 'z) sminer_state_scheme \<Rightarrow> bool" where
  "rewards_ok E s \<longleftrightarrow> (\<forall>a rw. RewardMap s a = Some rw \<longrightarrow> reward_ok E rw)"

section \<open>Paying\<close>

lemma yields_any: "frames (\<lambda>s. s) m \<Longrightarrow> yields (\<lambda>_. True) m V \<Longrightarrow> yields P m V"
  by (rule yields_I) (auto dest: framesD yields_D)

lemma avail_count_bound: "order_ok ord \<Longrightarrow> yields P (avail_count ord n) (\<lambda>k. ro_receive_count ord + k \<le> ro_max_count ord)"
  unfolding avail_count_def
  by (rule yields_conseq, (rule yield_rules)+)
    (auto simp: order_ok_def RELEASE_NUMBER_def saturating_add_def saturated_into_def dest!: u128_checked split: if_splits)

lemma owed_instalments:
  assumes "ro_receive_count ord + n \<le> ro_max_count ord"
  shows "ro_each_amount ord * n + owed E (ord\<lparr>ro_receive_count := ro_receive_count ord + n, ro_last_receive_block := b\<rparr>) = owed E ord"
proof -
  obtain k where "ro_max_count ord = ro_receive_count ord + n + k" using assms le_Suc_ex by blast
  then show ?thesis by (simp add: owed_def algebra_simps)
qed

lemma pay_instalments_exact:
  assumes "order_ok ord"
  shows "yields P (pay_instalments E now ord v)
    (\<lambda>p. order_ok (fst p) \<and> ro_atonce (fst p) = ro_atonce ord \<and> ro_order_reward (fst p) = ro_order_reward ord \<and>
       snd p + owed E (fst p) = v + owed E ord)"
  unfolding pay_instalments_def sm_add_def sm_sub_def
  by (rule yields_conseq, (rule avail_count_bound [OF assms] yield_rules)+)
    (use assms owed_instalments [of ord _ E] in \<open>auto simp: order_ok_def dest!: checked_add_Some [THEN iffD1] u128_checked split: if_splits\<close>)

lemma pay_order_exact:
  assumes "order_ok ord"
  shows "yields P (pay_order E now ord v) (\<lambda>p. order_ok (fst p) \<and> snd p + owed E (fst p) = v + owed E ord)"
  unfolding pay_order_def sm_add_def
  by (rule yields_conseq, (rule pay_instalments_exact [OF assms] yield_rules)+)
    (auto simp: order_ok_def owed_def dest!: checked_add_Some [THEN iffD1] split: if_splits)

lemma pay_orders_exact:
  "list_all order_ok os \<Longrightarrow> yields P (pay_orders E now os v)
    (\<lambda>p. list_all order_ok (fst p) \<and> length (fst p) = length os \<and>
       snd p + (\<Sum>ord\<leftarrow>fst p. owed E ord) = v + (\<Sum>ord\<leftarrow>os. owed E ord))"
proof (induction os arbitrary: v)
  case (Cons ord os)
  show ?case unfolding pay_orders.simps
    by (rule yields_conseq, (rule pay_order_exact Cons.IH yield_rules | (use Cons.prems in simp; fail)[1])+) auto
qed (auto intro: yields_conseq [OF yields_pure(1)])

lemma sum_filter_le: "(\<Sum>x\<leftarrow>filter p xs. f x) \<le> (\<Sum>x\<leftarrow>xs. f x)" for f :: "'a \<Rightarrow> nat"
  by (induction xs) auto


section \<open>The invariant in the operations\<close>

lemma rewards_ok_frame: "frames RewardMap m \<Longrightarrow> keepsM (rewards_ok E) m"
  by (erule keepsM_frame) (simp add: rewards_ok_def)

lemma rewards_ok_get: "yields (rewards_ok E) (getM (\<lambda>s. RewardMap s a)) (\<lambda>v. \<forall>rw. v = Some rw \<longrightarrow> reward_ok E rw)"
  by (auto simp: yields_def rewards_ok_def wp_simps)

lemma rewards_ok_put: "reward_ok E rw \<Longrightarrow> keepsM (rewards_ok E) (reward_put a rw)"
  unfolding reward_put_def by (rule keepsM_mod) (simp add: rewards_ok_def)

lemma rewards_ok_drop: "keepsM (rewards_ok E) (modM (\<lambda>s. s\<lparr>CompleteMinerSnapShot := f s, RewardMap := (RewardMap s)(a := None),
    PendingReplacements := g s\<rparr>))"
  by (rule keepsM_mod) (auto simp: rewards_ok_def)

lemma rewards_ok_write: "(\<And>s. RewardMap (g s) = RewardMap s) \<Longrightarrow> yields (rewards_ok E) (modM g) (\<lambda>_. True)"
  by (intro yields_keeps rewards_ok_frame frames_mod)

lemmas reward_rules = rewards_ok_get yield_rules rewards_ok_put [THEN yields_keeps] rewards_ok_drop [THEN yields_keeps]
  below_more [THEN miner_frames_below(2), THEN rewards_ok_frame, THEN yields_keeps]
  limit_frames [THEN rewards_ok_frame, THEN yields_keeps] query_frames [THEN rewards_ok_frame, THEN yields_keeps]

lemma distribute_ok: "keepsM (rewards_ok E) (distribute_rewards E a b)"
proof -
  have paid: "reward_ok E (rw\<lparr>rw_order_list := filter p os, rw_reward_issued := rw_reward_issued rw + v\<rparr>)"
    if "reward_ok E rw" "list_all order_ok os" "length os = length (rw_order_list rw)"
      "v + (\<Sum>ord\<leftarrow>os. owed E ord) = (\<Sum>ord\<leftarrow>rw_order_list rw. owed E ord)" for rw os p v
    using that sum_filter_le [of "owed E" p os] length_filter_le [of p os] by (auto simp: reward_ok_def list_all_iff)
  have orders: "reward_ok E rw \<Longrightarrow> list_all order_ok (rw_order_list rw)" for rw by (simp add: reward_ok_def)
  show ?thesis unfolding distribute_rewards_def sm_add_def
    by (rule keepsM_yields, (rule pay_orders_exact reward_rules | (auto dest!: u128_checked intro!: paid orders; fail)[1])+)
qed

text \<open>A new order owes at most its reward: half at once, half in instalments.\<close>

definition order_fresh :: "'w Config \<Rightarrow> reward_order \<Rightarrow> bool" where
  "order_fresh E ord \<longleftrightarrow> order_ok ord \<and> owed E ord \<le> ro_order_reward ord"

lemma halves: assumes "mul_floor_law E" shows "mul_floor E AOIR_PERCENT x div 90 * 90 + mul_floor E AOIR_PERCENT x \<le> x"
proof -
  have "mul_floor E AOIR_PERCENT x = 500000000 * x div 10 ^ 9" using assms by (simp add: mul_floor_law_def AOIR_PERCENT_def)
  moreover have "500000000 * x div 10 ^ 9 = x div 2" using div_mult_mult1 [of 500000000 x "2 :: nat"] by simp
  ultimately show ?thesis by (simp add: div_times_less_eq_dividend [THEN add_le_mono1, THEN order_trans])
qed

lemma issue_one_fresh:
  assumes "mul_floor_law E"
  shows "yields (rewards_ok E) (issue_one E sn) (\<lambda>v. \<forall>ord. v = Some ord \<longrightarrow> order_fresh E ord)"
  unfolding issue_one_def Let_def
  by (rule yields_conseq, (rule reward_rules)+)
    (auto simp: order_fresh_def order_ok_def owed_def checked_div_def RELEASE_NUMBER_def halves [OF assms] split: if_splits)


lemma yields_attempt: "yields P m V \<Longrightarrow> yields P (attemptM m) (\<lambda>r. \<forall>x. r = Inr x \<longrightarrow> V x)"
  by (rule yields_I; clarsimp simp: attemptM_def split: prod.splits) (metis sum.exhaust yields_D yields_E)

lemma yields_sum:
  "(\<And>x. r = Inl x \<Longrightarrow> yields P (a x) (V x)) \<Longrightarrow> (\<And>y. r = Inr y \<Longrightarrow> yields P (b y) (W y)) \<Longrightarrow>
     yields P (case r of Inl x \<Rightarrow> a x | Inr y \<Rightarrow> b y) (\<lambda>z. (\<exists>x. r = Inl x \<and> V x z) \<or> (\<exists>y. r = Inr y \<and> W y z))"
  by (simp split: sum.splits)

lemma yields_foldM:
  "(\<And>x a. x \<in> set xs \<Longrightarrow> V a \<Longrightarrow> yields P (f x a) V) \<Longrightarrow> V a \<Longrightarrow> yields P (foldM f xs a) V"
proof (induction xs arbitrary: a)
  case Nil
  then show ?case by (auto intro: yields_conseq [OF yields_pure(1)])
next
  case (Cons x xs)
  have "yields P (foldM f xs a') V" if "V a'" for a' by (rule Cons.IH) (use Cons.prems that in auto)
  then have "yields P (bindM (f x a) (\<lambda>a'. foldM f xs a')) (\<lambda>y. \<exists>a'. V a' \<and> V y)"
    by (intro yields_bind Cons.prems(1)) (simp_all add: Cons.prems(2))
  then show ?case by (auto intro: yields_conseq)
qed

lemma issue_loop_fresh:
  assumes "mul_floor_law E"
  shows "yields (rewards_ok E) (issue_loop E sns) (\<lambda>p. \<forall>os. snd p = Inr os \<longrightarrow> list_all (order_fresh E) os)"
proof (induction sns)
  case (Cons sn sns)
  show ?case unfolding issue_loop.simps
    by (rule yields_conseq, (rule yields_attempt issue_one_fresh [OF assms] Cons.IH yields_sum reward_rules)+)
      (auto split: option.split_asm sum.split_asm, metis list.pred_inject(2) obj_sumE)
qed (auto intro: yields_conseq [OF yields_pure(1)])

lemma issue_orders_fresh:
  assumes "mul_floor_law E"
  shows "yields (rewards_ok E) (issue_orders E a) (list_all (order_fresh E))"
  unfolding issue_orders_def snapshot_put_def
  by (rule yields_conseq, (rule issue_loop_fresh [OF assms] yields_sum reward_rules rewards_ok_write | (simp; fail)[1] | (auto; fail)[1])+)

lemma take_order_ok:
  assumes "order_fresh E ord" "reward_ok E (fst p)"
  shows "yields (rewards_ok E) (take_order E flag ord p) (\<lambda>p. reward_ok E (fst p))"
  unfolding take_order_def sm_add_def
  by (rule yields_conseq, (rule reward_rules)+)
    (use assms in \<open>auto simp: reward_ok_def order_fresh_def try_push_def dest!: u128_checked split: if_splits\<close>)

lemma calculate_ok:
  assumes "mul_floor_law E"
  shows "keepsM (rewards_ok E) (calculate_miner_reward E a)"
  unfolding calculate_miner_reward_def
  by (rule keepsM_yields, (rule issue_orders_fresh [OF assms] yields_foldM [where V = "\<lambda>p. reward_ok E (fst p)"] take_order_ok reward_rules
      | (auto simp: list_all_iff; fail)[1])+)


text \<open>The forced exit: the rewards that are left are what the invariant says is left, so that the subtraction succeeds.\<close>

lemma residue_defined: "reward_ok E rw \<Longrightarrow> rw_reward_issued rw \<le> rw_total_reward rw"
  by (simp add: reward_ok_def)

lemmas reward_calls = reward_rules rewards_ok_write calculate_ok [THEN yields_keeps] distribute_ok [THEN yields_keeps]

lemmas miner_writes = miner_try_mutate_def miner_put_def miner_get_def

lemma exit_frames:
  "frames RewardMap (create_restoral_target E a v)" "frames RewardMap (sminer_withdraw E a)"
  "frames RewardMap (sminer_execute_exit E a)" "frames RewardMap (update_miner_state E a st)"
  "frames RewardMap (deposit_punish E a v)" "frames RewardMap (update_restoral_target a v)"
  "frames RewardMap (record_snap_shot E a i v)" "frames RewardMap (increase_replace_space a v)"
  "frames RewardMap (decrease_replace_space a v)"
  unfolding create_restoral_target_def sminer_withdraw_def sminer_execute_exit_def update_miner_state_def deposit_punish_def
    update_restoral_target_def record_snap_shot_def snapshot_put_def increase_replace_space_def decrease_replace_space_def
    pending_put_def miner_writes sm_add_def sm_sub_def Let_def
  by (intro frame_rules frames_mod frames_mutate below_more [THEN miner_frames_below(2)] limit_frames; simp)+

lemma space_frames:
  "frames RewardMap (add_miner_idle_space a acc fr r sg)" "frames RewardMap (delete_idle_update_accu a acc fr r sg)"
  "frames RewardMap (delete_idle_update_space a v)" "frames RewardMap (insert_service_bloom a h)"
  "frames RewardMap (delete_service_bloom a h)" "frames RewardMap (lock_space a v)"
  "frames RewardMap (unlock_space_to_service a v)" "frames RewardMap (unlock_space a v)"
  "frames RewardMap (unlock_space_direct a v)" "frames RewardMap (sub_miner_service_space a v)"
  "frames RewardMap (add_miner_service_space a v)"
  unfolding add_miner_idle_space_def delete_idle_update_accu_def delete_idle_update_space_def insert_service_bloom_def
    delete_service_bloom_def lock_space_def unlock_space_to_service_def unlock_space_def unlock_space_direct_def
    sub_miner_service_space_def add_miner_service_space_def check_state_def miner_writes sm_add_def sm_sub_def
  by (intro frame_rules frames_mod; simp)+

lemma penalty_frames:
  "frames RewardMap (idle_punish E a i v)" "frames RewardMap (service_punish E a i v)" "frames RewardMap (clear_punish E a i v n)"
  unfolding idle_punish_def service_punish_def clear_punish_def by (intro frame_rules limit_frames exit_frames)+

lemma force_exit_ok:
  assumes "mul_floor_law E"
  shows "keepsM (rewards_ok E) (force_miner_exit E a)"
  unfolding force_miner_exit_def return_collateral_def schedule_return_def miner_writes sm_sub_def Let_def
  by (rule keepsM_yields, (rule reward_calls exit_frames [THEN rewards_ok_frame, THEN yields_keeps] assms | (simp; fail)[1])+)

lemma new_reward_ok [simp]: "reward_ok E new_reward"
  by (simp add: reward_ok_def new_reward_def)

lemma registering_ok:
  "keepsM (rewards_ok E) (regnstk E orig b p v n)" "keepsM (rewards_ok E) (regnstk_assign_staking E orig b p st n)"
  unfolding regnstk_def regnstk_assign_staking_def miner_writes
  by (rule keepsM_yields; (rule reward_calls | (simp; fail)[1])+)+

lemma receive_ok: "mul_floor_law E \<Longrightarrow> keepsM (rewards_ok E) (receive_reward E orig)"
  unfolding receive_reward_def by (rule keepsM_yields; (rule reward_calls | (simp; fail)[1])+)

lemma calls_frames:
  "frames RewardMap (increase_collateral E orig a v)" "frames RewardMap (increase_declaration_space E orig n)"
  "frames RewardMap (clear_miner_service orig a)" "frames RewardMap (update_beneficiary orig b)"
  "frames RewardMap (update_peer_id orig p)" "frames RewardMap (miner_exit_prep E orig a)"
  "frames RewardMap (miner_exit E orig a)" "frames RewardMap (miner_withdraw E orig)"
  "frames RewardMap (faucet_top_up E orig v)" "frames RewardMap (faucet E orig a)"
  "frames RewardMap (update_expender orig k n d)" "frames RewardMap (register_pois_key E orig pk s1 s2 k')"
  "frames RewardMap (set_facuet_whitelist orig a)" "frames RewardMap (sminer_on_initialize E n)"
  unfolding increase_collateral_def pay_debt_def increase_declaration_space_def clear_miner_service_def update_beneficiary_def
    update_peer_id_def miner_exit_prep_def miner_exit_def miner_withdraw_def faucet_top_up_def faucet_def faucet_record_def
    update_expender_def register_pois_key_def set_facuet_whitelist_def sminer_on_initialize_def miner_writes sm_add_def sm_sub_def Let_def
  by (intro frame_rules frames_mod exit_frames below_more [THEN miner_frames_below(2)] limit_frames; simp)+

end
