(* ===== verification/Oss.thy ===== *)
theory Oss
  imports Sminer
begin

text \<open>
  \<open>pallets/oss\<close>: gateways (object storage services) and the authorizations by which an account lets a
  gateway act for it. The authorizations of an account are a bounded list; a signed payload authorizes a
  gateway without a transaction of the owner. The last section gives the abstract contract, a set of
  authorizations per owner, and shows that the pallet implements it.
\<close>

section \<open>Storage and operations\<close>

record oss_info =
  os_peer_id :: string
  os_domain :: string

record proxy_auth_payload =
  pa_oss :: account
  pa_exp :: nat

record 'w oss_state = "'w sminer_state" +
  AuthorityList :: "account \<Rightarrow> account list option"
  OssMap :: "account \<Rightarrow> oss_info option"

definition authority_of :: "account \<Rightarrow> ('w, 'z) oss_state_scheme \<Rightarrow> account list" where
  "authority_of a s = (case AuthorityList s a of None \<Rightarrow> [] | Some l \<Rightarrow> l)"

definition authority_put :: "account \<Rightarrow> account list \<Rightarrow> (('w, 'z) oss_state_scheme, unit) M" where
  "authority_put a l = modM (\<lambda>s. s\<lparr>AuthorityList := (AuthorityList s)(a \<mapsto> l)\<rparr>)"

definition oss_put :: "account \<Rightarrow> oss_info option \<Rightarrow> (('w, 'z) oss_state_scheme, unit) M" where
  "oss_put a i = modM (\<lambda>s. s\<lparr>OssMap := (OssMap s)(a := i)\<rparr>)"

definition authorize :: "'w Config \<Rightarrow> origin \<Rightarrow> account \<Rightarrow> (('w, 'z) oss_state_scheme, unit) M" where
  "authorize E orig operator = transactional (
     bindM (ensure_signed orig) (\<lambda>sender.
     bindM (getM (authority_of sender)) (\<lambda>authority_list.
     bindM (if operator \<notin> set authority_list
            then ok_or (try_push (AuthorLimit E) authority_list operator) (OssE oss_error.BoundedVecError)
            else retM authority_list) (\<lambda>l.
     authority_put sender l))))"

definition cancel_authorize :: "origin \<Rightarrow> account \<Rightarrow> (('w, 'z) oss_state_scheme, unit) M" where
  "cancel_authorize orig oss = transactional (
     bindM (ensure_signed orig) (\<lambda>sender.
     bindM (getM (\<lambda>s. AuthorityList s sender \<noteq> None)) (\<lambda>known.
     bindM (ensureM known (OssE oss_error.NoAuthorization)) (\<lambda>_.
     bindM (getM (authority_of sender)) (\<lambda>authority_list.
     authority_put sender (filter (\<lambda>authority. authority \<noteq> oss) authority_list))))))"

definition oss_register :: "origin \<Rightarrow> string \<Rightarrow> string \<Rightarrow> (('w, 'z) oss_state_scheme, unit) M" where
  "oss_register orig endpoint domain = transactional (
     bindM (ensure_signed orig) (\<lambda>sender.
     bindM (getM (\<lambda>s. OssMap s sender = None)) (\<lambda>fresh.
     bindM (ensureM fresh (OssE oss_error.Registered)) (\<lambda>_.
     oss_put sender (Some \<lparr>os_peer_id = endpoint, os_domain = domain\<rparr>)))))"

definition oss_update :: "origin \<Rightarrow> string \<Rightarrow> string \<Rightarrow> (('w, 'z) oss_state_scheme, unit) M" where
  "oss_update orig endpoint domain = transactional (
     bindM (ensure_signed orig) (\<lambda>sender.
     bindM (getM (\<lambda>s. OssMap s sender \<noteq> None)) (\<lambda>known.
     bindM (ensureM known (OssE oss_error.UnRegister)) (\<lambda>_.
     bindM (getM (\<lambda>s. OssMap s sender)) (\<lambda>i.
     bindM (ok_or i (OssE oss_error.OptionParseError)) (\<lambda>info.
     oss_put sender (Some (info\<lparr>os_peer_id := endpoint, os_domain := domain\<rparr>))))))))"

definition oss_destroy :: "origin \<Rightarrow> (('w, 'z) oss_state_scheme, unit) M" where
  "oss_destroy orig = transactional (
     bindM (ensure_signed orig) (\<lambda>sender.
     bindM (getM (\<lambda>s. OssMap s sender \<noteq> None)) (\<lambda>known.
     bindM (ensureM known (OssE oss_error.UnRegister)) (\<lambda>_.
     oss_put sender None))))"

definition proxy_text :: "'w Config \<Rightarrow> proxy_auth_payload \<Rightarrow> string" where
  "proxy_text E payload = ''<Bytes>'' @ encode E (S_Seq [S_Num (pa_oss payload), S_Num (pa_exp payload)]) @ ''</Bytes>''"

definition proxy_authorzie :: "'w Config \<Rightarrow> origin \<Rightarrow> string \<Rightarrow> string \<Rightarrow> proxy_auth_payload
    \<Rightarrow> (('w, 'z) oss_state_scheme, unit) M" where
  "proxy_authorzie E orig auth_puk sig payload = transactional (
     bindM (ensure_signed orig) (\<lambda>_.
     bindM (getM block_number) (\<lambda>now.
     bindM (ensureM (pa_exp payload < wrapping_add 32 now (saturated_into 32 (PayloadExpired E))) (OssE oss_error.Expired)) (\<lambda>_.
     bindM (ok_or (decode_account E auth_puk) Panic) (\<lambda>account.
     bindM (ok_or (sr25519_signature E sig) (OssE oss_error.MalformedSignature)) (\<lambda>sig.
     bindM (ensureM (sr25519_verify E sig (proxy_text E payload) auth_puk) (OssE oss_error.VerifySigFailed)) (\<lambda>_.
     bindM (getM (authority_of account)) (\<lambda>l.
     bindM (ensureM (pa_oss payload \<notin> set l) (OssE oss_error.Existed)) (\<lambda>_.
     bindM (ok_or (try_push (AuthorLimit E) l (pa_oss payload)) (OssE oss_error.BoundedVecError)) (\<lambda>l'.
     authority_put account l'))))))))))"

definition is_authorized :: "account \<Rightarrow> account \<Rightarrow> ('w, 'z) oss_state_scheme \<Rightarrow> bool" where
  "is_authorized owner operator s \<longleftrightarrow> operator \<in> set (authority_of owner s)"

section \<open>The contract: a set of authorizations\<close>

datatype oss_call =
    Do_authorize origin account
  | Do_cancel_authorize origin account
  | Do_register origin string string
  | Do_update origin string string
  | Do_destroy origin
  | Do_proxy_authorzie origin string string proxy_auth_payload
  | At_block nat

fun oss_dispatch :: "'w Config \<Rightarrow> oss_call \<Rightarrow> (('w, 'z) oss_state_scheme, unit) M" where
  "oss_dispatch E (Do_authorize orig p) = authorize E orig p"
| "oss_dispatch E (Do_cancel_authorize orig p) = cancel_authorize orig p"
| "oss_dispatch E (Do_register orig e d) = oss_register orig e d"
| "oss_dispatch E (Do_update orig e d) = oss_update orig e d"
| "oss_dispatch E (Do_destroy orig) = oss_destroy orig"
| "oss_dispatch E (Do_proxy_authorzie orig k sig pl) = proxy_authorzie E orig k sig pl"
| "oss_dispatch E (At_block n) = modM (\<lambda>s. s\<lparr>block_number := n\<rparr>)"

text \<open>The abstract state: who authorized whom, which accounts ever did, and the gateways.\<close>

record oss_spec_state =
  sp_now :: nat
  sp_rel :: "(account \<times> account) set"
  sp_known :: "account set"
  sp_oss :: "account \<Rightarrow> oss_info option"

definition oss_abs :: "('w, 'z) oss_state_scheme \<Rightarrow> oss_spec_state" where
  "oss_abs s = \<lparr>sp_now = block_number s, sp_rel = {(owner, p). is_authorized owner p s},
     sp_known = dom (AuthorityList s), sp_oss = OssMap s\<rparr>"

definition spec_grant :: "'w Config \<Rightarrow> account \<Rightarrow> account \<Rightarrow> oss_spec_state \<Rightarrow> (dispatch_error + unit) \<times> oss_spec_state" where
  "spec_grant E owner p a =
     (if (owner, p) \<in> sp_rel a \<or> card (sp_rel a `` {owner}) < AuthorLimit E
      then (Inr (), a\<lparr>sp_rel := insert (owner, p) (sp_rel a), sp_known := insert owner (sp_known a)\<rparr>)
      else (Inl (OssE oss_error.BoundedVecError), a))"

definition spec_proxy :: "'w Config \<Rightarrow> string \<Rightarrow> string \<Rightarrow> proxy_auth_payload \<Rightarrow> oss_spec_state
    \<Rightarrow> (dispatch_error + unit) \<times> oss_spec_state" where
  "spec_proxy E k sig pl a =
     (if \<not> pa_exp pl < wrapping_add 32 (sp_now a) (saturated_into 32 (PayloadExpired E)) then (Inl (OssE oss_error.Expired), a)
      else case decode_account E k of
        None \<Rightarrow> (Inl Panic, a)
      | Some owner \<Rightarrow> (case sr25519_signature E sig of
          None \<Rightarrow> (Inl (OssE oss_error.MalformedSignature), a)
        | Some g \<Rightarrow> if \<not> sr25519_verify E g (proxy_text E pl) k then (Inl (OssE oss_error.VerifySigFailed), a)
                    else if (owner, pa_oss pl) \<in> sp_rel a then (Inl (OssE oss_error.Existed), a)
                    else spec_grant E owner (pa_oss pl) a))"

fun oss_spec :: "'w Config \<Rightarrow> oss_call \<Rightarrow> oss_spec_state \<Rightarrow> (dispatch_error + unit) \<times> oss_spec_state" where
  "oss_spec E (Do_authorize (Signed owner) p) a = spec_grant E owner p a"
| "oss_spec E (Do_cancel_authorize (Signed owner) p) a =
     (if owner \<in> sp_known a then (Inr (), a\<lparr>sp_rel := sp_rel a - {(owner, p)}\<rparr>) else (Inl (OssE oss_error.NoAuthorization), a))"
| "oss_spec E (Do_register (Signed g) e d) a =
     (if sp_oss a g = None then (Inr (), a\<lparr>sp_oss := (sp_oss a)(g \<mapsto> \<lparr>os_peer_id = e, os_domain = d\<rparr>)\<rparr>)
      else (Inl (OssE oss_error.Registered), a))"
| "oss_spec E (Do_update (Signed g) e d) a =
     (if sp_oss a g \<noteq> None then (Inr (), a\<lparr>sp_oss := (sp_oss a)(g \<mapsto> \<lparr>os_peer_id = e, os_domain = d\<rparr>)\<rparr>)
      else (Inl (OssE oss_error.UnRegister), a))"
| "oss_spec E (Do_destroy (Signed g)) a =
     (if sp_oss a g \<noteq> None then (Inr (), a\<lparr>sp_oss := (sp_oss a)(g := None)\<rparr>) else (Inl (OssE oss_error.UnRegister), a))"
| "oss_spec E (Do_proxy_authorzie (Signed _) k sig pl) a = spec_proxy E k sig pl a"
| "oss_spec E (At_block n) a = (Inr (), a\<lparr>sp_now := n\<rparr>)"
| "oss_spec E _ a = (Inl BadOrigin, a)"

definition oss_inv :: "'w Config \<Rightarrow> ('w, 'z) oss_state_scheme \<Rightarrow> bool" where
  "oss_inv E s \<longleftrightarrow> (\<forall>a. distinct (authority_of a s) \<and> length (authority_of a s) \<le> AuthorLimit E)"

lemma authority_sel [simp]:
  "authority_of a (s\<lparr>AuthorityList := (AuthorityList s)(b \<mapsto> l)\<rparr>) = (if a = b then l else authority_of a s)"
  "authority_of a (s\<lparr>OssMap := m\<rparr>) = authority_of a s" "authority_of a (s\<lparr>block_number := n\<rparr>) = authority_of a s"
  by (simp_all add: authority_of_def)

lemma authority_image: "oss_inv E s \<Longrightarrow> card ({(owner, p). is_authorized owner p s} `` {a}) = length (authority_of a s)"
proof -
  assume inv: "oss_inv E s"
  have "{(owner, p). is_authorized owner p s} `` {a} = set (authority_of a s)" by (auto simp: is_authorized_def)
  then show ?thesis using inv by (simp add: oss_inv_def distinct_card)
qed

lemma oss_abs_authority:
  "oss_abs (s\<lparr>AuthorityList := (AuthorityList s)(b \<mapsto> l)\<rparr>) =
     (oss_abs s)\<lparr>sp_rel := {(owner, p). if owner = b then p \<in> set l else is_authorized owner p s}, sp_known := insert b (sp_known (oss_abs s))\<rparr>"
  by (auto simp: oss_abs_def is_authorized_def)

lemma filter_bound: "length xs \<le> n \<Longrightarrow> length (filter P xs) \<le> n"
  by (rule le_trans[OF length_filter_le])

lemmas oss_ops = authorize_def cancel_authorize_def oss_register_def oss_update_def oss_destroy_def proxy_authorzie_def
  authority_put_def oss_put_def

lemma oss_inv_step: assumes "oss_inv E s" "oss_dispatch E c s = (r, s')" shows "oss_inv E s'"
proof -
  have "keepsM (oss_inv E) (oss_dispatch E c)"
  proof (cases c)
    case (At_block n)
    then show ?thesis by (simp add: keepsM_def oss_inv_def run_eval)
  qed (simp add: oss_ops; rule keeps_wp; force simp: wp_simps oss_inv_def try_push_def filter_bound)+
  then show ?thesis using assms by (metis keepsM_def snd_conv)
qed

text \<open>The runs as equations, for a signed origin; every other origin is refused.\<close>

lemmas oss_eval = run_eval ensure_signed_def transactional_def bindM_def ok_or_def ensureM_def

lemma oss_bad_origin:
  assumes "\<And>a. orig \<noteq> Signed a"
  shows "authorize E orig p s = (Inl BadOrigin, s)" "cancel_authorize orig p s = (Inl BadOrigin, s)"
    "oss_register orig e d s = (Inl BadOrigin, s)" "oss_update orig e d s = (Inl BadOrigin, s)"
    "oss_destroy orig s = (Inl BadOrigin, s)" "proxy_authorzie E orig k sig pl s = (Inl BadOrigin, s)"
  using assms by (cases orig; simp add: oss_ops oss_eval)+

definition grant :: "'w Config \<Rightarrow> account \<Rightarrow> account \<Rightarrow> (('w, 'z) oss_state_scheme, unit) M" where
  "grant E owner p s =
     (if length (authority_of owner s) < AuthorLimit E
      then (Inr (), s\<lparr>AuthorityList := (AuthorityList s)(owner \<mapsto> authority_of owner s @ [p])\<rparr>)
      else (Inl (OssE oss_error.BoundedVecError), s))"

lemma authorize_run:
  "authorize E (Signed owner) p s =
     (if p \<in> set (authority_of owner s) then (Inr (), s\<lparr>AuthorityList := (AuthorityList s)(owner \<mapsto> authority_of owner s)\<rparr>)
      else grant E owner p s)"
  by (simp add: oss_ops oss_eval try_push_def grant_def)

lemma cancel_authorize_run:
  "cancel_authorize (Signed owner) p s =
     (if AuthorityList s owner = None then (Inl (OssE oss_error.NoAuthorization), s)
      else (Inr (), s\<lparr>AuthorityList := (AuthorityList s)(owner \<mapsto> filter (\<lambda>x. x \<noteq> p) (authority_of owner s))\<rparr>))"
  by (simp add: oss_ops oss_eval)

lemma oss_info_replaced: "i\<lparr>os_peer_id := e, os_domain := d\<rparr> = \<lparr>os_peer_id = e, os_domain = d\<rparr>" for i :: oss_info
  by (cases i) simp

lemma gateway_run:
  "oss_register (Signed g) e d s = (if OssMap s g = None
     then (Inr (), s\<lparr>OssMap := (OssMap s)(g \<mapsto> \<lparr>os_peer_id = e, os_domain = d\<rparr>)\<rparr>) else (Inl (OssE oss_error.Registered), s))"
  "oss_update (Signed g) e d s = (if OssMap s g \<noteq> None
     then (Inr (), s\<lparr>OssMap := (OssMap s)(g \<mapsto> \<lparr>os_peer_id = e, os_domain = d\<rparr>)\<rparr>) else (Inl (OssE oss_error.UnRegister), s))"
  "oss_destroy (Signed g) s = (if OssMap s g \<noteq> None
     then (Inr (), s\<lparr>OssMap := (OssMap s)(g := None)\<rparr>) else (Inl (OssE oss_error.UnRegister), s))"
  by (auto simp: oss_ops oss_eval oss_info_replaced)

lemma proxy_authorzie_run:
  "proxy_authorzie E (Signed b) k sig pl s =
     (if \<not> pa_exp pl < wrapping_add 32 (block_number s) (saturated_into 32 (PayloadExpired E)) then (Inl (OssE oss_error.Expired), s)
      else case decode_account E k of
        None \<Rightarrow> (Inl Panic, s)
      | Some owner \<Rightarrow> (case sr25519_signature E sig of
          None \<Rightarrow> (Inl (OssE oss_error.MalformedSignature), s)
        | Some g \<Rightarrow> if \<not> sr25519_verify E g (proxy_text E pl) k then (Inl (OssE oss_error.VerifySigFailed), s)
                    else if pa_oss pl \<in> set (authority_of owner s) then (Inl (OssE oss_error.Existed), s)
                    else grant E owner (pa_oss pl) s))"
  by (simp add: oss_ops oss_eval try_push_def grant_def split: option.splits)

lemma abs_sel [simp]:
  "(owner, p) \<in> sp_rel (oss_abs s) \<longleftrightarrow> p \<in> set (authority_of owner s)" "sp_now (oss_abs s) = block_number s"
  "owner \<in> sp_known (oss_abs s) \<longleftrightarrow> AuthorityList s owner \<noteq> None" "sp_oss (oss_abs s) = OssMap s"
  by (auto simp: oss_abs_def is_authorized_def)

lemma grant_simulates:
  assumes inv: "oss_inv E s" and fresh: "p \<notin> set (authority_of owner s)"
  shows "spec_grant E owner p (oss_abs s) = (fst (grant E owner p s), oss_abs (snd (grant E owner p s)))"
proof -
  have "sp_rel (oss_abs s) `` {owner} = set (authority_of owner s)" by auto
  then have "card (sp_rel (oss_abs s) `` {owner}) = length (authority_of owner s)"
    using inv by (simp add: oss_inv_def distinct_card)
  then show ?thesis using fresh
    by (auto simp: spec_grant_def grant_def oss_abs_authority is_authorized_def intro!: oss_spec_state.equality)
qed

lemma oss_simulates:
  assumes inv: "oss_inv E s" and step: "oss_dispatch E c s = (r, s')"
  shows "oss_spec E c (oss_abs s) = (r, oss_abs s')"
proof -
  have "oss_spec E c (oss_abs s) = (fst (oss_dispatch E c s), oss_abs (snd (oss_dispatch E c s)))"
  proof (cases "(E, c, oss_abs s)" rule: oss_spec.cases)
    case (1 E' owner p a)
    then show ?thesis using grant_simulates[OF inv, of p owner]
      by (auto simp: authorize_run spec_grant_def oss_abs_authority is_authorized_def intro!: oss_spec_state.equality)
  next
    case (2 E' owner p a)
    then show ?thesis
      by (auto simp: cancel_authorize_run oss_abs_authority is_authorized_def intro!: oss_spec_state.equality)
  next
    case (6 E' b k sig pl a)
    then show ?thesis using grant_simulates[OF inv]
      by (auto simp: proxy_authorzie_run spec_proxy_def split: option.splits)
  qed (auto simp: gateway_run oss_bad_origin oss_abs_def is_authorized_def run_eval)
  then show ?thesis using step by simp
qed

interpretation oss: refines "oss_inv E" oss_abs "oss_dispatch E" "oss_spec E" for E :: "'w Config"
  by unfold_locales (blast intro: oss_inv_step oss_simulates)+

definition oss_genesis :: "('w, 'z) oss_state_scheme \<Rightarrow> bool" where
  "oss_genesis s \<longleftrightarrow> AuthorityList s = Map.empty \<and> OssMap s = Map.empty"

text \<open>C16. The pallet implements its contract: over every sequence of calls and blocks from genesis, each call
  returns what the contract, a set of authorizations with at most \<open>AuthorLimit\<close> per owner and a map of gateways, says it
  returns, errors included, and \<open>is_authorized\<close> answers membership in that set. So an authorization exists exactly
  when a grant by the owner or by a valid payload signed with the owner's key was not revoked since.\<close>

theorem oss_refines_contract:
  assumes "oss_genesis s" "trace (oss_dispatch E) cs s = (rs, s')"
  shows "trace (oss_spec E) cs \<lparr>sp_now = block_number s, sp_rel = {}, sp_known = {}, sp_oss = Map.empty\<rparr> = (rs, oss_abs s')
    \<and> is_authorized owner p s' = ((owner, p) \<in> sp_rel (oss_abs s')) \<and> oss_inv E s'"
proof -
  have g: "oss_inv E s" "oss_abs s = \<lparr>sp_now = block_number s, sp_rel = {}, sp_known = {}, sp_oss = Map.empty\<rparr>"
    using assms(1) by (auto simp: oss_genesis_def oss_inv_def oss_abs_def authority_of_def is_authorized_def)
  show ?thesis using oss.trace_refines[OF g(1) assms(2)] unfolding g(2)[symmetric] by (simp add: is_authorized_def)
qed

definition oss_example :: "ledger oss_state" where
  "oss_example = sminer_state.extend sminer_example (oss_state.fields Map.empty Map.empty)"

lemma oss_example_sel [simp]:
  "world oss_example = ledger_of []" "block_number oss_example = 0" "AuthorityList oss_example = Map.empty" "OssMap oss_example = Map.empty"
  by (simp_all add: oss_example_def sminer_example_def tee_example_def credit_example_def
      mq_state.defs credit_state.defs tee_state.defs sminer_state.defs oss_state.defs)

theorem oss_refines_contract_witness:
  "\<exists>s'. trace (oss_dispatch ledger_runtime) [Do_authorize (Signed 10) 20, Do_cancel_authorize (Signed 10) 20,
       Do_proxy_authorzie (Signed 30) [CHR 0x0A] [CHR 0x0A] \<lparr>pa_oss = 40, pa_exp = 50\<rparr>, Do_destroy (Signed 30)] oss_example
     = ([Inr (), Inr (), Inr (), Inl (OssE oss_error.UnRegister)], s')
   \<and> trace (oss_spec ledger_runtime) [Do_authorize (Signed 10) 20, Do_cancel_authorize (Signed 10) 20,
       Do_proxy_authorzie (Signed 30) [CHR 0x0A] [CHR 0x0A] \<lparr>pa_oss = 40, pa_exp = 50\<rparr>, Do_destroy (Signed 30)]
       \<lparr>sp_now = 0, sp_rel = {}, sp_known = {}, sp_oss = Map.empty\<rparr>
     = ([Inr (), Inr (), Inr (), Inl (OssE oss_error.UnRegister)], oss_abs s')
   \<and> is_authorized 10 40 s' \<and> \<not> is_authorized 10 20 s'"
proof -
  let ?cs = "[Do_authorize (Signed 10) 20, Do_cancel_authorize (Signed 10) 20,
       Do_proxy_authorzie (Signed 30) [CHR 0x0A] [CHR 0x0A] \<lparr>pa_oss = 40, pa_exp = 50\<rparr>, Do_destroy (Signed 30)]"
  define s' where "s' = oss_example\<lparr>AuthorityList := [10 \<mapsto> [40]]\<rparr>"
  have run: "trace (oss_dispatch ledger_runtime) ?cs oss_example = ([Inr (), Inr (), Inr (), Inl (OssE oss_error.UnRegister)], s')"
    by (simp add: authorize_run cancel_authorize_run proxy_authorzie_run gateway_run grant_def authority_of_def s'_def
        wrapping_add_def saturated_into_def little_endian_def)
  have "oss_genesis oss_example" by (simp add: oss_genesis_def)
  from oss_refines_contract[OF this run, of 10 40] run show ?thesis
    by (auto simp: s'_def is_authorized_def authority_of_def)
qed

end
