(* ===== verification/File_Bank.thy ===== *)
theory File_Bank
  imports Oss
begin

text \<open>
  \<open>pallets/file-bank\<close>: files and their life. An upload is declared as a deal, twelve miners report that
  they hold a fragment of every segment, and the deal becomes a file; tags turn locked space into service
  space; files are delivered, deleted and cleared with their territory; lost fragments are restored by
  orders. The pallet drives the storage handler, the miners, the trusted workers, the credits and the
  gateways. \<open>BTreeMap\<close> is an association list in key order; an index out of range is \<open>Panic\<close>.
\<close>

section \<open>Data and storage\<close>

definition SEGMENT_COUNT :: nat where "SEGMENT_COUNT = 1000"
definition ONCE_MAX_CLEAR_FILE :: nat where "ONCE_MAX_CLEAR_FILE = 300"

record segment_list =
  sl_hash :: string
  sl_fragment_list :: "string list"

datatype file_state = Active | Calculate | Missing | Recovery

record user_brief =
  ub_user :: account
  ub_file_name :: string
  ub_bucket_name :: string
  ub_territory_name :: string

record deal_complete_info =
  dc_index :: nat
  dc_miner :: account

record deal_info =
  dl_file_size :: nat
  dl_segment_list :: "segment_list list"
  dl_user :: user_brief
  dl_complete_list :: "deal_complete_info list"

record fragment_info =
  fr_hash :: string
  fr_avail :: bool
  fr_tag :: "nat option"
  fr_miner :: account

record segment_info =
  sg_hash :: string
  sg_fragment_list :: "fragment_info list"

record file_info =
  fi_segment_list :: "segment_info list"
  fi_owner :: "user_brief list"
  fi_file_size :: nat
  fi_completion :: nat
  fi_stat :: file_state

record user_file_slice_info =
  us_territory_name :: string
  us_file_hash :: string
  us_file_size :: nat

record bucket_info =
  bk_object_list :: "string list"
  bk_authority :: "account list"

record restoral_order_info =
  ri_count :: nat
  ri_miner :: account
  ri_origin_miner :: account
  ri_fragment_hash :: string
  ri_file_hash :: string
  ri_gen_block :: nat
  ri_deadline :: nat

record digest_info =
  dg_fragment :: string
  dg_tee_puk :: string

record tag_sig_info =
  ts_miner :: account
  ts_digest :: "digest_info list"
  ts_file_hash :: string

record 'w file_bank_state = "'w oss_state" +
  DealMap :: "string \<Rightarrow> deal_info option"
  File :: "string \<Rightarrow> file_info option"
  UserHoldFileList :: "account \<Rightarrow> user_file_slice_info list option"
  Bucket :: "account \<times> string \<Rightarrow> bucket_info option"
  UserBucketList :: "account \<Rightarrow> string list"
  RestoralOrder :: "string \<Rightarrow> restoral_order_info option"
  ClearUserList :: "(account \<times> string) list"
  TaskFailedCount :: "account \<Rightarrow> nat"

abbreviation fb_err :: "file_bank_error \<Rightarrow> dispatch_error" where
  "fb_err \<equiv> FileBankE"

definition deal_put :: "string \<Rightarrow> deal_info option \<Rightarrow> (('w, 'z) file_bank_state_scheme, unit) M" where
  "deal_put h d = modM (\<lambda>s. s\<lparr>DealMap := (DealMap s)(h := d)\<rparr>)"

definition file_put :: "string \<Rightarrow> file_info option \<Rightarrow> (('w, 'z) file_bank_state_scheme, unit) M" where
  "file_put h f = modM (\<lambda>s. s\<lparr>File := (File s)(h := f)\<rparr>)"

definition file_get :: "string \<Rightarrow> file_bank_error \<Rightarrow> (('w, 'z) file_bank_state_scheme, file_info) M" where
  "file_get h e = bindM (getM (\<lambda>s. File s h)) (\<lambda>f. ok_or f (fb_err e))"

definition hold_list :: "account \<Rightarrow> ('w, 'z) file_bank_state_scheme \<Rightarrow> user_file_slice_info list" where
  "hold_list a s = (case UserHoldFileList s a of None \<Rightarrow> [] | Some l \<Rightarrow> l)"

definition hold_put :: "account \<Rightarrow> user_file_slice_info list \<Rightarrow> (('w, 'z) file_bank_state_scheme, unit) M" where
  "hold_put a l = modM (\<lambda>s. s\<lparr>UserHoldFileList := (UserHoldFileList s)(a \<mapsto> l)\<rparr>)"

definition bucket_put :: "account \<Rightarrow> string \<Rightarrow> bucket_info option \<Rightarrow> (('w, 'z) file_bank_state_scheme, unit) M" where
  "bucket_put a n b = modM (\<lambda>s. s\<lparr>Bucket := (Bucket s)((a, n) := b)\<rparr>)"

definition user_buckets_put :: "account \<Rightarrow> string list \<Rightarrow> (('w, 'z) file_bank_state_scheme, unit) M" where
  "user_buckets_put a l = modM (\<lambda>s. s\<lparr>UserBucketList := (UserBucketList s)(a := l)\<rparr>)"

definition order_put :: "string \<Rightarrow> restoral_order_info option \<Rightarrow> (('w, 'z) file_bank_state_scheme, unit) M" where
  "order_put h r = modM (\<lambda>s. s\<lparr>RestoralOrder := (RestoralOrder s)(h := r)\<rparr>)"

text \<open>A \<open>BTreeMap\<close> with keys in order.\<close>

definition btree_put :: "'k :: linorder \<Rightarrow> 'v \<Rightarrow> ('k \<times> 'v) list \<Rightarrow> ('k \<times> 'v) list" where
  "btree_put k v xs = assoc_put (\<lambda>x. x) k v xs"

section \<open>Checks\<close>

definition check_file_spec :: "segment_list list \<Rightarrow> bool" where
  "check_file_spec seg_list \<longleftrightarrow> list_all (\<lambda>segment. length (sl_fragment_list segment) = FRAGMENT_COUNT) seg_list"

definition check_is_file_owner :: "account \<Rightarrow> string \<Rightarrow> ('w, 'z) file_bank_state_scheme \<Rightarrow> bool" where
  "check_is_file_owner acc file_hash s = (case File s file_hash of
     None \<Rightarrow> False
   | Some file \<Rightarrow> list_ex (\<lambda>user_brief. ub_user user_brief = acc) (fi_owner file))"

definition check_permission :: "account \<Rightarrow> account \<Rightarrow> ('w, 'z) file_bank_state_scheme \<Rightarrow> bool" where
  "check_permission operator owner s \<longleftrightarrow> owner = operator \<or> is_authorized owner operator s"

text \<open>The loop over the name, with the flag of a preceding point and the number of points; \<open>None\<close> is its early \<open>false\<close>.\<close>

fun name_loop :: "string \<Rightarrow> bool \<Rightarrow> nat \<Rightarrow> nat option" where
  "name_loop [] point_flag count = Some count"
| "name_loop (elem # es) point_flag count =
     (if elem \<notin> set BUCKET_ALLOW_CHAR then None
      else if elem = BUCKET_ALLOW_CHAR ! 64
      then if point_flag then None else name_loop es True (count + 1)
      else name_loop es False count)"

definition check_bucket_name_spec :: "string \<Rightarrow> bool" where
  "check_bucket_name_spec name = (case name_loop name False 0 of
     None \<Rightarrow> False
   | Some count \<Rightarrow>
       if count = 3 then list_ex (\<lambda>elem. elem \<notin> set BUCKET_ALLOW_CHAR) (filter (\<lambda>elem. elem \<noteq> BUCKET_ALLOW_CHAR ! 64) name)
       else True)"

definition get_segment_length_from_deal :: "string \<Rightarrow> ('w, 'z) file_bank_state_scheme \<Rightarrow> nat" where
  "get_segment_length_from_deal deal_hash s = (case DealMap s deal_hash of
     None \<Rightarrow> 0 | Some deal \<Rightarrow> as_cast 32 (length (dl_segment_list deal)))"

definition cal_file_size :: "nat \<Rightarrow> nat" where
  "cal_file_size len = wrapping_mul 128 len (SEGMENT_SIZE * 30 div 10)"

definition fragments_space :: "nat \<Rightarrow> nat" where
  "fragments_space n = wrapping_mul 128 FRAGMENT_SIZE n"

text \<open>The search for a random number that is not zero; the counter is a \<open>u32\<close>, so it ends.\<close>

function random_loop :: "'w Config \<Rightarrow> 'w \<Rightarrow> nat \<Rightarrow> nat \<Rightarrow> dispatch_error + nat" where
  "random_loop E w seed counter =
     (let random_seed = (case my_randomness E w (encode E (S_Seq [S_Bytes (FilbakPalletId E), S_Num (wrapping_add 32 seed counter)])) of
            Some v \<Rightarrow> v | None \<Rightarrow> replicate 32 CHR 0x00);
          random_number = (case decode_u32 E random_seed of Some n \<Rightarrow> n | None \<Rightarrow> 0)
      in if random_number \<noteq> 0 then Inr random_number
         else case checked_add 32 counter 1 of
           None \<Rightarrow> Inl (fb_err file_bank_error.Overflow)
         | Some counter' \<Rightarrow> random_loop E w seed counter')"
  by pat_completeness auto

termination
  by (relation "measure (\<lambda>(E, w, seed, counter). 2 ^ 32 - counter)") (auto simp: checked_add_def split: if_splits)

definition generate_random_number :: "'w Config \<Rightarrow> nat \<Rightarrow> (('w, 'z) file_bank_state_scheme, nat) M" where
  "generate_random_number E seed = (\<lambda>s. (random_loop E (world s) seed 0, s))"

section \<open>Files and buckets\<close>

fun generate_fragments :: "deal_complete_info list \<Rightarrow> nat \<Rightarrow> string list \<Rightarrow> fragment_info list \<Rightarrow> ('s, fragment_info list) M" where
  "generate_fragments complete_list index [] acc = retM acc"
| "generate_fragments complete_list index (fragment_hash # hs) acc =
     (if index < length complete_list
      then bindM (ok_or (try_push FRAGMENT_COUNT acc \<lparr>fr_hash = fragment_hash, fr_avail = True, fr_tag = None,
             fr_miner = dc_miner (complete_list ! index)\<rparr>) (fb_err file_bank_error.BoundedVecError)) (\<lambda>acc'.
           generate_fragments complete_list (index + 1) hs acc')
      else failM Panic)"

fun generate_segments :: "deal_complete_info list \<Rightarrow> segment_list list \<Rightarrow> segment_info list \<Rightarrow> ('s, segment_info list) M" where
  "generate_segments complete_list [] acc = retM acc"
| "generate_segments complete_list (segment # segs) acc =
     bindM (generate_fragments complete_list 0 (sl_fragment_list segment) []) (\<lambda>frags.
     bindM (ok_or (try_push SEGMENT_COUNT acc \<lparr>sg_hash = sl_hash segment, sg_fragment_list = frags\<rparr>)
       (fb_err file_bank_error.BoundedVecError)) (\<lambda>acc'.
     generate_segments complete_list segs acc'))"

definition fb_generate_file :: "'w Config \<Rightarrow> string \<Rightarrow> segment_list list \<Rightarrow> deal_complete_info list \<Rightarrow> user_brief \<Rightarrow> file_state
    \<Rightarrow> nat \<Rightarrow> (('w, 'z) file_bank_state_scheme, unit) M" where
  "fb_generate_file E file_hash deal_info complete_list user_brief stat file_size =
     bindM (ensureM (length complete_list = FRAGMENT_COUNT) (fb_err file_bank_error.Unexpected)) (\<lambda>_.
     bindM (generate_segments (sort_key dc_index complete_list) deal_info []) (\<lambda>segment_info_list.
     bindM (getM block_number) (\<lambda>cur_block.
     bindM (ok_or (if 1 \<le> OwnerLimit E then Some [user_brief] else None) (fb_err file_bank_error.BoundedVecError)) (\<lambda>owner.
     file_put file_hash (Some \<lparr>fi_segment_list = segment_info_list, fi_owner = owner, fi_file_size = file_size,
       fi_completion = cur_block, fi_stat = stat\<rparr>)))))"

definition create_bucket_helper :: "'w Config \<Rightarrow> account \<Rightarrow> string \<Rightarrow> string option \<Rightarrow> (('w, 'z) file_bank_state_scheme, unit) M" where
  "create_bucket_helper E user bucket_name file_hash =
     bindM (ensureM (3 \<le> length bucket_name) (fb_err file_bank_error.LessMinLength)) (\<lambda>_.
     bindM (getM (\<lambda>s. Bucket s (user, bucket_name) = None)) (\<lambda>fresh.
     bindM (ensureM fresh (fb_err file_bank_error.Existed)) (\<lambda>_.
     bindM (ensureM (check_bucket_name_spec bucket_name) (fb_err file_bank_error.SpecError)) (\<lambda>_.
     bindM (case file_hash of
         None \<Rightarrow> retM []
       | Some h \<Rightarrow> ok_or (try_push (UserFileLimit E) [] h) (fb_err file_bank_error.BoundedVecError)) (\<lambda>objects.
     bindM (bucket_put user bucket_name (Some \<lparr>bk_object_list = objects, bk_authority = [user]\<rparr>)) (\<lambda>_.
     bindM (getM (\<lambda>s. UserBucketList s user)) (\<lambda>bucket_list.
     bindM (ok_or (try_push (BucketLimit E) bucket_list bucket_name) (fb_err file_bank_error.LengthExceedsLimit)) (\<lambda>l.
     user_buckets_put user l))))))))"

definition add_file_to_bucket :: "'w Config \<Rightarrow> account \<Rightarrow> string \<Rightarrow> string \<Rightarrow> (('w, 'z) file_bank_state_scheme, unit) M" where
  "add_file_to_bucket E user bucket_name file_hash =
     bindM (getM (\<lambda>s. Bucket s (user, bucket_name))) (\<lambda>b.
     bindM (ok_or b (fb_err file_bank_error.NonExistent)) (\<lambda>bucket.
     bindM (ok_or (try_push (UserFileLimit E) (bk_object_list bucket) file_hash) (fb_err file_bank_error.BoundedVecError)) (\<lambda>l.
     bucket_put user bucket_name (Some (bucket\<lparr>bk_object_list := l\<rparr>)))))"

definition into_bucket :: "'w Config \<Rightarrow> account \<Rightarrow> string \<Rightarrow> string \<Rightarrow> (('w, 'z) file_bank_state_scheme, unit) M" where
  "into_bucket E user bucket_name file_hash =
     bindM (getM (\<lambda>s. Bucket s (user, bucket_name) \<noteq> None)) (\<lambda>known.
     if known then add_file_to_bucket E user bucket_name file_hash
     else create_bucket_helper E user bucket_name (Some file_hash))"

definition add_user_hold_fileslice :: "'w Config \<Rightarrow> account \<Rightarrow> string \<Rightarrow> nat \<Rightarrow> string \<Rightarrow> (('w, 'z) file_bank_state_scheme, unit) M" where
  "add_user_hold_fileslice E user file_hash file_size territory_name =
     (let file_info = \<lparr>us_territory_name = territory_name, us_file_hash = file_hash, us_file_size = file_size\<rparr> in
      bindM (getM (hold_list user)) (\<lambda>v.
      bindM (ensureM (file_info \<notin> set v) (fb_err file_bank_error.Existed)) (\<lambda>_.
      bindM (ok_or (try_push (UserFileLimit E) v file_info) (fb_err file_bank_error.StorageLimitReached)) (\<lambda>v'.
      hold_put user v'))))"

section \<open>Deals\<close>

definition complete_part :: "account \<Rightarrow> nat \<Rightarrow> deal_info \<Rightarrow> (('w, 'z) file_bank_state_scheme, deal_info) M" where
  "complete_part miner index deal =
     bindM (ensureM (list_all (\<lambda>c. index \<noteq> dc_index c \<and> miner \<noteq> dc_miner c) (dl_complete_list deal)) (fb_err file_bank_error.Existed)) (\<lambda>_.
     bindM (lock_space miner (fragments_space (length (dl_segment_list deal)))) (\<lambda>_.
     bindM (ok_or (try_push FRAGMENT_COUNT (dl_complete_list deal) \<lparr>dc_index = index, dc_miner = miner\<rparr>)
       (fb_err file_bank_error.BoundedVecError)) (\<lambda>l.
     retM (deal\<lparr>dl_complete_list := l\<rparr>))))"

definition completed_all :: "deal_info \<Rightarrow> (('w, 'z) file_bank_state_scheme, unit) M" where
  "completed_all deal = forM (dl_complete_list deal) (\<lambda>c.
     bindM (ok_or (checked_mul 128 FRAGMENT_SIZE (length (dl_segment_list deal))) (fb_err file_bank_error.Overflow)) (\<lambda>replace_space.
     increase_replace_space (dc_miner c) replace_space))"

definition force_unlock_space :: "deal_info \<Rightarrow> (('w, 'z) file_bank_state_scheme, unit) M" where
  "force_unlock_space deal = forM (dl_complete_list deal) (\<lambda>c.
     bindM (ok_or (checked_mul 128 FRAGMENT_SIZE (length (dl_segment_list deal))) (fb_err file_bank_error.Overflow)) (\<lambda>space.
     unlock_space (dc_miner c) space))"

definition fb_generate_deal :: "string \<Rightarrow> segment_list list \<Rightarrow> user_brief \<Rightarrow> nat \<Rightarrow> (('w, 'z) file_bank_state_scheme, unit) M" where
  "fb_generate_deal file_hash file_info user_brief file_size =
     deal_put file_hash (Some \<lparr>dl_file_size = file_size, dl_segment_list = file_info, dl_user = user_brief, dl_complete_list = []\<rparr>)"

definition remove_deal :: "string \<Rightarrow> (('w, 'z) file_bank_state_scheme, unit) M" where
  "remove_deal deal_hash =
     bindM (getM (\<lambda>s. DealMap s deal_hash)) (\<lambda>d.
     bindM (ok_or d (fb_err file_bank_error.NonExistent)) (\<lambda>deal.
     bindM (unlock_user_space (ub_user (dl_user deal)) (ub_territory_name (dl_user deal)) (cal_file_size (length (dl_segment_list deal)))) (\<lambda>_.
     bindM (forM (dl_complete_list deal) (\<lambda>c. unlock_space (dc_miner c) (fragments_space (length (dl_segment_list deal))))) (\<lambda>_.
     deal_put deal_hash None))))"

text \<open>\<open>Receptionist\<close>: a declared file that exists already, a new deal, and a report of a miner on a deal.\<close>

definition fly_upload_file :: "'w Config \<Rightarrow> string \<Rightarrow> user_brief \<Rightarrow> (('w, 'z) file_bank_state_scheme, unit) M" where
  "fly_upload_file E file_hash brief =
     bindM (file_get file_hash file_bank_error.FileNonExistent) (\<lambda>file.
     bindM (ok_or (checked_mul 128 SEGMENT_SIZE 15) (fb_err file_bank_error.Overflow)) (\<lambda>a.
     bindM (ok_or (checked_div a 10) (fb_err file_bank_error.Overflow)) (\<lambda>b.
     bindM (ok_or (checked_mul 128 b (length (fi_segment_list file))) (fb_err file_bank_error.Overflow)) (\<lambda>needed_space.
     bindM (get_user_avail_space (ub_user brief) (ub_territory_name brief)) (\<lambda>avail.
     bindM (ensureM (needed_space < avail) (fb_err file_bank_error.InsufficientAvailableSpace)) (\<lambda>_.
     bindM (add_territory_used_space (ub_user brief) (ub_territory_name brief) needed_space) (\<lambda>_.
     bindM (into_bucket E (ub_user brief) (ub_bucket_name brief) file_hash) (\<lambda>_.
     bindM (add_user_hold_fileslice E (ub_user brief) file_hash needed_space (ub_territory_name brief)) (\<lambda>_.
     bindM (ok_or (try_push (OwnerLimit E) (fi_owner file) brief) (fb_err file_bank_error.BoundedVecError)) (\<lambda>owner.
     file_put file_hash (Some (file\<lparr>fi_owner := owner\<rparr>))))))))))))"

definition receptionist_generate_deal :: "string \<Rightarrow> segment_list list \<Rightarrow> user_brief \<Rightarrow> nat \<Rightarrow> nat
    \<Rightarrow> (('w, 'z) file_bank_state_scheme, unit) M" where
  "receptionist_generate_deal file_hash deal_info brief needed_space file_size =
     bindM (lock_user_space (ub_user brief) (ub_territory_name brief) needed_space) (\<lambda>_.
     fb_generate_deal file_hash deal_info brief file_size)"

definition complete_deal :: "'w Config \<Rightarrow> string \<Rightarrow> deal_info \<Rightarrow> (('w, 'z) file_bank_state_scheme, unit) M" where
  "complete_deal E deal_hash deal =
     (let brief = dl_user deal; needed_space = cal_file_size (length (dl_segment_list deal)) in
     bindM (completed_all deal) (\<lambda>_.
     bindM (fb_generate_file E deal_hash (dl_segment_list deal) (dl_complete_list deal) brief file_state.Active (dl_file_size deal)) (\<lambda>_.
     bindM (unlock_and_used_user_space (ub_user brief) (ub_territory_name brief) needed_space) (\<lambda>_.
     bindM (sub_total_idle_space needed_space) (\<lambda>_.
     bindM (add_total_service_space needed_space) (\<lambda>_.
     bindM (into_bucket E (ub_user brief) (ub_bucket_name brief) deal_hash) (\<lambda>_.
     bindM (add_user_hold_fileslice E (ub_user brief) deal_hash needed_space (ub_territory_name brief)) (\<lambda>_.
     deal_put deal_hash None))))))))"

definition qualification_report_processing :: "'w Config \<Rightarrow> account \<Rightarrow> string \<Rightarrow> deal_info \<Rightarrow> nat
    \<Rightarrow> (('w, 'z) file_bank_state_scheme, unit) M" where
  "qualification_report_processing E sender deal_hash deal index =
     bindM (complete_part sender index deal) (\<lambda>deal'.
     bindM (deal_put deal_hash (Some deal')) (\<lambda>_.
     if length (dl_complete_list deal') = FRAGMENT_COUNT then complete_deal E deal_hash deal' else retM ()))"

section \<open>Deleting\<close>

definition bucket_remove_file :: "string \<Rightarrow> account \<Rightarrow> file_info \<Rightarrow> (('w, 'z) file_bank_state_scheme, unit) M" where
  "bucket_remove_file file_hash acc file = forM (fi_owner file) (\<lambda>brief.
     if ub_user brief = acc
     then bindM (getM (\<lambda>s. Bucket s (acc, ub_bucket_name brief))) (\<lambda>b.
          bindM (ok_or b (fb_err file_bank_error.NonExistent)) (\<lambda>bucket.
          bucket_put acc (ub_bucket_name brief) (Some (bucket\<lparr>bk_object_list := filter (\<lambda>f. f \<noteq> file_hash) (bk_object_list bucket)\<rparr>))))
     else retM ())"

definition remove_user_hold_file_list :: "string \<Rightarrow> account \<Rightarrow> (('w, 'z) file_bank_state_scheme, unit) M" where
  "remove_user_hold_file_list file_hash acc =
     bindM (getM (hold_list acc)) (\<lambda>l. hold_put acc (filter (\<lambda>x. us_file_hash x \<noteq> file_hash) l))"

text \<open>The loop that finds the first entry of an owner and removes it.\<close>

fun remove_owner_loop :: "nat \<Rightarrow> account \<Rightarrow> bool \<Rightarrow> user_brief list \<Rightarrow> (('w, 'z) file_bank_state_scheme, user_brief list) M" where
  "remove_owner_loop sz acc user_clear [] = retM []"
| "remove_owner_loop sz acc user_clear (brief # bs) =
     (if acc = ub_user brief
      then bindM (if user_clear then sub_territory_used_space acc (ub_territory_name brief) sz else retM ()) (\<lambda>_. retM bs)
      else bindM (remove_owner_loop sz acc user_clear bs) (\<lambda>bs'. retM (brief # bs')))"

definition remove_file_owner :: "string \<Rightarrow> account \<Rightarrow> bool \<Rightarrow> (('w, 'z) file_bank_state_scheme, unit) M" where
  "remove_file_owner file_hash acc user_clear =
     bindM (file_get file_hash file_bank_error.NonExistent) (\<lambda>file.
     bindM (remove_owner_loop (cal_file_size (length (fi_segment_list file))) acc user_clear (fi_owner file)) (\<lambda>owner.
     file_put file_hash (Some (file\<lparr>fi_owner := owner\<rparr>))))"

definition file_fragments :: "file_info \<Rightarrow> fragment_info list" where
  "file_fragments file = concat (map sg_fragment_list (fi_segment_list file))"

text \<open>The fragments by miner, each with whether it is tagged.\<close>

fun miner_fragments :: "fragment_info list \<Rightarrow> (account \<times> (string \<times> bool) list) list \<Rightarrow> (account \<times> (string \<times> bool) list) list" where
  "miner_fragments [] acc = acc"
| "miner_fragments (fr # frs) acc = miner_fragments frs (btree_put (fr_miner fr)
     ((case map_of acc (fr_miner fr) of None \<Rightarrow> [] | Some l \<Rightarrow> l) @ [(fr_hash fr, fr_tag fr \<noteq> None)]) acc)"

fun binaries :: "string list \<Rightarrow> ('s, nat list list) M" where
  "binaries [] = retM []"
| "binaries (h # hs) = bindM (case hash_binary h of Inl _ \<Rightarrow> failM (fb_err file_bank_error.BugInvalid) | Inr b \<Rightarrow> retM b) (\<lambda>b.
     bindM (binaries hs) (\<lambda>bs. retM (b # bs)))"

definition release_miner :: "account \<Rightarrow> (string \<times> bool) list \<Rightarrow> (('w, 'z) file_bank_state_scheme, unit) M" where
  "release_miner miner hash_list =
     bindM (getM (restoral_target_is_exist miner)) (\<lambda>leaving.
     if leaving then update_restoral_target miner (fragments_space (length hash_list))
     else bindM (binaries (map fst (filter snd hash_list))) (\<lambda>binary_list.
          bindM (sub_miner_service_space miner (fragments_space (length (filter snd hash_list)))) (\<lambda>_.
          bindM (delete_service_bloom miner binary_list) (\<lambda>_.
          unlock_space_direct miner (fragments_space (length (filter (\<lambda>x. \<not> snd x) hash_list)))))))"

fun first_brief :: "account \<Rightarrow> user_brief list \<Rightarrow> user_brief option" where
  "first_brief acc [] = None"
| "first_brief acc (b # bs) = (if ub_user b = acc then Some b else first_brief acc bs)"

definition remove_file_last_owner :: "string \<Rightarrow> account \<Rightarrow> bool \<Rightarrow> (('w, 'z) file_bank_state_scheme, unit) M" where
  "remove_file_last_owner file_hash acc user_clear =
     bindM (file_get file_hash file_bank_error.NonExistent) (\<lambda>file.
     let frags = file_fragments file; space = wrapping_mul 128 (length frags) FRAGMENT_SIZE in
     bindM (forM (miner_fragments frags []) (\<lambda>(miner, hash_list). release_miner miner hash_list)) (\<lambda>_.
     bindM (if user_clear
            then (case first_brief acc (fi_owner file) of
                None \<Rightarrow> retM () | Some brief \<Rightarrow> sub_territory_used_space acc (ub_territory_name brief) space)
            else retM ()) (\<lambda>_.
     bindM (sub_total_service_space space) (\<lambda>_.
     file_put file_hash None))))"

definition delete_user_file :: "string \<Rightarrow> account \<Rightarrow> file_info \<Rightarrow> (('w, 'z) file_bank_state_scheme, unit) M" where
  "delete_user_file file_hash acc file = forM (fi_owner file) (\<lambda>brief.
     if ub_user brief = acc
     then if 1 < length (fi_owner file) then remove_file_owner file_hash acc True
          else remove_file_last_owner file_hash acc True
     else retM ())"

section \<open>Clearing expired territories\<close>

definition clear_file :: "account \<Rightarrow> string \<Rightarrow> (('w, 'z) file_bank_state_scheme, unit) M" where
  "clear_file acc file_hash =
     bindM (getM (\<lambda>s. File s file_hash)) (\<lambda>f. case f of
       None \<Rightarrow> retM ()
     | Some file \<Rightarrow>
         bindM (if 1 < length (fi_owner file)
                then bindM (attemptM (remove_file_owner file_hash acc False)) (\<lambda>_. retM ())
                else bindM (attemptM (remove_file_last_owner file_hash acc False)) (\<lambda>_.
                     bindM (attemptM (remove_file_last_owner file_hash acc False)) (\<lambda>_. retM ()))) (\<lambda>_.
         bindM (attemptM (bucket_remove_file file_hash acc file)) (\<lambda>_. retM ())))"

text \<open>The loop over the popped entries of an account; \<open>None\<close> is the early return of the hook.\<close>

fun clear_files :: "account \<Rightarrow> string \<Rightarrow> nat \<Rightarrow> user_file_slice_info list \<Rightarrow> (('w, 'z) file_bank_state_scheme, nat option) M" where
  "clear_files acc territory_name count [] = retM (Some count)"
| "clear_files acc territory_name count (fi # popped) =
     (if us_territory_name fi \<noteq> territory_name then clear_files acc territory_name count popped
      else let count' = (case checked_add 32 count 1 of None \<Rightarrow> ONCE_MAX_CLEAR_FILE | Some c \<Rightarrow> c) in
        if count' = ONCE_MAX_CLEAR_FILE then bindM (hold_put acc (rev popped)) (\<lambda>_. retM None)
        else bindM (clear_file acc (us_file_hash fi)) (\<lambda>_. clear_files acc territory_name count' popped))"

fun clear_accounts :: "(account \<times> string) list \<Rightarrow> nat \<Rightarrow> (('w, 'z) file_bank_state_scheme, unit) M" where
  "clear_accounts [] count = retM ()"
| "clear_accounts ((acc, territory_name) # rest) count =
     bindM (getM (\<lambda>s. UserHoldFileList s acc)) (\<lambda>l. case l of
       None \<Rightarrow> clear_accounts rest count
     | Some file_info_list \<Rightarrow>
         bindM (clear_files acc territory_name count (rev file_info_list)) (\<lambda>r. case r of
           None \<Rightarrow> retM ()
         | Some count' \<Rightarrow>
             bindM (modM (\<lambda>s. s\<lparr>ClearUserList := filter (\<lambda>x. fst x \<noteq> acc) (ClearUserList s)\<rparr>)) (\<lambda>_.
             clear_accounts rest count')))"

definition file_bank_on_initialize :: "'w Config \<Rightarrow> (('w, 'z) file_bank_state_scheme, unit) M" where
  "file_bank_on_initialize E =
     bindM (frozen_task E) (\<lambda>clear_list.
     bindM (modM (\<lambda>s. s\<lparr>ClearUserList := (if length clear_list \<le> 2000 then clear_list else [])\<rparr>)) (\<lambda>_.
     bindM (getM ClearUserList) (\<lambda>clear_list. clear_accounts clear_list 0)))"

section \<open>Extrinsics: upload, reports and tags\<close>

definition upload_declaration :: "'w Config \<Rightarrow> origin \<Rightarrow> string \<Rightarrow> segment_list list \<Rightarrow> user_brief \<Rightarrow> nat
    \<Rightarrow> (('w, 'z) file_bank_state_scheme, unit) M" where
  "upload_declaration E orig file_hash deal_info brief file_size = transactional (
     bindM (ensure_signed orig) (\<lambda>sender.
     bindM (getM (check_permission sender (ub_user brief))) (\<lambda>permitted.
     bindM (ensureM permitted (fb_err file_bank_error.NoPermission)) (\<lambda>_.
     bindM (ensureM (check_file_spec deal_info) (fb_err file_bank_error.SpecError)) (\<lambda>_.
     bindM (ensureM (NameMinLength E \<le> length (ub_file_name brief)) (fb_err file_bank_error.SpecError)) (\<lambda>_.
     bindM (ensureM (NameMinLength E \<le> length (ub_bucket_name brief)) (fb_err file_bank_error.SpecError)) (\<lambda>_.
     bindM (getM (\<lambda>s. File s file_hash \<noteq> None)) (\<lambda>known.
     if known then fly_upload_file E file_hash brief
     else bindM (ok_or (checked_mul 128 FRAGMENT_SIZE FRAGMENT_COUNT) (fb_err file_bank_error.Overflow)) (\<lambda>a.
          bindM (ok_or (checked_mul 128 a (length deal_info)) (fb_err file_bank_error.Overflow)) (\<lambda>needed_space.
          bindM (get_user_avail_space (ub_user brief) (ub_territory_name brief)) (\<lambda>avail.
          bindM (ensureM (needed_space < avail) (fb_err file_bank_error.InsufficientAvailableSpace)) (\<lambda>_.
          receptionist_generate_deal file_hash deal_info brief needed_space file_size))))))))))))"

definition territory_file_delivery :: "origin \<Rightarrow> account \<Rightarrow> string \<Rightarrow> string \<Rightarrow> (('w, 'z) file_bank_state_scheme, unit) M" where
  "territory_file_delivery orig user file_hash target_territory = transactional (
     bindM (ensure_signed orig) (\<lambda>sender.
     bindM (getM (check_permission sender user)) (\<lambda>permitted.
     bindM (ensureM permitted (fb_err file_bank_error.NoPermission)) (\<lambda>_.
     bindM (getM (check_is_file_owner user file_hash)) (\<lambda>owns.
     bindM (ensureM owns (fb_err file_bank_error.NotOwner)) (\<lambda>_.
     bindM (file_get file_hash file_bank_error.NonExistent) (\<lambda>file.
     bindM (ensureM (fi_stat file = file_state.Active) (fb_err file_bank_error.NotActive)) (\<lambda>_.
     bindM (check_territry_owner user target_territory) (\<lambda>_.
     bindM (forM (fi_owner file) (\<lambda>brief.
       if ub_user brief = user
       then bindM (ok_or (checked_mul 128 FRAGMENT_SIZE FRAGMENT_COUNT) (fb_err file_bank_error.Overflow)) (\<lambda>a.
            bindM (ok_or (checked_mul 128 a (length (fi_segment_list file))) (fb_err file_bank_error.Overflow)) (\<lambda>space.
            bindM (sub_territory_used_space user (ub_territory_name brief) space) (\<lambda>_.
            add_territory_used_space user target_territory space)))
       else retM ())) (\<lambda>_.
     bindM (getM (hold_list user)) (\<lambda>l.
     hold_put user (map (\<lambda>x. if us_file_hash x = file_hash then x\<lparr>us_territory_name := target_territory\<rparr> else x) l))))))))))))"

definition transfer_report :: "'w Config \<Rightarrow> origin \<Rightarrow> nat \<Rightarrow> string \<Rightarrow> (('w, 'z) file_bank_state_scheme, unit) M" where
  "transfer_report E orig index deal_hash = transactional (
     bindM (ensure_signed orig) (\<lambda>sender.
     bindM (ensureM (index \<le> FRAGMENT_COUNT) (fb_err file_bank_error.SpecError)) (\<lambda>_.
     bindM (ensureM (0 < index) (fb_err file_bank_error.SpecError)) (\<lambda>_.
     bindM (is_positive sender) (\<lambda>positive.
     bindM (ensureM positive (fb_err file_bank_error.MinerStateError)) (\<lambda>_.
     bindM (getM (\<lambda>s. DealMap s deal_hash)) (\<lambda>d.
     bindM (ok_or d (fb_err file_bank_error.NonExistent)) (\<lambda>deal.
     bindM (getM (check_expired (ub_user (dl_user deal)) (ub_territory_name (dl_user deal)))) (\<lambda>expired_flag.
     if expired_flag
     then bindM (force_unlock_space deal) (\<lambda>_. deal_put deal_hash None)
     else qualification_report_processing E sender deal_hash deal index)))))))))"

text \<open>The digests of a report: how often each worker tagged, and the workers of each fragment.\<close>

fun count_digests :: "digest_info list \<Rightarrow> (string \<times> nat) list \<Rightarrow> (string \<times> string list) list
    \<Rightarrow> (('w, 'z) file_bank_state_scheme, (string \<times> nat) list \<times> (string \<times> string list) list) M" where
  "count_digests [] counter details = retM (counter, details)"
| "count_digests (d # ds) counter details =
     bindM (getM (can_tag (dg_tee_puk d))) (\<lambda>allowed.
     bindM (ensureM allowed (fb_err file_bank_error.TeeNoPermission)) (\<lambda>_.
     count_digests ds
       (btree_put (dg_tee_puk d) (case map_of counter (dg_tee_puk d) of None \<Rightarrow> 1 | Some v \<Rightarrow> wrapping_add 8 v 1) counter)
       (btree_put (dg_fragment d) (case map_of details (dg_fragment d) of None \<Rightarrow> [dg_tee_puk d] | Some l \<Rightarrow> l @ [dg_tee_puk d]) details)))"

text \<open>The loop over the fragments: the untagged ones of the miner are tagged, counted and collected.\<close>

definition tags_fragment :: "account \<Rightarrow> fragment_info \<Rightarrow> bool" where
  "tags_fragment sender fr \<longleftrightarrow> fr_miner fr = sender \<and> fr_tag fr = None"

definition tag_fragment :: "account \<Rightarrow> nat \<Rightarrow> fragment_info \<Rightarrow> fragment_info" where
  "tag_fragment sender now fr = (if tags_fragment sender fr then fr\<lparr>fr_tag := Some now\<rparr> else fr)"

fun count_fragments :: "fragment_info list \<Rightarrow> (string \<times> nat) list \<Rightarrow> (string \<times> nat) list" where
  "count_fragments [] counter = counter"
| "count_fragments (fr # frs) counter = count_fragments frs
     (btree_put (fr_hash fr) (case map_of counter (fr_hash fr) of None \<Rightarrow> 1 | Some v \<Rightarrow> wrapping_add 8 v 1) counter)"

definition digests_fit :: "(string \<times> string list) list \<Rightarrow> (string \<times> nat) list \<Rightarrow> bool" where
  "digests_fit details counter = list_all (\<lambda>(hash, count). case map_of details hash of
     None \<Rightarrow> False | Some value \<Rightarrow> length value = count) counter"

definition credit_tags :: "'w Config \<Rightarrow> (string \<times> nat) list \<Rightarrow> (('w, 'z) file_bank_state_scheme, unit) M" where
  "credit_tags E counter = forM counter (\<lambda>(puk, count).
     bindM (getM (is_bonded puk)) (\<lambda>bonded.
     bindM (if bonded
            then bindM (get_stash puk) (\<lambda>bond_stash. increase_point_for_tag E bond_stash (fragments_space count))
            else retM ()) (\<lambda>_.
     bindM (getM block_number) (\<lambda>now. update_work_block E now puk))))"

definition tag_info_scale :: "tag_sig_info \<Rightarrow> scale" where
  "tag_info_scale t = S_Seq [S_Num (ts_miner t), S_Seq (map (\<lambda>d. S_Seq [S_Bytes (dg_fragment d), S_Bytes (dg_tee_puk d)]) (ts_digest t)),
     S_Bytes (ts_file_hash t)]"

definition calculate_report :: "'w Config \<Rightarrow> origin \<Rightarrow> string \<Rightarrow> tag_sig_info \<Rightarrow> (('w, 'z) file_bank_state_scheme, unit) M" where
  "calculate_report E orig tee_sig info = transactional (
     bindM (ensure_signed orig) (\<lambda>sender.
     let original = sha2_256 E (encode E (tag_info_scale info)) in
     bindM (ok_or (sr25519_signature E tee_sig) (fb_err file_bank_error.MalformedSignature)) (\<lambda>sig.
     bindM (getM (verify_master_sig E sig original)) (\<lambda>verified.
     bindM (ensureM verified (fb_err file_bank_error.VerifyTeeSigFailed)) (\<lambda>_.
     bindM (ensureM (ts_miner info = sender) (fb_err file_bank_error.MinerError)) (\<lambda>_.
     bindM (count_digests (ts_digest info) [] []) (\<lambda>(tee_tag_counter, calculate_details).
     bindM (file_get (ts_file_hash info) file_bank_error.NonExistent) (\<lambda>file.
     bindM (getM block_number) (\<lambda>now.
     let frags = filter (tags_fragment sender) (file_fragments file) in
     bindM (binaries (map fr_hash frags)) (\<lambda>hash_list.
     bindM (ensureM (digests_fit calculate_details (count_fragments frags [])) (fb_err file_bank_error.DigestError)) (\<lambda>_.
     bindM (ok_or (checked_mul 128 FRAGMENT_SIZE (length frags)) (fb_err file_bank_error.Overflow)) (\<lambda>space.
     bindM (unlock_space_to_service sender space) (\<lambda>_.
     bindM (insert_service_bloom sender hash_list) (\<lambda>_.
     bindM (credit_tags E tee_tag_counter) (\<lambda>_.
     file_put (ts_file_hash info) (Some (file\<lparr>fi_segment_list :=
       map (\<lambda>sg. sg\<lparr>sg_fragment_list := map (tag_fragment sender now) (sg_fragment_list sg)\<rparr>) (fi_segment_list file)\<rparr>)))))))))))))))))"

section \<open>Extrinsics: idle space\<close>

text \<open>What \<open>replace_idle_space\<close> and \<open>cert_idle_space\<close> check alike; the result is the signature of the worker.\<close>

definition check_idle_sig :: "'w Config \<Rightarrow> space_proof_info \<Rightarrow> string \<Rightarrow> string \<Rightarrow> string \<Rightarrow> (('w, 'z) file_bank_state_scheme, string) M" where
  "check_idle_sig E info tee_sig_need_verify tee_sig tee_puk =
     bindM (getM (can_cert tee_puk)) (\<lambda>allowed.
     bindM (ensureM allowed (fb_err file_bank_error.TeeNoPermission)) (\<lambda>_.
     let original = sha2_256 E (encode E (space_proof_scale info) @ encode E (S_Bytes tee_puk)) in
     bindM (ok_or (sr25519_signature E tee_sig_need_verify) (fb_err file_bank_error.MalformedSignature)) (\<lambda>sig.
     bindM (getM (verify_master_sig E sig original)) (\<lambda>verified.
     bindM (ensureM verified (fb_err file_bank_error.VerifyTeeSigFailed)) (\<lambda>_.
     bindM (getM block_number) (\<lambda>now.
     bindM (update_work_block E now tee_puk) (\<lambda>_.
     ok_or (sr25519_signature E tee_sig) (fb_err file_bank_error.MalformedSignature))))))))"

definition replace_idle_space :: "'w Config \<Rightarrow> origin \<Rightarrow> space_proof_info \<Rightarrow> string \<Rightarrow> string \<Rightarrow> string
    \<Rightarrow> (('w, 'z) file_bank_state_scheme, unit) M" where
  "replace_idle_space E orig info tee_sig_need_verify tee_sig tee_puk = transactional (
     bindM (ensure_signed orig) (\<lambda>sender.
     bindM (check_idle_sig E info tee_sig_need_verify tee_sig tee_puk) (\<lambda>sig.
     bindM (delete_idle_update_accu sender (sp_accumulator info) (sp_front info) (sp_rear info) sig) (\<lambda>count.
     bindM (ok_or (checked_mul 128 IDLE_SEG_SIZE count) (fb_err file_bank_error.Overflow)) (\<lambda>replace_space.
     bindM (decrease_replace_space sender replace_space) (\<lambda>_.
     bindM (getM (is_bonded tee_puk)) (\<lambda>bonded.
     if bonded
     then bindM (get_stash tee_puk) (\<lambda>bond_stash. increase_point_for_replace E bond_stash replace_space)
     else retM ())))))))"

definition cert_idle_space :: "'w Config \<Rightarrow> origin \<Rightarrow> space_proof_info \<Rightarrow> string \<Rightarrow> string \<Rightarrow> string
    \<Rightarrow> (('w, 'z) file_bank_state_scheme, unit) M" where
  "cert_idle_space E orig info tee_sig_need_verify tee_sig tee_puk = transactional (
     bindM (ensure_signed orig) (\<lambda>sender.
     bindM (check_idle_sig E info tee_sig_need_verify tee_sig tee_puk) (\<lambda>sig.
     bindM (add_miner_idle_space sender (sp_accumulator info) (sp_front info) (sp_rear info) sig) (\<lambda>idle_space.
     bindM (getM (is_bonded tee_puk)) (\<lambda>bonded.
     bindM (if bonded
            then bindM (get_stash tee_puk) (\<lambda>bond_stash. increase_point_for_cert E bond_stash idle_space)
            else retM ()) (\<lambda>_.
     add_total_idle_space idle_space))))))"

section \<open>Extrinsics: files and buckets\<close>

definition delete_file :: "origin \<Rightarrow> account \<Rightarrow> string \<Rightarrow> (('w, 'z) file_bank_state_scheme, unit) M" where
  "delete_file orig owner file_hash = transactional (
     bindM (ensure_signed orig) (\<lambda>sender.
     bindM (getM (check_permission sender owner)) (\<lambda>permitted.
     bindM (ensureM permitted (fb_err file_bank_error.NoPermission)) (\<lambda>_.
     bindM (file_get file_hash file_bank_error.NonExistent) (\<lambda>file.
     bindM (delete_user_file file_hash owner file) (\<lambda>_.
     bindM (bucket_remove_file file_hash owner file) (\<lambda>_.
     remove_user_hold_file_list file_hash owner)))))))"

definition root_clear_file :: "origin \<Rightarrow> account \<Rightarrow> string \<Rightarrow> (('w, 'z) file_bank_state_scheme, unit) M" where
  "root_clear_file orig owner file_hash = transactional (
     bindM (ensure_root orig) (\<lambda>_.
     bindM (file_get file_hash file_bank_error.NonExistent) (\<lambda>file.
     bindM (delete_user_file file_hash owner file) (\<lambda>_.
     bindM (bucket_remove_file file_hash owner file) (\<lambda>_.
     remove_user_hold_file_list file_hash owner)))))"

definition create_bucket :: "'w Config \<Rightarrow> origin \<Rightarrow> account \<Rightarrow> string \<Rightarrow> (('w, 'z) file_bank_state_scheme, unit) M" where
  "create_bucket E orig owner name = transactional (
     bindM (ensure_signed orig) (\<lambda>sender.
     bindM (getM (check_permission sender owner)) (\<lambda>permitted.
     bindM (ensureM permitted (fb_err file_bank_error.NoPermission)) (\<lambda>_.
     create_bucket_helper E owner name None))))"

definition delete_bucket :: "origin \<Rightarrow> account \<Rightarrow> string \<Rightarrow> (('w, 'z) file_bank_state_scheme, unit) M" where
  "delete_bucket orig owner name = transactional (
     bindM (ensure_signed orig) (\<lambda>sender.
     bindM (getM (check_permission sender owner)) (\<lambda>permitted.
     bindM (ensureM permitted (fb_err file_bank_error.NoPermission)) (\<lambda>_.
     bindM (getM (\<lambda>s. Bucket s (owner, name))) (\<lambda>b.
     bindM (ok_or b (fb_err file_bank_error.NonExistent)) (\<lambda>bucket.
     bindM (ensureM (length (bk_object_list bucket) = 0) (fb_err file_bank_error.NotEmpty)) (\<lambda>_.
     bindM (bucket_put owner name None) (\<lambda>_.
     bindM (getM (\<lambda>s. UserBucketList s owner)) (\<lambda>l.
     bindM (ensureM (name \<in> set l) Panic) (\<lambda>_.
     user_buckets_put owner (remove1 name l)))))))))))"

section \<open>Extrinsics: restoral orders\<close>

text \<open>The loops over the fragments with a \<open>return\<close>: the first fragment on which the body returns ends them.\<close>

fun fragment_loop :: "(fragment_info \<Rightarrow> ('s, fragment_info option) M) \<Rightarrow> fragment_info list \<Rightarrow> ('s, fragment_info list option) M" where
  "fragment_loop f [] = retM None"
| "fragment_loop f (fr # frs) = bindM (f fr) (\<lambda>r. case r of
     Some fr' \<Rightarrow> retM (Some (fr' # frs))
   | None \<Rightarrow> bindM (fragment_loop f frs) (\<lambda>r'. retM (map_option (Cons fr) r')))"

fun segment_loop :: "(fragment_info \<Rightarrow> ('s, fragment_info option) M) \<Rightarrow> segment_info list \<Rightarrow> ('s, segment_info list option) M" where
  "segment_loop f [] = retM None"
| "segment_loop f (sg # sgs) = bindM (fragment_loop f (sg_fragment_list sg)) (\<lambda>r. case r of
     Some frs \<Rightarrow> retM (Some (sg\<lparr>sg_fragment_list := frs\<rparr> # sgs))
   | None \<Rightarrow> bindM (segment_loop f sgs) (\<lambda>r'. retM (map_option (Cons sg) r')))"

definition order_fragment :: "account \<Rightarrow> account \<Rightarrow> string \<Rightarrow> string \<Rightarrow> nat \<Rightarrow> (nat \<Rightarrow> (('w, 'z) file_bank_state_scheme, nat) M)
    \<Rightarrow> fragment_info \<Rightarrow> (('w, 'z) file_bank_state_scheme, fragment_info option) M" where
  "order_fragment sender holder file_hash restoral_fragment count deadline_of fr =
     (if fr_hash fr = restoral_fragment \<and> fr_miner fr = holder
      then bindM (getM block_number) (\<lambda>now.
           bindM (deadline_of now) (\<lambda>deadline.
           bindM (order_put restoral_fragment (Some \<lparr>ri_count = count, ri_miner = sender, ri_origin_miner = holder,
             ri_fragment_hash = restoral_fragment, ri_file_hash = file_hash, ri_gen_block = now, ri_deadline = deadline\<rparr>)) (\<lambda>_.
           retM (Some (fr\<lparr>fr_avail := False\<rparr>)))))
      else retM None)"

definition generate_restoral_order :: "origin \<Rightarrow> string \<Rightarrow> string \<Rightarrow> (('w, 'z) file_bank_state_scheme, unit) M" where
  "generate_restoral_order orig file_hash restoral_fragment = transactional (
     bindM (ensure_signed orig) (\<lambda>sender.
     bindM (getM (\<lambda>s. RestoralOrder s restoral_fragment = None)) (\<lambda>fresh.
     bindM (ensureM fresh (fb_err file_bank_error.Existed)) (\<lambda>_.
     bindM (file_get file_hash file_bank_error.NonExistent) (\<lambda>file.
     bindM (segment_loop (order_fragment sender sender file_hash restoral_fragment 0 (\<lambda>_. retM 0)) (fi_segment_list file)) (\<lambda>r.
     bindM (ok_or r (fb_err file_bank_error.SpecError)) (\<lambda>segs.
     file_put file_hash (Some (file\<lparr>fi_segment_list := segs\<rparr>)))))))))"

definition restoral_deadline :: "'w Config \<Rightarrow> nat \<Rightarrow> ('s, nat) M" where
  "restoral_deadline E now = ok_or (checked_add 32 now (saturated_into 32 (RestoralOrderLife E))) (fb_err file_bank_error.Overflow)"

definition claim_restoral_order :: "'w Config \<Rightarrow> origin \<Rightarrow> string \<Rightarrow> (('w, 'z) file_bank_state_scheme, unit) M" where
  "claim_restoral_order E orig restoral_fragment = transactional (
     bindM (ensure_signed orig) (\<lambda>sender.
     bindM (is_positive sender) (\<lambda>positive.
     bindM (ensureM positive (fb_err file_bank_error.MinerStateError)) (\<lambda>_.
     bindM (getM block_number) (\<lambda>now.
     bindM (getM (\<lambda>s. RestoralOrder s restoral_fragment)) (\<lambda>r.
     bindM (ok_or r (fb_err file_bank_error.NonExistent)) (\<lambda>order.
     bindM (ensureM (ri_deadline order < now) (fb_err file_bank_error.SpecError)) (\<lambda>_.
     bindM (ok_or (checked_add 32 (ri_count order) 1) (fb_err file_bank_error.Overflow)) (\<lambda>count.
     bindM (restoral_deadline E now) (\<lambda>deadline.
     order_put restoral_fragment (Some (order\<lparr>ri_count := count, ri_deadline := deadline, ri_miner := sender\<rparr>))))))))))))"

definition claim_restoral_noexist_order :: "'w Config \<Rightarrow> origin \<Rightarrow> account \<Rightarrow> string \<Rightarrow> string \<Rightarrow> (('w, 'z) file_bank_state_scheme, unit) M" where
  "claim_restoral_noexist_order E orig miner file_hash restoral_fragment = transactional (
     bindM (ensure_signed orig) (\<lambda>sender.
     bindM (is_positive sender) (\<lambda>positive.
     bindM (ensureM positive (fb_err file_bank_error.MinerStateError)) (\<lambda>_.
     bindM (getM (\<lambda>s. RestoralOrder s restoral_fragment = None)) (\<lambda>fresh.
     bindM (ensureM fresh (fb_err file_bank_error.Existed)) (\<lambda>_.
     bindM (getM (restoral_target_is_exist miner)) (\<lambda>leaving.
     bindM (ensureM leaving (fb_err file_bank_error.NonExistent)) (\<lambda>_.
     bindM (file_get file_hash file_bank_error.NonExistent) (\<lambda>file.
     bindM (segment_loop (order_fragment sender miner file_hash restoral_fragment 0 (restoral_deadline E)) (fi_segment_list file)) (\<lambda>r.
     bindM (ok_or r (fb_err file_bank_error.SpecError)) (\<lambda>segs.
     file_put file_hash (Some (file\<lparr>fi_segment_list := segs\<rparr>)))))))))))))"

definition take_over_fragment :: "account \<Rightarrow> restoral_order_info \<Rightarrow> string \<Rightarrow> nat \<Rightarrow> fragment_info
    \<Rightarrow> (('w, 'z) file_bank_state_scheme, fragment_info option) M" where
  "take_over_fragment sender order fragment_hash now fr =
     (if fr_hash fr \<noteq> fragment_hash then retM None
      else bindM (ensureM (fr_miner fr \<noteq> sender) (fb_err file_bank_error.RulesNotAllowed)) (\<lambda>_.
        if fr_miner fr \<noteq> ri_origin_miner order then retM None
        else bindM (binaries [fr_hash fr]) (\<lambda>binary.
             bindM (insert_service_bloom sender binary) (\<lambda>_.
             bindM (add_miner_service_space sender FRAGMENT_SIZE) (\<lambda>_.
             bindM (delete_idle_update_space sender FRAGMENT_SIZE) (\<lambda>_.
             bindM (increase_replace_space sender FRAGMENT_SIZE) (\<lambda>_.
             bindM (getM (restoral_target_is_exist (fr_miner fr))) (\<lambda>leaving.
             bindM (if leaving then update_restoral_target (fr_miner fr) FRAGMENT_SIZE
                    else if fr_tag fr \<noteq> None
                    then bindM (delete_service_bloom (fr_miner fr) binary) (\<lambda>_. sub_miner_service_space (fr_miner fr) FRAGMENT_SIZE)
                    else unlock_space_direct (fr_miner fr) FRAGMENT_SIZE) (\<lambda>_.
             retM (Some (fr\<lparr>fr_tag := Some now, fr_avail := True, fr_miner := sender\<rparr>)))))))))))"

definition restoral_order_complete :: "origin \<Rightarrow> string \<Rightarrow> (('w, 'z) file_bank_state_scheme, unit) M" where
  "restoral_order_complete orig fragment_hash = transactional (
     bindM (ensure_signed orig) (\<lambda>sender.
     bindM (is_positive sender) (\<lambda>positive.
     bindM (ensureM positive (fb_err file_bank_error.MinerStateError)) (\<lambda>_.
     bindM (getM (\<lambda>s. RestoralOrder s fragment_hash)) (\<lambda>r.
     bindM (ok_or r (fb_err file_bank_error.NonExistent)) (\<lambda>order.
     bindM (ensureM (ri_miner order = sender) (fb_err file_bank_error.SpecError)) (\<lambda>_.
     bindM (getM block_number) (\<lambda>now.
     bindM (ensureM (now < ri_deadline order) (fb_err file_bank_error.Expired)) (\<lambda>_.
     bindM (getM (\<lambda>s. File s (ri_file_hash order))) (\<lambda>f. case f of
       None \<Rightarrow> order_put fragment_hash None
     | Some file \<Rightarrow>
         bindM (segment_loop (take_over_fragment sender order fragment_hash now) (fi_segment_list file)) (\<lambda>r.
         bindM (file_put (ri_file_hash order) (Some (case r of None \<Rightarrow> file | Some segs \<Rightarrow> file\<lparr>fi_segment_list := segs\<rparr>))) (\<lambda>_.
         order_put fragment_hash None))))))))))))"

end
