(* ===== verification/Pallet_Audit.thy ===== *)
theory Pallet_Audit
  imports File_Bank
begin

text \<open>
  \<open>pallets/audit\<close>: random challenges to storage miners. Every tenth block a miner is chosen at random and
  challenged over a snapshot of its space; it submits a proof of its idle and of its service space, each
  assigned to a random trusted worker, whose signed verdict is recorded. Overdue challenges are cleared
  and punished, overdue verdicts are reassigned. An \<open>AuditErr\<close> is a value that the callers match on; a
  division by zero is \<open>Panic\<close>.
\<close>

section \<open>Data and storage\<close>

definition SERVICE_PROVE_RATE :: nat where "SERVICE_PROVE_RATE = 25165824"
definition IDLE_PROVE_RATE :: nat where "IDLE_PROVE_RATE = 203613264"
definition IDLE_VERIFY_RATE :: nat where "IDLE_VERIFY_RATE = 2147483648"
definition SERVICE_FAULT_TOLERANT :: nat where "SERVICE_FAULT_TOLERANT = 2"

datatype audit_err = RandomErr | QElementErr | SpaceParamErr

record q_element =
  qe_random_index_list :: "nat list"
  qe_random_list :: "string list"

record idle_prove_info =
  ip_tee_puk :: string
  ip_idle_prove :: string
  ip_verify_result :: "bool option"

record service_prove_info =
  vp_tee_puk :: string
  vp_service_prove :: string
  vp_verify_result :: "bool option"

record prove_info =
  pv_assign :: nat
  pv_idle_prove :: "idle_prove_info option"
  pv_service_prove :: "service_prove_info option"

record challenge_element =
  ce_start :: nat
  ce_idle_slip :: nat
  ce_service_slip :: nat
  ce_verify_slip :: nat
  ce_space_param :: "nat list"
  ce_service_param :: q_element

record miner_snap_shot =
  sn_idle_space :: nat
  sn_service_space :: nat
  sn_service_bloom_filter :: bloom_filter
  sn_space_proof_info :: space_proof_info
  sn_tee_signature :: string

record challenge_info =
  ch_miner_snapshot :: miner_snap_shot
  ch_challenge_element :: challenge_element
  ch_prove_info :: prove_info

record 'w audit_state = "'w file_bank_state" +
  CountedServiceFailed :: "account \<Rightarrow> nat"
  CountedClear :: "account \<Rightarrow> nat"
  ChallengeSnapShot :: "account \<Rightarrow> challenge_info option"
  ChallengeSlip :: "nat \<Rightarrow> account list"
  VerifySlip :: "nat \<Rightarrow> account list"

abbreviation au_err :: "audit_error \<Rightarrow> dispatch_error" where
  "au_err \<equiv> AuditE"

definition challenge_put :: "account \<Rightarrow> challenge_info option \<Rightarrow> (('w, 'z) audit_state_scheme, unit) M" where
  "challenge_put a c = modM (\<lambda>s. s\<lparr>ChallengeSnapShot := (ChallengeSnapShot s)(a := c)\<rparr>)"

definition counted_clear_put :: "account \<Rightarrow> nat \<Rightarrow> (('w, 'z) audit_state_scheme, unit) M" where
  "counted_clear_put a n = modM (\<lambda>s. s\<lparr>CountedClear := (CountedClear s)(a := n)\<rparr>)"

definition service_failed_put :: "account \<Rightarrow> nat \<Rightarrow> (('w, 'z) audit_state_scheme, unit) M" where
  "service_failed_put a n = modM (\<lambda>s. s\<lparr>CountedServiceFailed := (CountedServiceFailed s)(a := n)\<rparr>)"

definition challenge_slip_insert :: "'w Config \<Rightarrow> nat \<Rightarrow> account \<Rightarrow> (('w, 'z) audit_state_scheme, unit) M" where
  "challenge_slip_insert E b a = modM (\<lambda>s. s\<lparr>ChallengeSlip := (ChallengeSlip s)(b := key_put (account_hash E) a (ChallengeSlip s b))\<rparr>)"

definition challenge_slip_remove :: "nat \<Rightarrow> account \<Rightarrow> (('w, 'z) audit_state_scheme, unit) M" where
  "challenge_slip_remove b a = modM (\<lambda>s. s\<lparr>ChallengeSlip := (ChallengeSlip s)(b := key_del a (ChallengeSlip s b))\<rparr>)"

definition verify_slip_insert :: "'w Config \<Rightarrow> nat \<Rightarrow> account \<Rightarrow> (('w, 'z) audit_state_scheme, unit) M" where
  "verify_slip_insert E b a = modM (\<lambda>s. s\<lparr>VerifySlip := (VerifySlip s)(b := key_put (account_hash E) a (VerifySlip s b))\<rparr>)"

definition verify_slip_remove :: "nat \<Rightarrow> account \<Rightarrow> (('w, 'z) audit_state_scheme, unit) M" where
  "verify_slip_remove b a = modM (\<lambda>s. s\<lparr>VerifySlip := (VerifySlip s)(b := key_del a (VerifySlip s b))\<rparr>)"

section \<open>Randomness\<close>

definition random_seed :: "'w Config \<Rightarrow> 'w \<Rightarrow> nat \<Rightarrow> string" where
  "random_seed E w seed = (case my_randomness E w (encode E (S_Seq [S_Bytes (AuditPalletId E), S_Num seed])) of
     Some v \<Rightarrow> v | None \<Rightarrow> replicate 32 CHR 0x00)"

definition random_number :: "'w Config \<Rightarrow> 'w \<Rightarrow> nat \<Rightarrow> audit_err + nat" where
  "random_number E w seed = (case decode_u64 E (random_seed E w seed) of None \<Rightarrow> Inl RandomErr | Some n \<Rightarrow> Inr n)"

text \<open>An \<open>H256\<close> has 32 bytes, so the loop of the source returns in its first round.\<close>

definition generate_challenge_random :: "'w Config \<Rightarrow> 'w \<Rightarrow> nat \<Rightarrow> audit_err + string" where
  "generate_challenge_random E w seed = (case decode_h256 E (random_seed E w (wrapping_add 32 seed 1)) of
     None \<Rightarrow> Inl RandomErr | Some h \<Rightarrow> Inr (take 20 h))"

definition need_count :: nat where "need_count = CHUNK_COUNT * 46 div 1000"

text \<open>Both \<open>while\<close> loops of \<open>generate_miner_qelement\<close>: draw until enough different values are there; the
  counter ends the loop after \<open>3 * need_count\<close> draws.\<close>

function draw_loop :: "(nat \<Rightarrow> audit_err + 'a) \<Rightarrow> nat \<Rightarrow> nat \<Rightarrow> nat \<Rightarrow> 'a list \<Rightarrow> audit_err + 'a list \<times> nat" where
  "draw_loop draw wanted seed counter xs =
     (if wanted \<le> length xs then Inr (xs, seed)
      else case checked_add 32 seed 1 of None \<Rightarrow> Inl QElementErr | Some seed' \<Rightarrow>
        case checked_add 32 counter 1 of None \<Rightarrow> Inl QElementErr | Some counter' \<Rightarrow>
          case draw seed' of Inl e \<Rightarrow> Inl e | Inr x \<Rightarrow>
            case (if x \<notin> set xs then try_push 1024 xs x else Some xs) of None \<Rightarrow> Inl QElementErr | Some xs' \<Rightarrow>
              if need_count * 3 < counter' then Inl QElementErr
              else draw_loop draw wanted seed' counter' xs')"
  by pat_completeness auto

termination
  by (relation "measure (\<lambda>(draw, wanted, seed, counter, xs). Suc (need_count * 3) - counter)") (auto simp: checked_add_def split: if_splits)

definition draw_index :: "'w Config \<Rightarrow> 'w \<Rightarrow> nat \<Rightarrow> audit_err + nat" where
  "draw_index E w seed = (case random_number E w seed of Inl e \<Rightarrow> Inl e | Inr n \<Rightarrow> Inr (as_cast 32 (n mod CHUNK_COUNT)))"

definition generate_miner_qelement :: "'w Config \<Rightarrow> 'w \<Rightarrow> nat \<Rightarrow> audit_err + q_element" where
  "generate_miner_qelement E w seed =
     (case draw_loop (draw_index E w) need_count seed 0 [] of
        Inl e \<Rightarrow> Inl e
      | Inr (random_index_list, seed) \<Rightarrow>
          (case draw_loop (generate_challenge_random E w) (length random_index_list) seed 0 [] of
             Inl e \<Rightarrow> Inl e
           | Inr (random_list, _) \<Rightarrow> Inr \<lparr>qe_random_index_list = random_index_list, qe_random_list = random_list\<rparr>))"

text \<open>One element of the space parameter: the inner \<open>loop\<close>, which draws again with the same seed while the value
  is a repetition. The remainder by zero is the \<open>None\<close> of the result.\<close>

function space_elem :: "'w Config \<Rightarrow> 'w \<Rightarrow> nat \<Rightarrow> nat \<Rightarrow> nat list \<Rightarrow> nat \<Rightarrow> nat \<Rightarrow> (audit_err + nat) option" where
  "space_elem E w n d repeat_filter seed counter =
     (case checked_add 32 seed 1 of None \<Rightarrow> Some (Inl SpaceParamErr) | Some seed' \<Rightarrow>
      case random_number E w seed' of Inl e \<Rightarrow> Some (Inl e) | Inr r \<Rightarrow>
        if n = 0 then None
        else case checked_add 64 counter 1 of None \<Rightarrow> Some (Inl SpaceParamErr) | Some counter' \<Rightarrow>
          if 8 * 3 < counter' then Some (Inl SpaceParamErr)
          else case checked_mul 64 n d of None \<Rightarrow> Some (Inl SpaceParamErr) | Some base \<Rightarrow>
            case checked_add 64 base (r mod n) of None \<Rightarrow> Some (Inl SpaceParamErr) | Some random \<Rightarrow>
              if random \<in> set repeat_filter then space_elem E w n d repeat_filter seed counter'
              else Some (Inr random))"
  by pat_completeness auto

termination
  by (relation "measure (\<lambda>(E, w, n, d, rf, seed, counter). Suc (8 * 3) - counter)") (auto simp: checked_add_def split: if_splits)

fun space_elems :: "'w Config \<Rightarrow> 'w \<Rightarrow> nat \<Rightarrow> nat \<Rightarrow> nat \<Rightarrow> nat list \<Rightarrow> nat \<Rightarrow> (audit_err + nat list) option" where
  "space_elems E w n d 0 found seed = Some (Inr found)"
| "space_elems E w n d (Suc k) found seed = (case space_elem E w n d found seed 0 of
     None \<Rightarrow> None
   | Some (Inl e) \<Rightarrow> Some (Inl e)
   | Some (Inr x) \<Rightarrow> (case checked_add 32 seed 1 of
       None \<Rightarrow> Some (Inl SpaceParamErr)
     | Some seed' \<Rightarrow> space_elems E w n d k (found @ [x]) seed'))"

definition generate_miner_space_param :: "'w Config \<Rightarrow> nat \<Rightarrow> (('w, 'z) audit_state_scheme, audit_err + nat list) M" where
  "generate_miner_space_param E seed =
     bindM (attemptM get_expenders) (\<lambda>ex. case ex of
       Inl _ \<Rightarrow> retM (Inl SpaceParamErr)
     | Inr (_, n, d) \<Rightarrow> (case checked_mul 32 seed 5 of
         None \<Rightarrow> retM (Inl SpaceParamErr)
       | Some seed' \<Rightarrow> bindM (getM (\<lambda>s. space_elems E (world s) n d 8 [] seed')) (\<lambda>r. ok_or r Panic)))"

definition random_select_tee_acc :: "'w Config \<Rightarrow> nat \<Rightarrow> (('w, 'z) audit_state_scheme, string) M" where
  "random_select_tee_acc E msk =
     bindM (getM get_pubkey_list) (\<lambda>tee_list.
     bindM (ensureM (0 < length tee_list) (au_err audit_error.SystemError)) (\<lambda>_.
     bindM (getM (\<lambda>s. random_number E (world s) (wrapping_add 32 (block_number s) msk))) (\<lambda>r. case r of
       Inl _ \<Rightarrow> failM (au_err audit_error.RandomErr)
     | Inr n \<Rightarrow> retM (tee_list ! (as_cast 32 n mod as_cast 32 (length tee_list))))))"

section \<open>Challenges\<close>

definition mk_challenge :: "'w Config \<Rightarrow> nat \<Rightarrow> nat \<Rightarrow> nat \<times> nat \<times> bloom_filter \<times> space_proof_info \<times> string \<Rightarrow> nat list \<Rightarrow> q_element
    \<Rightarrow> challenge_info \<times> nat \<times> nat" where
  "mk_challenge E now tee_length snapshot space_param service_param =
     (case snapshot of (idle_space, service_space, service_bloom_filter, space_proof_info, tee_signature) \<Rightarrow>
      let idle_life = as_cast 32 (saturating_add 128 (idle_space div IDLE_PROVE_RATE) 50);
          idle_slip = saturating_add 32 now idle_life;
          service_life = as_cast 32 (saturating_add 128 (service_space div SERVICE_PROVE_RATE) 50);
          service_slip = saturating_add 32 now service_life;
          max_slip = (if service_slip < idle_slip then idle_slip else service_slip);
          verify_life = as_cast 32 (saturating_add 128 idle_space service_space div IDLE_VERIFY_RATE div tee_length);
          verify_slip = saturating_add 32 (saturating_add 32 max_slip verify_life) (OneHours E)
      in (\<lparr>ch_miner_snapshot = \<lparr>sn_idle_space = idle_space, sn_service_space = service_space,
             sn_service_bloom_filter = service_bloom_filter, sn_space_proof_info = space_proof_info, sn_tee_signature = tee_signature\<rparr>,
           ch_challenge_element = \<lparr>ce_start = now, ce_idle_slip = idle_slip, ce_service_slip = service_slip,
             ce_verify_slip = verify_slip, ce_space_param = space_param, ce_service_param = service_param\<rparr>,
           ch_prove_info = \<lparr>pv_assign = 0, pv_idle_prove = None, pv_service_prove = None\<rparr>\<rparr>, max_slip, verify_slip))"

text \<open>The common part of \<open>point_miner_challenge\<close> and \<open>generate_challenge\<close>, from the check that the miner is not
  challenged yet to the inserts; every early return leaves the state alone.\<close>

definition challenge_miner :: "'w Config \<Rightarrow> nat \<Rightarrow> account \<Rightarrow> (('w, 'z) audit_state_scheme, unit) M" where
  "challenge_miner E now miner =
     bindM (getM (\<lambda>s. ChallengeSnapShot s miner \<noteq> None)) (\<lambda>known.
     if known then retM ()
     else bindM (attemptM (get_miner_snapshot miner)) (\<lambda>r. case r of
       Inl _ \<Rightarrow> retM ()
     | Inr snapshot \<Rightarrow>
         if wrapping_add 128 (fst snapshot) (fst (snd snapshot)) = 0 then retM ()
         else bindM (getM (\<lambda>s. generate_miner_qelement E (world s) (saturated_into 32 now))) (\<lambda>q. case q of
           Inl _ \<Rightarrow> retM ()
         | Inr service_param \<Rightarrow>
             bindM (generate_miner_space_param E (saturated_into 32 now)) (\<lambda>p. case p of
               Inl _ \<Rightarrow> retM ()
             | Inr space_param \<Rightarrow>
                 bindM (getM (\<lambda>s. length (get_pubkey_list s))) (\<lambda>tee_length.
                 if tee_length = 0 then retM ()
                 else case mk_challenge E now tee_length snapshot space_param service_param of
                   (challenge_info, max_slip, verify_slip) \<Rightarrow>
                     bindM (challenge_put miner (Some challenge_info)) (\<lambda>_.
                     bindM (challenge_slip_insert E max_slip miner) (\<lambda>_.
                     verify_slip_insert E verify_slip miner)))))))"

definition point_miner_challenge :: "'w Config \<Rightarrow> origin \<Rightarrow> account \<Rightarrow> (('w, 'z) audit_state_scheme, unit) M" where
  "point_miner_challenge E orig miner = transactional (
     bindM (ensure_root orig) (\<lambda>_. bindM (getM block_number) (\<lambda>now. challenge_miner E now miner)))"

definition generate_challenge :: "'w Config \<Rightarrow> nat \<Rightarrow> (('w, 'z) audit_state_scheme, unit) M" where
  "generate_challenge E now =
     (if now < saturating_mul 32 (OneDay E) 3 then retM ()
      else if now mod 10 \<noteq> 0 then retM ()
      else bindM get_all_miner (\<lambda>miner_list.
        if length miner_list = 0 then retM ()
        else bindM (getM (\<lambda>s. random_number E (world s) (saturated_into 32 now))) (\<lambda>r. case r of
          Inl _ \<Rightarrow> retM ()
        | Inr factor \<Rightarrow> challenge_miner E now (miner_list ! (factor mod length miner_list)))))"

definition clear_one_challenge :: "'w Config \<Rightarrow> nat \<Rightarrow> account \<Rightarrow> (('w, 'z) audit_state_scheme, unit) M" where
  "clear_one_challenge E now miner =
     bindM (getM (\<lambda>s. ChallengeSnapShot s miner)) (\<lambda>c.
     bindM (case c of
         Some challenge_info \<Rightarrow>
           if pv_service_prove (ch_prove_info challenge_info) = None
           then bindM (getM (\<lambda>s. CountedClear s miner)) (\<lambda>n.
                let count = (case checked_add 8 n 1 of None \<Rightarrow> 3 | Some c \<Rightarrow> c) in
                bindM (if 1 < count
                       then bindM (attemptM (clear_punish E miner (sn_idle_space (ch_miner_snapshot challenge_info))
                              (sn_service_space (ch_miner_snapshot challenge_info)) count)) (\<lambda>_. retM ())
                       else retM ()) (\<lambda>_.
                if 30 \<le> count
                then bindM (attemptM (force_miner_exit E miner)) (\<lambda>_. counted_clear_put miner 0)
                else counted_clear_put miner count))
           else retM ()
       | None \<Rightarrow> retM ()) (\<lambda>_.
     challenge_slip_remove now miner))"

definition clear_challenge :: "'w Config \<Rightarrow> nat \<Rightarrow> (('w, 'z) audit_state_scheme, unit) M" where
  "clear_challenge E now = bindM (getM (\<lambda>s. ChallengeSlip s now)) (\<lambda>miners. forM miners (clear_one_challenge E now))"

text \<open>Whether a due mission is over.\<close>

definition mission_over :: "prove_info \<Rightarrow> bool" where
  "mission_over p =
     (let flag = (case pv_idle_prove p of Some idle_prove \<Rightarrow> ip_verify_result idle_prove \<noteq> None | None \<Rightarrow> True);
          flag = (case pv_service_prove p of
            Some service_prove \<Rightarrow> if vp_verify_result service_prove = None then False else flag | None \<Rightarrow> flag);
          flag = (if 2 \<le> pv_assign p then True else flag)
      in if pv_idle_prove p = None \<and> pv_service_prove p = None then True else flag)"

definition reassign_mission :: "'w Config \<Rightarrow> nat \<Rightarrow> account \<Rightarrow> challenge_info \<Rightarrow> (('w, 'z) audit_state_scheme, unit) M" where
  "reassign_mission E now miner challenge_info =
     (let p = ch_prove_info challenge_info in
     bindM (case pv_idle_prove p of
         None \<Rightarrow> retM None
       | Some idle_prove \<Rightarrow> bindM (attemptM (random_select_tee_acc E 0)) (\<lambda>r.
           retM (Some (case r of Inl _ \<Rightarrow> idle_prove | Inr tee_puk \<Rightarrow> idle_prove\<lparr>ip_tee_puk := tee_puk\<rparr>)))) (\<lambda>idle_prove.
     bindM (case pv_service_prove p of
         None \<Rightarrow> retM None
       | Some service_prove \<Rightarrow> bindM (attemptM (random_select_tee_acc E 0)) (\<lambda>r.
           retM (Some (case r of Inl _ \<Rightarrow> service_prove | Inr tee_puk \<Rightarrow> service_prove\<lparr>vp_tee_puk := tee_puk\<rparr>)))) (\<lambda>service_prove.
     let sn = ch_miner_snapshot challenge_info;
         max_space = (if sn_service_space sn < sn_idle_space sn then sn_idle_space sn else sn_service_space sn);
         verify_life = as_cast 32 (saturating_add 128 (max_space div IDLE_VERIFY_RATE) (saturated_into 32 (OneHours E)));
         new_slip = saturating_add 32 now verify_life in
     bindM (verify_slip_remove now miner) (\<lambda>_.
     bindM (verify_slip_insert E new_slip miner) (\<lambda>_.
     challenge_put miner (Some (challenge_info\<lparr>
       ch_prove_info := \<lparr>pv_assign = wrapping_add 8 (pv_assign p) 1, pv_idle_prove = idle_prove, pv_service_prove = service_prove\<rparr>,
       ch_challenge_element := (ch_challenge_element challenge_info)\<lparr>ce_verify_slip := new_slip\<rparr>\<rparr>)))))))"

definition clear_one_mission :: "'w Config \<Rightarrow> nat \<Rightarrow> account \<Rightarrow> (('w, 'z) audit_state_scheme, unit) M" where
  "clear_one_mission E now miner =
     bindM (getM (\<lambda>s. ChallengeSnapShot s miner)) (\<lambda>c. case c of
       None \<Rightarrow> retM ()
     | Some challenge_info \<Rightarrow>
         if mission_over (ch_prove_info challenge_info)
         then bindM (verify_slip_remove now miner) (\<lambda>_. challenge_put miner None)
         else reassign_mission E now miner challenge_info)"

definition clear_verify_mission :: "'w Config \<Rightarrow> nat \<Rightarrow> (('w, 'z) audit_state_scheme, unit) M" where
  "clear_verify_mission E now = bindM (getM (\<lambda>s. VerifySlip s now)) (\<lambda>miners. forM miners (clear_one_mission E now))"

definition audit_on_initialize :: "'w Config \<Rightarrow> nat \<Rightarrow> (('w, 'z) audit_state_scheme, unit) M" where
  "audit_on_initialize E now =
     bindM (generate_challenge E now) (\<lambda>_. bindM (clear_challenge E now) (\<lambda>_. clear_verify_mission E now))"

section \<open>Proofs and verdicts\<close>

definition challenge_get :: "account \<Rightarrow> (('w, 'z) audit_state_scheme, challenge_info) M" where
  "challenge_get a = bindM (getM (\<lambda>s. ChallengeSnapShot s a)) (\<lambda>c. ok_or c (au_err audit_error.NoChallenge))"

definition submit_idle_proof :: "'w Config \<Rightarrow> origin \<Rightarrow> string \<Rightarrow> (('w, 'z) audit_state_scheme, unit) M" where
  "submit_idle_proof E orig idle_prove = transactional (
     bindM (ensure_signed orig) (\<lambda>sender.
     bindM (challenge_get sender) (\<lambda>c.
     bindM (getM block_number) (\<lambda>now.
     bindM (ensureM (\<not> ce_idle_slip (ch_challenge_element c) < now) (au_err audit_error.Expired)) (\<lambda>_.
     bindM (ensureM (pv_idle_prove (ch_prove_info c) = None) (au_err audit_error.Submitted)) (\<lambda>_.
     bindM (random_select_tee_acc E 0) (\<lambda>tee_puk.
     bindM (if pv_service_prove (ch_prove_info c) \<noteq> None then counted_clear_put sender 0 else retM ()) (\<lambda>_.
     challenge_put sender (Some (c\<lparr>ch_prove_info := (ch_prove_info c)\<lparr>pv_idle_prove :=
       Some \<lparr>ip_tee_puk = tee_puk, ip_idle_prove = idle_prove, ip_verify_result = None\<rparr>\<rparr>\<rparr>))))))))))"

definition submit_service_proof :: "'w Config \<Rightarrow> origin \<Rightarrow> string \<Rightarrow> (('w, 'z) audit_state_scheme, unit) M" where
  "submit_service_proof E orig service_prove = transactional (
     bindM (ensure_signed orig) (\<lambda>sender.
     bindM (challenge_get sender) (\<lambda>c.
     bindM (getM block_number) (\<lambda>now.
     bindM (ensureM (\<not> ce_service_slip (ch_challenge_element c) < now) (au_err audit_error.Expired)) (\<lambda>_.
     bindM (ensureM (pv_service_prove (ch_prove_info c) = None) (au_err audit_error.Submitted)) (\<lambda>_.
     bindM (random_select_tee_acc E 0) (\<lambda>tee_puk.
     bindM (if pv_idle_prove (ch_prove_info c) \<noteq> None then counted_clear_put sender 0 else retM ()) (\<lambda>_.
     challenge_put sender (Some (c\<lparr>ch_prove_info := (ch_prove_info c)\<lparr>pv_service_prove :=
       Some \<lparr>vp_tee_puk = tee_puk, vp_service_prove = service_prove, vp_verify_result = None\<rparr>\<rparr>\<rparr>))))))))))"

definition check_idle_verify_param :: "bool \<Rightarrow> nat \<Rightarrow> nat \<Rightarrow> string \<Rightarrow> string \<Rightarrow> miner_snap_shot \<Rightarrow> string \<Rightarrow> bool" where
  "check_idle_verify_param idle_result front rear total_prove_hash accumulator miner_info m_total_prove_hash \<longleftrightarrow>
     idle_result \<and> accumulator = sp_accumulator (sn_space_proof_info miner_info) \<and> rear = sp_rear (sn_space_proof_info miner_info)
     \<and> front = sp_front (sn_space_proof_info miner_info) \<and> total_prove_hash = m_total_prove_hash"

definition bool_scale :: "bool \<Rightarrow> scale" where
  "bool_scale b = S_Num (if b then 1 else 0)"

definition idle_result_scale :: "account \<Rightarrow> string \<Rightarrow> space_proof_info \<Rightarrow> nat list \<Rightarrow> bool \<Rightarrow> string \<Rightarrow> scale" where
  "idle_result_scale miner miner_prove info space_param res tee_puk =
     S_Seq [S_Num miner, S_Bytes miner_prove, S_Num (sp_front info), S_Num (sp_rear info), S_Bytes (sp_accumulator info),
       S_Seq (map S_Num space_param), bool_scale res, S_Bytes tee_puk]"

definition service_result_scale :: "account \<Rightarrow> string \<Rightarrow> string \<Rightarrow> bool \<Rightarrow> q_element \<Rightarrow> bloom_filter \<Rightarrow> scale" where
  "service_result_scale miner tee_puk miner_prove res chal bloom =
     S_Seq [S_Num miner, S_Bytes tee_puk, S_Bytes miner_prove, bool_scale res,
       S_Seq [S_Seq (map S_Num (qe_random_index_list chal)), S_Seq (map S_Bytes (qe_random_list chal))],
       S_Seq (map (\<lambda>w. S_Num (unat w)) bloom)]"

text \<open>What both verdicts check: the permission of the worker and the signature over the given encoding.\<close>

definition check_verdict :: "'w Config \<Rightarrow> string \<Rightarrow> scale \<Rightarrow> string \<Rightarrow> (('w, 'z) audit_state_scheme, unit) M" where
  "check_verdict E tee_puk verdict signature =
     bindM (getM (can_verify tee_puk)) (\<lambda>allowed.
     bindM (ensureM allowed (au_err audit_error.TeeNoPermission)) (\<lambda>_.
     bindM (ok_or (sr25519_signature E signature) (au_err audit_error.MalformedSignature)) (\<lambda>sig.
     bindM (getM (verify_master_sig E sig (sha2_256 E (encode E verdict)))) (\<lambda>verified.
     ensureM verified (au_err audit_error.VerifyTeeSigFailed)))))"

definition submit_verify_idle_result :: "'w Config \<Rightarrow> origin \<Rightarrow> string \<Rightarrow> nat \<Rightarrow> nat \<Rightarrow> string \<Rightarrow> bool \<Rightarrow> string \<Rightarrow> string
    \<Rightarrow> (('w, 'z) audit_state_scheme, unit) M" where
  "submit_verify_idle_result E orig total_prove_hash front rear accumulator idle_result signature tee_puk = transactional (
     bindM (ensure_signed orig) (\<lambda>sender.
     bindM (challenge_get sender) (\<lambda>c.
     bindM (ok_or (pv_idle_prove (ch_prove_info c)) (au_err audit_error.UnSubmitted)) (\<lambda>idle_prove.
     bindM (ensureM (tee_puk = ip_tee_puk idle_prove) (au_err audit_error.NonExistentMission)) (\<lambda>_.
     bindM (ensureM (ip_verify_result idle_prove = None) (au_err audit_error.Submitted)) (\<lambda>_.
     let sn = ch_miner_snapshot c; info = sn_space_proof_info sn in
     bindM (check_verdict E tee_puk (idle_result_scale sender total_prove_hash info (ce_space_param (ch_challenge_element c)) idle_result tee_puk)
       signature) (\<lambda>_.
     bindM (getM block_number) (\<lambda>now.
     bindM (update_work_block E now tee_puk) (\<lambda>_.
     let verdict = check_idle_verify_param idle_result front rear total_prove_hash accumulator sn (ip_idle_prove idle_prove) in
     bindM (case pv_service_prove (ch_prove_info c) of
         Some service_prove \<Rightarrow> if verdict \<and> vp_verify_result service_prove = Some True
           then record_snap_shot E sender (sn_idle_space sn) (sn_service_space sn) else retM ()
       | None \<Rightarrow> retM ()) (\<lambda>_.
     bindM (ok_or (checked_sub (sp_rear info) (sp_front info)) (au_err audit_error.Overflow)) (\<lambda>count.
     bindM (ok_or (checked_mul 128 IDLE_SEG_SIZE count) (au_err audit_error.Overflow)) (\<lambda>space.
     bindM (get_stash tee_puk) (\<lambda>bond_stash.
     bindM (increase_point_for_idle_verify E bond_stash space) (\<lambda>_.
     challenge_put sender (Some (c\<lparr>ch_prove_info := (ch_prove_info c)\<lparr>pv_idle_prove :=
       Some (idle_prove\<lparr>ip_verify_result := Some verdict\<rparr>)\<rparr>\<rparr>))))))))))))))))"

definition count_service_result :: "'w Config \<Rightarrow> account \<Rightarrow> nat \<Rightarrow> bool \<Rightarrow> (('w, 'z) audit_state_scheme, unit) M" where
  "count_service_result E sender service_space service_result =
     (if service_result then service_failed_put sender 0
      else bindM (getM (\<lambda>s. CountedServiceFailed s sender)) (\<lambda>n.
           let count = (case checked_add 32 n 1 of None \<Rightarrow> SERVICE_FAULT_TOLERANT | Some c \<Rightarrow> c) in
           bindM (if SERVICE_FAULT_TOLERANT \<le> count then service_punish E sender service_space service_space else retM ()) (\<lambda>_.
           service_failed_put sender count)))"

definition submit_verify_service_result :: "'w Config \<Rightarrow> origin \<Rightarrow> bool \<Rightarrow> string \<Rightarrow> bloom_filter \<Rightarrow> string
    \<Rightarrow> (('w, 'z) audit_state_scheme, unit) M" where
  "submit_verify_service_result E orig service_result signature service_bloom_filter tee_puk = transactional (
     bindM (ensure_signed orig) (\<lambda>sender.
     bindM (challenge_get sender) (\<lambda>c.
     bindM (ok_or (pv_service_prove (ch_prove_info c)) (au_err audit_error.UnSubmitted)) (\<lambda>service_prove.
     bindM (ensureM (tee_puk = vp_tee_puk service_prove) (au_err audit_error.NonExistentMission)) (\<lambda>_.
     bindM (ensureM (vp_verify_result service_prove = None) (au_err audit_error.Submitted)) (\<lambda>_.
     let sn = ch_miner_snapshot c in
     bindM (check_verdict E tee_puk (service_result_scale sender tee_puk (vp_service_prove service_prove) service_result
       (ce_service_param (ch_challenge_element c)) (sn_service_bloom_filter sn)) signature) (\<lambda>_.
     bindM (ensureM (service_bloom_filter = sn_service_bloom_filter sn) (au_err audit_error.BloomFilterError)) (\<lambda>_.
     bindM (getM block_number) (\<lambda>now.
     bindM (update_work_block E now tee_puk) (\<lambda>_.
     bindM (case pv_idle_prove (ch_prove_info c) of
         Some idle_prove \<Rightarrow> if ip_verify_result idle_prove = Some True \<and> service_result
           then record_snap_shot E sender (sn_idle_space sn) (sn_service_space sn) else retM ()
       | None \<Rightarrow> retM ()) (\<lambda>_.
     bindM (count_service_result E sender (sn_service_space sn) service_result) (\<lambda>_.
     bindM (get_stash tee_puk) (\<lambda>bond_stash.
     bindM (increase_point_for_idle_verify E bond_stash (sn_service_space sn)) (\<lambda>_.
     challenge_put sender (Some (c\<lparr>ch_prove_info := (ch_prove_info c)\<lparr>pv_service_prove :=
       Some (service_prove\<lparr>vp_verify_result := Some service_result\<rparr>)\<rparr>\<rparr>))))))))))))))))"

section \<open>Calls of the root origin\<close>

definition update_counted_clear :: "origin \<Rightarrow> account \<Rightarrow> (('w, 'z) audit_state_scheme, unit) M" where
  "update_counted_clear orig miner = transactional (bindM (ensure_root orig) (\<lambda>_. counted_clear_put miner 0))"

definition test_update_clear_slip :: "'w Config \<Rightarrow> origin \<Rightarrow> nat \<Rightarrow> nat \<Rightarrow> account \<Rightarrow> (('w, 'z) audit_state_scheme, unit) M" where
  "test_update_clear_slip E orig old_block new_block miner = transactional (
     bindM (ensure_root orig) (\<lambda>_.
     bindM (challenge_slip_remove old_block miner) (\<lambda>_. challenge_slip_insert E new_block miner)))"

definition test_update_verify_slip :: "'w Config \<Rightarrow> origin \<Rightarrow> nat \<Rightarrow> nat \<Rightarrow> account \<Rightarrow> (('w, 'z) audit_state_scheme, unit) M" where
  "test_update_verify_slip E orig old_block new_block miner = transactional (
     bindM (ensure_root orig) (\<lambda>_.
     bindM (verify_slip_remove old_block miner) (\<lambda>_. verify_slip_insert E new_block miner)))"

end
