(* ===== verification/Chain_Laws.thy ===== *)
theory Chain_Laws
  imports Reward_Laws Pallet_Audit
begin

text \<open>
  The miner pallet inside the chain: the file bank, the audit and the blocks run its operations, and
  its two invariants hold in every state that the calls and the hooks of these pallets can reach.
\<close>

section \<open>Both invariants\<close>

definition miner_inv :: "'w Config \<Rightarrow> ('w, 'z) sminer_state_scheme \<Rightarrow> bool" where
  "miner_inv E s \<longleftrightarrow> miners_typed s \<and> rewards_ok E s"

lemma miner_inv_both: "keepsM miners_typed m \<Longrightarrow> keepsM (rewards_ok E) m \<Longrightarrow> keepsM (miner_inv E) m"
  by (simp add: keepsM_def miner_inv_def)

lemma miner_inv_typed: "keepsM miners_typed m \<Longrightarrow> frames RewardMap m \<Longrightarrow> keepsM (miner_inv E) m"
  by (intro miner_inv_both rewards_ok_frame)

lemma miner_inv_frame: "frames MinerItems m \<Longrightarrow> frames RewardMap m \<Longrightarrow> keepsM (miner_inv E) m"
  by (intro miner_inv_typed miners_typed_frame)

lemma miner_inv_below: "frames tee_state.more m \<Longrightarrow> keepsM (miner_inv E) m"
  by (intro miner_inv_frame miner_frames_below)

lemma miner_inv_write:
  "(\<And>s. MinerItems (g s) = MinerItems s) \<Longrightarrow> (\<And>s. RewardMap (g s) = RewardMap s) \<Longrightarrow> keepsM (miner_inv E) (modM g)"
  by (intro miner_inv_frame frames_mod)

lemma space_calls_inv:
  "keepsM (miner_inv E) (add_miner_idle_space a acc fr r sg)" "keepsM (miner_inv E) (delete_idle_update_accu a acc fr r sg)"
  "keepsM (miner_inv E) (delete_idle_update_space a v)" "keepsM (miner_inv E) (insert_service_bloom a h)"
  "keepsM (miner_inv E) (delete_service_bloom a h)" "keepsM (miner_inv E) (lock_space a v)"
  "keepsM (miner_inv E) (unlock_space_to_service a v)" "keepsM (miner_inv E) (unlock_space a v)"
  "keepsM (miner_inv E) (unlock_space_direct a v)" "keepsM (miner_inv E) (sub_miner_service_space a v)"
  by (intro miner_inv_typed space_ops_typed unlock_ops_typed space_frames)+

lemma other_ops_inv:
  "keepsM (miner_inv E) (update_restoral_target a v)" "keepsM (miner_inv E) (record_snap_shot E a i v)"
  "keepsM (miner_inv E) (increase_replace_space a v)" "keepsM (miner_inv E) (decrease_replace_space a v)"
  by (intro miner_inv_frame other_ops_frames exit_frames)+

lemma penalties_inv:
  assumes "mul_floor_law E"
  shows "keepsM (miner_inv E) (idle_punish E a i v)" "keepsM (miner_inv E) (service_punish E a i v)"
    "keepsM (miner_inv E) (clear_punish E a i v n)" "keepsM (miner_inv E) (force_miner_exit E a)"
  using assms by (intro miner_inv_typed punishments_typed penalty_frames miner_inv_both force_exit_typed force_exit_ok; assumption)+

lemma keepsM_query: "frames (\<lambda>s. s) m \<Longrightarrow> keepsM P m"
  by (erule keepsM_frame) simp

lemmas miner_calls = keep_rules query_frames [THEN keepsM_query] below_more [THEN miner_inv_below]
  space_calls_inv other_ops_inv miner_inv_write

section \<open>The file bank\<close>

lemma fb_writes:
  "keepsM (miner_inv E) (deal_put h d)" "keepsM (miner_inv E) (file_put h fi)" "keepsM (miner_inv E) (hold_put a l)"
  "keepsM (miner_inv E) (bucket_put a n b)" "keepsM (miner_inv E) (user_buckets_put a bl)" "keepsM (miner_inv E) (order_put h ro)"
  unfolding deal_put_def file_put_def hold_put_def bucket_put_def user_buckets_put_def order_put_def
  by (intro miner_inv_write; simp)+


lemmas bank_rules = miner_calls fb_writes

lemma bank_loops:
  "keepsM (miner_inv E) (generate_fragments cl n hs acc)" "keepsM (miner_inv E) (generate_segments cl segs acc')"
  "keepsM (miner_inv E) (remove_owner_loop sz a b bs)" "keepsM (miner_inv E) (binaries hs)"
  "keepsM (miner_inv E) (count_digests ds c d)"
proof -
  show frags: "keepsM (miner_inv E) (generate_fragments cl n hs acc)" for cl n hs acc
    by (induction cl n hs acc rule: generate_fragments.induct) (auto intro!: keep_rules)
  show "keepsM (miner_inv E) (generate_segments cl segs acc')"
    by (induction cl segs acc' rule: generate_segments.induct) (auto intro!: keep_rules frags)
  show "keepsM (miner_inv E) (remove_owner_loop sz a b bs)"
    by (induction bs) (auto intro!: bank_rules)
  show "keepsM (miner_inv E) (binaries hs)"
    by (induction hs) (auto intro!: keep_rules split: sum.splits)
  show "keepsM (miner_inv E) (count_digests ds c d)"
    by (induction ds c d rule: count_digests.induct) (auto intro!: keep_rules)
qed

lemma bucket_ops_inv:
  "keepsM (miner_inv E) (into_bucket E a n h)" "keepsM (miner_inv E) (add_user_hold_fileslice E a h sz t)"
  "keepsM (miner_inv E) (create_bucket_helper E a n ho)"
  unfolding into_bucket_def add_file_to_bucket_def create_bucket_helper_def add_user_hold_fileslice_def Let_def
  by (intro bank_rules)+

lemma deal_ops_inv:
  "keepsM (miner_inv E) (upload_declaration E orig h di br sz)" "keepsM (miner_inv E) (transfer_report E orig i h)"
  unfolding upload_declaration_def fly_upload_file_def receptionist_generate_deal_def fb_generate_deal_def file_get_def
    transfer_report_def force_unlock_space_def qualification_report_processing_def complete_part_def complete_deal_def
    completed_all_def fb_generate_file_def Let_def
  by (intro bank_rules bank_loops bucket_ops_inv)+

lemma delete_ops_inv:
  "keepsM (miner_inv E) (remove_file_owner h a b)" "keepsM (miner_inv E) (remove_file_last_owner h a b)"
  "keepsM (miner_inv E) (bucket_remove_file h a fi)" "keepsM (miner_inv E) (delete_user_file h a fi)"
  "keepsM (miner_inv E) (remove_user_hold_file_list h a)"
  unfolding remove_file_owner_def remove_file_last_owner_def bucket_remove_file_def delete_user_file_def
    remove_user_hold_file_list_def release_miner_def file_get_def Let_def
  by (intro bank_rules bank_loops)+

lemma clear_inv: "keepsM (miner_inv E) (clear_files a t n fs)" "keepsM (miner_inv E) (clear_accounts l n)"
proof -
  have one: "keepsM (miner_inv E) (clear_file a h)" for a h
    unfolding clear_file_def by (intro bank_rules delete_ops_inv)
  show files: "keepsM (miner_inv E) (clear_files a t n fs)" for a t n fs
    by (induction a t n fs rule: clear_files.induct) (auto simp: Let_def intro!: bank_rules one)
  show "keepsM (miner_inv E) (clear_accounts l n)"
    by (induction l n rule: clear_accounts.induct) (auto intro!: bank_rules files)
qed


lemma bank_calls_inv:
  "keepsM (miner_inv E) (file_bank_on_initialize E)" "keepsM (miner_inv E) (territory_file_delivery orig a h t)"
  "keepsM (miner_inv E) (calculate_report E orig sg info)" "keepsM (miner_inv E) (replace_idle_space E orig pr s1 s2 k)"
  "keepsM (miner_inv E) (cert_idle_space E orig pr s1 s2 k)" "keepsM (miner_inv E) (delete_file orig a h)"
  "keepsM (miner_inv E) (root_clear_file orig a h)" "keepsM (miner_inv E) (create_bucket E orig a n)"
  "keepsM (miner_inv E) (delete_bucket orig a n)" "keepsM (miner_inv E) (claim_restoral_order E orig h)"
  unfolding file_bank_on_initialize_def territory_file_delivery_def calculate_report_def credit_tags_def replace_idle_space_def
    cert_idle_space_def check_idle_sig_def delete_file_def root_clear_file_def create_bucket_def delete_bucket_def
    claim_restoral_order_def restoral_deadline_def file_get_def Let_def
  by (intro bank_rules bank_loops bucket_ops_inv delete_ops_inv clear_inv; simp)+

text \<open>The loops over the fragments of a file. Taking over a fragment first adds to the service space and then
  takes the same amount from the idle space; the sum of the parts exceeds the declared space only in between.\<close>

lemma fragment_loops_inv:
  assumes "\<And>fr. keepsM P (f fr)"
  shows "keepsM P (fragment_loop f frs)" "keepsM P (segment_loop f sgs)"
proof -
  show loop: "keepsM P (fragment_loop f frs)" for frs
    by (induction frs) (auto intro!: keep_rules assms)
  show "keepsM P (segment_loop f sgs)"
    by (induction sgs) (auto intro!: keep_rules loop)
qed

lemma fragment_loops_ok:
  assumes "\<And>fr. keeps_okM P (f fr)"
  shows "keeps_okM P (fragment_loop f frs)" "keeps_okM P (segment_loop f sgs)"
proof -
  have ret: "keeps_okM P (retM x)" for x by (intro keepsM_okM keepsM_pure)
  show loop: "keeps_okM P (fragment_loop f frs)" for frs
    by (induction frs) (auto intro!: keeps_okM_bind ret assms split: option.splits)
  show "keeps_okM P (segment_loop f sgs)"
    by (induction sgs) (auto intro!: keeps_okM_bind ret loop split: option.splits)
qed

lemma order_ops_inv:
  "keepsM (miner_inv E) (generate_restoral_order orig h fh)" "keepsM (miner_inv E) (claim_restoral_noexist_order E orig a h fh)"
  unfolding generate_restoral_order_def claim_restoral_noexist_order_def order_fragment_def restoral_deadline_def file_get_def
  by (intro bank_rules fragment_loops_inv; simp)+

lemma exchange_ok:
  "keeps_okM (miner_inv E) (bindM (add_miner_service_space a v) (\<lambda>_. delete_idle_update_space a v))"
proof (rule keeps_okM_I)
  fix s x s' assume s: "miner_inv E s"
    and run: "bindM (add_miner_service_space a v) (\<lambda>_. delete_idle_update_space a v) s = (Inr x, s')"
  have "frames RewardMap (bindM (add_miner_service_space a v) (\<lambda>_. delete_idle_update_space a v))"
    by (intro frame_rules space_frames)
  then have rw: "RewardMap s' = RewardMap s" using run by (rule framesD)
  have "wp (bindM (add_miner_service_space a v) (\<lambda>_. delete_idle_update_space a v)) (\<lambda>_. miners_typed) (\<lambda>_ _. True) s"
    using s unfolding miner_inv_def miners_typed_def miner_typed_def add_miner_service_space_def delete_idle_update_space_def
      check_state_def miner_writes sm_add_def sm_sub_def
    by (force simp: wp_simps checked_add_Some checked_sub_def)
  then have "miners_typed s'" using run by (rule wp_D)
  then show "miner_inv E s'" using s rw by (simp add: miner_inv_def rewards_ok_def)
qed


lemma bind_assoc: "bindM m (\<lambda>x. bindM (k x) l) = bindM (bindM m k) l"
  by (simp add: fun_eq_iff bindM_def split: prod.splits sum.splits)

lemmas bank_oks = keepsM_pure [THEN keepsM_okM] space_calls_inv [THEN keepsM_okM] other_ops_inv [THEN keepsM_okM]
  bank_loops [THEN keepsM_okM] fb_writes [THEN keepsM_okM] query_frames [THEN keepsM_query, THEN keepsM_okM]
  keepsM_origin [THEN keepsM_okM]

lemma take_over_ok: "keeps_okM (miner_inv E) (take_over_fragment a order h now fr)"
  unfolding take_over_fragment_def bind_assoc [of "add_miner_service_space _ _"]
  by (auto simp del: binaries.simps intro!: keeps_okM_bind exchange_ok bank_oks)

lemma restoral_complete_inv: "keepsM (miner_inv E) (restoral_order_complete orig h)"
  unfolding restoral_order_complete_def
  by (intro keepsM_transactional) (auto intro!: keeps_okM_bind bank_oks fragment_loops_ok take_over_ok split: option.splits)

section \<open>The audit\<close>

lemma audit_writes:
  "keepsM (miner_inv E) (challenge_put a c)" "keepsM (miner_inv E) (counted_clear_put a n)"
  "keepsM (miner_inv E) (service_failed_put a n)" "keepsM (miner_inv E) (challenge_slip_insert E b a)"
  "keepsM (miner_inv E) (challenge_slip_remove b a)" "keepsM (miner_inv E) (verify_slip_insert E b a)"
  "keepsM (miner_inv E) (verify_slip_remove b a)"
  unfolding challenge_put_def counted_clear_put_def service_failed_put_def challenge_slip_insert_def challenge_slip_remove_def
    verify_slip_insert_def verify_slip_remove_def
  by (intro miner_inv_write; simp)+

lemmas audit_rules = miner_calls audit_writes

lemma challenge_inv: "keepsM (miner_inv E) (challenge_miner E now a)"
  unfolding challenge_miner_def generate_miner_space_param_def by (intro audit_rules)

lemma audit_hook_inv: "mul_floor_law E \<Longrightarrow> keepsM (miner_inv E) (audit_on_initialize E now)"
  unfolding audit_on_initialize_def generate_challenge_def clear_challenge_def clear_one_challenge_def clear_verify_mission_def
    clear_one_mission_def reassign_mission_def random_select_tee_acc_def Let_def
  by (intro audit_rules challenge_inv penalties_inv)

lemma audit_calls_inv:
  assumes "mul_floor_law E"
  shows "keepsM (miner_inv E) (point_miner_challenge E orig a)" "keepsM (miner_inv E) (submit_idle_proof E orig ip)"
  "keepsM (miner_inv E) (submit_service_proof E orig vp)"
  "keepsM (miner_inv E) (submit_verify_idle_result E orig th fr r acc b sg k)"
  "keepsM (miner_inv E) (submit_verify_service_result E orig b sg bf k)"
  "keepsM (miner_inv E) (update_counted_clear orig a)" "keepsM (miner_inv E) (test_update_clear_slip E orig n n' a)"
  "keepsM (miner_inv E) (test_update_verify_slip E orig n n' a)"
  unfolding point_miner_challenge_def submit_idle_proof_def submit_service_proof_def submit_verify_idle_result_def
    submit_verify_service_result_def update_counted_clear_def test_update_clear_slip_def test_update_verify_slip_def
    challenge_get_def check_verdict_def count_service_result_def random_select_tee_acc_def Let_def
  by (intro audit_rules challenge_inv penalties_inv [OF assms])+


section \<open>The states of the chain\<close>

text \<open>The calls and the hooks of the miner, file-bank, oss and audit pallets. The collateral that a registration offers is a
  \<open>u128\<close> of the runtime.\<close>

inductive chain_op :: "'w Config \<Rightarrow> (('w, 'z) audit_state_scheme, unit) M \<Rightarrow> bool" for E where
  op_regnstk: "u128 v \<Longrightarrow> chain_op E (regnstk E orig b p v n)"
| op_assign: "chain_op E (regnstk_assign_staking E orig b p st n)"
| op_collateral: "chain_op E (increase_collateral E orig a v)"
| op_declaration: "chain_op E (increase_declaration_space E orig n)"
| op_clear_service: "chain_op E (clear_miner_service orig a)"
| op_beneficiary: "chain_op E (update_beneficiary orig b)"
| op_peer: "chain_op E (update_peer_id orig p)"
| op_receive: "chain_op E (receive_reward E orig)"
| op_exit_prep: "chain_op E (miner_exit_prep E orig a)"
| op_exit: "chain_op E (miner_exit E orig a)"
| op_withdraw: "chain_op E (miner_withdraw E orig)"
| op_top_up: "chain_op E (faucet_top_up E orig v)"
| op_faucet: "chain_op E (faucet E orig a)"
| op_expender: "chain_op E (update_expender orig k n d)"
| op_pois: "chain_op E (register_pois_key E orig pk s1 s2 k')"
| op_whitelist: "chain_op E (set_facuet_whitelist orig a)"
| op_miner_hook: "chain_op E (sminer_on_initialize E n)"
| op_oss: "chain_op E (oss_dispatch E c)"
| op_bank_hook: "chain_op E (file_bank_on_initialize E)"
| op_upload: "chain_op E (upload_declaration E orig h di br sz)"
| op_delivery: "chain_op E (territory_file_delivery orig a h t)"
| op_report: "chain_op E (transfer_report E orig i h)"
| op_calculate: "chain_op E (calculate_report E orig sg info)"
| op_replace: "chain_op E (replace_idle_space E orig pr s1 s2 k')"
| op_cert: "chain_op E (cert_idle_space E orig pr s1 s2 k')"
| op_delete: "chain_op E (delete_file orig a h)"
| op_root_clear: "chain_op E (root_clear_file orig a h)"
| op_create_bucket: "chain_op E (create_bucket E orig a n')"
| op_delete_bucket: "chain_op E (delete_bucket orig a n')"
| op_order: "chain_op E (generate_restoral_order orig h fh)"
| op_claim: "chain_op E (claim_restoral_order E orig fh)"
| op_claim_leaving: "chain_op E (claim_restoral_noexist_order E orig a h fh)"
| op_restored: "chain_op E (restoral_order_complete orig fh)"
| op_audit_hook: "chain_op E (audit_on_initialize E n)"
| op_challenge: "chain_op E (point_miner_challenge E orig a)"
| op_idle_proof: "chain_op E (submit_idle_proof E orig ip)"
| op_service_proof: "chain_op E (submit_service_proof E orig vp)"
| op_idle_verdict: "chain_op E (submit_verify_idle_result E orig th fr r acc res sg k')"
| op_service_verdict: "chain_op E (submit_verify_service_result E orig res sg bf k')"
| op_counted: "chain_op E (update_counted_clear orig a)"
| op_clear_slip: "chain_op E (test_update_clear_slip E orig n m a)"
| op_verify_slip: "chain_op E (test_update_verify_slip E orig n m a)"

text \<open>Between two of them a pallet below, or the block itself, may change everything but the storage of these pallets.\<close>

inductive chain_reach :: "'w Config \<Rightarrow> ('w, 'z) audit_state_scheme \<Rightarrow> ('w, 'z) audit_state_scheme \<Rightarrow> bool" for E s where
  reach_start: "chain_reach E s s"
| reach_op: "chain_reach E s t \<Longrightarrow> chain_op E m \<Longrightarrow> chain_reach E s (snd (m t))"
| reach_below: "chain_reach E s t \<Longrightarrow> tee_state.more t' = tee_state.more t \<Longrightarrow> chain_reach E s t'"

lemma oss_inv_kept: "keepsM (miner_inv E) (oss_dispatch E c)"
  by (cases c) (simp add: oss_ops authority_put_def oss_put_def; intro miner_calls; simp)+

lemmas miner_calls_inv = miner_inv_both [OF registering_typed(2) registering_ok(2)]
  miner_inv_typed [OF collateral_typed calls_frames(1)] miner_inv_typed [OF declaration_typed(1) calls_frames(2)]
  miner_inv_typed [OF declaration_typed(2) calls_frames(3)] miner_inv_typed [OF calls_typed(1) calls_frames(4)]
  miner_inv_typed [OF calls_typed(2) calls_frames(5)] miner_inv_typed [OF calls_typed(4) calls_frames(6)]
  miner_inv_typed [OF calls_typed(5) calls_frames(7)] miner_inv_typed [OF calls_typed(6) calls_frames(8)]
  miner_inv_typed [OF calls_typed(7) calls_frames(9)] miner_inv_typed [OF calls_typed(8) calls_frames(10)]
  miner_inv_typed [OF calls_typed(9) calls_frames(11)] miner_inv_typed [OF calls_typed(10) calls_frames(12)]
  miner_inv_typed [OF calls_typed(11) calls_frames(13)] miner_inv_typed [OF hook_typed calls_frames(14)]

lemma chain_op_inv:
  assumes "chain_op E m" "mul_floor_law E"
  shows "keepsM (miner_inv E) m"
  using assms(1)
proof cases
  case (op_regnstk v orig b p n)
  then show ?thesis using miner_inv_both [OF registering_typed(1) registering_ok(1)] by simp
next
  case (op_receive orig)
  then show ?thesis using miner_inv_both [OF calls_typed(3) receive_ok [OF assms(2)]] by simp
qed (simp_all add: miner_calls_inv oss_inv_kept deal_ops_inv bank_calls_inv order_ops_inv restoral_complete_inv audit_hook_inv
    audit_calls_inv assms(2))

lemma chain_reach_inv:
  assumes "chain_reach E s t" "mul_floor_law E" "miner_inv E s"
  shows "miner_inv E t"
  using assms(1)
proof induction
  case (reach_op t m)
  then show ?case using chain_op_inv [OF reach_op.hyps(2) assms(2)] by (simp add: keepsM_def)
next
  case (reach_below t t')
  then show ?case using miner_fields [of t' t] by (simp add: miner_inv_def miners_typed_def rewards_ok_def)
qed (rule assms(3))


section \<open>Properties\<close>

definition audit_example :: "ledger audit_state" where
  "audit_example = file_bank_state.extend
     (oss_state.extend oss_example
       (file_bank_state.fields Map.empty Map.empty Map.empty Map.empty (\<lambda>_. []) Map.empty [] (\<lambda>_. 0)))
     (audit_state.fields (\<lambda>_. 0) (\<lambda>_. 0) Map.empty (\<lambda>_. []) (\<lambda>_. []))"

lemma audit_example_sel [simp]:
  "world audit_example = ledger_of []" "block_number audit_example = 0" "MinerItems audit_example = Map.empty"
  "RewardMap audit_example = Map.empty" "CompleteMinerSnapShot audit_example = (\<lambda>_. [])" "DealMap audit_example = Map.empty"
  "File audit_example = Map.empty" "UserHoldFileList audit_example = Map.empty" "Bucket audit_example = Map.empty"
  "UserBucketList audit_example = (\<lambda>_. [])" "AuthorityList audit_example = Map.empty"
  "ChallengeSnapShot audit_example = Map.empty" "VerifySlip audit_example = (\<lambda>_. [])" "ChallengeSlip audit_example = (\<lambda>_. [])"
  "ValidationTypeList audit_example = []" "MasterPubkey audit_example = None" "StakingStartBlock audit_example = Map.empty"
  by (simp_all add: audit_example_def oss_example_def sminer_example_def tee_example_def credit_example_def mq_state.defs
      credit_state.defs tee_state.defs sminer_state.defs oss_state.defs file_bank_state.defs audit_state.defs)


lemma regnstk_example:
  fixes s :: "ledger audit_state"
  defines "s \<equiv> audit_example\<lparr>world := ledger_of [(10, 5 * 10 ^ 21)]\<rparr>"
  shows "MinerItems (snd (regnstk ledger_runtime (Signed 10) 11 ''p'' (4 * 10 ^ 21) 1 s)) 10 =
    Some (new_miner 11 10 ''p'' (4 * 10 ^ 21) STATE_NOT_READY 1099511627776)"
  unfolding s_def regnstk_def declared_limit_def calculate_limit_by_space_def reserve_def world_step_def str_to_bound_def miner_put_def reward_put_def
  by (simp add: run_eval ensure_signed_def transactional_def bindM_def ok_or_def ensureM_def checked_mul_def checked_div_def checked_add_def
    try_into_def T_BYTE_def BASE_UNIT_def ledger_simps STATE_NOT_READY_def)


lemmas run_ops = run_eval ensure_signed_def transactional_def bindM_def ok_or_def ensureM_def



definition reward_example :: "ledger audit_state" where
  "reward_example = audit_example\<lparr>world := ledger_of [(1, 10 ^ 20)], block_number := 28800,
     MinerItems := [10 \<mapsto> new_miner 11 10 ''p'' 7 STATE_POSITIVE 20],
     RewardMap := [10 \<mapsto> \<lparr>rw_total_reward = 900, rw_reward_issued = 0, rw_order_list =
       [\<lparr>ro_receive_count = 0, ro_max_count = 90, ro_atonce = False, ro_order_reward = 900, ro_each_amount = 5,
         ro_last_receive_block = 0\<rparr>]\<rparr>]\<rparr>"

lemma receive_example:
  "RewardMap (snd (receive_reward ledger_runtime (Signed 10) reward_example)) 10 =
    Some \<lparr>rw_total_reward = 900, rw_reward_issued = 460, rw_order_list =
       [\<lparr>ro_receive_count = 2, ro_max_count = 90, ro_atonce = True, ro_order_reward = 900, ro_each_amount = 5,
         ro_last_receive_block = 28800\<rparr>]\<rparr>"
  unfolding reward_example_def receive_reward_def calculate_miner_reward_def issue_orders_def snapshot_put_def distribute_rewards_def
    pay_orders.simps pay_order_def pay_instalments_def avail_count_def sm_add_def sm_sub_def send_reward_to_miner_def transfer_def
    world_step_def reward_put_def
  by (simp add: run_ops pay_order_def pay_instalments_def avail_count_def sm_add_def sm_sub_def checked_sub_def checked_div_def
      checked_mul_def checked_add_def saturating_add_def saturated_into_def new_miner_def ledger_simps AOIR_PERCENT_def)


end
