(* ===== verification/File_Frames.thy ===== *)
theory File_Frames
  imports Chain_Laws
begin

text \<open>
  The storage of the file bank is written by the file bank only: the operations of the pallets it calls
  write their own records, and the oss and audit pallets, which share the chain with it, write theirs.
\<close>

section \<open>Below the file bank\<close>

lemma miner_more_below: "frames tee_state.more m \<Longrightarrow> frames sminer_state.more m"
proof (erule frames_weaken)
  fix s t :: "('w, 'z) sminer_state_scheme"
  assume "tee_state.more s = tee_state.more t"
  then show "sminer_state.more s = sminer_state.more t" by (cases s, cases t) simp
qed

lemmas miner_more_rules = frame_rules frames_mod frames_mutate below_more [THEN miner_more_below] limit_frames query_frames

lemma reward_ops_more:
  "frames sminer_state.more (calculate_miner_reward E a)" "frames sminer_state.more (distribute_rewards E a b)"
  "frames sminer_state.more (create_restoral_target E a v)" "frames sminer_state.more (sminer_withdraw E a)"
  "frames sminer_state.more (update_restoral_target a v)" "frames sminer_state.more (record_snap_shot E a i v)"
  "frames sminer_state.more (increase_replace_space a v)" "frames sminer_state.more (decrease_replace_space a v)"
  "frames sminer_state.more (deposit_punish E a v)" "frames sminer_state.more (sminer_execute_exit E a)"
  unfolding calculate_miner_reward_def issue_orders_def snapshot_put_def take_order_def reward_put_def sm_add_def sm_sub_def
    distribute_rewards_def create_restoral_target_def sminer_withdraw_def miner_writes update_restoral_target_def
    record_snap_shot_def increase_replace_space_def decrease_replace_space_def pending_put_def deposit_punish_def
    sminer_execute_exit_def Let_def
  by (intro miner_more_rules issue_loop_more [THEN miner_more_below] pay_orders_frames; simp)+

lemma space_ops_more:
  "frames sminer_state.more (add_miner_idle_space a acc fr r sg)" "frames sminer_state.more (delete_idle_update_accu a acc fr r sg)"
  "frames sminer_state.more (delete_idle_update_space a v)" "frames sminer_state.more (insert_service_bloom a h)"
  "frames sminer_state.more (delete_service_bloom a h)" "frames sminer_state.more (lock_space a v)"
  "frames sminer_state.more (unlock_space_to_service a v)" "frames sminer_state.more (unlock_space a v)"
  "frames sminer_state.more (unlock_space_direct a v)" "frames sminer_state.more (sub_miner_service_space a v)"
  "frames sminer_state.more (add_miner_service_space a v)"
  unfolding add_miner_idle_space_def delete_idle_update_accu_def delete_idle_update_space_def insert_service_bloom_def
    delete_service_bloom_def lock_space_def unlock_space_to_service_def unlock_space_def unlock_space_direct_def
    sub_miner_service_space_def add_miner_service_space_def check_state_def miner_writes sm_add_def sm_sub_def
  by (intro frame_rules frames_mod; simp)+

lemma penalties_more:
  "frames sminer_state.more (idle_punish E a i v)" "frames sminer_state.more (service_punish E a i v)"
  "frames sminer_state.more (clear_punish E a i v n)" "frames sminer_state.more (force_miner_exit E a)"
  unfolding idle_punish_def service_punish_def clear_punish_def force_miner_exit_def return_collateral_def schedule_return_def
    miner_writes sm_sub_def Let_def
  by (intro miner_more_rules reward_ops_more; simp)+

lemma miner_calls_more:
  "frames sminer_state.more (regnstk E orig b p v n)" "frames sminer_state.more (regnstk_assign_staking E orig b p st n)"
  "frames sminer_state.more (receive_reward E orig)"
  "frames sminer_state.more (increase_collateral E orig a v)" "frames sminer_state.more (increase_declaration_space E orig n)"
  "frames sminer_state.more (clear_miner_service orig a)" "frames sminer_state.more (update_beneficiary orig b)"
  "frames sminer_state.more (update_peer_id orig p)" "frames sminer_state.more (miner_exit_prep E orig a)"
  "frames sminer_state.more (miner_exit E orig a)" "frames sminer_state.more (miner_withdraw E orig)"
  "frames sminer_state.more (faucet_top_up E orig v)" "frames sminer_state.more (faucet E orig a)"
  "frames sminer_state.more (update_expender orig k n d)" "frames sminer_state.more (register_pois_key E orig pk s1 s2 k')"
  "frames sminer_state.more (set_facuet_whitelist orig a)" "frames sminer_state.more (sminer_on_initialize E n)"
  unfolding regnstk_def regnstk_assign_staking_def receive_reward_def reward_put_def
    increase_collateral_def pay_debt_def increase_declaration_space_def clear_miner_service_def update_beneficiary_def
    update_peer_id_def miner_exit_prep_def miner_exit_def miner_withdraw_def faucet_top_up_def faucet_def faucet_record_def
    update_expender_def register_pois_key_def set_facuet_whitelist_def sminer_on_initialize_def miner_writes sm_add_def sm_sub_def Let_def
  by (intro miner_more_rules reward_ops_more; simp)+


section \<open>Beside the file bank\<close>

definition file_view :: "('w, 'z) file_bank_state_scheme \<Rightarrow>
    (string \<Rightarrow> deal_info option) \<times> (string \<Rightarrow> file_info option) \<times> (account \<times> string \<Rightarrow> bucket_info option) \<times> (account \<Rightarrow> string list)" where
  "file_view s = (DealMap s, File s, Bucket s, UserBucketList s)"

lemma view_below: "frames sminer_state.more m \<Longrightarrow> frames file_view m"
proof (erule frames_weaken)
  fix s t :: "('w, 'z) file_bank_state_scheme"
  assume "sminer_state.more s = sminer_state.more t"
  then show "file_view s = file_view t" by (cases s, cases t) (simp add: file_view_def)
qed

lemmas view_rules = frame_rules frames_mod query_frames below_more [THEN miner_more_below, THEN view_below]
  reward_ops_more [THEN view_below] penalties_more [THEN view_below]

lemma oss_view: "frames file_view (oss_dispatch E c)"
  by (cases c) (simp add: oss_ops authority_put_def oss_put_def; intro view_rules; simp add: file_view_def)+

lemma audit_writes_view:
  "frames file_view (challenge_put a c)" "frames file_view (counted_clear_put a n)" "frames file_view (service_failed_put a n)"
  "frames file_view (challenge_slip_insert E b a)" "frames file_view (challenge_slip_remove b a)"
  "frames file_view (verify_slip_insert E b a)" "frames file_view (verify_slip_remove b a)"
  unfolding challenge_put_def counted_clear_put_def service_failed_put_def challenge_slip_insert_def challenge_slip_remove_def
    verify_slip_insert_def verify_slip_remove_def
  by (intro frames_mod; simp add: file_view_def)+

lemma audit_view:
  "frames file_view (audit_on_initialize E now)" "frames file_view (point_miner_challenge E orig a)"
  "frames file_view (submit_idle_proof E orig ip)" "frames file_view (submit_service_proof E orig vp)"
  "frames file_view (submit_verify_idle_result E orig th fr r acc b sg k)"
  "frames file_view (submit_verify_service_result E orig b sg bf k)"
  "frames file_view (update_counted_clear orig a)" "frames file_view (test_update_clear_slip E orig n n' a)"
  "frames file_view (test_update_verify_slip E orig n n' a)"
  unfolding audit_on_initialize_def generate_challenge_def clear_challenge_def clear_one_challenge_def clear_verify_mission_def
    clear_one_mission_def reassign_mission_def random_select_tee_acc_def challenge_miner_def generate_miner_space_param_def
    point_miner_challenge_def submit_idle_proof_def submit_service_proof_def submit_verify_idle_result_def
    submit_verify_service_result_def update_counted_clear_def test_update_clear_slip_def test_update_verify_slip_def
    challenge_get_def check_verdict_def count_service_result_def Let_def
  by (intro view_rules audit_writes_view)+

section \<open>Invariants of the file bank\<close>

text \<open>The calls and the hook of the file bank.\<close>

inductive bank_op :: "'w Config \<Rightarrow> (('w, 'z) audit_state_scheme, unit) M \<Rightarrow> bool" for E where
  "bank_op E (file_bank_on_initialize E)"
| "bank_op E (upload_declaration E orig h di br sz)"
| "bank_op E (territory_file_delivery orig a h t)"
| "bank_op E (transfer_report E orig i h)"
| "bank_op E (calculate_report E orig sg info)"
| "bank_op E (replace_idle_space E orig pr s1 s2 k')"
| "bank_op E (cert_idle_space E orig pr s1 s2 k')"
| "bank_op E (delete_file orig a h)"
| "bank_op E (root_clear_file orig a h)"
| "bank_op E (create_bucket E orig a n')"
| "bank_op E (delete_bucket orig a n')"
| "bank_op E (generate_restoral_order orig h fh)"
| "bank_op E (claim_restoral_order E orig fh)"
| "bank_op E (claim_restoral_noexist_order E orig a h fh)"
| "bank_op E (restoral_order_complete orig fh)"

lemma chain_op_view: "chain_op E m \<Longrightarrow> bank_op E m \<or> frames file_view m"
  by (erule chain_op.cases)
    (simp_all add: bank_op.intros miner_calls_more [THEN view_below] oss_view audit_view)

text \<open>What an invariant of the file bank has to promise, and what the chain then guarantees.\<close>

locale bank_invariant =
  fixes E :: "'w Config" and P :: "('w, 'z) audit_state_scheme \<Rightarrow> bool"
  assumes of_view: "file_view s = file_view t \<Longrightarrow> P t \<Longrightarrow> P s"
    and kept: "bank_op E m \<Longrightarrow> keepsM P m"
begin

lemma on_chain: "chain_reach E s t \<Longrightarrow> P s \<Longrightarrow> P t"
proof (induction rule: chain_reach.induct)
  case (reach_op t m)
  from reach_op.hyps(2) consider "bank_op E m" | "frames file_view m" using chain_op_view by blast
  then show ?case
  proof cases
    case 1
    then show ?thesis using kept reach_op by (simp add: keepsM_def)
  next
    case 2
    then show ?thesis using of_view reach_op by (simp add: frames_def)
  qed
next
  case (reach_below t t')
  have "file_view t' = file_view t"
    using reach_below.hyps(2) by (cases t, cases t') (simp add: file_view_def)
  then show ?case using of_view reach_below by blast
qed

end

end
