(* ===== verification/Deal_Laws.thy ===== *)
theory Deal_Laws
  imports File_Frames
begin

text \<open>
  The deals and the files of the file bank. The reports on a deal come from different miners and name
  different fragments, a deal is gone once all its reports are there, and every segment of a stored file
  has its twelve fragments; these hold in every state of the chain. The report that completes a deal
  stores the file with each fragment at the miner that reported it.
\<close>

section \<open>Well-formed deals and files\<close>

definition deal_ok :: "deal_info \<Rightarrow> bool" where
  "deal_ok d \<longleftrightarrow> check_file_spec (dl_segment_list d) \<and> distinct (map dc_index (dl_complete_list d)) \<and>
     distinct (map dc_miner (dl_complete_list d)) \<and> list_all (\<lambda>c. dc_index c \<in> {1..FRAGMENT_COUNT}) (dl_complete_list d) \<and>
     length (dl_complete_list d) < FRAGMENT_COUNT"

definition file_ok :: "file_info \<Rightarrow> bool" where
  "file_ok f \<longleftrightarrow> list_all (\<lambda>sg. length (sg_fragment_list sg) = FRAGMENT_COUNT) (fi_segment_list f)"

text \<open>All files and all deals are well formed; the deals of \<open>hs\<close> may be about to change.\<close>

definition bank_ok_but :: "string set \<Rightarrow> ('w, 'z) file_bank_state_scheme \<Rightarrow> bool" where
  "bank_ok_but hs s \<longleftrightarrow> (\<forall>h d. DealMap s h = Some d \<longrightarrow> h \<notin> hs \<longrightarrow> deal_ok d) \<and> (\<forall>h f. File s h = Some f \<longrightarrow> file_ok f)"

abbreviation bank_ok :: "('w, 'z) file_bank_state_scheme \<Rightarrow> bool" where
  "bank_ok \<equiv> bank_ok_but {}"

lemma bank_ok_view: "file_view s = file_view t \<Longrightarrow> bank_ok_but hs t \<Longrightarrow> bank_ok_but hs s"
  by (simp add: file_view_def bank_ok_but_def)

lemma bank_ok_frame: "frames file_view m \<Longrightarrow> keepsM (bank_ok_but hs) m"
  by (erule keepsM_frame) (rule bank_ok_view)

lemma bank_ok_get:
  "yields bank_ok (getM (\<lambda>s. DealMap s h)) (\<lambda>v. \<forall>d. v = Some d \<longrightarrow> deal_ok d)"
  "yields (bank_ok_but hs) (getM (\<lambda>s. File s h)) (\<lambda>v. \<forall>f. v = Some f \<longrightarrow> file_ok f)"
  "yields (bank_ok_but hs) (file_get h e) file_ok"
  by (auto simp: yields_def file_get_def bank_ok_but_def wp_simps)

lemma bank_ok_put:
  "(\<And>d. do = Some d \<Longrightarrow> h \<notin> hs \<Longrightarrow> deal_ok d) \<Longrightarrow> keepsM (bank_ok_but hs) (deal_put h do)"
  "(\<And>f. fo = Some f \<Longrightarrow> file_ok f) \<Longrightarrow> keepsM (bank_ok_but hs) (file_put h fo)"
  unfolding deal_put_def file_put_def by (rule keepsM_mod; auto simp: bank_ok_but_def)+

text \<open>The other writes of the pallet.\<close>

lemma hold_frames: "frames file_view (hold_put a l)" "frames file_view (order_put h r)"
  unfolding hold_put_def order_put_def by (intro frames_mod; simp add: file_view_def)+

lemma bucket_keeps: "keepsM (bank_ok_but hs) (bucket_put a n b)" "keepsM (bank_ok_but hs) (user_buckets_put a l)"
  unfolding bucket_put_def user_buckets_put_def by (rule keepsM_mod; simp add: bank_ok_but_def)+

lemmas view_calls = query_frames below_more [THEN miner_more_below, THEN view_below] reward_ops_more [THEN view_below]
  penalties_more [THEN view_below] space_ops_more [THEN view_below] hold_frames

lemmas deal_rules = bank_ok_get yield_rules yields_attempt yields_sum bank_ok_put [THEN yields_keeps] bucket_keeps [THEN yields_keeps]
  view_calls [THEN bank_ok_frame, THEN yields_keeps]


section \<open>The operations on files\<close>

lemma binaries_frames: "frames f (binaries hs)"
  by (induction hs) (auto intro!: frame_rules split: sum.splits)

lemma owner_loop_frames: "frames tee_state.more (remove_owner_loop sz a b bs)"
  by (induction bs) (auto intro!: frame_rules below_more)

lemma digests_frames: "frames f (count_digests ds c d)"
  by (induction ds c d rule: count_digests.induct) (auto intro!: frame_rules)

lemmas loop_frames = binaries_frames [where f = file_view] digests_frames [where f = file_view]
  owner_loop_frames [THEN miner_more_below, THEN view_below]

lemma bucket_ops_bank:
  "keepsM (bank_ok_but hs) (into_bucket E a n h)" "keepsM (bank_ok_but hs) (add_user_hold_fileslice E a h sz t)"
  "keepsM (bank_ok_but hs) (create_bucket_helper E a n ho)" "keepsM (bank_ok_but hs) (bucket_remove_file h a fi)"
  "keepsM (bank_ok_but hs) (remove_user_hold_file_list h a)"
  unfolding into_bucket_def add_file_to_bucket_def create_bucket_helper_def add_user_hold_fileslice_def bucket_remove_file_def
    remove_user_hold_file_list_def Let_def
  by (intro keep_rules bucket_keeps hold_frames [THEN bank_ok_frame])+

lemma release_frames: "frames file_view (release_miner a l)"
  unfolding release_miner_def by (intro frame_rules view_calls loop_frames)

lemma delete_ops_bank:
  "keepsM (bank_ok_but hs) (remove_file_owner h a b)" "keepsM (bank_ok_but hs) (remove_file_last_owner h a b)"
proof -
  show "keepsM (bank_ok_but hs) (remove_file_owner h a b)"
    unfolding remove_file_owner_def
    by (rule keepsM_yields, (rule deal_rules loop_frames [THEN bank_ok_frame, THEN yields_keeps] | (auto simp: file_ok_def; fail)[1])+)
  have "frames file_view (file_get h e)" for e unfolding file_get_def by (intro frame_rules)
  note calls = this [THEN bank_ok_frame] view_calls [THEN bank_ok_frame] release_frames [THEN bank_ok_frame]
  show "keepsM (bank_ok_but hs) (remove_file_last_owner h a b)"
    unfolding remove_file_last_owner_def Let_def by (intro keep_rules calls bank_ok_put) simp
qed


lemma clear_bank: "keepsM (bank_ok_but hs) (clear_files a t n fs)" "keepsM (bank_ok_but hs) (clear_accounts l n)"
proof -
  note hold = hold_frames [THEN bank_ok_frame]
  have one: "keepsM (bank_ok_but hs) (clear_file a h)" for a h
    unfolding clear_file_def by (intro keep_rules delete_ops_bank bucket_ops_bank)
  show files: "keepsM (bank_ok_but hs) (clear_files a t n fs)" for a t n fs
    by (induction a t n fs rule: clear_files.induct) (auto simp: Let_def intro!: keep_rules hold one)
  have clear: "keepsM (bank_ok_but hs) (modM (\<lambda>s. s\<lparr>ClearUserList := g s\<rparr>))" for g
    by (rule keepsM_mod) (simp add: bank_ok_but_def)
  show "keepsM (bank_ok_but hs) (clear_accounts l n)"
    by (induction l n rule: clear_accounts.induct) (auto intro!: keep_rules files clear)
qed

lemma bank_hook_ok: "keepsM (bank_ok_but hs) (file_bank_on_initialize E)"
proof -
  have clear: "keepsM (bank_ok_but hs) (modM (\<lambda>s. s\<lparr>ClearUserList := g s\<rparr>))" for g
    by (rule keepsM_mod) (simp add: bank_ok_but_def)
  show ?thesis unfolding file_bank_on_initialize_def by (intro keep_rules clear_bank clear view_calls [THEN bank_ok_frame])
qed

text \<open>Tagging and moving fragments keep the shape of a file.\<close>

lemma fragment_loop_shape:
  assumes "\<And>fr. keepsM P (f fr)"
  shows "yields P (fragment_loop f frs) (\<lambda>r. \<forall>frs'. r = Some frs' \<longrightarrow> length frs' = length frs)"
proof (induction frs)
  case (Cons fr frs)
  show ?case unfolding fragment_loop.simps
    by (rule yields_conseq, (rule Cons.IH yield_rules assms [THEN yields_keeps])+) (auto simp: eq_commute [of "Some _" "map_option _ _"] split: option.splits)
qed (auto intro: yields_conseq [OF yields_pure(1)])

lemma segment_loop_shape:
  assumes "\<And>fr. keepsM P (f fr)" "list_all (\<lambda>sg. length (sg_fragment_list sg) = n) sgs"
  shows "yields P (segment_loop f sgs) (\<lambda>r. \<forall>sgs'. r = Some sgs' \<longrightarrow> list_all (\<lambda>sg. length (sg_fragment_list sg) = n) sgs')"
  using assms(2)
proof (induction sgs)
  case (Cons sg sgs)
  have IH: "yields P (segment_loop f sgs) (\<lambda>r. \<forall>sgs'. r = Some sgs' \<longrightarrow> list_all (\<lambda>sg. length (sg_fragment_list sg) = n) sgs')"
    using Cons by simp
  show ?case unfolding segment_loop.simps
    by (rule yields_conseq, (rule IH fragment_loop_shape assms(1) yield_rules)+) (use Cons.prems in \<open>auto simp: eq_commute [of "Some _" "map_option _ _"] split: option.splits\<close>)
qed (auto intro: yields_conseq [OF yields_pure(1)])


text \<open>A run that only touches the miners may appear as the body of these loops.\<close>

lemma loop_bodies:
  "frames file_view (order_fragment a b h fh n (\<lambda>_. retM k) fr)" "frames file_view (order_fragment a b h fh n (restoral_deadline E) fr)"
  "frames file_view (take_over_fragment a order fh now fr)"
  unfolding order_fragment_def restoral_deadline_def take_over_fragment_def
  by (intro frame_rules view_calls loop_frames)+

lemma file_calls_bank:
  "keepsM bank_ok (generate_restoral_order orig h fh)" "keepsM bank_ok (claim_restoral_noexist_order E orig a h fh)"
  "keepsM bank_ok (restoral_order_complete orig fh)" "keepsM bank_ok (claim_restoral_order E orig fh)"
proof -
  note shape = segment_loop_shape [where n = FRAGMENT_COUNT, OF bank_ok_frame]
  note rules = deal_rules shape loop_bodies
  show "keepsM bank_ok (generate_restoral_order orig h fh)" "keepsM bank_ok (claim_restoral_noexist_order E orig a h fh)"
    "keepsM bank_ok (restoral_order_complete orig fh)"
    unfolding generate_restoral_order_def claim_restoral_noexist_order_def restoral_order_complete_def
    by (rule keepsM_yields; (rule rules | (auto simp: file_ok_def split: option.splits; fail)[1])+)+
  show "keepsM bank_ok (claim_restoral_order E orig fh)"
    unfolding claim_restoral_order_def restoral_deadline_def
    by (intro keep_rules view_calls [THEN bank_ok_frame])
qed

lemma delete_calls_bank:
  "keepsM bank_ok (delete_file orig a h)" "keepsM bank_ok (root_clear_file orig a h)"
  "keepsM bank_ok (create_bucket E orig a n)" "keepsM bank_ok (delete_bucket orig a n)"
  "keepsM bank_ok (territory_file_delivery orig a h t)"
  "keepsM bank_ok (replace_idle_space E orig pr s1 s2 k)" "keepsM bank_ok (cert_idle_space E orig pr s1 s2 k)"
  unfolding delete_file_def root_clear_file_def create_bucket_def delete_bucket_def territory_file_delivery_def delete_user_file_def
    replace_idle_space_def cert_idle_space_def check_idle_sig_def file_get_def Let_def
  by (intro keep_rules bucket_ops_bank bucket_keeps delete_ops_bank view_calls [THEN bank_ok_frame])+

lemma tag_bank: "keepsM bank_ok (calculate_report E orig sg info)"
proof -
  have "frames file_view (credit_tags E c)" for c unfolding credit_tags_def by (intro frame_rules view_calls)
  note calls = this [THEN bank_ok_frame, THEN yields_keeps] loop_frames [THEN bank_ok_frame, THEN yields_keeps]
  show ?thesis unfolding calculate_report_def Let_def
    by (rule keepsM_yields, (rule deal_rules calls | (auto simp: file_ok_def list_all_iff; fail)[1])+)
qed


section \<open>Completing a deal\<close>

definition placed_fragment :: "deal_complete_info list \<Rightarrow> segment_list \<Rightarrow> nat \<Rightarrow> fragment_info" where
  "placed_fragment cl seg i = \<lparr>fr_hash = sl_fragment_list seg ! i, fr_avail = True, fr_tag = None, fr_miner = dc_miner (cl ! i)\<rparr>"

definition placed_segment :: "deal_complete_info list \<Rightarrow> segment_list \<Rightarrow> segment_info" where
  "placed_segment cl seg = \<lparr>sg_hash = sl_hash seg, sg_fragment_list = map (placed_fragment cl seg) [0..<FRAGMENT_COUNT]\<rparr>"

lemma fragments_placed:
  "yields P (generate_fragments cl n hs acc) (\<lambda>r. r = acc @ map (\<lambda>i. \<lparr>fr_hash = hs ! i, fr_avail = True, fr_tag = None,
     fr_miner = dc_miner (cl ! (n + i))\<rparr>) [0..<length hs])"
proof (induction cl n hs acc rule: generate_fragments.induct)
  case (2 cl n h hs acc)
  have upt: "map f [0..<Suc k] = f 0 # map (\<lambda>i. f (Suc i)) [0..<k]" for f :: "nat \<Rightarrow> fragment_info" and k
    by (simp add: upt_conv_Cons map_Suc_upt [symmetric] del: upt_Suc map_Suc_upt)
  show ?case unfolding generate_fragments.simps
    by (rule yields_conseq, (rule "2.IH" yield_rules | assumption)+)
      (auto simp: try_push_def upt simp del: upt_Suc split: if_splits)
qed (auto intro: yields_conseq [OF yields_pure(1)])

lemma segments_placed:
  assumes "check_file_spec segs"
  shows "yields P (generate_segments cl segs acc) (\<lambda>r. r = acc @ map (placed_segment cl) segs)"
  using assms
proof (induction cl segs acc rule: generate_segments.induct)
  case (2 cl seg segs acc)
  have len: "length (sl_fragment_list seg) = FRAGMENT_COUNT" and rest: "check_file_spec segs" using 2(2) by (simp_all add: check_file_spec_def)
  show ?case unfolding generate_segments.simps
    by (rule yields_conseq, (rule fragments_placed "2.IH" [OF rest] yield_rules)+)
      (auto simp: try_push_def placed_segment_def placed_fragment_def len split: if_splits)
qed (auto intro: yields_conseq [OF yields_pure(1)])

lemma generate_file_bank:
  "check_file_spec segs \<Longrightarrow> keepsM (bank_ok_but hs) (fb_generate_file E h segs cl br st sz)"
  unfolding fb_generate_file_def
  by (rule keepsM_yields, (rule deal_rules segments_placed | (auto simp: file_ok_def placed_segment_def list_all_iff; fail)[1])+)


lemma upload_bank: "keepsM bank_ok (upload_declaration E orig h di br sz)"
  unfolding upload_declaration_def fly_upload_file_def receptionist_generate_deal_def fb_generate_deal_def
  by (rule keepsM_yields, (rule deal_rules bucket_ops_bank [THEN yields_keeps]
      | (auto simp: file_ok_def deal_ok_def FRAGMENT_COUNT_def SEGMENT_SIZE_def FRAGMENT_SIZE_def M_BYTE_def; fail)[1])+)

text \<open>A report adds an entry with a new index and a new miner.\<close>

definition deal_full :: "deal_info \<Rightarrow> bool" where
  "deal_full d \<longleftrightarrow> check_file_spec (dl_segment_list d) \<and> distinct (map dc_index (dl_complete_list d)) \<and>
     distinct (map dc_miner (dl_complete_list d)) \<and> list_all (\<lambda>c. dc_index c \<in> {1..FRAGMENT_COUNT}) (dl_complete_list d)"

lemma deal_full_ok: "length (dl_complete_list d) \<noteq> FRAGMENT_COUNT \<Longrightarrow> length (dl_complete_list d) \<le> FRAGMENT_COUNT \<Longrightarrow> deal_full d \<Longrightarrow> deal_ok d"
  by (simp add: deal_full_def deal_ok_def)

lemma complete_part_full:
  assumes "deal_ok d" "0 < i" "i \<le> FRAGMENT_COUNT" "\<And>v. keepsM P (lock_space a v)"
  shows "yields P (complete_part a i d) (\<lambda>d'. deal_full d' \<and> length (dl_complete_list d') \<le> FRAGMENT_COUNT \<and>
    d' = d\<lparr>dl_complete_list := dl_complete_list d @ [\<lparr>dc_index = i, dc_miner = a\<rparr>]\<rparr>)"
  unfolding complete_part_def
  by (rule yields_conseq, (rule yield_rules assms(4) [THEN yields_keeps])+)
    (use assms(1-3) in \<open>auto simp: deal_ok_def deal_full_def try_push_def list_all_iff split: if_splits\<close>)

lemma wp_after: "keepsM P m \<Longrightarrow> P s \<Longrightarrow> (\<And>x t. P t \<Longrightarrow> wp (k x) Q (\<lambda>_ _. True) t) \<Longrightarrow> wp (bindM m k) Q (\<lambda>_ _. True) s"
  by (rule wp_bindI, rule wp_keepsM [where Q = "\<lambda>_. P"]) simp_all

lemma complete_deal_rest:
  assumes "deal_full d" "bank_ok_but {h} s"
  shows "wp (complete_deal E h d) (\<lambda>_. bank_ok) (\<lambda>_ _. True) s"
proof -
  have all: "frames file_view (completed_all d)" unfolding completed_all_def by (intro frame_rules view_calls)
  have last: "wp (deal_put h None) (\<lambda>_. bank_ok) (\<lambda>_ _. True) t" if "bank_ok_but {h} t" for t
    using that by (auto simp: deal_put_def wp_simps bank_ok_but_def)
  have spec: "check_file_spec (dl_segment_list d)" using assms(1) by (simp add: deal_full_def)
  note calls = all [THEN bank_ok_frame] generate_file_bank [OF spec] view_calls [THEN bank_ok_frame] bucket_ops_bank
  show ?thesis unfolding complete_deal_def Let_def
    by (rule wp_after [OF calls(1) assms(2)], (erule last | rule wp_after, rule calls, assumption)+)
qed

lemma report_rest:
  fixes s :: "('w, 'z) file_bank_state_scheme" and E :: "'w Config"
  assumes "bank_ok s" "deal_ok d" "0 < i" "i \<le> FRAGMENT_COUNT"
  shows "wp (qualification_report_processing E a h d i) (\<lambda>_. bank_ok) (\<lambda>_ _. True) s"
  unfolding qualification_report_processing_def
proof (rule wp_bindI)
  show "wp (complete_part a i d) (\<lambda>d' s'. (deal_full d' \<and> length (dl_complete_list d') \<le> FRAGMENT_COUNT \<and>
      d' = d\<lparr>dl_complete_list := dl_complete_list d @ [\<lparr>dc_index = i, dc_miner = a\<rparr>]\<rparr>) \<and> bank_ok s') (\<lambda>_ _. True) s"
    using complete_part_full [OF assms(2-4) bank_ok_frame [OF view_below [OF space_ops_more(6)]], of "{}" a] assms(1)
    unfolding yields_def by (blast intro: wp_mono)
next
  fix d' and s' :: "('w, 'z) file_bank_state_scheme" assume t: "(deal_full d' \<and> length (dl_complete_list d') \<le> FRAGMENT_COUNT \<and>
      d' = d\<lparr>dl_complete_list := dl_complete_list d @ [\<lparr>dc_index = i, dc_miner = a\<rparr>]\<rparr>) \<and> bank_ok s'"
  then have "bank_ok_but {h} (s'\<lparr>DealMap := (DealMap s')(h := Some d')\<rparr>)" by (auto simp: bank_ok_but_def)
  then show "wp (bindM (deal_put h (Some d')) (\<lambda>_. if length (dl_complete_list d') = FRAGMENT_COUNT then complete_deal E h d' else retM ()))
      (\<lambda>_. bank_ok) (\<lambda>_ _. True) s'"
    using t deal_full_ok [of d'] by (auto simp: deal_put_def wp_simps complete_deal_rest bank_ok_but_def)
qed

lemma deal_ok_but: "bank_ok s \<Longrightarrow> DealMap s h = Some d \<Longrightarrow> deal_ok d"
  by (simp add: bank_ok_but_def)

lemma report_bank: "keepsM bank_ok (transfer_report E orig i h)"
proof -
  have unlock: "frames file_view (force_unlock_space d)" for d unfolding force_unlock_space_def by (intro frame_rules view_calls)
  have expired: "wp (bindM (force_unlock_space d) (\<lambda>_. deal_put h None)) (\<lambda>_. bank_ok) (\<lambda>_ _. True) s" if "bank_ok s" for d s
    by (rule wp_after [OF unlock [THEN bank_ok_frame] that]) (auto simp: deal_put_def wp_simps bank_ok_but_def)
  show ?thesis unfolding transfer_report_def is_positive_def get_miner_state_def miner_get_def
    by (rule keeps_wp) (auto simp: wp_simps report_rest expired [unfolded wp_bind] deal_ok_but)
qed


section \<open>The invariant on the chain\<close>

lemma bank_ops_bank: "bank_op E m \<Longrightarrow> keepsM bank_ok m"
  by (erule bank_op.cases)
    (simp_all add: bank_hook_ok upload_bank delete_calls_bank report_bank tag_bank file_calls_bank)

interpretation deals: bank_invariant E "bank_ok :: ('w, 'z) audit_state_scheme \<Rightarrow> bool" for E :: "'w Config"
  by unfold_locales (erule bank_ok_view, assumption, erule bank_ops_bank)

text \<open>C7. From a state without deals and files, whatever calls and hooks run: the reports on a deal name different
  fragments between 1 and 12 and come from different miners, there are fewer than twelve of them because the twelfth one
  completes the deal, and every segment of every declared and every stored file has exactly twelve fragments.\<close>

theorem deals_stay_well_formed:
  fixes s :: "('w, 'z) audit_state_scheme"
  assumes "chain_reach E s t" "DealMap s = Map.empty" "File s = Map.empty"
  shows "(DealMap t h = Some d \<longrightarrow> distinct (map dc_index (dl_complete_list d)) \<and> distinct (map dc_miner (dl_complete_list d)) \<and>
      set (map dc_index (dl_complete_list d)) \<subseteq> {1..12} \<and> length (dl_complete_list d) < 12 \<and>
      list_all (\<lambda>seg. length (sl_fragment_list seg) = 12) (dl_segment_list d)) \<and>
    (File t h = Some f \<longrightarrow> list_all (\<lambda>sg. length (sg_fragment_list sg) = 12) (fi_segment_list f))"
proof -
  have "bank_ok t" using deals.on_chain [OF assms(1)] assms(2,3) by (simp add: bank_ok_but_def)
  then show ?thesis
    by (auto simp: bank_ok_but_def deal_ok_def file_ok_def check_file_spec_def list_all_iff FRAGMENT_COUNT_def SEGMENT_SIZE_def
        FRAGMENT_SIZE_def M_BYTE_def)
qed


section \<open>The file of a completed deal\<close>

lemma reports_in_order:
  assumes "deal_full d" "length (dl_complete_list d) = FRAGMENT_COUNT"
  shows "map dc_index (sort_key dc_index (dl_complete_list d)) = [1..<Suc FRAGMENT_COUNT]"
proof (rule sorted_distinct_set_unique)
  let ?l = "dl_complete_list d"
  have "set (map dc_index ?l) \<subseteq> {1..FRAGMENT_COUNT}" using assms(1) by (auto simp: deal_full_def list_all_iff)
  moreover have "card (set (map dc_index ?l)) = FRAGMENT_COUNT"
    using assms distinct_card [of "map dc_index ?l"] by (simp add: deal_full_def)
  ultimately have "set (map dc_index ?l) = {1..FRAGMENT_COUNT}" by (intro card_subset_eq) simp_all
  then show "set (map dc_index (sort_key dc_index ?l)) = set [1..<Suc FRAGMENT_COUNT]" by auto
  show "distinct (map dc_index (sort_key dc_index ?l))"
    using assms(1) by (simp add: deal_full_def distinct_map)
qed (simp_all del: upt_Suc)

lemma generate_file_wp:
  assumes "check_file_spec segs" "Q (s\<lparr>File := (File s)(h \<mapsto> \<lparr>fi_segment_list = map (placed_segment (sort_key dc_index cl)) segs,
    fi_owner = [br], fi_file_size = sz, fi_completion = block_number s, fi_stat = st\<rparr>)\<rparr>)"
  shows "wp (fb_generate_file E h segs cl br st sz) (\<lambda>_. Q) (\<lambda>_ _. True) s"
proof -
  have "wp (generate_segments (sort_key dc_index cl) segs []) (\<lambda>r s'. r = [] @ map (placed_segment (sort_key dc_index cl)) segs \<and> s' = s)
      (\<lambda>_ s'. s' = s) s"
    using segments_placed [OF assms(1), of "\<lambda>s'. s' = s"] unfolding yields_def by blast
  then have segs: "wp (generate_segments (sort_key dc_index cl) segs []) (\<lambda>r. K r) (\<lambda>_ _. True) s"
    if "K (map (placed_segment (sort_key dc_index cl)) segs) s" for K
    by (rule wp_mono) (use that in auto)
  show ?thesis unfolding fb_generate_file_def
    by (auto simp: wp_simps file_put_def assms(2) intro!: segs)
qed

lemma after_file_frames:
  "frames File (into_bucket E a n h)" "frames File (add_user_hold_fileslice E a h sz t)" "frames File (deal_put h d)"
  unfolding into_bucket_def add_file_to_bucket_def create_bucket_helper_def add_user_hold_fileslice_def Let_def bucket_put_def
    user_buckets_put_def hold_put_def deal_put_def
  by (intro frame_rules frames_mod; simp)+

lemma view_File: "frames file_view m \<Longrightarrow> frames File m"
  by (erule frames_weaken) (simp add: file_view_def)


lemma complete_deal_file:
  assumes "deal_full d" "block_number s = n"
  defines "file \<equiv> \<lparr>fi_segment_list = map (placed_segment (sort_key dc_index (dl_complete_list d))) (dl_segment_list d), fi_owner = [dl_user d],
    fi_file_size = dl_file_size d, fi_completion = n, fi_stat = file_state.Active\<rparr>"
  shows "wp (complete_deal E h d) (\<lambda>_ s'. DealMap s' h = None \<and> File s' h = Some file) (\<lambda>_ _. True) s"
proof -
  have block: "frames block_number (completed_all d)"
    unfolding completed_all_def increase_replace_space_def pending_put_def sm_add_def by (intro frame_rules frames_mod) simp
  have spec: "check_file_spec (dl_segment_list d)" using assms(1) by (simp add: deal_full_def)
  have kept: "frames File m \<Longrightarrow> keepsM (\<lambda>s. File s h = Some file) m" for m :: "(('a, 'b) file_bank_state_scheme, 'c) M"
    by (erule keepsM_frame) simp
  note calls = view_calls [THEN view_File, THEN kept] after_file_frames [THEN kept]
  have last: "wp (deal_put h None) (\<lambda>_ s'. DealMap s' h = None \<and> File s' h = Some file) (\<lambda>_ _. True) t" if "File t h = Some file" for t
    using that by (simp add: deal_put_def wp_simps)
  have written: "wp (fb_generate_file E h (dl_segment_list d) (dl_complete_list d) (dl_user d) file_state.Active (dl_file_size d))
      (\<lambda>_ t. File t h = Some file) (\<lambda>_ _. True) t" if "block_number t = n" for t
    by (rule generate_file_wp [OF spec]) (simp add: file_def that)
  show ?thesis unfolding complete_deal_def Let_def
    by (rule wp_after [OF block [THEN keepsM_frame, of "\<lambda>s. block_number s = n"]], simp, rule assms(2), rule wp_bindI, erule written,
        (erule last | rule wp_after, rule calls, assumption)+)
qed


lemma report_stores:
  fixes s :: "('w, 'z) file_bank_state_scheme"
  assumes "deal_ok d" "0 < i" "i \<le> FRAGMENT_COUNT" "length (dl_complete_list d) = FRAGMENT_COUNT - 1"
  shows "wp (qualification_report_processing E a h d i) (\<lambda>_ s'. deal_full (d\<lparr>dl_complete_list := dl_complete_list d @ [\<lparr>dc_index = i, dc_miner = a\<rparr>]\<rparr>) \<and>
    DealMap s' h = None \<and> File s' h = Some
    \<lparr>fi_segment_list = map (placed_segment (sort_key dc_index (dl_complete_list d @ [\<lparr>dc_index = i, dc_miner = a\<rparr>]))) (dl_segment_list d),
     fi_owner = [dl_user d], fi_file_size = dl_file_size d, fi_completion = block_number s, fi_stat = file_state.Active\<rparr>) (\<lambda>_ _. True) s"
  unfolding qualification_report_processing_def
proof (rule wp_bindI)
  have lock: "keepsM (\<lambda>t. block_number t = block_number s) (lock_space a v)" for v
    unfolding lock_space_def miner_writes sm_add_def sm_sub_def by (intro keep_rules keepsM_mod) simp
  show "wp (complete_part a i d) (\<lambda>d' s'. (deal_full d' \<and> length (dl_complete_list d') \<le> FRAGMENT_COUNT \<and>
      d' = d\<lparr>dl_complete_list := dl_complete_list d @ [\<lparr>dc_index = i, dc_miner = a\<rparr>]\<rparr>) \<and> block_number s' = block_number s) (\<lambda>_ _. True) s"
    using complete_part_full [OF assms(1-3) lock] unfolding yields_def by (blast intro: wp_mono)
next
  fix d' and s' :: "('w, 'z) file_bank_state_scheme"
  assume t: "(deal_full d' \<and> length (dl_complete_list d') \<le> FRAGMENT_COUNT \<and>
      d' = d\<lparr>dl_complete_list := dl_complete_list d @ [\<lparr>dc_index = i, dc_miner = a\<rparr>]\<rparr>) \<and> block_number s' = block_number s"
  have "FRAGMENT_COUNT = Suc (FRAGMENT_COUNT - 1)" by (simp add: FRAGMENT_COUNT_def SEGMENT_SIZE_def FRAGMENT_SIZE_def M_BYTE_def)
  then have full: "length (dl_complete_list d') = FRAGMENT_COUNT" using t assms(4) by simp
  let ?s = "s'\<lparr>DealMap := (DealMap s')(h := Some d')\<rparr>"
  have "wp (complete_deal E h d') (\<lambda>_ s'. DealMap s' h = None \<and> File s' h = Some
    \<lparr>fi_segment_list = map (placed_segment (sort_key dc_index (dl_complete_list d'))) (dl_segment_list d'),
     fi_owner = [dl_user d'], fi_file_size = dl_file_size d', fi_completion = block_number s, fi_stat = file_state.Active\<rparr>) (\<lambda>_ _. True) ?s"
    by (rule complete_deal_file) (use t in auto)
  then show "wp (bindM (deal_put h (Some d')) (\<lambda>_. if length (dl_complete_list d') = FRAGMENT_COUNT then complete_deal E h d' else retM ()))
      (\<lambda>_ s'. deal_full (d\<lparr>dl_complete_list := dl_complete_list d @ [\<lparr>dc_index = i, dc_miner = a\<rparr>]\<rparr>) \<and>
    DealMap s' h = None \<and> File s' h = Some
    \<lparr>fi_segment_list = map (placed_segment (sort_key dc_index (dl_complete_list d @ [\<lparr>dc_index = i, dc_miner = a\<rparr>]))) (dl_segment_list d),
     fi_owner = [dl_user d], fi_file_size = dl_file_size d, fi_completion = block_number s, fi_stat = file_state.Active\<rparr>) (\<lambda>_ _. True) s'"
    using t full by (auto simp: deal_put_def wp_simps)
qed


text \<open>C3. The twelfth report on a well-formed deal of a territory that has not expired, when it succeeds, replaces the deal
  by the file: the reports sorted by index are those of the fragments 1 to 12 in order, from twelve different miners, and in
  every segment the fragment at position \<open>k\<close> is held, untagged, by the miner that reported index \<open>k + 1\<close>.\<close>

theorem last_report_stores_file:
  assumes "transfer_report E (Signed a) i h s = (Inr (), s')" "DealMap s h = Some d" "deal_ok d"
    "length (dl_complete_list d) = 11" "\<not> check_expired (ub_user (dl_user d)) (ub_territory_name (dl_user d)) s"
  shows "let cl = sort_key dc_index (dl_complete_list d @ [\<lparr>dc_index = i, dc_miner = a\<rparr>]) in
    map dc_index cl = [1..<13] \<and> distinct (map dc_miner cl) \<and> DealMap s' h = None \<and> File s' h = Some
    \<lparr>fi_segment_list = map (\<lambda>seg. \<lparr>sg_hash = sl_hash seg, sg_fragment_list = map (\<lambda>k. \<lparr>fr_hash = sl_fragment_list seg ! k,
       fr_avail = True, fr_tag = None, fr_miner = dc_miner (cl ! k)\<rparr>) [0..<12]\<rparr>) (dl_segment_list d),
     fi_owner = [dl_user d], fi_file_size = dl_file_size d, fi_completion = block_number s, fi_stat = file_state.Active\<rparr>"
proof -
  have twelve: "FRAGMENT_COUNT = 12" by (simp add: FRAGMENT_COUNT_def SEGMENT_SIZE_def FRAGMENT_SIZE_def M_BYTE_def)
  let ?c = "\<lparr>dc_index = i, dc_miner = a\<rparr>"
  let ?d = "d\<lparr>dl_complete_list := dl_complete_list d @ [?c]\<rparr>"
  have "wp (transfer_report E (Signed a) i h) (\<lambda>_ s'. deal_full ?d \<and> DealMap s' h = None \<and> File s' h = Some
     \<lparr>fi_segment_list = map (placed_segment (sort_key dc_index (dl_complete_list d @ [?c]))) (dl_segment_list d),
      fi_owner = [dl_user d], fi_file_size = dl_file_size d, fi_completion = block_number s, fi_stat = file_state.Active\<rparr>) (\<lambda>_ _. True) s"
    using assms(2,5) report_stores [OF assms(3), of i E a h s] assms(4) twelve
    unfolding transfer_report_def is_positive_def get_miner_state_def miner_get_def by (simp add: wp_simps)
  then have run: "deal_full ?d \<and> DealMap s' h = None \<and> File s' h = Some
     \<lparr>fi_segment_list = map (placed_segment (sort_key dc_index (dl_complete_list d @ [?c]))) (dl_segment_list d),
      fi_owner = [dl_user d], fi_file_size = dl_file_size d, fi_completion = block_number s, fi_stat = file_state.Active\<rparr>"
    using assms(1) by (rule wp_D)
  have order: "map dc_index (sort_key dc_index (dl_complete_list d @ [?c])) = [1..<13]"
    using reports_in_order [of ?d, unfolded twelve] run assms(4) by (simp del: upt_Suc)
  have "distinct (map dc_miner (sort_key k l))" if "distinct (map dc_miner l)" for k :: "deal_complete_info \<Rightarrow> nat" and l
    using that by (simp add: distinct_map)
  then have "distinct (map dc_miner (sort_key dc_index (dl_complete_list d @ [?c])))"
    using run by (simp add: deal_full_def del: map_append)
  then show ?thesis using run order by (simp add: Let_def placed_segment_def placed_fragment_def [abs_def] twelve)
qed


definition brief_example :: user_brief where
  "brief_example = \<lparr>ub_user = 10, ub_file_name = ''file'', ub_bucket_name = ''bucket'', ub_territory_name = ''land''\<rparr>"

definition deal_example :: "deal_complete_info list \<Rightarrow> deal_info" where
  "deal_example cl = \<lparr>dl_file_size = 5, dl_segment_list = [\<lparr>sl_hash = ''seg'', sl_fragment_list =
       [''a'', ''b'', ''c'', ''d'', ''e'', ''f'', ''g'', ''h'', ''i'', ''j'', ''k'', ''l'']\<rparr>],
     dl_user = brief_example, dl_complete_list = cl\<rparr>"

definition land_example :: "nat \<Rightarrow> ledger audit_state" where
  "land_example locked = audit_example\<lparr>Territory := [(10, ''land'') \<mapsto> \<lparr>t_token = ''tok'', t_total_space = 10 ^ 9, t_used_space = 0,
     t_locked_space = locked, t_remaining_space = 10 ^ 9 - locked, t_start = 0, t_deadline = 100, t_state = territory_st.Active\<rparr>]\<rparr>"

lemmas size_defs = FRAGMENT_COUNT_def SEGMENT_SIZE_def FRAGMENT_SIZE_def M_BYTE_def

lemma upload_example:
  "DealMap (snd (upload_declaration ledger_runtime (Signed 10) ''hash'' (dl_segment_list (deal_example [])) brief_example 5 (land_example 0))) ''hash''
    = Some (deal_example [])"
  unfolding upload_declaration_def land_example_def deal_example_def brief_example_def receptionist_generate_deal_def fb_generate_deal_def
    lock_user_space_def get_user_avail_space_def get_territory_def put_territory_def st_add_def st_sub_def deal_put_def
  by (simp add: run_ops check_permission_def check_file_spec_def size_defs checked_mul_def checked_add_def checked_sub_def)


definition report_example :: "ledger audit_state" where
  "report_example = (land_example 100663296)\<lparr>MinerItems := [42 \<mapsto> (new_miner 11 42 ''p'' 7 STATE_POSITIVE (10 ^ 9))\<lparr>mi_idle_space := 10 ^ 9\<rparr>],
     TotalIdleSpace := 10 ^ 9, TotalServiceSpace := 0, PendingReplacements := (\<lambda>_. 0),
     DealMap := [''hash'' \<mapsto> deal_example (map (\<lambda>k. \<lparr>dc_index = k, dc_miner = 30 + k\<rparr>) [11, 10, 9, 8, 7, 6, 5, 4, 3, 2, 1])]\<rparr>"

lemmas report_ops = transfer_report_def is_positive_def get_miner_state_def miner_get_def qualification_report_processing_def complete_part_def
  lock_space_def miner_try_mutate_def miner_put_def complete_deal_def completed_all_def fb_generate_file_def file_put_def deal_put_def
  unlock_and_used_user_space_def sub_total_idle_space_def add_total_service_space_def into_bucket_def create_bucket_helper_def
  add_user_hold_fileslice_def increase_replace_space_def pending_put_def sm_add_def sm_sub_def st_add_def st_sub_def
  get_territory_def put_territory_def bucket_put_def user_buckets_put_def hold_put_def

lemma report_example_runs: "fst (transfer_report ledger_runtime (Signed 42) 12 ''hash'' report_example) = Inr ()"
  unfolding report_example_def land_example_def deal_example_def brief_example_def
  by (simp add: report_ops run_ops size_defs checked_mul_def checked_add_def checked_sub_def Let_def check_expired_def
     fragments_space_def cal_file_size_def wrapping_mul_def new_miner_def try_push_def SEGMENT_COUNT_def hold_list_def check_bucket_name_spec_def
     BUCKET_ALLOW_CHAR_def)


theorem deals_stay_well_formed_witness:
  "DealMap (snd (upload_declaration ledger_runtime (Signed 10) ''hash'' (dl_segment_list (deal_example [])) brief_example 5 (land_example 0))) ''hash''
     = Some (deal_example []) \<and> length (dl_complete_list (deal_example [])) < 12 \<and>
   list_all (\<lambda>seg. length (sl_fragment_list seg) = 12) (dl_segment_list (deal_example []))"
proof -
  let ?op = "upload_declaration ledger_runtime (Signed 10) ''hash'' (dl_segment_list (deal_example [])) brief_example 5"
  have "chain_reach ledger_runtime (land_example 0) (snd (?op (land_example 0)))"
    by (intro reach_op reach_start op_upload)
  from deals_stay_well_formed [OF this] show ?thesis
    using upload_example by (simp add: land_example_def)
qed

theorem last_report_stores_file_witness:
  "\<exists>s'. transfer_report ledger_runtime (Signed 42) 12 ''hash'' report_example = (Inr (), s') \<and> DealMap s' ''hash'' = None \<and>
     map_option fi_owner (File s' ''hash'') = Some [brief_example]"
proof -
  obtain s' where run: "transfer_report ledger_runtime (Signed 42) 12 ''hash'' report_example = (Inr (), s')"
    using report_example_runs by (metis prod.collapse)
  define d where "d = deal_example (map (\<lambda>k. \<lparr>dc_index = k, dc_miner = 30 + k\<rparr>) [11, 10, 9, 8, 7, 6, 5, 4, 3, 2, 1])"
  have deal: "DealMap report_example ''hash'' = Some d" by (simp add: report_example_def d_def)
  have ok: "deal_ok d" by (simp add: d_def deal_ok_def deal_example_def check_file_spec_def size_defs)
  have len: "length (dl_complete_list d) = 11" by (simp add: d_def deal_example_def)
  have live: "\<not> check_expired (ub_user (dl_user d)) (ub_territory_name (dl_user d)) report_example"
    by (simp add: d_def deal_example_def brief_example_def check_expired_def report_example_def land_example_def)
  have "dl_user d = brief_example" by (simp add: d_def deal_example_def)
  then show ?thesis using last_report_stores_file [OF run deal ok len live] run by (simp add: Let_def)
qed

end
