(* ===== verification/Audit_Laws.thy ===== *)
theory Audit_Laws
  imports Deal_Laws
begin

text \<open>
  The audit: what a challenge asks for, what a verdict requires, and that no challenge lives for ever.
\<close>

section \<open>The elements of a challenge\<close>

text \<open>The loop that draws different values: it stops with exactly the wanted number of them.\<close>

lemma draw_loop_sound:
  "draw_loop draw wanted seed counter xs = Inr (ys, seed') \<Longrightarrow> distinct xs \<Longrightarrow> length xs \<le> wanted \<Longrightarrow>
     distinct ys \<and> length ys = wanted \<and> set ys \<subseteq> set xs \<union> {x. \<exists>k. draw k = Inr x}"
proof (induction draw wanted seed counter xs rule: draw_loop.induct)
  case (1 draw wanted seed counter xs)
  show ?case
  proof (cases "wanted \<le> length xs")
    case True
    then show ?thesis using 1(2-4) by (subst (asm) draw_loop.simps) auto
  next
    case False
    then obtain s' c' x xs' where step: "checked_add 32 seed 1 = Some s'" "checked_add 32 counter 1 = Some c'" "draw s' = Inr x"
        "(if x \<notin> set xs then try_push 1024 xs x else Some xs) = Some xs'" "\<not> need_count * 3 < c'"
      and rest: "draw_loop draw wanted s' c' xs' = Inr (ys, seed')"
      using 1(2) by (subst (asm) draw_loop.simps) (auto split: option.splits sum.splits if_splits)
    have xs': "distinct xs'" "length xs' \<le> wanted" "set xs' \<subseteq> insert x (set xs)"
      using step(4) 1(3) False by (auto simp: try_push_def split: if_splits)
    from 1(1) [OF False step rest xs'(1,2)] show ?thesis using xs'(3) step(3) by auto
  qed
qed

lemma index_bound: "draw_index E w k = Inr x \<Longrightarrow> x < 1024"
  by (auto simp: draw_index_def as_cast_def CHUNK_COUNT_def split: sum.splits)



definition random_runtime :: "ledger Config" where
  "random_runtime = ledger_runtime\<lparr>encode := (\<lambda>x. case x of S_Seq [_, S_Num n] \<Rightarrow> [char_of n] | _ \<Rightarrow> [])\<rparr>"

text \<open>Enough different draws in a row end the loop without an error.\<close>

lemma draw_loop_run:
  assumes "\<And>k. seed < k \<Longrightarrow> k \<le> seed + n \<Longrightarrow> draw k = Inr (v k)" "distinct (xs @ map v [seed + 1..<seed + 1 + n])"
    "length xs + n = wanted" "wanted \<le> 1024" "seed + n < 2 ^ 32" "counter + n \<le> need_count * 3"
  shows "draw_loop draw wanted seed counter xs = Inr (xs @ map v [seed + 1..<seed + 1 + n], seed + n)"
  using assms
proof (induction n arbitrary: seed counter xs)
  case 0
  then show ?case by (subst draw_loop.simps) simp
next
  case (Suc n)
  have upt: "[seed + 1..<seed + 1 + Suc n] = (seed + 1) # [Suc seed + 1..<Suc seed + 1 + n]" by (simp add: upt_conv_Cons)
  have "need_count * 3 < 2 ^ 32" by (simp add: need_count_def CHUNK_COUNT_def)
  then have small: "checked_add 32 seed 1 = Some (Suc seed)" "checked_add 32 counter 1 = Some (Suc counter)"
    using Suc.prems(5,6) by (simp_all add: checked_add_def)
  have dist: "distinct (xs @ v (Suc seed) # map v [Suc seed + 1..<Suc seed + 1 + n])"
    using Suc.prems(2) unfolding upt by (simp del: upt_Suc)
  have new: "v (Suc seed) \<notin> set xs" and draw: "draw (Suc seed) = Inr (v (Suc seed))"
    using Suc.prems(1) [of "Suc seed"] dist by auto
  have "draw_loop draw wanted (Suc seed) (Suc counter) (xs @ [v (Suc seed)]) =
      Inr ((xs @ [v (Suc seed)]) @ map v [Suc seed + 1..<Suc seed + 1 + n], Suc seed + n)"
    by (rule Suc.IH) (use Suc.prems(1,3-6) dist in auto)
  then show ?case using Suc.prems(3,4,6) small new draw
    by (subst draw_loop.simps) (simp add: try_push_def upt_conv_Cons del: upt_Suc draw_loop.simps)
qed

lemma random_runtime_runs:
  "generate_miner_qelement random_runtime (ledger_of []) 3 =
     Inr \<lparr>qe_random_index_list = [4..<51], qe_random_list = map (\<lambda>k. char_of (k + 1) # replicate 19 CHR 0x00) [51..<98]\<rparr>"
proof -
  let ?r = "\<lambda>k. char_of (k + 1) # replicate 19 CHR 0x00"
  have zero: "((*) (256 :: nat) ^^ n) 0 = 0" for n by (induction n) simp_all
  have num: "draw_index random_runtime (ledger_of []) k = Inr k" if "k < 256" for k
    using that by (simp add: draw_index_def random_number_def random_seed_def random_runtime_def as_cast_def CHUNK_COUNT_def
        little_endian_def zero)
  have rnd: "generate_challenge_random random_runtime (ledger_of []) k = Inr (?r k)" if "k < 256" for k
    using that by (simp add: generate_challenge_random_def random_seed_def random_runtime_def wrapping_add_def)
  have count: "need_count = 47" by (simp add: need_count_def CHUNK_COUNT_def)
  have "draw_loop (draw_index random_runtime (ledger_of [])) 47 3 0 [] = Inr ([] @ map (\<lambda>k. k) [3 + 1..<3 + 1 + 47], 3 + 47)"
    by (rule draw_loop_run) (auto simp: num count)
  moreover have "draw_loop (generate_challenge_random random_runtime (ledger_of [])) 47 50 0 [] = Inr ([] @ map ?r [50 + 1..<50 + 1 + 47], 50 + 47)"
    by (rule draw_loop_run) (auto simp: rnd count distinct_map inj_on_def)
  ultimately show ?thesis by (simp add: generate_miner_qelement_def count del: upt_Suc upt_rec_numeral draw_loop.simps)
qed



section \<open>Verdicts\<close>

lemma wp_any: "(\<And>x t. Q x t) \<Longrightarrow> wp m Q (\<lambda>_ _. True) s"
  by (simp add: wp_def split: prod.splits sum.splits)

lemma verdict_refused:
  assumes "ChallengeSnapShot s a = Some c" "pv_idle_prove (ch_prove_info c) = Some p" "ip_verify_result p \<noteq> None"
  shows "submit_verify_idle_result E (Signed a) th fr r acc res sg k s =
    (Inl (au_err (if k = ip_tee_puk p then audit_error.Submitted else audit_error.NonExistentMission)), s)"
  using assms unfolding submit_verify_idle_result_def challenge_get_def by (auto simp: run_ops)

text \<open>C9. A verdict on an idle proof is recorded only for a miner with an open challenge and a submitted proof, only in the
  name of the worker that the proof was assigned to, which may verify, only when no verdict was recorded before, and only
  with a signature of a master key over the miner, the proof, the challenged range and the result; it is what the comparison
  with the snapshot gives. Every later verdict on the same proof is refused without effect.\<close>

theorem idle_verdict_once:
  assumes "submit_verify_idle_result E orig th fr r acc res sg k s = (Inr (), s')"
  shows "\<exists>a c p sig c'. orig = Signed a \<and> ChallengeSnapShot s a = Some c \<and> pv_idle_prove (ch_prove_info c) = Some p \<and>
    ip_tee_puk p = k \<and> ip_verify_result p = None \<and> can_verify k s \<and> sr25519_signature E sg = Some sig \<and>
    verify_master_sig E sig (sha2_256 E (encode E (idle_result_scale a th (sn_space_proof_info (ch_miner_snapshot c))
      (ce_space_param (ch_challenge_element c)) res k))) s \<and>
    ChallengeSnapShot s' a = Some c' \<and> pv_idle_prove (ch_prove_info c') = Some (p\<lparr>ip_verify_result :=
      Some (check_idle_verify_param res fr r th acc (ch_miner_snapshot c) (ip_idle_prove p))\<rparr>) \<and>
    (\<forall>th2 fr2 r2 acc2 res2 sg2 k2. \<exists>e. submit_verify_idle_result E (Signed a) th2 fr2 r2 acc2 res2 sg2 k2 s' = (Inl e, s'))"
proof -
  have "wp (submit_verify_idle_result E orig th fr r acc res sg k) (\<lambda>_ s'. \<exists>a c p sig c'. orig = Signed a \<and> ChallengeSnapShot s a = Some c \<and>
    pv_idle_prove (ch_prove_info c) = Some p \<and>
    ip_tee_puk p = k \<and> ip_verify_result p = None \<and> can_verify k s \<and> sr25519_signature E sg = Some sig \<and>
    verify_master_sig E sig (sha2_256 E (encode E (idle_result_scale a th (sn_space_proof_info (ch_miner_snapshot c))
      (ce_space_param (ch_challenge_element c)) res k))) s \<and>
    ChallengeSnapShot s' a = Some c' \<and> pv_idle_prove (ch_prove_info c') = Some (p\<lparr>ip_verify_result :=
      Some (check_idle_verify_param res fr r th acc (ch_miner_snapshot c) (ip_idle_prove p))\<rparr>)) (\<lambda>_ _. True) s"
    unfolding submit_verify_idle_result_def challenge_get_def check_verdict_def Let_def
    by (auto simp: wp_simps challenge_put_def intro!: wp_any)
  from wp_D [OF this assms] show ?thesis using verdict_refused [of s'] by fastforce
qed


definition challenge_example :: "nat \<Rightarrow> challenge_info" where
  "challenge_example n = \<lparr>ch_miner_snapshot = \<lparr>sn_idle_space = 10, sn_service_space = 0, sn_service_bloom_filter = bloom_default,
       sn_space_proof_info = \<lparr>sp_miner = 30, sp_front = 2, sp_rear = 5, sp_pois_key = \<lparr>pk_g = ''g'', pk_n = ''n''\<rparr>, sp_accumulator = ''acc''\<rparr>,
       sn_tee_signature = []\<rparr>,
     ch_challenge_element = \<lparr>ce_start = 0, ce_idle_slip = 60, ce_service_slip = 60, ce_verify_slip = 90, ce_space_param = [1, 2],
       ce_service_param = \<lparr>qe_random_index_list = [], qe_random_list = []\<rparr>\<rparr>,
     ch_prove_info = \<lparr>pv_assign = n, pv_idle_prove = Some \<lparr>ip_tee_puk = ''tee'', ip_idle_prove = ''proof'', ip_verify_result = None\<rparr>,
       pv_service_prove = None\<rparr>\<rparr>"

definition verdict_example :: "ledger audit_state" where
  "verdict_example = audit_example\<lparr>ChallengeSnapShot := [30 \<mapsto> challenge_example 0], MasterPubkey := Some ''master'', OldMasterPubkeyList := [],
     LastWork := [], CurrentCounters := [], Workers := [(''tee'', \<lparr>wi_pubkey = ''tee'', wi_ecdh_pubkey = [], wi_version = 1, wi_last_updated = 0,
       wi_stash_account = Some 9, wi_attestation_provider = None, wi_confidence_level = 1, wi_features = [], wi_role = Full\<rparr>)]\<rparr>"

lemma verdict_example_runs:
  "fst (submit_verify_idle_result ledger_runtime (Signed 30) ''proof'' 2 5 ''acc'' True ''master'' ''tee'' verdict_example) = Inr ()"
  unfolding verdict_example_def challenge_example_def
  by (simp add: submit_verify_idle_result_def challenge_get_def check_verdict_def can_verify_def worker_role_of_def verify_master_sig_def
      update_work_block_def last_work_put_def get_stash_def increase_point_for_idle_verify_def increase_point_def record_proceed_block_size_def
      mutateM_def counter_of_def counter_default_def counter_put_def increase_block_size_def challenge_put_def run_ops Let_def checked_sub_def checked_mul_def
      checked_add_def checked_div_def try_into_def base_sizes IDLE_SEG_SIZE_def M_BYTE_def G_BYTE_def IDLE_VERIFY_BASE_POINT_def)

theorem idle_verdict_once_witness:
  "\<exists>s'. submit_verify_idle_result ledger_runtime (Signed 30) ''proof'' 2 5 ''acc'' True ''master'' ''tee'' verdict_example = (Inr (), s') \<and>
     (\<exists>e. submit_verify_idle_result ledger_runtime (Signed 30) ''proof'' 2 5 ''acc'' False ''master'' ''tee'' s' = (Inl e, s'))"
proof -
  obtain s' where run: "submit_verify_idle_result ledger_runtime (Signed 30) ''proof'' 2 5 ''acc'' True ''master'' ''tee'' verdict_example = (Inr (), s')"
    using verdict_example_runs by (metis prod.collapse)
  then show ?thesis using idle_verdict_once [OF run] by auto
qed


section \<open>No challenge lives for ever\<close>

text \<open>The challenges are written by the audit only.\<close>

lemma challenges_below: "frames sminer_state.more m \<Longrightarrow> frames ChallengeSnapShot m"
proof (erule frames_weaken)
  fix s t :: "('w, 'z) audit_state_scheme"
  assume "sminer_state.more s = sminer_state.more t"
  then show "ChallengeSnapShot s = ChallengeSnapShot t" by (cases s, cases t) simp
qed

lemma bank_writes_above:
  "frames ChallengeSnapShot (deal_put h d)" "frames ChallengeSnapShot (file_put h fi)" "frames ChallengeSnapShot (hold_put a l)"
  "frames ChallengeSnapShot (bucket_put a n b)" "frames ChallengeSnapShot (user_buckets_put a bl)"
  "frames ChallengeSnapShot (order_put h ro)" "frames ChallengeSnapShot (modM (\<lambda>s. s\<lparr>ClearUserList := g s\<rparr>))"
  unfolding deal_put_def file_put_def hold_put_def bucket_put_def user_buckets_put_def order_put_def by (intro frames_mod; simp)+

lemma placing_pure: "frames f (generate_fragments cl n hs acc)" "frames f (generate_segments cl segs acc')"
proof -
  show frags: "frames f (generate_fragments cl n hs acc)" for cl n hs acc
    by (induction cl n hs acc rule: generate_fragments.induct) (auto intro!: frame_rules)
  show "frames f (generate_segments cl segs acc')"
    by (induction cl segs acc' rule: generate_segments.induct) (auto intro!: frame_rules frags)
qed

lemma loops_frames:
  assumes "\<And>fr. frames f (g fr)"
  shows "frames f (fragment_loop g frs)" "frames f (segment_loop g sgs)"
proof -
  show loop: "frames f (fragment_loop g frs)" for frs by (induction frs) (auto intro!: frame_rules assms)
  show "frames f (segment_loop g sgs)" by (induction sgs) (auto intro!: frame_rules loop)
qed

lemmas above_rules = frame_rules query_frames bank_writes_above below_more [THEN miner_more_below, THEN challenges_below]
  reward_ops_more [THEN challenges_below] space_ops_more [THEN challenges_below] placing_pure binaries_frames digests_frames
  owner_loop_frames [THEN miner_more_below, THEN challenges_below] loops_frames

lemma clearing_above:
  "frames ChallengeSnapShot (clear_accounts l n)" "frames ChallengeSnapShot (delete_user_file h a fi)"
  "frames ChallengeSnapShot (bucket_remove_file h a fi)"
proof -
  have owners: "frames ChallengeSnapShot (remove_file_owner h a b)" "frames ChallengeSnapShot (remove_file_last_owner h a b)" for h a b
    unfolding remove_file_owner_def remove_file_last_owner_def release_miner_def file_get_def Let_def by (intro above_rules)+
  show "frames ChallengeSnapShot (delete_user_file h a fi)" unfolding delete_user_file_def by (intro above_rules owners)
  show bucket: "frames ChallengeSnapShot (bucket_remove_file h a fi)" for h a fi
    unfolding bucket_remove_file_def by (intro above_rules)
  have one: "frames ChallengeSnapShot (clear_file a h)" for a h
    unfolding clear_file_def by (intro above_rules owners bucket)
  have files: "frames ChallengeSnapShot (clear_files a t n fs)" for a t n fs
    by (induction a t n fs rule: clear_files.induct) (auto simp: Let_def intro!: above_rules one)
  show "frames ChallengeSnapShot (clear_accounts l n)"
    by (induction l n rule: clear_accounts.induct) (auto intro!: above_rules files)
qed

lemma bank_ops_above: "bank_op E m \<Longrightarrow> frames ChallengeSnapShot m"
  by (erule bank_op.cases; hypsubst; unfold file_bank_on_initialize_def upload_declaration_def fly_upload_file_def
    receptionist_generate_deal_def fb_generate_deal_def territory_file_delivery_def transfer_report_def force_unlock_space_def
    qualification_report_processing_def complete_part_def complete_deal_def completed_all_def fb_generate_file_def
    add_user_hold_fileslice_def into_bucket_def add_file_to_bucket_def create_bucket_helper_def calculate_report_def credit_tags_def
    replace_idle_space_def cert_idle_space_def check_idle_sig_def delete_file_def root_clear_file_def remove_user_hold_file_list_def
    create_bucket_def delete_bucket_def generate_restoral_order_def claim_restoral_order_def claim_restoral_noexist_order_def
    restoral_order_complete_def order_fragment_def restoral_deadline_def take_over_fragment_def file_get_def Let_def;
    intro above_rules clearing_above)

text \<open>A mission is handed out again at most twice.\<close>

definition handed_out :: "challenge_info \<Rightarrow> bool" where
  "handed_out c \<longleftrightarrow> pv_assign (ch_prove_info c) \<le> 2"

definition missions_ok :: "('w, 'z) audit_state_scheme \<Rightarrow> bool" where
  "missions_ok s \<longleftrightarrow> (\<forall>a c. ChallengeSnapShot s a = Some c \<longrightarrow> handed_out c)"

lemma missions_frame: "frames ChallengeSnapShot m \<Longrightarrow> keepsM missions_ok m"
  by (erule keepsM_frame) (simp add: missions_ok_def)

lemma missions_put: "handed_out c \<Longrightarrow> keepsM missions_ok (challenge_put a (Some c))" "keepsM missions_ok (challenge_put a None)"
  unfolding challenge_put_def by (rule keepsM_mod; simp add: missions_ok_def)+

lemma missions_get:
  "(\<And>c. handed_out c \<Longrightarrow> keepsM missions_ok (k (Some c))) \<Longrightarrow> keepsM missions_ok (k None) \<Longrightarrow>
     keepsM missions_ok (bindM (getM (\<lambda>s. ChallengeSnapShot s a)) k)"
  "(\<And>c. handed_out c \<Longrightarrow> keepsM missions_ok (h c)) \<Longrightarrow> keepsM missions_ok (bindM (challenge_get a) h)"
  unfolding challenge_get_def by (auto simp: keepsM_wp wp_simps missions_ok_def) (metis not_None_eq)

lemma audit_writes_above:
  "frames ChallengeSnapShot (counted_clear_put a n)" "frames ChallengeSnapShot (service_failed_put a n)"
  "frames ChallengeSnapShot (challenge_slip_insert E b a)" "frames ChallengeSnapShot (challenge_slip_remove b a)"
  "frames ChallengeSnapShot (verify_slip_insert E b a)" "frames ChallengeSnapShot (verify_slip_remove b a)"
  unfolding counted_clear_put_def service_failed_put_def challenge_slip_insert_def challenge_slip_remove_def
    verify_slip_insert_def verify_slip_remove_def by (intro frames_mod; simp)+

lemmas audit_above = above_rules audit_writes_above penalties_more [THEN challenges_below] miner_calls_more [THEN challenges_below]

lemma audit_parts_above:
  "frames ChallengeSnapShot (check_verdict E k sc sg)" "frames ChallengeSnapShot (random_select_tee_acc E seed)"
  "frames ChallengeSnapShot (count_service_result E a v b)" "frames ChallengeSnapShot (generate_miner_space_param E now)"
  "frames ChallengeSnapShot (clear_challenge E now)"
  unfolding check_verdict_def random_select_tee_acc_def count_service_result_def generate_miner_space_param_def clear_challenge_def
    clear_one_challenge_def Let_def by (intro audit_above)+

lemmas mission_rules = missions_get keep_rules missions_put audit_writes_above [THEN missions_frame]
  audit_parts_above [THEN missions_frame] query_frames [THEN missions_frame]
  below_more [THEN miner_more_below, THEN challenges_below, THEN missions_frame]
  reward_ops_more [THEN challenges_below, THEN missions_frame] penalties_more [THEN challenges_below, THEN missions_frame]

lemma missions_challenge: "keepsM missions_ok (challenge_miner E now a)"
proof -
  have fresh: "handed_out (fst (mk_challenge E now n sn sp q))" for n sn sp q
    by (simp add: mk_challenge_def handed_out_def Let_def split: prod.splits)
  show ?thesis unfolding challenge_miner_def case_prod_beta by (rule mission_rules fresh)+
qed

lemma missions_cleared: "keepsM missions_ok (clear_one_mission E now a)"
proof -
  have again: "handed_out (c\<lparr>ch_prove_info := \<lparr>pv_assign = wrapping_add 8 (pv_assign (ch_prove_info c)) 1, pv_idle_prove = ip,
      pv_service_prove = vp\<rparr>, ch_challenge_element := e\<rparr>)"
    if "\<not> mission_over (ch_prove_info c)" for c ip vp e
    using that by (auto simp: mission_over_def handed_out_def wrapping_add_def Let_def split: if_splits)
  have "keepsM missions_ok (reassign_mission E now a c)" if "\<not> mission_over (ch_prove_info c)" for c
    unfolding reassign_mission_def Let_def by (rule mission_rules again that)+
  then have "keepsM missions_ok (if mission_over (ch_prove_info c)
      then bindM (verify_slip_remove now a) (\<lambda>_. challenge_put a None) else reassign_mission E now a c)" for c
    by (cases "mission_over (ch_prove_info c)") (simp_all add: mission_rules)
  note branch = this
  show ?thesis unfolding clear_one_mission_def by (rule missions_get(1); simp add: branch keepsM_pure)
qed

lemma missions_hook: "keepsM missions_ok (audit_on_initialize E now)"
  unfolding audit_on_initialize_def generate_challenge_def clear_verify_mission_def
  by (rule missions_challenge missions_cleared mission_rules)+

lemma missions_calls:
  "keepsM missions_ok (point_miner_challenge E orig a)" "keepsM missions_ok (submit_idle_proof E orig ip)"
  "keepsM missions_ok (submit_service_proof E orig vp)" "keepsM missions_ok (submit_verify_idle_result E orig th fr r acc b sg k)"
  "keepsM missions_ok (submit_verify_service_result E orig b sg bf k)" "keepsM missions_ok (update_counted_clear orig a)"
  "keepsM missions_ok (test_update_clear_slip E orig n n' a)" "keepsM missions_ok (test_update_verify_slip E orig n n' a)"
proof -
  have same: "handed_out (c\<lparr>ch_prove_info := (ch_prove_info c)\<lparr>pv_idle_prove := ip\<rparr>\<rparr>)"
    "handed_out (c\<lparr>ch_prove_info := (ch_prove_info c)\<lparr>pv_service_prove := vp\<rparr>\<rparr>)" if "handed_out c" for c ip vp
    using that by (simp_all add: handed_out_def)
  show "keepsM missions_ok (point_miner_challenge E orig a)" "keepsM missions_ok (submit_idle_proof E orig ip)"
    "keepsM missions_ok (submit_service_proof E orig vp)" "keepsM missions_ok (submit_verify_idle_result E orig th fr r acc b sg k)"
    "keepsM missions_ok (submit_verify_service_result E orig b sg bf k)" "keepsM missions_ok (update_counted_clear orig a)"
    "keepsM missions_ok (test_update_clear_slip E orig n n' a)" "keepsM missions_ok (test_update_verify_slip E orig n n' a)"
    unfolding point_miner_challenge_def submit_idle_proof_def submit_service_proof_def submit_verify_idle_result_def
      submit_verify_service_result_def update_counted_clear_def test_update_clear_slip_def test_update_verify_slip_def Let_def
    by (rule missions_challenge same mission_rules | assumption)+
qed

lemma oss_above: "frames ChallengeSnapShot (oss_dispatch E c)"
  by (cases c) (simp add: oss_ops authority_put_def oss_put_def; intro audit_above frames_mod; simp)+

lemma missions_op: "chain_op E m \<Longrightarrow> keepsM missions_ok m"
  by (erule chain_op.cases; hypsubst; (rule missions_hook missions_calls missions_frame [OF oss_above]
      missions_frame [OF bank_ops_above, OF bank_op.intros(1)] | (rule missions_frame, rule bank_ops_above, rule bank_op.intros)
    | rule missions_frame, rule challenges_below, rule miner_calls_more))

lemma missions_reach: "chain_reach E s t \<Longrightarrow> missions_ok s \<Longrightarrow> missions_ok t"
proof (induction rule: chain_reach.induct)
  case (reach_op t m)
  then show ?case using missions_op [OF reach_op.hyps(2)] by (simp add: keepsM_def)
next
  case (reach_below t t')
  have "ChallengeSnapShot t' = ChallengeSnapShot t" using reach_below.hyps(2) by (cases t, cases t') simp
  then show ?case using reach_below by (simp add: missions_ok_def)
qed

text \<open>C6. On a chain that starts without challenges (or with missions handed out at most twice) a mission of verification is handed to other workers at most twice, and
  when a mission that was handed out twice falls due again its challenge is closed, whether the workers have answered or
  not, while the challenges of the other miners stay as they are.\<close>

theorem missions_end:
  assumes "chain_reach E s t" "missions_ok s" "ChallengeSnapShot t a = Some c"
  shows "pv_assign (ch_prove_info c) \<le> 2 \<and>
    (pv_assign (ch_prove_info c) = 2 \<longrightarrow>
      (\<exists>t'. clear_one_mission E n a t = (Inr (), t') \<and> ChallengeSnapShot t' = (ChallengeSnapShot t)(a := None)))"
proof
  have "missions_ok t" using missions_reach [OF assms(1,2)] .
  then show "pv_assign (ch_prove_info c) \<le> 2" using assms(3) by (auto simp: missions_ok_def handed_out_def)
  show "pv_assign (ch_prove_info c) = 2 \<longrightarrow>
      (\<exists>t'. clear_one_mission E n a t = (Inr (), t') \<and> ChallengeSnapShot t' = (ChallengeSnapShot t)(a := None))"
    using assms(3) by (auto simp: clear_one_mission_def mission_over_def verify_slip_remove_def challenge_put_def run_ops Let_def)
qed

text \<open>A challenged miner whose proof nobody verifies.\<close>

definition pending_example :: "ledger audit_state" where
  "pending_example = verdict_example\<lparr>ChallengeSnapShot := [30 \<mapsto> challenge_example 1], ChallengeSlip := (\<lambda>_. []), VerifySlip := (\<lambda>_. [])(7 := [30])\<rparr>"

lemma pending_example_runs:
  "\<exists>c. ChallengeSnapShot (snd (audit_on_initialize ledger_runtime 7 pending_example)) 30 = Some c \<and> pv_assign (ch_prove_info c) = 2"
  unfolding pending_example_def
  by (simp add: audit_on_initialize_def generate_challenge_def clear_challenge_def clear_verify_mission_def clear_one_mission_def
      mission_over_def reassign_mission_def random_select_tee_acc_def attemptM_def verify_slip_remove_def verify_slip_insert_def challenge_put_def
      challenge_example_def wrapping_add_def run_ops Let_def split: prod.splits)

theorem missions_end_witness:
  "\<exists>t'. clear_one_mission ledger_runtime 8 30 (snd (audit_on_initialize ledger_runtime 7 pending_example)) = (Inr (), t') \<and>
     ChallengeSnapShot t' 30 = None"
proof -
  let ?t = "snd (audit_on_initialize ledger_runtime 7 pending_example)"
  have reach: "chain_reach ledger_runtime pending_example ?t" by (intro reach_op reach_start op_audit_hook)
  have "missions_ok pending_example" by (simp add: missions_ok_def handed_out_def pending_example_def challenge_example_def)
  then show ?thesis using missions_end [OF reach, where n = 8 and a = 30] pending_example_runs by fastforce
qed

end
