(* ===== verification/Bucket_Laws.thy ===== *)
theory Bucket_Laws
  imports Deal_Laws
begin

text \<open>
  The buckets of an account are recorded twice, as entries of \<open>Bucket\<close> and as a list of names; the two
  always agree, which is what the removal of a bucket relies on. The check of a bucket's name is shown
  to be equivalent to a condition on the whole name.
\<close>

section \<open>Both records agree\<close>

definition buckets_ok :: "('w, 'z) file_bank_state_scheme \<Rightarrow> bool" where
  "buckets_ok s \<longleftrightarrow> (\<forall>a. distinct (UserBucketList s a) \<and> set (UserBucketList s a) = {n. Bucket s (a, n) \<noteq> None})"

definition bucket_view :: "('w, 'z) file_bank_state_scheme \<Rightarrow> (account \<times> string \<Rightarrow> bucket_info option) \<times> (account \<Rightarrow> string list)" where
  "bucket_view s = (Bucket s, UserBucketList s)"

lemma buckets_frame: "frames bucket_view m \<Longrightarrow> keepsM buckets_ok m"
  by (erule keepsM_frame) (simp add: bucket_view_def buckets_ok_def)

lemma view_buckets: "frames file_view m \<Longrightarrow> frames bucket_view m"
  by (erule frames_weaken) (simp add: file_view_def bucket_view_def)

lemma other_writes:
  "frames bucket_view (deal_put h d)" "frames bucket_view (file_put h fi)" "frames bucket_view (modM (\<lambda>s. s\<lparr>ClearUserList := g s\<rparr>))"
  unfolding deal_put_def file_put_def by (intro frames_mod; simp add: bucket_view_def)+

lemma file_get_frames: "frames f (file_get h e)"
  unfolding file_get_def by (intro frame_rules)

lemma placing_frames: "frames f (generate_fragments cl n hs acc)" "frames f (generate_segments cl segs acc')"
proof -
  show frags: "frames f (generate_fragments cl n hs acc)" for cl n hs acc
    by (induction cl n hs acc rule: generate_fragments.induct) (auto intro!: frame_rules)
  show "frames f (generate_segments cl segs acc')"
    by (induction cl segs acc' rule: generate_segments.induct) (auto intro!: frame_rules frags)
qed

lemmas bucket_frames = frame_rules view_calls [THEN view_buckets] loop_frames [THEN view_buckets] other_writes file_get_frames
  release_frames [THEN view_buckets] placing_frames

text \<open>The operations that write buckets. A new bucket is entered first and listed then, so the records differ in between.\<close>

lemma bucket_writes_ok:
  "keepsM buckets_ok (add_file_to_bucket E a n h)" "keepsM buckets_ok (bucket_remove_file h a fi)"
  "keeps_okM buckets_ok (create_bucket_helper E a n ho)" "keeps_okM buckets_ok (into_bucket E a n h)"
proof -
  show add: "keepsM buckets_ok (add_file_to_bucket E a n h)" for h
    unfolding keepsM_wp add_file_to_bucket_def bucket_put_def by (auto simp: wp_simps buckets_ok_def)
  show "keepsM buckets_ok (bucket_remove_file h a fi)"
    unfolding bucket_remove_file_def
  proof (rule keepsM_forM)
    fix br
    show "keepsM buckets_ok (if ub_user br = a
       then bindM (getM (\<lambda>s. Bucket s (a, ub_bucket_name br))) (\<lambda>b. bindM (ok_or b (fb_err file_bank_error.NonExistent)) (\<lambda>bucket.
          bucket_put a (ub_bucket_name br) (Some (bucket\<lparr>bk_object_list := filter (\<lambda>f. f \<noteq> h) (bk_object_list bucket)\<rparr>))))
       else retM ())"
      unfolding keepsM_wp bucket_put_def by (auto simp: wp_simps buckets_ok_def)
  qed
  have "wp (create_bucket_helper E a n ho) (\<lambda>_. buckets_ok) (\<lambda>_ _. True) s" if "buckets_ok s" for ho s
    using that unfolding create_bucket_helper_def bucket_put_def user_buckets_put_def
    by (auto simp: wp_simps buckets_ok_def try_push_def)
  then show create: "keeps_okM buckets_ok (create_bucket_helper E a n ho)" for ho
    by (intro keeps_okM_I) (blast dest: wp_D)
  show "keeps_okM buckets_ok (into_bucket E a n h)"
    unfolding into_bucket_def by (auto intro!: keeps_okM_bind create add [THEN keepsM_okM] keepsM_pure [THEN keepsM_okM])
qed


text \<open>The calls and the hook.\<close>

lemma clearing_ok: "keepsM buckets_ok (clear_files a t n fs)" "keepsM buckets_ok (clear_accounts l n)"
proof -
  have owners: "frames bucket_view (remove_file_owner h a b)" "frames bucket_view (remove_file_last_owner h a b)" for h a b
    unfolding remove_file_owner_def remove_file_last_owner_def Let_def by (intro bucket_frames)+
  have one: "keepsM buckets_ok (clear_file a h)" for a h
    unfolding clear_file_def by (intro keep_rules owners [THEN buckets_frame] bucket_writes_ok)
  note hold = hold_frames [THEN view_buckets, THEN buckets_frame] other_writes [THEN buckets_frame]
  show files: "keepsM buckets_ok (clear_files a t n fs)" for a t n fs
    by (induction a t n fs rule: clear_files.induct) (auto simp: Let_def intro!: keep_rules hold one)
  show "keepsM buckets_ok (clear_accounts l n)"
    by (induction l n rule: clear_accounts.induct) (auto intro!: keep_rules files hold)
qed


lemma frame_calls_ok:
  "frames bucket_view (territory_file_delivery orig a h t)" "frames bucket_view (calculate_report E orig sg info)"
  "frames bucket_view (replace_idle_space E orig pr s1 s2 k)" "frames bucket_view (cert_idle_space E orig pr s1 s2 k)"
  "frames bucket_view (claim_restoral_order E orig fh)"
  unfolding territory_file_delivery_def calculate_report_def credit_tags_def replace_idle_space_def cert_idle_space_def
    check_idle_sig_def claim_restoral_order_def restoral_deadline_def Let_def
  by (intro bucket_frames)+

lemma order_calls_ok:
  "keepsM buckets_ok (generate_restoral_order orig h fh)" "keepsM buckets_ok (claim_restoral_noexist_order E orig a h fh)"
  "keepsM buckets_ok (restoral_order_complete orig fh)"
proof -
  note body = loop_bodies [THEN view_buckets, THEN buckets_frame]
  note calls = view_calls [THEN view_buckets, THEN buckets_frame] other_writes [THEN buckets_frame] file_get_frames [THEN buckets_frame]
  show "keepsM buckets_ok (generate_restoral_order orig h fh)" "keepsM buckets_ok (claim_restoral_noexist_order E orig a h fh)"
    "keepsM buckets_ok (restoral_order_complete orig fh)"
    unfolding generate_restoral_order_def claim_restoral_noexist_order_def restoral_order_complete_def
    by (intro keep_rules calls fragment_loops_inv body)+
qed

lemma bucket_calls_ok:
  "keepsM buckets_ok (delete_file orig a h)" "keepsM buckets_ok (root_clear_file orig a h)" "keepsM buckets_ok (file_bank_on_initialize E)"
  "keepsM buckets_ok (create_bucket E orig a n)" "keepsM buckets_ok (delete_bucket orig a n)"
proof -
  have owners: "frames bucket_view (remove_file_owner h a b)" "frames bucket_view (remove_file_last_owner h a b)"
      "frames bucket_view (remove_user_hold_file_list h a)" for h a b
    unfolding remove_file_owner_def remove_file_last_owner_def remove_user_hold_file_list_def Let_def by (intro bucket_frames)+
  note calls = owners [THEN buckets_frame] view_calls [THEN view_buckets, THEN buckets_frame] other_writes [THEN buckets_frame]
    file_get_frames [THEN buckets_frame]
  show "keepsM buckets_ok (delete_file orig a h)" "keepsM buckets_ok (root_clear_file orig a h)"
    "keepsM buckets_ok (file_bank_on_initialize E)"
    unfolding delete_file_def root_clear_file_def delete_user_file_def file_bank_on_initialize_def
    by (intro keep_rules calls bucket_writes_ok clearing_ok)+
  show "keepsM buckets_ok (create_bucket E orig a n)"
    unfolding create_bucket_def
    by (intro keepsM_transactional) (auto intro!: keeps_okM_bind bucket_writes_ok(3) keepsM_pure [THEN keepsM_okM] keepsM_origin [THEN keepsM_okM])
  have "set (remove1 n xs) = set xs - {n}" if "distinct xs" for xs using that by (rule set_remove1_eq)
  then show "keepsM buckets_ok (delete_bucket orig a n)"
    unfolding delete_bucket_def bucket_put_def user_buckets_put_def
    by (intro keeps_wp) (auto simp: wp_simps buckets_ok_def distinct_remove1)
qed

lemma deal_calls_ok:
  "keepsM buckets_ok (upload_declaration E orig h di br sz)" "keepsM buckets_ok (transfer_report E orig i h)"
proof -
  note oks = keepsM_pure [THEN keepsM_okM] keepsM_origin [THEN keepsM_okM] bucket_writes_ok(4)
    view_calls [THEN view_buckets, THEN buckets_frame, THEN keepsM_okM] other_writes [THEN buckets_frame, THEN keepsM_okM]
    file_get_frames [THEN buckets_frame, THEN keepsM_okM] placing_frames [THEN buckets_frame, THEN keepsM_okM]
  show "keepsM buckets_ok (upload_declaration E orig h di br sz)" "keepsM buckets_ok (transfer_report E orig i h)"
    unfolding upload_declaration_def fly_upload_file_def receptionist_generate_deal_def fb_generate_deal_def transfer_report_def
      force_unlock_space_def qualification_report_processing_def complete_part_def complete_deal_def completed_all_def
      fb_generate_file_def add_user_hold_fileslice_def Let_def
    by (intro keepsM_transactional; auto intro!: keeps_okM_bind keeps_okM_forM oks)+
qed

lemma bank_ops_buckets: "bank_op E m \<Longrightarrow> keepsM buckets_ok m"
  by (erule bank_op.cases) (simp_all add: bucket_calls_ok deal_calls_ok order_calls_ok frame_calls_ok [THEN buckets_frame])

interpretation buckets: bank_invariant E "buckets_ok :: ('w, 'z) audit_state_scheme \<Rightarrow> bool" for E :: "'w Config"
  by unfold_locales (simp add: file_view_def buckets_ok_def, erule bank_ops_buckets)


section \<open>Properties\<close>

text \<open>C19. On a chain that starts without buckets, the list of an account's bucket names has no repetition and names exactly
  the buckets that exist, whatever calls and hooks ran; the removal of a bucket therefore always finds the name in the list
  and never panics.\<close>

theorem buckets_agree:
  fixes s :: "('w, 'z) audit_state_scheme"
  assumes "chain_reach E s t" "Bucket s = Map.empty" "UserBucketList s = (\<lambda>_. [])"
  shows "distinct (UserBucketList t a) \<and> set (UserBucketList t a) = {n. Bucket t (a, n) \<noteq> None} \<and>
    fst (delete_bucket orig a n t) \<noteq> Inl Panic"
proof -
  have ok: "buckets_ok t" using buckets.on_chain [OF assms(1)] assms(2,3) by (simp add: buckets_ok_def)
  have "wp (delete_bucket orig a n) (\<lambda>_ _. True) (\<lambda>e _. e \<noteq> Panic) t"
    using ok unfolding delete_bucket_def bucket_put_def user_buckets_put_def by (auto simp: wp_simps buckets_ok_def)
  then have "fst (delete_bucket orig a n t) \<noteq> Inl Panic" by (auto simp: wp_def split: prod.splits sum.splits)
  then show ?thesis using ok by (auto simp: buckets_ok_def)
qed

lemma create_example:
  "Bucket (snd (create_bucket ledger_runtime (Signed 10) 10 ''photos'' audit_example)) (10, ''photos'') \<noteq> None"
  unfolding create_bucket_def create_bucket_helper_def bucket_put_def user_buckets_put_def
  by (simp add: run_ops check_permission_def try_push_def check_bucket_name_spec_def BUCKET_ALLOW_CHAR_def)

theorem buckets_agree_witness:
  "''photos'' \<in> set (UserBucketList (snd (create_bucket ledger_runtime (Signed 10) 10 ''photos'' audit_example)) 10)"
proof -
  have "chain_reach ledger_runtime audit_example (snd (create_bucket ledger_runtime (Signed 10) 10 ''photos'' audit_example))"
    by (intro reach_op reach_start op_create_bucket)
  from buckets_agree [OF this, of 10 Root "''x''"] create_example show ?thesis by simp
qed

text \<open>The loop over the name, as conditions on the whole name.\<close>

definition no_double_point :: "string \<Rightarrow> bool" where
  "no_double_point = successively (\<lambda>x y. \<not> (x = CHR ''.'' \<and> y = CHR ''.''))"

lemma point: "BUCKET_ALLOW_CHAR ! 64 = CHR ''.''"
  by (simp add: BUCKET_ALLOW_CHAR_def)

lemma name_loop_iff:
  "name_loop name flag n = (if set name \<subseteq> set BUCKET_ALLOW_CHAR \<and> no_double_point (if flag then CHR ''.'' # name else name)
     then Some (n + count_list name CHR ''.'') else None)"
  by (induction name flag n rule: name_loop.induct)
    (auto simp: point no_double_point_def successively_Cons neq_Nil_conv split: list.splits)


end
