(* ===== verification/Call_Effects.thy ===== *)
theory Call_Effects
  imports Bucket_Laws
begin

text \<open>What two calls of the chain do, exactly: a declaration of a file that is not stored yet
  (\<open>file-bank/src/lib.rs\<close>, \<open>upload_declaration\<close>), and a punishment of a miner
  (\<open>sminer/src/functions.rs\<close>, \<open>deposit_punish\<close>).\<close>

section \<open>Declaring a file\<close>

text \<open>C29. A declaration of a file that is not stored yet, by someone with permission of the owner and within the free space of
  an active territory, locks twelve fragments of space for every segment and opens a deal without reports. A deal that was
  pending under the same hash is replaced, reports included; the space that its miners locked stays locked.\<close>

theorem declaration_opens_deal:
  assumes "upload_declaration E (Signed a) h segs brief sz s = (Inr (), s')" "File s h = None"
  shows "check_permission a (ub_user brief) s \<and> check_file_spec segs \<and>
    DealMap s' = (DealMap s)(h \<mapsto> \<lparr>dl_file_size = sz, dl_segment_list = segs, dl_user = brief, dl_complete_list = []\<rparr>) \<and>
    MinerItems s' = MinerItems s \<and> File s' = File s \<and>
    (\<exists>t t'. Territory s (ub_user brief, ub_territory_name brief) = Some t \<and> t_state t = territory_st.Active \<and>
      Territory s' = (Territory s)((ub_user brief, ub_territory_name brief) \<mapsto> t') \<and>
      t_locked_space t' = t_locked_space t + FRAGMENT_SIZE * 12 * length segs \<and>
      t_remaining_space t' + FRAGMENT_SIZE * 12 * length segs = t_remaining_space t)"
proof -
  have twelve: "FRAGMENT_COUNT = 12" by (simp add: FRAGMENT_COUNT_def SEGMENT_SIZE_def FRAGMENT_SIZE_def M_BYTE_def)
  from assms show ?thesis
    unfolding upload_declaration_def receptionist_generate_deal_def fb_generate_deal_def
      lock_user_space_def get_user_avail_space_def get_territory_def put_territory_def st_add_def st_sub_def deal_put_def
    by (auto simp: run_ops twelve checked_mul_def checked_add_def checked_sub_def split: if_splits option.splits sum.splits prod.splits)
qed

section \<open>Punishing a miner\<close>

lemma wp_skip:
  "frames f m \<Longrightarrow> (\<And>x t. f t = f s \<Longrightarrow> wp (k x) Q (\<lambda>_ _. True) t) \<Longrightarrow> wp (bindM m k) Q (\<lambda>_ _. True) s"
  by (rule wp_bindI, rule wp_frame [where Q = "\<lambda>_ t. f t = f s"]) simp_all

text \<open>What a punishment leaves of the record, given the collateral that the power of the miner asks for.\<close>

definition punished :: "nat \<Rightarrow> nat \<Rightarrow> miner_info \<Rightarrow> miner_info" where
  "punished p lim m = m\<lparr>mi_collaterals := mi_collaterals m - p, mi_debt := (if p < mi_collaterals m then mi_debt m else p),
     mi_state := (if mi_collaterals m - p < lim then STATE_FROZEN else mi_state m)\<rparr>"

lemma punish_tail:
  assumes "MinerItems t = MinerItems s" "MinerItems s a = Some m"
    "m' = m\<lparr>mi_collaterals := mi_collaterals m - p, mi_debt := (if p < mi_collaterals m then mi_debt m else p)\<rparr>"
  shows "wp (bindM (calculate_limit_by_space (calculate_power E (mi_idle_space m') (mi_service_space m'))) (\<lambda>limit.
     bindM (ok_or (try_into 128 limit) (sminer_err sminer_error.Overflow)) (\<lambda>limit.
     bindM (if mi_collaterals m' < limit
       then bindM (str_to_bound E STATE_FROZEN) (\<lambda>st. retM (m'\<lparr>mi_state := st\<rparr>)) else retM m') (\<lambda>m. miner_put a m))))
    (\<lambda>_ s'. \<exists>m lim. MinerItems s a = Some m \<and>
      calculate_limit_by_space (calculate_power E (mi_idle_space m) (mi_service_space m)) s = (Inr lim, s) \<and>
      MinerItems s' = (MinerItems s)(a \<mapsto> punished p lim m)) (\<lambda>_ _. True) t"
proof (rule wp_bindI)
  let ?v = "calculate_power E (mi_idle_space m') (mi_service_space m')"
  show "wp (calculate_limit_by_space ?v) (\<lambda>lim t'. t' = t \<and> calculate_limit_by_space ?v s = (Inr lim, s)) (\<lambda>_ _. True) t"
    unfolding calculate_limit_by_space_def by (auto simp: wp_simps) (auto simp: run_ops)
qed (use assms in \<open>auto simp: wp_simps str_to_bound_def miner_put_def punished_def try_into_def\<close>)

lemma punish_taken:
  "wp (if p < mi_collaterals m
       then bindM (if mi_staking_account m = get_reservoir_acc E then punish_gate E a p False else retM ()) (\<lambda>_.
            bindM (unreserve E (mi_staking_account m) p) (\<lambda>_.
            bindM (send_to_pid E (mi_staking_account m) p) (\<lambda>_.
            bindM (ok_or (checked_sub (mi_collaterals m) p) (sminer_err sminer_error.Overflow)) (\<lambda>c.
            retM (m\<lparr>mi_collaterals := c\<rparr>)))))
       else bindM (if mi_staking_account m = get_reservoir_acc E then punish_gate E a p False else retM ()) (\<lambda>_.
            bindM (unreserve E (mi_staking_account m) (mi_collaterals m)) (\<lambda>_.
            bindM (send_to_pid E (mi_staking_account m) (mi_collaterals m)) (\<lambda>_.
            bindM (ok_or (checked_sub p (mi_collaterals (m\<lparr>mi_collaterals := 0\<rparr>))) (sminer_err sminer_error.Overflow)) (\<lambda>d.
            retM (m\<lparr>mi_collaterals := 0, mi_debt := d\<rparr>))))))
    (\<lambda>m' t. MinerItems t = MinerItems s \<and>
      m' = m\<lparr>mi_collaterals := mi_collaterals m - p, mi_debt := (if p < mi_collaterals m then mi_debt m else p)\<rparr>) (\<lambda>_ _. True) s"
proof -
  have gate: "frames MinerItems (if c then punish_gate E a p False else retM ())" for c by (intro miner_frames)
  show ?thesis
    by (cases "p < mi_collaterals m"; simp only: if_True if_False)
      (rule wp_skip [OF gate], rule wp_skip, rule miner_frames, rule wp_skip, rule miner_frames,
        (auto simp: wp_simps checked_sub_def)[1])+
qed

text \<open>C30. A punishment takes the amount out of the collateral, at most all of it, and freezes the miner when what is left is
  below what its power asks for; nobody else's record changes. When the collateral does not cover the amount, the miner
  owes the whole amount afterwards, in place of an older debt and without credit for the collateral that was taken.\<close>

theorem punishment_effect:
  assumes "deposit_punish E a p s = (Inr (), s')"
  shows "\<exists>m lim. MinerItems s a = Some m \<and>
    calculate_limit_by_space (calculate_power E (mi_idle_space m) (mi_service_space m)) s = (Inr lim, s) \<and>
    MinerItems s' = (MinerItems s)(a \<mapsto> m\<lparr>mi_collaterals := mi_collaterals m - p,
      mi_debt := (if p < mi_collaterals m then mi_debt m else p),
      mi_state := (if mi_collaterals m - p < lim then STATE_FROZEN else mi_state m)\<rparr>)"
proof -
  have "wp (deposit_punish E a p) (\<lambda>_ s'. \<exists>m lim. MinerItems s a = Some m \<and>
    calculate_limit_by_space (calculate_power E (mi_idle_space m) (mi_service_space m)) s = (Inr lim, s) \<and>
    MinerItems s' = (MinerItems s)(a \<mapsto> punished p lim m)) (\<lambda>_ _. True) s"
    unfolding deposit_punish_def Let_def
  proof (rule wp_bindI)
    show "wp (miner_get a sminer_error.NotMiner) (\<lambda>m t. t = s \<and> MinerItems s a = Some m) (\<lambda>_ _. True) s"
      unfolding miner_get_def by (auto simp: wp_simps)
  qed (clarify, rule wp_bindI, rule punish_taken, clarify, rule punish_tail, assumption+, simp)
  from wp_D [OF this assms] show ?thesis unfolding punished_def .
qed

section \<open>Examples\<close>

text \<open>A miner with a collateral of 5, a debt of 3, and a punishment of 9.\<close>

definition guilty_example :: "ledger audit_state" where
  "guilty_example = audit_example\<lparr>world := ledger_of [(10, 100)], MinerItems := [10 \<mapsto> (new_miner 11 10 ''p'' 5 STATE_POSITIVE 20)\<lparr>mi_debt := 3\<rparr>]\<rparr>"

lemma guilty_example_runs: "fst (deposit_punish ledger_runtime 10 9 guilty_example) = Inr ()"
  unfolding guilty_example_def deposit_punish_def miner_get_def miner_put_def str_to_bound_def calculate_limit_by_space_def
    unreserve_def send_to_pid_def transfer_def world_step_def world_upd_def get_reservoir_acc_def
  by (simp add: run_ops new_miner_def ledger_simps checked_sub_def checked_div_def checked_mul_def checked_add_def try_into_def
      T_BYTE_def calculate_power_def wrapping_add_def STATE_FROZEN_def BASE_UNIT_def)

theorem punishment_effect_witness:
  "\<exists>s'. deposit_punish ledger_runtime 10 9 guilty_example = (Inr (), s') \<and> map_option mi_debt (MinerItems s' 10) = Some 9 \<and>
     map_option mi_collaterals (MinerItems s' 10) = Some 0"
proof -
  obtain s' where run: "deposit_punish ledger_runtime 10 9 guilty_example = (Inr (), s')"
    using guilty_example_runs by (metis prod.collapse)
  then show ?thesis using punishment_effect [OF run] by (auto simp: guilty_example_def new_miner_def)
qed

text \<open>The second declaration of a hash, after a first report.\<close>

definition redeclared_example :: "ledger audit_state" where
  "redeclared_example = (land_example 0)\<lparr>DealMap := [''hash'' \<mapsto> deal_example [\<lparr>dc_index = 1, dc_miner = 30\<rparr>]]\<rparr>"

lemma redeclared_example_runs:
  "fst (upload_declaration ledger_runtime (Signed 10) ''hash'' (dl_segment_list (deal_example [])) brief_example 5 redeclared_example) = Inr ()"
  unfolding upload_declaration_def redeclared_example_def land_example_def deal_example_def brief_example_def receptionist_generate_deal_def
    fb_generate_deal_def lock_user_space_def get_user_avail_space_def get_territory_def put_territory_def st_add_def st_sub_def deal_put_def
  by (simp add: run_ops check_permission_def check_file_spec_def size_defs checked_mul_def checked_add_def checked_sub_def)

theorem declaration_opens_deal_witness:
  "\<exists>s'. upload_declaration ledger_runtime (Signed 10) ''hash'' (dl_segment_list (deal_example [])) brief_example 5 redeclared_example = (Inr (), s') \<and>
     DealMap redeclared_example ''hash'' = Some (deal_example [\<lparr>dc_index = 1, dc_miner = 30\<rparr>]) \<and> DealMap s' ''hash'' = Some (deal_example [])"
proof -
  let ?op = "upload_declaration ledger_runtime (Signed 10) ''hash'' (dl_segment_list (deal_example [])) brief_example 5"
  obtain s' where run: "?op redeclared_example = (Inr (), s')" using redeclared_example_runs by (metis prod.collapse)
  then show ?thesis
    using declaration_opens_deal [OF run] by (simp add: redeclared_example_def land_example_def deal_example_def)
qed

end
