(* ===== verification/Light_Client.thy ===== *)
theory Light_Client
  imports Chain_Prelude
begin

text \<open>
  The light client of the trusted worker (\<open>crates/cestory/src/light_validation\<close>): ancestry and finality of
  submitted headers, and the authority set that signs them.

  Outside the repository, and parameters of the model (\<open>lc_env\<close>): the hash of a header, the SCALE decoders of a
  justification and of a digest, \<open>VoterSet::new\<close> and \<open>validate_commit\<close> of \<open>finality_grandpa\<close>, the
  signature check of \<open>sp_consensus_grandpa\<close>, and the reader of a trie proof.
\<close>

section \<open>Data\<close>

datatype digest_item = Consensus_Digest (dg_engine: string) (dg_payload: string) | Other_Digest

record chain_header =
  hd_parent_hash :: string
  hd_number :: nat
  hd_state_root :: string
  hd_digest :: "digest_item list"

type_synonym authority_list = "(string \<times> nat) list"

record scheduled_change =
  sc_next_authorities :: authority_list
  sc_delay :: nat

datatype consensus_log = ScheduledChange scheduled_change | OtherLog

record authority_set =
  as_list :: authority_list
  as_id :: nat

record bridge_info =
  last_finalized_block_header :: chain_header
  current_set :: authority_set

record light_validation =
  num_bridges :: nat
  tracked_bridges :: "nat \<Rightarrow> bridge_info option"
  grandpa_note_stalled :: bool

record precommit =
  pc_target_hash :: string
  pc_target_number :: nat

record signed_precommit =
  sp_precommit :: precommit
  sp_signature :: string
  sp_id :: string

record grandpa_commit =
  cm_target_hash :: string
  cm_target_number :: nat
  cm_precommits :: "signed_precommit list"

record grandpa_justification =
  gj_round :: nat
  gj_commit :: grandpa_commit
  gj_votes_ancestries :: "chain_header list"

datatype lc_error = StorageValueUnavailable | ValidatorSetMismatch | MissingAuthorities | InvalidAncestryProof
  | NoSuchBridgeExists | StorageValueMismatch | UnsupportedScheduledChangeDelay
  | JustificationDecode | BadJustification string | Lc_Panic

record lc_env =
  header_hash :: "chain_header \<Rightarrow> string"
  consensus_log_of :: "string \<Rightarrow> consensus_log option"
  decode_justification :: "string \<Rightarrow> grandpa_justification option"
  voter_set_new :: "authority_list \<Rightarrow> bool"
  validate_commit :: "grandpa_commit \<Rightarrow> authority_list \<Rightarrow> chain_header list \<Rightarrow> bool"
  check_message_signature :: "precommit \<Rightarrow> string \<Rightarrow> string \<Rightarrow> nat \<Rightarrow> nat \<Rightarrow> bool"
  trie_read :: "string \<Rightarrow> string list \<Rightarrow> string \<Rightarrow> string option option"
  encode_authorities :: "authority_list \<Rightarrow> string"
  grandpa_engine_id :: string

section \<open>Descent of headers\<close>

text \<open>\<open>verify_ancestry\<close>: the loop walks the proof from high to low as long as the hashes fit.\<close>

fun ancestry_walk :: "lc_env \<Rightarrow> chain_header list \<Rightarrow> string \<Rightarrow> string \<Rightarrow> bool" where
  "ancestry_walk E [] ancestor_hash parent_hash = False"
| "ancestry_walk E (header # hs) ancestor_hash parent_hash =
     (if header_hash E header \<noteq> parent_hash then False
      else if hd_parent_hash header = ancestor_hash then True
      else ancestry_walk E hs ancestor_hash (hd_parent_hash header))"

definition verify_ancestry :: "lc_env \<Rightarrow> chain_header list \<Rightarrow> string \<Rightarrow> chain_header \<Rightarrow> lc_error + unit" where
  "verify_ancestry E proofs ancestor_hash child =
     (if hd_parent_hash child = ancestor_hash then Inr ()
      else if ancestry_walk E proofs ancestor_hash (hd_parent_hash child) then Inr ()
      else Inl InvalidAncestryProof)"

text \<open>\<open>AncestryChain\<close>: the headers of the votes by their hash; a later header with the same hash replaces an
  earlier one. The walk to the base ends at the base or at an unknown hash; on a cycle of hashes it does not end, which
  is the value \<open>None\<close>.\<close>

definition ancestry_chain :: "lc_env \<Rightarrow> chain_header list \<Rightarrow> string \<Rightarrow> chain_header option" where
  "ancestry_chain E hs = map_of (rev (map (\<lambda>h. (header_hash E h, h)) hs))"

partial_function (option) ancestry_loop :: "(string \<Rightarrow> chain_header option) \<Rightarrow> string \<Rightarrow> string \<Rightarrow> string list \<Rightarrow> string list option option" where
  "ancestry_loop chain base current_hash route =
     (if current_hash = base then Some (Some route)
      else case chain current_hash of
        None \<Rightarrow> Some None
      | Some current_header \<Rightarrow> ancestry_loop chain base (hd_parent_hash current_header) (route @ [hd_parent_hash current_header]))"

definition ancestry :: "(string \<Rightarrow> chain_header option) \<Rightarrow> string \<Rightarrow> string \<Rightarrow> string list option option" where
  "ancestry chain base block = map_option (map_option butlast) (ancestry_loop chain base block [])"

section \<open>Finality\<close>

text \<open>The loop of \<open>verify_with_voter_set\<close> over the precommits: signatures, and the routes from the base, which
  collect the visited hashes.\<close>

fun precommit_loop :: "lc_env \<Rightarrow> bool \<Rightarrow> nat \<Rightarrow> nat \<Rightarrow> (string \<Rightarrow> chain_header option) \<Rightarrow> string \<Rightarrow> signed_precommit list
    \<Rightarrow> string list \<Rightarrow> (lc_error + string list) option" where
  "precommit_loop E stalled round set_id chain base_hash [] visited = Some (Inr visited)"
| "precommit_loop E stalled round set_id chain base_hash (signed # rest) visited =
     (if \<not> check_message_signature E (sp_precommit signed) (sp_id signed) (sp_signature signed) round set_id \<and> \<not> stalled
      then Some (Inl (BadJustification ''invalid signature for precommit in grandpa justification''))
      else if base_hash = pc_target_hash (sp_precommit signed)
      then precommit_loop E stalled round set_id chain base_hash rest visited
      else case ancestry chain base_hash (pc_target_hash (sp_precommit signed)) of
        None \<Rightarrow> None
      | Some None \<Rightarrow> Some (Inl (BadJustification ''invalid precommit ancestry proof in grandpa justification''))
      | Some (Some route) \<Rightarrow> precommit_loop E stalled round set_id chain base_hash rest
          (visited @ pc_target_hash (sp_precommit signed) # route))"

text \<open>The base is the target of the first precommit with the lowest number; without precommits the code panics.\<close>

definition verify_with_voter_set :: "lc_env \<Rightarrow> bool \<Rightarrow> nat \<Rightarrow> authority_list \<Rightarrow> grandpa_justification \<Rightarrow> (lc_error + unit) option" where
  "verify_with_voter_set E stalled set_id voters j =
     (if \<not> validate_commit E (gj_commit j) voters (gj_votes_ancestries j) \<and> \<not> stalled
      then Some (Inl (BadJustification ''invalid commit in grandpa justification''))
      else if cm_precommits (gj_commit j) = [] then Some (Inl Lc_Panic)
      else
        let base_hash = pc_target_hash (arg_min_list pc_target_number (map sp_precommit (cm_precommits (gj_commit j)))) in
        case precommit_loop E stalled (gj_round j) set_id (ancestry_chain E (gj_votes_ancestries j)) base_hash
            (cm_precommits (gj_commit j)) [] of
          None \<Rightarrow> None
        | Some (Inl e) \<Rightarrow> Some (Inl e)
        | Some (Inr visited_hashes) \<Rightarrow>
            if set visited_hashes \<noteq> set (map (header_hash E) (gj_votes_ancestries j))
            then Some (Inl (BadJustification ''invalid precommit ancestries in grandpa justification with unused headers''))
            else Some (Inr ()))"

definition decode_and_verify_finalizes :: "lc_env \<Rightarrow> string \<Rightarrow> string \<times> nat \<Rightarrow> nat \<Rightarrow> authority_list \<Rightarrow> bool \<Rightarrow> (lc_error + unit) option" where
  "decode_and_verify_finalizes E encoded finalized_target set_id voters stalled =
     (case decode_justification E encoded of
        None \<Rightarrow> Some (Inl JustificationDecode)
      | Some j \<Rightarrow>
          if (cm_target_hash (gj_commit j), cm_target_number (gj_commit j)) \<noteq> finalized_target
          then Some (Inl (BadJustification ''invalid commit target in grandpa justification''))
          else verify_with_voter_set E stalled set_id voters j)"

text \<open>\<open>find_scheduled_change\<close> (\<open>crates/cestory/api/src/blocks.rs\<close>): the first digest of the engine that is
  a scheduled change.\<close>

fun find_scheduled_change_in :: "lc_env \<Rightarrow> digest_item list \<Rightarrow> scheduled_change option" where
  "find_scheduled_change_in E [] = None"
| "find_scheduled_change_in E (l # ls) =
     (case l of
        Consensus_Digest engine payload \<Rightarrow>
          if engine = grandpa_engine_id E
          then case consensus_log_of E payload of
              Some (ScheduledChange change) \<Rightarrow> Some change
            | _ \<Rightarrow> find_scheduled_change_in E ls
          else find_scheduled_change_in E ls
      | Other_Digest \<Rightarrow> find_scheduled_change_in E ls)"

definition find_scheduled_change :: "lc_env \<Rightarrow> chain_header \<Rightarrow> scheduled_change option" where
  "find_scheduled_change E header = find_scheduled_change_in E (hd_digest header)"

section \<open>Storage proofs\<close>

definition grandpa_authorities_key :: string where
  "grandpa_authorities_key = map char_of [0x5f, 0x9c, 0xc4, 0x5b, 0x7a, 0x00, 0xc5, 0x89, 0x93, 0x61, 0xe1, 0xc6, 0x09, 0x96, 0x78, 0xdc,
     0x5e, 0x06, 0x21, 0xc4, 0x86, 0x9a, 0xa6, 0x0c, 0x02, 0xbe, 0x9a, 0xdc, 0xc9, 0x8a, 0x0d, 0x1d :: nat]"

definition read_value :: "lc_env \<Rightarrow> string \<Rightarrow> string list \<Rightarrow> string \<Rightarrow> lc_error + string option" where
  "read_value E root proofs key = (case trie_read E root proofs key of None \<Rightarrow> Inl StorageValueUnavailable | Some v \<Rightarrow> Inr v)"

definition check_validator_set_proof :: "lc_env \<Rightarrow> string \<Rightarrow> string list \<Rightarrow> authority_list \<Rightarrow> lc_error + unit" where
  "check_validator_set_proof E state_root proofs validator_set =
     (let encoded = encode_authorities E validator_set in
      case read_value E state_root proofs grandpa_authorities_key of
        Inl e \<Rightarrow> Inl e
      | Inr (Some authorities) \<Rightarrow> if encoded = authorities then Inr () else Inl ValidatorSetMismatch
      | Inr None \<Rightarrow> (case read_value E state_root proofs '':grandpa_authorities'' of
            Inl e \<Rightarrow> Inl e
          | Inr None \<Rightarrow> Inl MissingAuthorities
          | Inr (Some authorities) \<Rightarrow>
              if authorities \<noteq> [] \<and> encoded = tl authorities then Inr () else Inl ValidatorSetMismatch))"

fun validate_storage_proof :: "lc_env \<Rightarrow> string \<Rightarrow> string list \<Rightarrow> (string \<times> string) list \<Rightarrow> lc_error + unit" where
  "validate_storage_proof E state_root proofs [] = Inr ()"
| "validate_storage_proof E state_root proofs ((k, v) # items) =
     (case read_value E state_root proofs k of
        Inl e \<Rightarrow> Inl e
      | Inr None \<Rightarrow> Inl StorageValueUnavailable
      | Inr (Some actual) \<Rightarrow> if actual \<noteq> v then Inl StorageValueMismatch else validate_storage_proof E state_root proofs items)"

section \<open>The client\<close>

definition light_validation_new :: light_validation where
  "light_validation_new = \<lparr>num_bridges = 0, tracked_bridges = Map.empty, grandpa_note_stalled = False\<rparr>"

definition initialize_bridge :: "lc_env \<Rightarrow> chain_header \<Rightarrow> authority_set \<Rightarrow> string list \<Rightarrow> bool \<Rightarrow> light_validation
    \<Rightarrow> (lc_error + nat) \<times> light_validation" where
  "initialize_bridge E block_header validator_set proofs stalled lv =
     (case check_validator_set_proof E (hd_state_root block_header) proofs (as_list validator_set) of
        Inl e \<Rightarrow> (Inl e, lv)
      | Inr _ \<Rightarrow>
          let new_bridge_id = wrapping_add 64 (num_bridges lv) 1 in
          (Inr new_bridge_id, lv\<lparr>tracked_bridges := (tracked_bridges lv)(new_bridge_id \<mapsto>
             \<lparr>last_finalized_block_header = block_header, current_set = validator_set\<rparr>),
             num_bridges := new_bridge_id, grandpa_note_stalled := stalled\<rparr>))"

text \<open>The error of a justification that cannot be decoded is ignored by a client that was told that finality has stalled.\<close>

definition submit_finalized_headers :: "lc_env \<Rightarrow> nat \<Rightarrow> chain_header \<Rightarrow> chain_header list \<Rightarrow> string \<Rightarrow> light_validation
    \<Rightarrow> ((lc_error + unit) \<times> light_validation) option" where
  "submit_finalized_headers E bridge_id header ancestry_proof grandpa_proof lv =
     (case tracked_bridges lv bridge_id of
        None \<Rightarrow> Some (Inl NoSuchBridgeExists, lv)
      | Some bridge \<Rightarrow>
          (case verify_ancestry E ancestry_proof (header_hash E (last_finalized_block_header bridge)) header of
             Inl e \<Rightarrow> Some (Inl e, lv)
           | Inr _ \<Rightarrow>
               let voters = current_set bridge in
               if \<not> voter_set_new E (as_list voters) then Some (Inl Lc_Panic, lv)
               else case decode_and_verify_finalizes E grandpa_proof (header_hash E header, hd_number header) (as_id voters)
                   (as_list voters) (grandpa_note_stalled lv) of
                 None \<Rightarrow> None
               | Some r \<Rightarrow>
                   if (case r of Inl e \<Rightarrow> \<not> (e = JustificationDecode \<and> grandpa_note_stalled lv) | Inr _ \<Rightarrow> False)
                   then Some (map_sum id (\<lambda>_. ()) r, lv)
                   else (case find_scheduled_change E header of
                       None \<Rightarrow> Some (Inr (), lv\<lparr>tracked_bridges := (tracked_bridges lv)(bridge_id \<mapsto>
                         bridge\<lparr>last_finalized_block_header := header\<rparr>)\<rparr>)
                     | Some change \<Rightarrow>
                         if sc_delay change \<noteq> 0 then Some (Inl UnsupportedScheduledChangeDelay, lv)
                         else Some (Inr (), lv\<lparr>tracked_bridges := (tracked_bridges lv)(bridge_id \<mapsto>
                           bridge\<lparr>current_set := \<lparr>as_list = sc_next_authorities change, as_id = wrapping_add 64 (as_id voters) 1\<rparr>,
                             last_finalized_block_header := header\<rparr>)\<rparr>))))"

section \<open>Walks end\<close>

text \<open>A rank of hashes that falls from a header to its parent, such as the number of a block, excludes cycles.\<close>

definition ranked :: "lc_env \<Rightarrow> (string \<Rightarrow> nat) \<Rightarrow> chain_header list \<Rightarrow> bool" where
  "ranked E r hs \<longleftrightarrow> list_all (\<lambda>h. r (hd_parent_hash h) < r (header_hash E h)) hs"

lemma ancestry_chain_Some: "ancestry_chain E hs c = Some h \<Longrightarrow> h \<in> set hs \<and> header_hash E h = c"
  unfolding ancestry_chain_def by (auto dest: map_of_SomeD)

lemma ancestry_loop_ends:
  fixes r :: "string \<Rightarrow> nat"
  assumes "\<And>c h. chain c = Some h \<Longrightarrow> r (hd_parent_hash h) < r c"
  shows "ancestry_loop chain base c route \<noteq> None"
proof (induction "r c" arbitrary: c route rule: less_induct)
  case less
  show ?case
  proof (cases "chain c")
    case (Some h)
    then show ?thesis
      using less [of "hd_parent_hash h" "route @ [hd_parent_hash h]"] assms by (subst ancestry_loop.simps) simp
  qed (subst ancestry_loop.simps, simp)
qed

lemma ancestry_ends: "ranked E r hs \<Longrightarrow> ancestry (ancestry_chain E hs) base c \<noteq> None"
proof -
  assume "ranked E r hs"
  then have "r (hd_parent_hash h) < r c'" if "ancestry_chain E hs c' = Some h" for c' h
    using ancestry_chain_Some [OF that] by (auto simp: ranked_def list_all_iff)
  then show ?thesis unfolding ancestry_def using ancestry_loop_ends [of "ancestry_chain E hs" r] by simp
qed

lemma precommit_loop_ends:
  "ranked E r hs \<Longrightarrow> precommit_loop E stalled round set_id (ancestry_chain E hs) base ps visited \<noteq> None"
  by (induction ps arbitrary: visited) (auto split: option.splits dest: ancestry_ends)

lemma verify_with_voter_set_ends:
  "ranked E r (gj_votes_ancestries j) \<Longrightarrow> verify_with_voter_set E stalled set_id voters j \<noteq> None"
  unfolding verify_with_voter_set_def Let_def
  by (auto split: option.splits sum.splits dest: precommit_loop_ends)

section \<open>What acceptance means\<close>

inductive descends :: "lc_env \<Rightarrow> string \<Rightarrow> chain_header \<Rightarrow> bool" for E a where
  parent: "hd_parent_hash h = a \<Longrightarrow> descends E a h"
| ancestor: "descends E a g \<Longrightarrow> header_hash E g = hd_parent_hash h \<Longrightarrow> descends E a h"

lemma ancestry_walk_descends: "ancestry_walk E hs a (hd_parent_hash h) \<Longrightarrow> descends E a h"
proof (induction hs arbitrary: h)
  case (Cons g hs)
  then have g: "header_hash E g = hd_parent_hash h" by (simp split: if_splits)
  have "descends E a g" using Cons by (cases "hd_parent_hash g = a") (auto intro: descends.parent split: if_splits)
  then show ?case using g by (rule descends.ancestor)
qed simp

lemma verify_ancestry_descends: "verify_ancestry E hs a h = Inr () \<Longrightarrow> descends E a h"
  by (auto simp: verify_ancestry_def split: if_splits intro: descends.parent ancestry_walk_descends)

text \<open>The commit in a justification is for this very header, passes the check of the voting weights and carries only
  signatures of the given set.\<close>

definition finalizes :: "lc_env \<Rightarrow> authority_set \<Rightarrow> chain_header \<Rightarrow> grandpa_justification \<Rightarrow> bool" where
  "finalizes E as h j \<longleftrightarrow> cm_target_hash (gj_commit j) = header_hash E h \<and> cm_target_number (gj_commit j) = hd_number h \<and>
     validate_commit E (gj_commit j) (as_list as) (gj_votes_ancestries j) \<and> cm_precommits (gj_commit j) \<noteq> [] \<and>
     list_all (\<lambda>sp. check_message_signature E (sp_precommit sp) (sp_id sp) (sp_signature sp) (gj_round j) (as_id as))
       (cm_precommits (gj_commit j))"

lemma precommit_loop_signed:
  "precommit_loop E False round set_id chain base ps visited = Some (Inr v) \<Longrightarrow>
     list_all (\<lambda>sp. check_message_signature E (sp_precommit sp) (sp_id sp) (sp_signature sp) round set_id) ps"
  by (induction ps arbitrary: visited) (auto split: if_splits option.splits)

lemma decode_and_verify_finalizes_ok:
  "decode_and_verify_finalizes E enc (header_hash E h, hd_number h) (as_id as) (as_list as) False = Some (Inr u) \<Longrightarrow>
     \<exists>j. decode_justification E enc = Some j \<and> finalizes E as h j"
  unfolding decode_and_verify_finalizes_def verify_with_voter_set_def Let_def
  by (auto simp: finalizes_def split: option.splits if_splits sum.splits dest: precommit_loop_signed)

text \<open>The set that signs after a header, and after a sequence of headers.\<close>

definition next_set :: "lc_env \<Rightarrow> authority_set \<Rightarrow> chain_header \<Rightarrow> authority_set" where
  "next_set E as h = (case find_scheduled_change E h of
     None \<Rightarrow> as | Some c \<Rightarrow> \<lparr>as_list = sc_next_authorities c, as_id = wrapping_add 64 (as_id as) 1\<rparr>)"

lemma submit_accepted:
  assumes "submit_finalized_headers E b h proofs enc lv = Some (Inr (), lv')"
  obtains br where "tracked_bridges lv b = Some br" "descends E (header_hash E (last_finalized_block_header br)) h"
    "lv' = lv\<lparr>tracked_bridges := (tracked_bridges lv)(b \<mapsto>
       \<lparr>last_finalized_block_header = h, current_set = next_set E (current_set br) h\<rparr>)\<rparr>"
    "\<not> grandpa_note_stalled lv \<Longrightarrow> \<exists>j. decode_justification E enc = Some j \<and> finalizes E (current_set br) h j"
proof -
  obtain br where br: "tracked_bridges lv b = Some br"
    using assms by (auto simp: submit_finalized_headers_def split: option.splits)
  obtain u where v: "verify_ancestry E proofs (header_hash E (last_finalized_block_header br)) h = Inr u"
    using assms br by (cases "verify_ancestry E proofs (header_hash E (last_finalized_block_header br)) h")
      (simp_all add: submit_finalized_headers_def)
  then have desc: "descends E (header_hash E (last_finalized_block_header br)) h" by (auto intro: verify_ancestry_descends)
  have voters: "voter_set_new E (as_list (current_set br))"
    using assms br v by (rule_tac ccontr) (simp add: submit_finalized_headers_def Let_def)
  obtain r where r: "decode_and_verify_finalizes E enc (header_hash E h, hd_number h) (as_id (current_set br))
      (as_list (current_set br)) (grandpa_note_stalled lv) = Some r"
    using assms br v voters by (simp add: submit_finalized_headers_def Let_def split: option.splits)
  define bad where "bad \<longleftrightarrow> (case r of Inl e \<Rightarrow> \<not> (e = JustificationDecode \<and> grandpa_note_stalled lv) | Inr _ \<Rightarrow> False)"
  have good: "\<not> bad"
  proof
    assume bad: bad
    then obtain e where "r = Inl e" unfolding bad_def by (cases r) simp_all
    then show False using assms br v voters r bad by (simp add: submit_finalized_headers_def Let_def bad_def)
  qed
  have lv: "lv' = lv\<lparr>tracked_bridges := (tracked_bridges lv)(b \<mapsto>
       \<lparr>last_finalized_block_header = h, current_set = next_set E (current_set br) h\<rparr>)\<rparr>"
    using assms br v voters r good [unfolded bad_def]
    by (cases br; cases "find_scheduled_change E h") (auto simp: submit_finalized_headers_def Let_def next_set_def split: if_splits)
  have "\<exists>j. decode_justification E enc = Some j \<and> finalizes E (current_set br) h j" if "\<not> grandpa_note_stalled lv"
    using good [unfolded bad_def] r that by (cases r) (auto dest: decode_and_verify_finalizes_ok)
  with br desc lv show thesis using that by blast
qed

lemma submit_rejected:
  "submit_finalized_headers E b h proofs enc lv = Some (Inl e, lv') \<Longrightarrow> lv' = lv"
  by (auto simp: submit_finalized_headers_def Let_def split: option.splits sum.splits if_splits)

section \<open>Histories\<close>

text \<open>A history of submissions to one bridge, with the headers that were accepted.\<close>

inductive lc_history :: "lc_env \<Rightarrow> nat \<Rightarrow> light_validation \<Rightarrow> chain_header list \<Rightarrow> light_validation \<Rightarrow> bool" for E b lv where
  history_start: "lc_history E b lv [] lv"
| history_accept: "lc_history E b lv hs lv1 \<Longrightarrow> submit_finalized_headers E b h proofs enc lv1 = Some (Inr (), lv2) \<Longrightarrow>
    lc_history E b lv (hs @ [h]) lv2"
| history_reject: "lc_history E b lv hs lv1 \<Longrightarrow> submit_finalized_headers E b h proofs enc lv1 = Some (Inl e, lv2) \<Longrightarrow>
    lc_history E b lv hs lv2"

definition set_after :: "lc_env \<Rightarrow> authority_set \<Rightarrow> chain_header list \<Rightarrow> authority_set" where
  "set_after E as hs = foldl (next_set E) as hs"

definition history_ok :: "lc_env \<Rightarrow> nat \<Rightarrow> light_validation \<Rightarrow> bridge_info \<Rightarrow> chain_header list \<Rightarrow> light_validation \<Rightarrow> bool" where
  "history_ok E b lv br hs lv' \<longleftrightarrow>
     tracked_bridges lv' = (tracked_bridges lv)(b \<mapsto> \<lparr>last_finalized_block_header = last (last_finalized_block_header br # hs),
       current_set = set_after E (current_set br) hs\<rparr>) \<and>
     grandpa_note_stalled lv' = grandpa_note_stalled lv \<and>
     successively (\<lambda>g h. descends E (header_hash E g) h) (last_finalized_block_header br # hs) \<and>
     (grandpa_note_stalled lv \<or> (\<forall>i < length hs. \<exists>j. finalizes E (set_after E (current_set br) (take i hs)) (hs ! i) j))"

lemma history_extends:
  assumes ok: "history_ok E b lv br hs lv1" and run: "submit_finalized_headers E b h proofs enc lv1 = Some (Inr (), lv2)"
  shows "history_ok E b lv br (hs @ [h]) lv2"
proof -
  let ?g = "last (last_finalized_block_header br # hs)" and ?as = "set_after E (current_set br) hs"
  obtain br1 where br1: "tracked_bridges lv1 b = Some br1"
    and desc: "descends E (header_hash E (last_finalized_block_header br1)) h"
    and lv2: "lv2 = lv1\<lparr>tracked_bridges := (tracked_bridges lv1)(b \<mapsto>
       \<lparr>last_finalized_block_header = h, current_set = next_set E (current_set br1) h\<rparr>)\<rparr>"
    and fin: "\<not> grandpa_note_stalled lv1 \<Longrightarrow> \<exists>j. decode_justification E enc = Some j \<and> finalizes E (current_set br1) h j"
    using submit_accepted [OF run] by metis
  have "br1 = \<lparr>last_finalized_block_header = ?g, current_set = ?as\<rparr>"
    using br1 ok by (simp add: history_ok_def)
  then have d: "descends E (header_hash E ?g) h" and f: "\<not> grandpa_note_stalled lv1 \<Longrightarrow> \<exists>j. finalizes E ?as h j"
    and l: "current_set br1 = ?as" using desc fin by auto
  have "successively (\<lambda>g h. descends E (header_hash E g) h) ((last_finalized_block_header br # hs) @ [h])"
    using ok d unfolding history_ok_def by (subst successively_append_iff) simp
  moreover have "grandpa_note_stalled lv \<or>
      (\<forall>i < length (hs @ [h]). \<exists>j. finalizes E (set_after E (current_set br) (take i (hs @ [h]))) ((hs @ [h]) ! i) j)"
    using ok f by (auto simp: history_ok_def nth_append less_Suc_eq)
  ultimately show ?thesis using ok lv2 l by (simp add: history_ok_def set_after_def)
qed

text \<open>C10. Whatever is submitted to the light client, the accepted headers form a chain: each descends from the one accepted
  before it, and the first from the header that the bridge was initialized with. Each was finalized by a commit for its
  own hash and number that the voting rules accept, with signatures of the authorities that the chain before it hands
  over to; these change only by a change scheduled in an accepted header, with the next set number. Other bridges and,
  after a refused header, the client itself stay as they are. (A client that was told that finality has stalled does not
  check the commits.)\<close>

theorem accepted_headers_finalized:
  assumes "lc_history E b lv hs lv'" "tracked_bridges lv b = Some br"
  shows "tracked_bridges lv' = (tracked_bridges lv)(b \<mapsto> \<lparr>last_finalized_block_header = last (last_finalized_block_header br # hs),
       current_set = set_after E (current_set br) hs\<rparr>) \<and>
     successively (\<lambda>g h. descends E (header_hash E g) h) (last_finalized_block_header br # hs) \<and>
     (grandpa_note_stalled lv \<or> (\<forall>i < length hs. \<exists>j. finalizes E (set_after E (current_set br) (take i hs)) (hs ! i) j))"
proof -
  have "history_ok E b lv br hs lv'"
    using assms(1)
  proof induction
    case history_start
    then show ?case using assms(2) by (auto simp: history_ok_def set_after_def fun_upd_idem)
  next
    case (history_accept hs lv1 h proofs enc lv2)
    then show ?case by (blast intro: history_extends)
  next
    case (history_reject hs lv1 h proofs enc e lv2)
    then show ?case using submit_rejected by blast
  qed
  then show ?thesis by (simp add: history_ok_def)
qed

text \<open>The submission itself ends when the hashes in the justification have a rank.\<close>

lemma submit_ends:
  assumes "case decode_justification E enc of None \<Rightarrow> True | Some j \<Rightarrow> ranked E r (gj_votes_ancestries j)"
  shows "submit_finalized_headers E b h proofs enc lv \<noteq> None"
proof -
  have "decode_and_verify_finalizes E enc target i voters stalled \<noteq> None" for target i voters stalled
    using assms by (auto simp: decode_and_verify_finalizes_def split: option.splits dest: verify_with_voter_set_ends)
  then show ?thesis
    by (auto simp: submit_finalized_headers_def Let_def simp del: not_None_eq split: option.splits sum.splits)
qed

section \<open>Example\<close>

text \<open>A chain with one authority, a genesis header and a header that the authority finalizes.\<close>

definition light_example :: lc_env where
  "light_example = \<lparr>header_hash = (\<lambda>h. ''h'' @ hd_state_root h), consensus_log_of = (\<lambda>_. None),
     decode_justification = (\<lambda>enc. Some \<lparr>gj_round = 1, gj_commit = \<lparr>cm_target_hash = enc, cm_target_number = 1,
       cm_precommits = [\<lparr>sp_precommit = \<lparr>pc_target_hash = enc, pc_target_number = 1\<rparr>, sp_signature = ''sig'', sp_id = ''alice''\<rparr>]\<rparr>,
       gj_votes_ancestries = []\<rparr>),
     voter_set_new = (\<lambda>l. l \<noteq> []),
     validate_commit = (\<lambda>c voters _. list_all (\<lambda>sp. sp_id sp \<in> fst ` set voters) (cm_precommits c)),
     check_message_signature = (\<lambda>_ who s _ _. who = ''alice'' \<and> s = ''sig''),
     trie_read = (\<lambda>_ _ _. Some (Some ''alice'')), encode_authorities = (\<lambda>l. concat (map fst l)), grandpa_engine_id = ''FRNK''\<rparr>"

definition header_example :: "nat \<Rightarrow> string \<Rightarrow> string \<Rightarrow> chain_header" where
  "header_example n parent root = \<lparr>hd_parent_hash = parent, hd_number = n, hd_state_root = root, hd_digest = []\<rparr>"

definition alice_set :: authority_set where
  "alice_set = \<lparr>as_list = [(''alice'', 1)], as_id = 0\<rparr>"

definition bridge_example :: light_validation where
  "bridge_example = snd (initialize_bridge light_example (header_example 0 [] ''r0'') alice_set [] False light_validation_new)"

lemma bridge_example_tracked:
  "tracked_bridges bridge_example = [1 \<mapsto> \<lparr>last_finalized_block_header = header_example 0 [] ''r0'', current_set = alice_set\<rparr>]"
  "grandpa_note_stalled bridge_example = False"
  by (simp_all add: bridge_example_def initialize_bridge_def check_validator_set_proof_def read_value_def light_example_def
      alice_set_def light_validation_new_def wrapping_add_def)

lemma submit_example:
  "\<exists>lv. submit_finalized_headers light_example 1 (header_example 1 ''hr0'' ''r1'') [header_example 0 [] ''r0''] ''hr1'' bridge_example = Some (Inr (), lv)"
  by (simp add: submit_finalized_headers_def bridge_example_tracked verify_ancestry_def decode_and_verify_finalizes_def
      verify_with_voter_set_def find_scheduled_change_def light_example_def header_example_def alice_set_def ancestry_chain_def Let_def)

theorem accepted_headers_finalized_witness:
  "\<exists>lv' j. lc_history light_example 1 bridge_example [header_example 1 ''hr0'' ''r1''] lv' \<and>
     map_option last_finalized_block_header (tracked_bridges lv' 1) = Some (header_example 1 ''hr0'' ''r1'') \<and>
     finalizes light_example alice_set (header_example 1 ''hr0'' ''r1'') j"
proof -
  obtain lv where "submit_finalized_headers light_example 1 (header_example 1 ''hr0'' ''r1'') [header_example 0 [] ''r0''] ''hr1'' bridge_example
      = Some (Inr (), lv)" using submit_example by blast
  from history_accept [OF history_start this]
  have h: "lc_history light_example 1 bridge_example [header_example 1 ''hr0'' ''r1''] lv" by simp
  show ?thesis
    using accepted_headers_finalized [OF h] h by (auto simp: bridge_example_tracked set_after_def)
qed

end
