(* ===== verification/Block_Sync.thy ===== *)
theory Block_Sync
  imports Light_Client
begin

text \<open>
  The block synchronizer of the trusted worker (\<open>crates/cestory/api/src/storage_sync.rs\<close>) on top of the light client,
  and the trie storage that it feeds (\<open>crates/ces-trie-storage/src/lib.rs\<close>). The state machine of Substrate, which
  computes a root from changes and merges a transaction into the database, is the parameter \<open>trie_env\<close>.
\<close>

section \<open>Data\<close>

type_synonym storage_collection = "(string \<times> string option) list"

record storage_changes =
  main_storage_changes :: storage_collection
  child_storage_changes :: "(string \<times> storage_collection) list"

record header_to_sync =
  hs_header :: chain_header
  hs_justification :: "string option"

record block_header_with_changes =
  bh_block_header :: chain_header
  bh_storage_changes :: storage_changes

datatype sync_error = EmptyRequest | MissingJustification | HeaderValidateFailed lc_error | HeaderHashMismatch | BlockNumberMismatch
  | NoStateRoot | StateRootMismatch nat string string | CannotLoadStateAfterSyncing | Sync_Panic

record block_sync_state =
  validator :: light_validation
  main_bridge :: nat
  header_number_next :: nat
  block_number_next :: nat
  genesis_state_validated :: bool

record solochain_synchronizer =
  sync_state :: block_sync_state
  state_roots :: "string list"

section \<open>The trie storage\<close>

record 'd trie_storage =
  ts_backend :: 'd
  ts_root :: string

record ('d, 'x) trie_env =
  full_storage_root :: "'d \<Rightarrow> string \<Rightarrow> storage_changes \<Rightarrow> string \<times> 'x"
  consolidate :: "'d \<Rightarrow> 'x \<Rightarrow> 'd"

definition calc_root_if_changes :: "('d, 'x) trie_env \<Rightarrow> storage_changes \<Rightarrow> 'd trie_storage \<Rightarrow> string \<times> 'x" where
  "calc_root_if_changes T changes st = full_storage_root T (ts_backend st) (ts_root st) changes"

definition apply_changes :: "('d, 'x) trie_env \<Rightarrow> string \<Rightarrow> 'x \<Rightarrow> 'd trie_storage \<Rightarrow> 'd trie_storage" where
  "apply_changes T root transaction st = \<lparr>ts_backend = consolidate T (ts_backend st) transaction, ts_root = root\<rparr>"

definition set_root :: "string \<Rightarrow> 'd trie_storage \<Rightarrow> 'd trie_storage" where
  "set_root root st = st\<lparr>ts_root := root\<rparr>"

section \<open>Headers\<close>

definition block_sync_new :: "light_validation \<Rightarrow> nat \<Rightarrow> nat \<Rightarrow> nat \<Rightarrow> block_sync_state" where
  "block_sync_new v bridge header_next block_next = \<lparr>validator = v, main_bridge = bridge, header_number_next = header_next,
     block_number_next = block_next, genesis_state_validated = False\<rparr>"

definition solochain_new :: "light_validation \<Rightarrow> nat \<Rightarrow> solochain_synchronizer" where
  "solochain_new v bridge = \<lparr>sync_state = block_sync_new v bridge 0 1, state_roots = []\<rparr>"

fun check_sequence :: "lc_env \<Rightarrow> chain_header list \<Rightarrow> bool" where
  "check_sequence E (g # h # hs) = (header_hash E g = hd_parent_hash h \<and> check_sequence E (h # hs))"
| "check_sequence E hs = True"

definition retained :: "block_sync_state \<Rightarrow> header_to_sync list \<Rightarrow> header_to_sync list" where
  "retained s headers = filter (\<lambda>h. header_number_next s \<le> hd_number (hs_header h)) headers"

text \<open>The numbers are \<open>u32\<close>: before the first header, the number of the last synchronized one wraps.\<close>

definition sync_header :: "lc_env \<Rightarrow> header_to_sync list \<Rightarrow> nat \<Rightarrow> block_sync_state \<times> string list
    \<Rightarrow> ((sync_error + nat) \<times> block_sync_state \<times> string list) option" where
  "sync_header E headers skip_blocks_below = (\<lambda>(s, roots).
     case retained s headers of
       [] \<Rightarrow> Some (Inr (wrapping_add 32 (header_number_next s) (2 ^ 32 - 1)), s, roots)
     | first_header # rest \<Rightarrow>
         let kept = first_header # rest; last_header = last kept in
         if hd_number (hs_header first_header) \<noteq> header_number_next s then Some (Inl BlockNumberMismatch, s, roots)
         else case hs_justification last_header of
           None \<Rightarrow> Some (Inl MissingJustification, s, roots)
         | Some justification \<Rightarrow>
             if \<not> check_sequence E (map hs_header kept) then Some (Inl HeaderHashMismatch, s, roots)
             else case submit_finalized_headers E (main_bridge s) (hs_header last_header)
                 (rev (map hs_header (butlast kept))) justification (validator s) of
               None \<Rightarrow> None
             | Some (Inl e, v) \<Rightarrow> Some (Inl (if e = Lc_Panic then Sync_Panic else HeaderValidateFailed e), s\<lparr>validator := v\<rparr>, roots)
             | Some (Inr _, v) \<Rightarrow> Some (Inr (hd_number (hs_header last_header)),
                 s\<lparr>validator := v, header_number_next := wrapping_add 32 (hd_number (hs_header last_header)) 1\<rparr>,
                 roots @ map (\<lambda>h. hd_state_root (hs_header h)) (filter (\<lambda>h. skip_blocks_below \<le> hd_number (hs_header h)) kept)))"

definition solo_sync_header :: "lc_env \<Rightarrow> header_to_sync list \<Rightarrow> solochain_synchronizer
    \<Rightarrow> ((sync_error + nat) \<times> solochain_synchronizer) option" where
  "solo_sync_header E headers c =
     (if block_number_next (sync_state c) = 0 then Some (Inl Sync_Panic, c)
      else map_option (\<lambda>(r, s, roots). (r, \<lparr>sync_state = s, state_roots = roots\<rparr>))
        (sync_header E headers (block_number_next (sync_state c) - 1) (sync_state c, state_roots c)))"

section \<open>Blocks\<close>

text \<open>The first block validates the state that the storage started from. With \<open>drop_proofs\<close> nothing is validated,
  and the number is advanced before the missing root is noticed.\<close>

definition feed_validated :: "('d, 'x) trie_env \<Rightarrow> block_header_with_changes \<Rightarrow> solochain_synchronizer \<Rightarrow> 'd trie_storage
    \<Rightarrow> (sync_error + unit) \<times> solochain_synchronizer \<times> 'd trie_storage" where
  "feed_validated T block c st =
     (case state_roots c of
        [] \<Rightarrow> (Inl NoStateRoot, c, st)
      | expected_root # roots \<Rightarrow>
          (case calc_root_if_changes T (bh_storage_changes block) st of (state_root, transaction) \<Rightarrow>
             if expected_root \<noteq> state_root
             then (Inl (StateRootMismatch (hd_number (bh_block_header block)) expected_root state_root), c, st)
             else (Inr (), \<lparr>sync_state = (sync_state c)\<lparr>block_number_next := wrapping_add 32 (block_number_next (sync_state c)) 1\<rparr>,
                 state_roots = roots\<rparr>, apply_changes T state_root transaction st)))"

definition feed_block :: "('d, 'x) trie_env \<Rightarrow> block_header_with_changes \<Rightarrow> bool \<Rightarrow> solochain_synchronizer \<Rightarrow> 'd trie_storage
    \<Rightarrow> (sync_error + unit) \<times> solochain_synchronizer \<times> 'd trie_storage" where
  "feed_block T block drop_proofs c st =
     (let s = sync_state c in
      if hd_number (bh_block_header block) \<noteq> block_number_next s then (Inl BlockNumberMismatch, c, st)
      else if drop_proofs
      then let c' = c\<lparr>sync_state := s\<lparr>block_number_next := wrapping_add 32 (block_number_next s) 1\<rparr>\<rparr> in
        (case state_roots c of
           [] \<Rightarrow> (Inl NoStateRoot, c', st)
         | root # roots \<Rightarrow> (Inr (), c'\<lparr>state_roots := roots\<rparr>, set_root root st))
      else if genesis_state_validated s then feed_validated T block c st
      else case state_roots c of
          [] \<Rightarrow> (Inl NoStateRoot, c, st)
        | genesis_state_root # roots \<Rightarrow>
            if ts_root st \<noteq> genesis_state_root
            then (Inl (StateRootMismatch (wrapping_add 32 (block_number_next s) (2 ^ 32 - 1)) genesis_state_root (ts_root st)), c, st)
            else feed_validated T block \<lparr>sync_state = s\<lparr>genesis_state_validated := True\<rparr>, state_roots = roots\<rparr> st)"

definition assume_at_block :: "nat \<Rightarrow> solochain_synchronizer \<Rightarrow> (sync_error + unit) \<times> solochain_synchronizer" where
  "assume_at_block block_number c =
     (if 1 < block_number_next (sync_state c) \<or> 0 < header_number_next (sync_state c) then (Inl CannotLoadStateAfterSyncing, c)
      else (Inr (), c\<lparr>sync_state := (sync_state c)\<lparr>block_number_next := wrapping_add 32 block_number 1\<rparr>\<rparr>))"

section \<open>Runs\<close>

text \<open>A run of requests to the synchronizer and its storage, with the headers whose roots were queued. Blocks are fed with
  their proofs.\<close>

definition queued :: "solochain_synchronizer \<Rightarrow> header_to_sync list \<Rightarrow> chain_header list" where
  "queued c headers = map hs_header (filter (\<lambda>h. block_number_next (sync_state c) - 1 \<le> hd_number (hs_header h))
     (retained (sync_state c) headers))"

inductive sync_run :: "lc_env \<Rightarrow> ('d, 'x) trie_env \<Rightarrow> solochain_synchronizer \<Rightarrow> 'd trie_storage
    \<Rightarrow> chain_header list \<Rightarrow> solochain_synchronizer \<Rightarrow> 'd trie_storage \<Rightarrow> bool" for E T c0 st0 where
  run_start: "sync_run E T c0 st0 [] c0 st0"
| run_headers: "sync_run E T c0 st0 acc c st \<Longrightarrow> solo_sync_header E headers c = Some (Inr n, c') \<Longrightarrow>
    sync_run E T c0 st0 (acc @ queued c headers) c' st"
| run_refused: "sync_run E T c0 st0 acc c st \<Longrightarrow> solo_sync_header E headers c = Some (Inl e, c') \<Longrightarrow>
    sync_run E T c0 st0 acc c' st"
| run_block: "sync_run E T c0 st0 acc c st \<Longrightarrow> feed_block T block False c st = (r, c', st') \<Longrightarrow>
    sync_run E T c0 st0 acc c' st'"

text \<open>The headers: each queued header is a finalized one or an ancestor of one.\<close>

definition link :: "lc_env \<Rightarrow> chain_header \<Rightarrow> chain_header \<Rightarrow> bool" where
  "link E g h \<longleftrightarrow> header_hash E g = hd_parent_hash h"

lemma check_sequence_last: "check_sequence E hs \<Longrightarrow> h \<in> set hs \<Longrightarrow> (link E)\<^sup>*\<^sup>* h (last hs)"
proof (induction E hs arbitrary: h rule: check_sequence.induct)
  case (1 E g h' hs)
  have rest: "(link E)\<^sup>*\<^sup>* k (last (h' # hs))" if "k \<in> set (h' # hs)" for k using 1 that by simp
  have "link E g h'" using 1(2) by (simp add: link_def)
  then have "(link E)\<^sup>*\<^sup>* g (last (h' # hs))" using rest [of h'] by (simp add: converse_rtranclp_into_rtranclp)
  then show ?case using 1(3) rest by (cases "h = g") simp_all
qed auto

lemma solo_sync_header_ok:
  assumes "solo_sync_header E headers c = Some (Inr n, c')"
  shows "state_roots c' = state_roots c @ map hd_state_root (queued c headers)"
    "block_number_next (sync_state c') = block_number_next (sync_state c)"
    "genesis_state_validated (sync_state c') = genesis_state_validated (sync_state c)"
    "main_bridge (sync_state c') = main_bridge (sync_state c)"
    "(queued c headers = [] \<and> validator (sync_state c') = validator (sync_state c)) \<or>
     (\<exists>h proofs enc. submit_finalized_headers E (main_bridge (sync_state c)) h proofs enc (validator (sync_state c)) =
        Some (Inr (), validator (sync_state c')) \<and> (\<forall>g \<in> set (queued c headers). (link E)\<^sup>*\<^sup>* g h))"
proof -
  let ?s = "sync_state c" and ?k = "retained (sync_state c) headers"
  obtain z where z: "sync_header E headers (block_number_next ?s - 1) (?s, state_roots c) = Some z"
    using assms by (cases "sync_header E headers (block_number_next ?s - 1) (?s, state_roots c)")
      (simp_all add: solo_sync_header_def split: if_splits)
  obtain r s roots where split: "z = (r, s, roots)" by (rule prod_cases3)
  have "r = Inr n" and c': "c' = \<lparr>sync_state = s, state_roots = roots\<rparr>"
    using assms z split by (simp_all add: solo_sync_header_def split: if_splits)
  then have run: "sync_header E headers (block_number_next ?s - 1) (?s, state_roots c) = Some (Inr n, s, roots)"
    using z split by simp
  consider "?k = []" "s = ?s" "roots = state_roots c"
    | just u v where "?k \<noteq> []" "check_sequence E (map hs_header ?k)"
      "submit_finalized_headers E (main_bridge ?s) (hs_header (last ?k)) (rev (map hs_header (butlast ?k))) just (validator ?s) = Some (Inr u, v)"
      "s = ?s\<lparr>validator := v, header_number_next := wrapping_add 32 (hd_number (hs_header (last ?k))) 1\<rparr>"
      "roots = state_roots c @ map hd_state_root (queued c headers)"
  proof (cases ?k)
    case Nil
    show thesis by (rule that(1)) (use run Nil in \<open>simp_all add: sync_header_def\<close>)
  next
    case (Cons f fs)
    have num: "hd_number (hs_header f) = header_number_next ?s"
      by (rule ccontr) (use run Cons in \<open>simp add: sync_header_def Let_def\<close>)
    obtain just where just: "hs_justification (last ?k) = Some just"
      by (cases "hs_justification (last ?k)") (use run Cons num in \<open>simp_all add: sync_header_def Let_def\<close>)
    have seq: "check_sequence E (map hs_header ?k)"
      by (rule ccontr) (use run Cons num just in \<open>simp add: sync_header_def Let_def\<close>)
    let ?sub = "submit_finalized_headers E (main_bridge ?s) (hs_header (last ?k)) (rev (map hs_header (butlast ?k))) just (validator ?s)"
    obtain u v where sub: "?sub = Some (Inr u, v)"
    proof (cases ?sub)
      case (Some rv)
      then show thesis using that run Cons num just seq by (cases rv; cases "fst rv") (simp_all add: sync_header_def Let_def)
    qed (use run Cons num just seq in \<open>simp add: sync_header_def Let_def\<close>)
    show thesis
      by (rule that(2) [OF _ seq sub]) (use run Cons num just seq sub in \<open>auto simp: sync_header_def Let_def queued_def o_def\<close>)
  qed
  note cases = this
  show "state_roots c' = state_roots c @ map hd_state_root (queued c headers)"
    using cases by cases (simp_all add: c' queued_def)
  show "block_number_next (sync_state c') = block_number_next ?s" "genesis_state_validated (sync_state c') = genesis_state_validated ?s"
    "main_bridge (sync_state c') = main_bridge ?s"
    using cases by (cases; simp add: c')+
  show "(queued c headers = [] \<and> validator (sync_state c') = validator ?s) \<or>
     (\<exists>h proofs enc. submit_finalized_headers E (main_bridge ?s) h proofs enc (validator ?s) = Some (Inr (), validator (sync_state c')) \<and>
        (\<forall>g \<in> set (queued c headers). (link E)\<^sup>*\<^sup>* g h))"
    using cases
  proof cases
    case 2
    have "(link E)\<^sup>*\<^sup>* g (hs_header (last ?k))" if "g \<in> set (queued c headers)" for g
      using check_sequence_last [OF 2(2), of g] that 2(1) by (auto simp: queued_def last_map)
    then show ?thesis using 2(3,4) c' by auto
  qed (simp add: c' queued_def)
qed

lemma solo_sync_header_refused:
  assumes "solo_sync_header E headers c = Some (Inl e, c')"
  shows "c' = c"
  using assms by (auto simp: solo_sync_header_def sync_header_def Let_def split: if_splits list.splits option.splits sum.splits dest!: submit_rejected)

text \<open>The roots: \<open>used\<close> are those that the blocks fed so far have used up, the one of the starting state first.\<close>

definition roots_used :: "nat \<Rightarrow> string \<Rightarrow> string list \<Rightarrow> solochain_synchronizer \<Rightarrow> 'd trie_storage \<Rightarrow> string list \<Rightarrow> bool" where
  "roots_used b0 r0 rs c st used \<longleftrightarrow> rs = used @ state_roots c \<and> used \<noteq> [] \<and> hd used = r0 \<and> ts_root st = last used \<and>
     block_number_next (sync_state c) = (b0 + (length used - 1)) mod 2 ^ 32"

definition roots_ok :: "nat \<Rightarrow> 'd trie_storage \<Rightarrow> string list \<Rightarrow> solochain_synchronizer \<Rightarrow> 'd trie_storage \<Rightarrow> bool" where
  "roots_ok b0 st0 rs c st \<longleftrightarrow>
     (if genesis_state_validated (sync_state c) then \<exists>used. roots_used b0 (ts_root st0) rs c st used
      else state_roots c = rs \<and> st = st0 \<and> block_number_next (sync_state c) = b0)"

lemma feed_validated_used:
  assumes "feed_validated T block c st = (r, c', st')" "roots_used b0 r0 rs c st used" "genesis_state_validated (sync_state c)"
  shows "genesis_state_validated (sync_state c') \<and> (\<exists>used'. roots_used b0 r0 rs c' st' used')"
proof (cases "state_roots c")
  case Nil
  then show ?thesis using assms by (auto simp: feed_validated_def)
next
  case (Cons root roots)
  obtain root' tr where calc: "calc_root_if_changes T (bh_storage_changes block) st = (root', tr)" by fastforce
  show ?thesis
  proof (cases "root = root'")
    case True
    have "Suc ((b0 + (length used - 1)) mod 2 ^ 32) mod 2 ^ 32 = (b0 + length used) mod (2 ^ 32 :: nat)"
      using assms(2) unfolding roots_used_def by (cases used) (simp_all add: mod_Suc_eq)
    then have "roots_used b0 r0 rs c' st' (used @ [root])"
      using assms(1,2) Cons calc True
      by (auto simp: feed_validated_def roots_used_def apply_changes_def wrapping_add_def)
    then show ?thesis using assms(1,3) Cons calc True by (auto simp: feed_validated_def)
  qed (use assms Cons calc in \<open>auto simp: feed_validated_def\<close>)
qed

lemma feed_block_roots:
  assumes "feed_block T block False c st = (r, c', st')" "roots_ok b0 st0 rs c st" "b0 < 2 ^ 32"
  shows "roots_ok b0 st0 rs c' st'"
proof -
  consider "(c', st') = (c, st)"
    | "genesis_state_validated (sync_state c)" "feed_validated T block c st = (r, c', st')"
    | roots where "\<not> genesis_state_validated (sync_state c)" "state_roots c = ts_root st # roots"
      "feed_validated T block \<lparr>sync_state = (sync_state c)\<lparr>genesis_state_validated := True\<rparr>, state_roots = roots\<rparr> st = (r, c', st')"
    using assms(1) by (auto simp: feed_block_def Let_def split: if_splits list.splits)
  then show ?thesis
  proof cases
    case 2
    then show ?thesis using feed_validated_used [OF 2(2)] assms(2) by (auto simp: roots_ok_def)
  next
    case 3
    have "roots_used b0 (ts_root st0) rs \<lparr>sync_state = (sync_state c)\<lparr>genesis_state_validated := True\<rparr>, state_roots = roots\<rparr> st [ts_root st]"
      using 3(1,2) assms(2,3) by (auto simp: roots_ok_def roots_used_def)
    from feed_validated_used [OF 3(3) this] show ?thesis by (simp add: roots_ok_def)
  qed (use assms(2) in simp)
qed

lemma feed_block_headers:
  "feed_block T block drop_proofs c st = (r, c', st') \<Longrightarrow>
     validator (sync_state c') = validator (sync_state c) \<and> main_bridge (sync_state c') = main_bridge (sync_state c)"
  by (auto simp: feed_block_def feed_validated_def Let_def split: if_splits list.splits prod.splits)

section \<open>Properties\<close>

text \<open>C11. Whatever requests a fresh synchronizer gets, with blocks fed with their proofs: every queued header is finalized by the light
  client or is an ancestor of a finalized header by its hash; the queue holds the state roots of these headers in order; and the
  roots are used in order, first the one that the storage started with, then one for every block, so that after \<open>n\<close>
  blocks the storage has exactly the state root of the \<open>n\<close>th header after the starting one.\<close>

theorem storage_follows_finalized_headers:
  assumes "sync_run E T c0 st0 acc c st" "state_roots c0 = []" "\<not> genesis_state_validated (sync_state c0)"
    "block_number_next (sync_state c0) < 2 ^ 32"
  shows "(\<exists>fins. lc_history E (main_bridge (sync_state c0)) (validator (sync_state c0)) fins (validator (sync_state c)) \<and>
      (\<forall>g \<in> set acc. \<exists>h \<in> set fins. (\<lambda>g h. header_hash E g = hd_parent_hash h)\<^sup>*\<^sup>* g h)) \<and>
    (if genesis_state_validated (sync_state c)
     then \<exists>used. map hd_state_root acc = used @ state_roots c \<and> used \<noteq> [] \<and> hd used = ts_root st0 \<and> ts_root st = last used \<and>
       block_number_next (sync_state c) = (block_number_next (sync_state c0) + (length used - 1)) mod 2 ^ 32
     else state_roots c = map hd_state_root acc \<and> st = st0)"
proof -
  let ?b = "main_bridge (sync_state c0)" and ?start = "block_number_next (sync_state c0)"
  have "(\<exists>fins. lc_history E ?b (validator (sync_state c0)) fins (validator (sync_state c)) \<and>
      (\<forall>g \<in> set acc. \<exists>h \<in> set fins. (link E)\<^sup>*\<^sup>* g h)) \<and> main_bridge (sync_state c) = ?b \<and>
    roots_ok ?start st0 (map hd_state_root acc) c st"
    using assms(1)
  proof induction
    case run_start
    then show ?case using assms(2,3) by (auto simp: roots_ok_def intro: history_start)
  next
    case (run_headers acc c st headers n c')
    note ok = solo_sync_header_ok [OF run_headers.hyps(2)]
    obtain fins where h: "lc_history E ?b (validator (sync_state c0)) fins (validator (sync_state c))"
      and a: "\<forall>g \<in> set acc. \<exists>h \<in> set fins. (link E)\<^sup>*\<^sup>* g h" and b: "main_bridge (sync_state c) = ?b"
      using run_headers.IH by blast
    have "\<exists>fins'. lc_history E ?b (validator (sync_state c0)) fins' (validator (sync_state c')) \<and>
      (\<forall>g \<in> set (acc @ queued c headers). \<exists>h \<in> set fins'. (link E)\<^sup>*\<^sup>* g h)"
      using ok(5)
    proof
      assume "\<exists>h proofs enc. submit_finalized_headers E (main_bridge (sync_state c)) h proofs enc (validator (sync_state c)) =
          Some (Inr (), validator (sync_state c')) \<and> (\<forall>g \<in> set (queued c headers). (link E)\<^sup>*\<^sup>* g h)"
      then obtain k proofs enc where sub: "submit_finalized_headers E ?b k proofs enc (validator (sync_state c)) = Some (Inr (), validator (sync_state c'))"
        and q: "\<forall>g \<in> set (queued c headers). (link E)\<^sup>*\<^sup>* g k" using b by auto
      show ?thesis using history_accept [OF h sub] a q by (intro exI [of _ "fins @ [k]"]) auto
    qed (use h a in auto)
    moreover have "roots_ok ?start st0 (map hd_state_root (acc @ queued c headers)) c' st"
      using run_headers.IH ok(1-3) by (auto simp: roots_ok_def roots_used_def)
    ultimately show ?case using b ok(4) by simp
  next
    case (run_refused acc c st headers e c')
    then show ?case using solo_sync_header_refused by blast
  next
    case (run_block acc c st block r c' st')
    then show ?case using feed_block_roots [OF run_block.hyps(2) _ assms(4)] feed_block_headers [OF run_block.hyps(2)] by simp
  qed
  then show ?thesis unfolding roots_ok_def roots_used_def link_def [abs_def] by (auto split: if_splits)
qed

section \<open>Example\<close>

text \<open>A storage whose root is spelled out by its changes, and the first block after the genesis block.\<close>

definition trie_example :: "(unit, unit) trie_env" where
  "trie_example = \<lparr>full_storage_root = (\<lambda>_ _ ch. (concat (map fst (main_storage_changes ch)), ())), consolidate = (\<lambda>_ _. ())\<rparr>"

definition headers_example :: "header_to_sync list" where
  "headers_example = [\<lparr>hs_header = header_example 0 [] ''r0'', hs_justification = None\<rparr>,
     \<lparr>hs_header = header_example 1 ''hr0'' ''r1'', hs_justification = Some ''hr1''\<rparr>]"

definition block_example :: block_header_with_changes where
  "block_example = \<lparr>bh_block_header = header_example 1 ''hr0'' ''r1'',
     bh_storage_changes = \<lparr>main_storage_changes = [(''r1'', None)], child_storage_changes = []\<rparr>\<rparr>"

lemma sync_example:
  "\<exists>c. solo_sync_header light_example headers_example (solochain_new bridge_example 1) = Some (Inr 1, c) \<and>
     state_roots c = [''r0'', ''r1''] \<and> block_number_next (sync_state c) = 1 \<and> \<not> genesis_state_validated (sync_state c)"
proof -
  obtain lv where "submit_finalized_headers light_example 1 (header_example 1 ''hr0'' ''r1'') [header_example 0 [] ''r0''] ''hr1'' bridge_example
      = Some (Inr (), lv)" using submit_example by blast
  moreover have "header_hash light_example (header_example 0 [] ''r0'') = ''hr0''" by (simp add: light_example_def header_example_def)
  ultimately show ?thesis
    by (simp add: solo_sync_header_def sync_header_def solochain_new_def block_sync_new_def retained_def headers_example_def Let_def)
      (simp add: header_example_def)
qed

theorem storage_follows_finalized_headers_witness:
  "\<exists>acc c. sync_run light_example trie_example (solochain_new bridge_example 1) \<lparr>ts_backend = (), ts_root = ''r0''\<rparr> acc c
      \<lparr>ts_backend = (), ts_root = ''r1''\<rparr> \<and> genesis_state_validated (sync_state c) \<and>
     hd (map hd_state_root acc) = ''r0'' \<and> last (map hd_state_root acc) = ''r1''"
proof -
  let ?c0 = "solochain_new bridge_example 1" and ?st0 = "\<lparr>ts_backend = (), ts_root = ''r0''\<rparr>"
  obtain c where sync: "solo_sync_header light_example headers_example ?c0 = Some (Inr 1, c)"
    and c: "state_roots c = [''r0'', ''r1'']" "block_number_next (sync_state c) = 1" "\<not> genesis_state_validated (sync_state c)"
    using sync_example by blast
  have r1: "sync_run light_example trie_example ?c0 ?st0 (queued ?c0 headers_example) c ?st0"
    using run_headers [OF run_start sync] by simp
  have "\<exists>c'. feed_block trie_example block_example False c ?st0 = (Inr (), c', \<lparr>ts_backend = (), ts_root = ''r1''\<rparr>) \<and>
      genesis_state_validated (sync_state c') \<and> state_roots c' = []"
    using c by (simp add: feed_block_def feed_validated_def block_example_def header_example_def trie_example_def calc_root_if_changes_def
        apply_changes_def Let_def)
  then obtain c' where feed: "feed_block trie_example block_example False c ?st0 = (Inr (), c', \<lparr>ts_backend = (), ts_root = ''r1''\<rparr>)"
    and c': "genesis_state_validated (sync_state c')" "state_roots c' = []" by blast
  note run = run_block [OF r1 feed]
  show ?thesis
    using storage_follows_finalized_headers [OF run] c' run by (auto simp: solochain_new_def block_sync_new_def)
qed

end
