(* ===== verification/Ink_Contracts.thy ===== *)
theory Ink_Contracts
  imports Chain_Prelude
begin

text \<open>
  The example contracts of the repository: proof of existence (\<open>ink/poe/lib.rs\<close>) and the flipper
  (\<open>ink/flipper/lib.rs\<close>). A message takes the caller as its first argument; a message that panics traps, and the
  contract keeps its state.
\<close>

type_synonym ink_account = nat

section \<open>Flipper\<close>

record flipper = flip_value :: bool

definition flipper_new :: "bool \<Rightarrow> flipper" where
  "flipper_new init_value = \<lparr>flip_value = init_value\<rparr>"

definition flipper_default :: flipper where
  "flipper_default = flipper_new False"

definition flip :: "flipper \<Rightarrow> flipper" where
  "flip f = f\<lparr>flip_value := \<not> flip_value f\<rparr>"

definition flipper_get :: "flipper \<Rightarrow> bool" where
  "flipper_get f = flip_value f"

lemma flip_parity: "flipper_get ((flip ^^ n) (flipper_new b)) = (if even n then b else \<not> b)"
  by (induction n) (auto simp: flipper_get_def flip_def flipper_new_def)

section \<open>Proof of existence\<close>

record poe_contract =
  poe_users :: "ink_account \<Rightarrow> string list option"
  poe_files :: "string \<Rightarrow> ink_account option"

datatype poe_error = AlreadyClaimed | Poe_NotOwner | Poe_Trap

definition poe_new :: poe_contract where
  "poe_new = \<lparr>poe_users = Map.empty, poe_files = Map.empty\<rparr>"

definition owned_files :: "ink_account \<Rightarrow> poe_contract \<Rightarrow> string list" where
  "owned_files from p = (case poe_users p from of None \<Rightarrow> [] | Some l \<Rightarrow> l)"

definition has_claimed :: "string \<Rightarrow> poe_contract \<Rightarrow> bool" where
  "has_claimed f p \<longleftrightarrow> poe_files p f \<noteq> None"

definition claim :: "ink_account \<Rightarrow> string \<Rightarrow> poe_contract \<Rightarrow> (poe_error + unit) \<times> poe_contract" where
  "claim from f p =
     (if poe_files p f \<noteq> None then (Inl AlreadyClaimed, p)
      else (Inr (), p\<lparr>poe_users := (poe_users p)(from \<mapsto> (case poe_users p from of Some fs \<Rightarrow> fs @ [f] | None \<Rightarrow> [f])),
        poe_files := (poe_files p)(f \<mapsto> from)\<rparr>))"

text \<open>\<open>Vec::swap_remove\<close>: the last element takes the place of the removed one.\<close>

definition swap_remove :: "nat \<Rightarrow> 'a list \<Rightarrow> 'a list" where
  "swap_remove i xs = (if i = length xs - 1 then butlast xs else (butlast xs)[i := last xs])"

text \<open>The loop of \<open>forfeit\<close>: the range is fixed before the loop, and the list shrinks inside it. The first argument is
  the number of indices left; an index beyond the list panics.\<close>

fun forfeit_loop :: "nat \<Rightarrow> nat \<Rightarrow> ink_account \<Rightarrow> string \<Rightarrow> string list \<Rightarrow> (ink_account \<Rightarrow> string list option)
    \<Rightarrow> (ink_account \<Rightarrow> string list option) option" where
  "forfeit_loop 0 idx from f fs users = Some users"
| "forfeit_loop (Suc k) idx from f fs users =
     (if length fs \<le> idx then None
      else if fs ! idx = f
      then let fs' = swap_remove idx fs in forfeit_loop k (idx + 1) from f fs' (users(from \<mapsto> fs'))
      else forfeit_loop k (idx + 1) from f fs users)"

definition forfeit :: "ink_account \<Rightarrow> string \<Rightarrow> poe_contract \<Rightarrow> (poe_error + unit) \<times> poe_contract" where
  "forfeit from f p =
     (if poe_files p f \<noteq> Some from then (Inl Poe_NotOwner, p)
      else let fs = owned_files from p in
        case forfeit_loop (length fs) 0 from f fs (poe_users p) of
          None \<Rightarrow> (Inl Poe_Trap, p)
        | Some users \<Rightarrow> (Inr (), p\<lparr>poe_users := users, poe_files := (poe_files p)(f := None)\<rparr>))"

inductive poe_reach :: "poe_contract \<Rightarrow> bool" where
  poe_start: "poe_reach poe_new"
| poe_claim: "poe_reach p \<Longrightarrow> poe_reach (snd (claim a f p))"
| poe_forfeit: "poe_reach p \<Longrightarrow> poe_reach (snd (forfeit a f p))"

text \<open>What the loop does with a list without repetitions.\<close>

lemma forfeit_loop_skip:
  "f \<notin> set ys \<Longrightarrow> forfeit_loop (length ys + k) (length xs) from f (xs @ ys @ zs) users =
     forfeit_loop k (length xs + length ys) from f (xs @ ys @ zs) users"
proof (induction ys arbitrary: xs)
  case (Cons y ys)
  then have "y \<noteq> f" by auto
  then show ?case using Cons.IH [of "xs @ [y]"] Cons.prems by simp
qed simp

lemma forfeit_loop_traps:
  "length fs < idx + k \<Longrightarrow> f \<notin> set fs \<Longrightarrow> k \<noteq> 0 \<Longrightarrow> forfeit_loop k idx from f fs users = None"
  by (induction k arbitrary: idx) (auto simp: in_set_conv_nth)

lemma swap_remove_mid: "swap_remove (length ys) (ys @ x # zs) = ys @ (if zs = [] then [] else last zs # butlast zs)"
proof (cases zs rule: rev_cases)
  case (snoc us u)
  have "butlast (ys @ x # us @ [u]) = ys @ x # us" "last (ys @ x # us @ [u]) = u"
    using butlast_snoc [of "ys @ x # us" u] by simp_all
  then show ?thesis unfolding swap_remove_def snoc by simp
qed (simp add: swap_remove_def)

lemma forfeit_loop_run:
  assumes "f \<notin> set ys" "f \<notin> set zs"
  shows "forfeit_loop (length (ys @ f # zs)) 0 from f (ys @ f # zs) users = (if zs = [] then Some (users(from \<mapsto> ys)) else None)"
proof -
  let ?fs = "ys @ (if zs = [] then [] else last zs # butlast zs)"
  have "set (if zs = [] then [] else last zs # butlast zs) = set zs"
    by (cases zs rule: rev_cases) simp_all
  then have "f \<notin> set ?fs" using assms by (simp only: set_append Un_iff) blast
  moreover have "length ?fs = length ys + length zs" by simp
  ultimately have "zs \<noteq> [] \<Longrightarrow> forfeit_loop (length zs) (length ys + 1) from f ?fs (users(from \<mapsto> ?fs)) = None"
    by (intro forfeit_loop_traps) simp_all
  then show ?thesis
    using forfeit_loop_skip [OF assms(1), of "Suc (length zs)" "[]" "from" "f # zs" users] by (simp add: swap_remove_mid Let_def)
qed

definition poe_ok :: "poe_contract \<Rightarrow> bool" where
  "poe_ok p \<longleftrightarrow> (\<forall>a. distinct (owned_files a p) \<and> (\<forall>f. f \<in> set (owned_files a p) \<longleftrightarrow> poe_files p f = Some a))"

lemma forfeit_run:
  assumes "poe_ok p"
  shows "forfeit a f p = (if poe_files p f \<noteq> Some a then (Inl Poe_NotOwner, p)
     else if last (owned_files a p) = f
     then (Inr (), p\<lparr>poe_users := (poe_users p)(a \<mapsto> butlast (owned_files a p)), poe_files := (poe_files p)(f := None)\<rparr>)
     else (Inl Poe_Trap, p))"
proof (cases "poe_files p f = Some a")
  case True
  then have "f \<in> set (owned_files a p)" using assms by (simp add: poe_ok_def)
  then obtain ys zs where fs: "owned_files a p = ys @ f # zs" by (meson split_list)
  then have nin: "f \<notin> set ys" "f \<notin> set zs" using assms by (auto simp: poe_ok_def dest: spec [of _ a])
  have "last (owned_files a p) = f \<longleftrightarrow> zs = []" using nin fs by (auto dest: last_in_set)
  then show ?thesis using True forfeit_loop_run [OF nin, of a "poe_users p"] fs by (auto simp: forfeit_def Let_def)
qed (simp add: forfeit_def)

lemma poe_ok_update:
  assumes "poe_ok p" "distinct l" "\<And>f. f \<in> set l \<longleftrightarrow> g f = Some a" "\<And>f b. b \<noteq> a \<Longrightarrow> g f = Some b \<longleftrightarrow> poe_files p f = Some b"
  shows "poe_ok (p\<lparr>poe_users := (poe_users p)(a \<mapsto> l), poe_files := g\<rparr>)"
proof -
  have "owned_files b (p\<lparr>poe_users := (poe_users p)(a \<mapsto> l), poe_files := g\<rparr>) = (if b = a then l else owned_files b p)" for b
    by (simp add: owned_files_def)
  then show ?thesis using assms by (simp add: poe_ok_def)
qed

lemma claim_ok:
  assumes "poe_ok p"
  shows "poe_ok (snd (claim a f p))"
proof (cases "poe_files p f")
  case None
  have "(case poe_users p a of Some fs \<Rightarrow> fs @ [f] | None \<Rightarrow> [f]) = owned_files a p @ [f]"
    by (simp add: owned_files_def split: option.splits)
  moreover have "poe_ok (p\<lparr>poe_users := (poe_users p)(a \<mapsto> owned_files a p @ [f]), poe_files := (poe_files p)(f \<mapsto> a)\<rparr>)"
    by (rule poe_ok_update) (use assms None in \<open>auto simp: poe_ok_def\<close>)
  ultimately show ?thesis using None by (simp add: claim_def)
qed (use assms in \<open>simp add: claim_def\<close>)

lemma forfeit_ok:
  assumes "poe_ok p"
  shows "poe_ok (snd (forfeit a f p))"
proof (cases "poe_files p f = Some a \<and> last (owned_files a p) = f")
  case True
  let ?l = "owned_files a p"
  have dist: "distinct ?l" and mem: "g \<in> set ?l \<longleftrightarrow> poe_files p g = Some a" for g using assms by (auto simp: poe_ok_def)
  have "?l \<noteq> []" using True mem [of f] by auto
  then have split: "?l = butlast ?l @ [f]" using True by (metis append_butlast_last_id)
  have "distinct (butlast ?l @ [f])" "set (butlast ?l @ [f]) = set ?l" using dist split by metis+
  then have but: "distinct (butlast ?l)" "g \<in> set (butlast ?l) \<longleftrightarrow> g \<in> set ?l \<and> g \<noteq> f" for g by auto
  have "poe_ok (p\<lparr>poe_users := (poe_users p)(a \<mapsto> butlast ?l), poe_files := (poe_files p)(f := None)\<rparr>)"
    by (rule poe_ok_update [OF assms but(1)]) (use but(2) mem True in auto)
  then show ?thesis using True by (simp add: forfeit_run [OF assms])
qed (use assms in \<open>auto simp: forfeit_run [OF assms]\<close>)

lemma poe_reach_ok: "poe_reach p \<Longrightarrow> poe_ok p"
proof (induction rule: poe_reach.induct)
  case poe_start
  then show ?case by (simp add: poe_ok_def poe_new_def owned_files_def)
qed (simp_all add: claim_ok forfeit_ok)

text \<open>C36. In every state of the proof-of-existence contract, an account's list names exactly the files that it owns, each once.
  Who does not own a file cannot forfeit it. The owner can do so exactly when the file is the last one of the list: for every
  other file the loop runs past the end of the list that it has just shortened, the message traps, and the file stays claimed.\<close>

theorem forfeit_needs_last_file:
  assumes "poe_reach p"
  shows "distinct (owned_files a p) \<and> (f \<in> set (owned_files a p) \<longleftrightarrow> poe_files p f = Some a) \<and>
    forfeit a f p = (if poe_files p f \<noteq> Some a then (Inl Poe_NotOwner, p)
     else if last (owned_files a p) = f
     then (Inr (), p\<lparr>poe_users := (poe_users p)(a \<mapsto> butlast (owned_files a p)), poe_files := (poe_files p)(f := None)\<rparr>)
     else (Inl Poe_Trap, p))"
  using poe_reach_ok [OF assms] forfeit_run [OF poe_reach_ok [OF assms]] by (simp add: poe_ok_def)

theorem forfeit_needs_last_file_witness:
  "let p = snd (claim 1 ''b'' (snd (claim 1 ''a'' poe_new))) in
     fst (claim 1 ''b'' (snd (claim 1 ''a'' poe_new))) = Inr () \<and> forfeit 1 ''a'' p = (Inl Poe_Trap, p) \<and> fst (forfeit 1 ''b'' p) = Inr ()"
proof -
  let ?p = "snd (claim 1 ''b'' (snd (claim 1 ''a'' poe_new)))"
  have "poe_reach ?p" by (intro poe_claim poe_start)
  from forfeit_needs_last_file [OF this, of 1 "''a''"] forfeit_needs_last_file [OF this, of 1 "''b''"]
  show ?thesis by (simp add: claim_def poe_new_def owned_files_def Let_def)
qed

end
