(* ===== verification/Nft_Market.thy ===== *)
theory Nft_Market
  imports Ink_Contracts
begin

text \<open>
  The example market for tokens (\<open>ink/nft_market\<close>). The token standard, the ownership of the contract and its metadata
  come from the \<open>openbrush\<close> library: their state is the type variable \<open>'p\<close> and their operations are the parameter
  \<open>psp34_env\<close>; balances and transfers of the chain are the type variable \<open>'w\<close> and the same parameter. A message that
  returns an error, or panics, is reverted. Contracts are built with overflow checks, so that an overflow panics.
\<close>

section \<open>Data\<close>

datatype nft_error = BadMintValue | CollectionIsFull | WithdrawalFailed | NotTokenOwner | NotForSale | OwnToken | PriceNotMatch
  | TransferNativeTokenFailed

datatype market_error = Custom nft_error | TokenNotExists | Psp_Error string | CallerIsNotOwner | Market_Panic

record ('p, 'w) nft_market =
  psp34 :: 'p
  mk_world :: 'w
  last_token_id :: nat
  nft_max_supply :: nat
  nft_price_per_mint :: nat
  fid_list :: "nat \<Rightarrow> string option"
  sale_list :: "nat \<Rightarrow> nat option"

record ('p, 'w) psp34_env =
  psp_owner_of :: "nat \<Rightarrow> 'p \<Rightarrow> ink_account option"
  psp_mint_to :: "ink_account \<Rightarrow> nat \<Rightarrow> 'p \<Rightarrow> string + 'p"
  psp_before_token_transfer :: "ink_account \<Rightarrow> ink_account \<Rightarrow> nat \<Rightarrow> 'p \<Rightarrow> string + 'p"
  psp_remove_operator_approvals :: "ink_account \<Rightarrow> ink_account \<Rightarrow> nat \<Rightarrow> 'p \<Rightarrow> 'p"
  psp_remove_token_owner :: "nat \<Rightarrow> 'p \<Rightarrow> 'p"
  psp_insert_token_owner :: "nat \<Rightarrow> ink_account \<Rightarrow> 'p \<Rightarrow> 'p"
  psp_after_token_transfer :: "ink_account \<Rightarrow> ink_account \<Rightarrow> nat \<Rightarrow> 'p \<Rightarrow> string + 'p"
  psp_get_attribute :: "string \<Rightarrow> 'p \<Rightarrow> string option"
  psp_set_attribute :: "string \<Rightarrow> string \<Rightarrow> 'p \<Rightarrow> 'p"
  contract_owner :: "'p \<Rightarrow> ink_account option"
  env_transfer :: "ink_account \<Rightarrow> nat \<Rightarrow> 'w \<Rightarrow> 'w option"
  env_balance :: "'w \<Rightarrow> nat"
  env_minimum_balance :: nat

type_synonym ('p, 'w, 'a) market_op = "('p, 'w) nft_market \<Rightarrow> (market_error + 'a) \<times> ('p, 'w) nft_market"

section \<open>Checks\<close>

definition check_token_exists :: "('p, 'w) psp34_env \<Rightarrow> nat \<Rightarrow> ('p, 'w, ink_account) market_op" where
  "check_token_exists P i = bindM (getM (\<lambda>m. psp_owner_of P i (psp34 m))) (\<lambda>w. ok_or w TokenNotExists)"

definition check_owner :: "('p, 'w) psp34_env \<Rightarrow> ink_account \<Rightarrow> nat \<Rightarrow> ('p, 'w, unit) market_op" where
  "check_owner P caller i = bindM (check_token_exists P i) (\<lambda>own. ensureM (own = caller) (Custom NotTokenOwner))"

definition check_value :: "nat \<Rightarrow> ('p, 'w, unit) market_op" where
  "check_value transferred_value =
     bindM (getM nft_price_per_mint) (\<lambda>price.
     bindM (ensureM (transferred_value = price) (Custom BadMintValue)) (\<lambda>_.
     bindM (getM (\<lambda>m. last_token_id m < nft_max_supply m)) (\<lambda>room.
     ensureM room (Custom CollectionIsFull))))"

definition check_fid :: "string \<Rightarrow> ('p, 'w, unit) market_op" where
  "check_fid fid = retM ()"

definition only_owner :: "('p, 'w) psp34_env \<Rightarrow> ink_account \<Rightarrow> ('p, 'w, unit) market_op" where
  "only_owner P caller = bindM (getM (\<lambda>m. contract_owner P (psp34 m))) (\<lambda>own. ensureM (own = Some caller) CallerIsNotOwner)"

definition lift_psp :: "('p \<Rightarrow> string + 'p) \<Rightarrow> ('p, 'w, unit) market_op" where
  "lift_psp f = (\<lambda>m. case f (psp34 m) of Inl e \<Rightarrow> (Inl (Psp_Error e), m) | Inr p \<Rightarrow> (Inr (), m\<lparr>psp34 := p\<rparr>))"

section \<open>Messages\<close>

definition market_new :: "'p \<Rightarrow> 'w \<Rightarrow> nat \<Rightarrow> nat \<Rightarrow> ('p, 'w) nft_market" where
  "market_new p w max_supply price = \<lparr>psp34 = p, mk_world = w, last_token_id = 0, nft_max_supply = max_supply,
     nft_price_per_mint = price, fid_list = Map.empty, sale_list = Map.empty\<rparr>"

definition mint_to :: "('p, 'w) psp34_env \<Rightarrow> ink_account \<Rightarrow> string \<Rightarrow> nat \<Rightarrow> ('p, 'w, nat) market_op" where
  "mint_to P to fid transferred_value = transactional (
     bindM (check_fid fid) (\<lambda>_.
     bindM (check_value transferred_value) (\<lambda>_.
     bindM (getM last_token_id) (\<lambda>n.
     bindM (ok_or (checked_add 64 n 1) Market_Panic) (\<lambda>i.
     bindM (lift_psp (psp_mint_to P to i)) (\<lambda>_.
     bindM (modM (\<lambda>m. m\<lparr>fid_list := (fid_list m)(i \<mapsto> fid), last_token_id := i\<rparr>)) (\<lambda>_.
     retM i)))))))"

definition mint :: "('p, 'w) psp34_env \<Rightarrow> ink_account \<Rightarrow> string \<Rightarrow> nat \<Rightarrow> ('p, 'w, nat) market_op" where
  "mint P caller fid transferred_value = mint_to P caller fid transferred_value"

definition set_base_uri :: "('p, 'w) psp34_env \<Rightarrow> ink_account \<Rightarrow> string \<Rightarrow> ('p, 'w, unit) market_op" where
  "set_base_uri P caller uri = transactional (
     bindM (only_owner P caller) (\<lambda>_. modM (\<lambda>m. m\<lparr>psp34 := psp_set_attribute P ''baseUri'' uri (psp34 m)\<rparr>)))"

definition token_uri :: "('p, 'w) psp34_env \<Rightarrow> nat \<Rightarrow> ('p, 'w, string) market_op" where
  "token_uri P i =
     bindM (check_token_exists P i) (\<lambda>_.
     bindM (getM (\<lambda>m. fid_list m i)) (\<lambda>f.
     bindM (ok_or f TokenNotExists) (\<lambda>fid.
     bindM (getM (\<lambda>m. psp_get_attribute P ''baseUri'' (psp34 m))) (\<lambda>b.
     bindM (ok_or b Market_Panic) (\<lambda>base_uri. retM (base_uri @ fid))))))"

definition price_of :: "nat \<Rightarrow> ('p, 'w, nat) market_op" where
  "price_of i = bindM (getM (\<lambda>m. sale_list m i)) (\<lambda>p. ok_or p (Custom NotForSale))"

definition set_max_supply :: "('p, 'w) psp34_env \<Rightarrow> ink_account \<Rightarrow> nat \<Rightarrow> ('p, 'w, unit) market_op" where
  "set_max_supply P caller v = transactional (bindM (only_owner P caller) (\<lambda>_. modM (\<lambda>m. m\<lparr>nft_max_supply := v\<rparr>)))"

definition list_token :: "('p, 'w) psp34_env \<Rightarrow> ink_account \<Rightarrow> nat \<Rightarrow> nat \<Rightarrow> ('p, 'w, unit) market_op" where
  "list_token P caller i price = transactional (
     bindM (check_owner P caller i) (\<lambda>_.
     bindM (ok_or (checked_mul 128 price 1000000000000) Market_Panic) (\<lambda>p.
     modM (\<lambda>m. m\<lparr>sale_list := (sale_list m)(i \<mapsto> p)\<rparr>))))"

definition delist :: "('p, 'w) psp34_env \<Rightarrow> ink_account \<Rightarrow> nat \<Rightarrow> ('p, 'w, unit) market_op" where
  "delist P caller i = transactional (
     bindM (check_owner P caller i) (\<lambda>_.
     bindM (price_of i) (\<lambda>_. modM (\<lambda>m. m\<lparr>sale_list := (sale_list m)(i := None)\<rparr>))))"

definition pay_out :: "('p, 'w) psp34_env \<Rightarrow> ink_account \<Rightarrow> nat \<Rightarrow> nft_error \<Rightarrow> ('p, 'w, unit) market_op" where
  "pay_out P to v e = (\<lambda>m. case env_transfer P to v (mk_world m) of None \<Rightarrow> (Inl (Custom e), m) | Some w \<Rightarrow> (Inr (), m\<lparr>mk_world := w\<rparr>))"

definition purchase :: "('p, 'w) psp34_env \<Rightarrow> ink_account \<Rightarrow> nat \<Rightarrow> nat \<Rightarrow> ('p, 'w, unit) market_op" where
  "purchase P caller i transferred = transactional (
     bindM (check_token_exists P i) (\<lambda>own.
     bindM (ensureM (own \<noteq> caller) (Custom OwnToken)) (\<lambda>_.
     bindM (price_of i) (\<lambda>price.
     bindM (ensureM (price = transferred) (Custom PriceNotMatch)) (\<lambda>_.
     bindM (pay_out P own price TransferNativeTokenFailed) (\<lambda>_.
     bindM (modM (\<lambda>m. m\<lparr>sale_list := (sale_list m)(i := None)\<rparr>)) (\<lambda>_.
     bindM (lift_psp (psp_before_token_transfer P own caller i)) (\<lambda>_.
     bindM (modM (\<lambda>m. m\<lparr>psp34 := psp_insert_token_owner P i caller (psp_remove_token_owner P i
       (psp_remove_operator_approvals P own caller i (psp34 m)))\<rparr>)) (\<lambda>_.
     lift_psp (psp_after_token_transfer P own caller i))))))))))"

definition market_balance :: "('p, 'w) psp34_env \<Rightarrow> ('p, 'w) nft_market \<Rightarrow> nat" where
  "market_balance P m = env_balance P (mk_world m) - env_minimum_balance P"

definition market_withdraw :: "('p, 'w) psp34_env \<Rightarrow> ink_account \<Rightarrow> ('p, 'w, unit) market_op" where
  "market_withdraw P caller = transactional (
     bindM (only_owner P caller) (\<lambda>_.
     bindM (getM (market_balance P)) (\<lambda>b. pay_out P caller b WithdrawalFailed)))"

section \<open>What a purchase does\<close>

text \<open>What the market relies on in the token library: the hooks and the approvals leave the owners alone, and a token that
  is taken from its owner and given to another one belongs to that one.\<close>

definition psp34_law :: "('p, 'w) psp34_env \<Rightarrow> bool" where
  "psp34_law P \<longleftrightarrow>
     (\<forall>a b i j p p'. psp_before_token_transfer P a b i p = Inr p' \<longrightarrow> psp_owner_of P j p' = psp_owner_of P j p) \<and>
     (\<forall>a b i j p p'. psp_after_token_transfer P a b i p = Inr p' \<longrightarrow> psp_owner_of P j p' = psp_owner_of P j p) \<and>
     (\<forall>a b i j p. psp_owner_of P j (psp_remove_operator_approvals P a b i p) = psp_owner_of P j p) \<and>
     (\<forall>i j p. psp_owner_of P j (psp_remove_token_owner P i p) = (if j = i then None else psp_owner_of P j p)) \<and>
     (\<forall>a i j p. psp_owner_of P i p = None \<longrightarrow> psp_owner_of P j (psp_insert_token_owner P i a p) = (if j = i then Some a else psp_owner_of P j p))"

lemma moved_owner:
  assumes "psp34_law P"
  shows "psp_owner_of P j (psp_insert_token_owner P i c (psp_remove_token_owner P i (psp_remove_operator_approvals P a b i p))) =
    (if j = i then Some c else psp_owner_of P j p)"
  using assms unfolding psp34_law_def by simp

lemmas market_ops = check_token_exists_def price_of_def pay_out_def lift_psp_def run_eval bindM_def ok_or_def ensureM_def transactional_def

text \<open>C28. A successful purchase is an exchange: the token had an owner other than the buyer and was for sale at exactly the
  amount that came with the call; that amount was transferred to the owner; the token belongs to the buyer and is no longer
  for sale; and every other token, listing and file name is as before. A purchase that fails changes nothing.\<close>

theorem purchase_exchanges:
  assumes "psp34_law P" "purchase P caller i v m = (r, m')"
  shows "(r = Inr () \<longrightarrow> (\<exists>own. psp_owner_of P i (psp34 m) = Some own \<and> own \<noteq> caller \<and> sale_list m i = Some v \<and>
      env_transfer P own v (mk_world m) = Some (mk_world m') \<and>
      (\<forall>j. psp_owner_of P j (psp34 m') = (if j = i then Some caller else psp_owner_of P j (psp34 m))) \<and>
      sale_list m' = (sale_list m)(i := None) \<and> fid_list m' = fid_list m \<and> last_token_id m' = last_token_id m)) \<and>
    (r \<noteq> Inr () \<longrightarrow> m' = m)"
proof (cases r)
  case (Inl e)
  then show ?thesis using assms(2) by (auto simp: purchase_def transactional_def split: prod.splits sum.splits)
next
  case (Inr u)
  obtain own where own: "psp_owner_of P i (psp34 m) = Some own"
    using assms(2) Inr by (cases "psp_owner_of P i (psp34 m)") (auto simp: purchase_def market_ops)
  have ne: "own \<noteq> caller"
    using assms(2) Inr own by (auto simp: purchase_def market_ops)
  have price: "sale_list m i = Some v"
    using assms(2) Inr own ne by (cases "sale_list m i") (auto simp: purchase_def market_ops split: if_splits)
  obtain w where w: "env_transfer P own v (mk_world m) = Some w"
    using assms(2) Inr own ne price by (cases "env_transfer P own v (mk_world m)") (auto simp: purchase_def market_ops)
  obtain p where p: "psp_before_token_transfer P own caller i (psp34 m) = Inr p"
    using assms(2) Inr own ne price w by (cases "psp_before_token_transfer P own caller i (psp34 m)") (auto simp: purchase_def market_ops)
  let ?q = "psp_insert_token_owner P i caller (psp_remove_token_owner P i (psp_remove_operator_approvals P own caller i p))"
  obtain q where q: "psp_after_token_transfer P own caller i ?q = Inr q"
    using assms(2) Inr own ne price w p by (cases "psp_after_token_transfer P own caller i ?q") (auto simp: purchase_def market_ops)
  have m': "m' = m\<lparr>mk_world := w, sale_list := (sale_list m)(i := None), psp34 := q\<rparr>"
    using assms(2) Inr own ne price w p q by (auto simp: purchase_def market_ops)
  have "psp_owner_of P j q = (if j = i then Some caller else psp_owner_of P j (psp34 m))" for j
    using assms(1) p q moved_owner [OF assms(1), of j i caller own caller p] unfolding psp34_law_def by metis
  then show ?thesis using own ne price w m' Inr by simp
qed

section \<open>Example\<close>

definition token_example :: "(nat \<Rightarrow> nat option, nat \<Rightarrow> nat) psp34_env" where
  "token_example = \<lparr>psp_owner_of = (\<lambda>i p. p i), psp_mint_to = (\<lambda>a i p. if p i = None then Inr (p(i \<mapsto> a)) else Inl ''TokenExists''),
     psp_before_token_transfer = (\<lambda>_ _ _. Inr), psp_remove_operator_approvals = (\<lambda>_ _ _ p. p),
     psp_remove_token_owner = (\<lambda>i p. p(i := None)), psp_insert_token_owner = (\<lambda>i a p. p(i \<mapsto> a)),
     psp_after_token_transfer = (\<lambda>_ _ _. Inr), psp_get_attribute = (\<lambda>_ _. Some ''uri''), psp_set_attribute = (\<lambda>_ _ p. p),
     contract_owner = (\<lambda>_. Some 1), env_transfer = (\<lambda>a v w. if v \<le> w 0 then Some (w(0 := w 0 - v, a := w a + v)) else None),
     env_balance = (\<lambda>w. w 0), env_minimum_balance = 1\<rparr>"

lemma token_example_law: "psp34_law token_example"
  by (auto simp: psp34_law_def token_example_def)

definition sale_example :: "(nat \<Rightarrow> nat option, nat \<Rightarrow> nat) nft_market" where
  "sale_example = (market_new [1 \<mapsto> 5] (\<lambda>a. if a = 0 then 9 else 0) 10 3)\<lparr>last_token_id := 1, sale_list := [1 \<mapsto> 7]\<rparr>"

theorem purchase_exchanges_witness:
  "\<exists>m'. purchase token_example 6 1 7 sale_example = (Inr (), m') \<and> psp34 m' 1 = Some 6 \<and> mk_world m' 5 = 7 \<and> sale_list m' 1 = None"
proof -
  have "fst (purchase token_example 6 1 7 sale_example) = Inr ()"
    by (simp add: purchase_def market_ops token_example_def sale_example_def market_new_def)
  then obtain m' where run: "purchase token_example 6 1 7 sale_example = (Inr (), m')" by (metis prod.collapse)
  obtain own where own: "psp_owner_of token_example 1 (psp34 sale_example) = Some own"
      "env_transfer token_example own 7 (mk_world sale_example) = Some (mk_world m')"
    and m': "psp_owner_of token_example 1 (psp34 m') = Some 6" "sale_list m' 1 = None"
    using purchase_exchanges [OF token_example_law run] by auto
  have "own = 5" using own(1) by (simp add: token_example_def sale_example_def market_new_def)
  then have "mk_world m' = (mk_world sale_example)(0 := 2, 5 := 7)"
    using own(2) by (simp add: token_example_def sale_example_def market_new_def)
  then show ?thesis using run m' by (simp add: token_example_def)
qed

end
