(* ===== verification/Evm_Mapping.thy ===== *)
theory Evm_Mapping
  imports Chain_Prelude
begin

text \<open>
  The account-mapping pallet (\<open>pallets/evm-account-mapping\<close>): a call that the holder of an Ethereum key signs as EIP-712
  data is executed for the account that belongs to the key. The hashes, the recovery of a key from a signature, the ABI encoder,
  the SS58 format, the fees and the runtime that executes the inner call are parameters (\<open>evm_env\<close>); \<open>'c\<close> are the
  calls of the runtime and \<open>'w\<close> is everything but the storage of this pallet. A call of a pallet that fails is
  rolled back.
\<close>

section \<open>Encodings\<close>

datatype abi_token = Tok_Uint nat | Tok_FixedBytes string | Tok_Address string

datatype key_form = Compressed | Uncompressed

datatype converter = SubstrateAddressConverter | EvmTransparentConverter

record ('c, 'w) evm_env =
  keccak_256 :: "string \<Rightarrow> string"
  ev_blake2_256 :: "string \<Rightarrow> string"
  ecdsa_recover_compressed :: "string \<Rightarrow> string \<Rightarrow> string option"
  ecdsa_recover :: "string \<Rightarrow> string \<Rightarrow> string option"
  abi_encode :: "abi_token list \<Rightarrow> string"
  u256_of_bytes :: "string \<Rightarrow> nat"
  to_ss58check :: "string \<Rightarrow> string"
  encode_call :: "'c \<Rightarrow> string"
  AddressConverter :: converter
  EIP712Name :: string
  EIP712Version :: string
  EIP712ChainID :: nat
  EIP712VerifyingContractAddress :: string
  ServiceFee :: nat
  encode_tag :: "string \<Rightarrow> nat \<Rightarrow> string"
  compute_fee :: "'c \<Rightarrow> nat \<Rightarrow> 'w \<Rightarrow> nat"
  compute_actual_fee :: "'c \<Rightarrow> nat \<Rightarrow> 'w \<Rightarrow> nat"
  reducible_balance :: "string \<Rightarrow> 'w \<Rightarrow> nat"
  max_tx_per_block_weight :: "'c \<Rightarrow> nat"
  max_block_length :: "'c \<Rightarrow> nat"
  withdraw_service_fee :: "string \<Rightarrow> nat \<Rightarrow> 'w \<Rightarrow> 'w option"
  withdraw_fee :: "string \<Rightarrow> nat \<Rightarrow> 'w \<Rightarrow> 'w option"
  dispatch_signed :: "string \<Rightarrow> 'c \<Rightarrow> 'w \<Rightarrow> 'w"
  correct_and_deposit_fee :: "string \<Rightarrow> nat \<Rightarrow> nat \<Rightarrow> 'w \<Rightarrow> 'w option"

text \<open>\<open>encode.rs\<close>: the packed encoding; a number is its four 64-bit limbs from the highest down.\<close>

datatype solidity_data = Sol_String string | Sol_Address string | Sol_Bytes string | Sol_Bool bool | Sol_Number "nat list"
  | Sol_NumberWithShift "nat list" nat

definition to_be_bytes :: "nat \<Rightarrow> string" where
  "to_be_bytes n = map (\<lambda>k. char_of (n div 256 ^ k)) [7, 6, 5, 4, 3, 2, 1, 0]"

definition pack :: "solidity_data \<Rightarrow> string" where
  "pack d = (case d of
     Sol_String s \<Rightarrow> s
   | Sol_Address a \<Rightarrow> a
   | Sol_Bytes b \<Rightarrow> b
   | Sol_Bool b \<Rightarrow> [if b then CHR 0x01 else CHR 0x00]
   | Sol_Number limbs \<Rightarrow> concat (map to_be_bytes (rev limbs))
   | Sol_NumberWithShift limbs to_take \<Rightarrow>
       let res = concat (map to_be_bytes (rev limbs)) in drop (length res - to_take div 8) res)"

definition encode_packed :: "solidity_data list \<Rightarrow> string" where
  "encode_packed items = concat (map pack items)"

text \<open>\<open>eip712.rs\<close>: the separator of the domain.\<close>

record eip712_domain =
  dom_name :: string
  dom_version :: string
  dom_chain_id :: nat
  dom_verifying_contract :: string
  dom_salt :: "string option"

definition EIP712_DOMAIN_TYPE_HASH :: string where
  "EIP712_DOMAIN_TYPE_HASH = map char_of [139, 115, 195, 198, 155, 184, 254, 61, 81, 46, 204, 76, 247, 89, 204, 121, 35, 159, 123, 23,
     155, 15, 250, 202, 169, 167, 93, 82, 43, 57, 64, 15 :: nat]"

definition EIP712_DOMAIN_TYPE_HASH_WITH_SALT :: string where
  "EIP712_DOMAIN_TYPE_HASH_WITH_SALT = map char_of [216, 124, 214, 239, 121, 212, 226, 185, 94, 21, 206, 138, 191, 115, 45, 181, 30, 199,
     113, 241, 202, 46, 220, 207, 34, 164, 108, 114, 154, 197, 100, 114 :: nat]"

definition domain_separator :: "('c, 'w) evm_env \<Rightarrow> eip712_domain \<Rightarrow> string" where
  "domain_separator E d =
     (let type_hash = (if dom_salt d \<noteq> None then EIP712_DOMAIN_TYPE_HASH_WITH_SALT else EIP712_DOMAIN_TYPE_HASH);
          tokens = [Tok_Uint (u256_of_bytes E type_hash), Tok_Uint (u256_of_bytes E (keccak_256 E (dom_name d))),
            Tok_Uint (u256_of_bytes E (keccak_256 E (dom_version d))), Tok_Uint (dom_chain_id d), Tok_Address (dom_verifying_contract d)];
          tokens = (case dom_salt d of Some salt \<Rightarrow> tokens @ [Tok_Uint (u256_of_bytes E salt)] | None \<Rightarrow> tokens)
      in keccak_256 E (abi_encode E tokens))"

section \<open>The signed message and its signer\<close>

definition eip712_message_hash :: "('c, 'w) evm_env \<Rightarrow> string \<Rightarrow> string \<Rightarrow> nat \<Rightarrow> string" where
  "eip712_message_hash E who call_data nonce =
     (let separator = domain_separator E \<lparr>dom_name = EIP712Name E, dom_version = EIP712Version E, dom_chain_id = EIP712ChainID E,
            dom_verifying_contract = EIP712VerifyingContractAddress E, dom_salt = None\<rparr>;
          type_hash = keccak_256 E ''SubstrateCall(string who,bytes callData,uint64 nonce)'';
          message_hash = keccak_256 E (abi_encode E [Tok_FixedBytes type_hash, Tok_FixedBytes (keccak_256 E (to_ss58check E who)),
            Tok_FixedBytes (keccak_256 E call_data), Tok_Uint nonce])
      in keccak_256 E (encode_packed [Sol_String [CHR 0x19, CHR 0x01], Sol_Bytes separator, Sol_Bytes message_hash]))"

definition public_key_form :: "converter \<Rightarrow> key_form" where
  "public_key_form c = (case c of SubstrateAddressConverter \<Rightarrow> Compressed | EvmTransparentConverter \<Rightarrow> Uncompressed)"

text \<open>The second conversion keeps the last 20 bytes of the hash, as \<open>H160::from(H256)\<close> does.\<close>

definition try_convert :: "('c, 'w) evm_env \<Rightarrow> string \<Rightarrow> string option" where
  "try_convert E evm_public_key = (case AddressConverter E of
     SubstrateAddressConverter \<Rightarrow>
       let h = ev_blake2_256 E evm_public_key in if 32 \<le> length h then Some (take 32 h) else None
   | EvmTransparentConverter \<Rightarrow>
       Some (drop 12 (keccak_256 E evm_public_key) @ ''@evm_address''))"

definition recovered_account :: "('c, 'w) evm_env \<Rightarrow> string \<Rightarrow> 'c \<Rightarrow> nat \<Rightarrow> string \<Rightarrow> string option" where
  "recovered_account E who call nonce signature =
     (let h = eip712_message_hash E who (encode_call E call) nonce;
          key = (case public_key_form (AddressConverter E) of
            Compressed \<Rightarrow> ecdsa_recover_compressed E signature h | Uncompressed \<Rightarrow> ecdsa_recover E signature h)
      in case key of None \<Rightarrow> None | Some k \<Rightarrow> try_convert E k)"

section \<open>Transactions\<close>

record 'w evm_state =
  evm_world :: 'w
  AccountNonce :: "string \<Rightarrow> nat"

record 'c meta_tx =
  tx_who :: string
  tx_call :: 'c
  tx_nonce :: nat
  tx_signature :: string
  tx_tip :: "nat option"

datatype evm_error = Unexpected | NonceError | PaymentError | Bad_Origin

datatype invalid_tx = Invalid_Call | Invalid_BadSigner | Invalid_Stale | Invalid_Future | Invalid_Payment

record valid_tx =
  vt_priority :: nat
  vt_provides :: string
  vt_requires :: "string option"

definition tip_of :: "'c meta_tx \<Rightarrow> nat" where
  "tip_of tx = (case tx_tip tx of None \<Rightarrow> 0 | Some t \<Rightarrow> t)"

definition tx_priority :: "('c, 'w) evm_env \<Rightarrow> 'c meta_tx \<Rightarrow> nat" where
  "tx_priority E tx =
     (let len = length (encode_call E (tx_call tx)); max_len = max_block_length E (tx_call tx);
          bounded_length = max 1 (min len max_len);
          max_tx_per_block = min (max_len div bounded_length) (max_tx_per_block_weight E (tx_call tx))
      in saturated_into 64 (saturating_mul 128 (saturating_add 128 (tip_of tx) 1) max_tx_per_block))"

definition validate_unsigned :: "('c, 'w) evm_env \<Rightarrow> 'c meta_tx \<Rightarrow> 'w evm_state \<Rightarrow> invalid_tx + valid_tx" where
  "validate_unsigned E tx s =
     (let who = tx_who tx; nonce = tx_nonce tx; account_nonce = AccountNonce s who in
      case recovered_account E who (tx_call tx) nonce (tx_signature tx) of
        None \<Rightarrow> Inl Invalid_Call
      | Some decoded_account \<Rightarrow>
          if who \<noteq> decoded_account then Inl Invalid_BadSigner
          else if nonce < account_nonce then Inl Invalid_Stale
          else if nonce \<noteq> account_nonce then Inl (if nonce < account_nonce then Invalid_Stale else Invalid_Future)
          else
            let est_fee = saturated_into 128 (compute_fee E (tx_call tx) (tip_of tx) (evm_world s)) in
            if saturated_into 128 (reducible_balance E who (evm_world s)) < saturating_add 128 est_fee (saturated_into 128 (ServiceFee E))
            then Inl Invalid_Payment
            else Inr \<lparr>vt_priority = tx_priority E tx, vt_provides = encode_tag E who nonce,
              vt_requires = (if account_nonce < nonce \<and> 0 < nonce then Some (encode_tag E who (nonce - 1)) else None)\<rparr>)"

definition on_world :: "('w \<Rightarrow> 'w option) \<Rightarrow> evm_error \<Rightarrow> 'w evm_state \<Rightarrow> (evm_error + unit) \<times> 'w evm_state" where
  "on_world f e s = (case f (evm_world s) of None \<Rightarrow> (Inl e, s) | Some w \<Rightarrow> (Inr (), s\<lparr>evm_world := w\<rparr>))"

definition bump_nonce :: "string \<Rightarrow> nat \<Rightarrow> 'w evm_state \<Rightarrow> (evm_error + unit) \<times> 'w evm_state" where
  "bump_nonce who nonce s =
     (if AccountNonce s who \<noteq> nonce then (Inl NonceError, s)
      else (Inr (), s\<lparr>AccountNonce := (AccountNonce s)(who := wrapping_add 64 (AccountNonce s who) 1)\<rparr>))"

text \<open>The result of the inner call is only recorded in an event; the fee that was withdrawn before is corrected after it.\<close>

definition meta_call :: "('c, 'w) evm_env \<Rightarrow> bool \<Rightarrow> 'c meta_tx \<Rightarrow> 'w evm_state \<Rightarrow> (evm_error + unit) \<times> 'w evm_state" where
  "meta_call E origin_is_none tx = transactional (
     bindM (ensureM origin_is_none Bad_Origin) (\<lambda>_.
     bindM (on_world (withdraw_service_fee E (tx_who tx) (ServiceFee E)) PaymentError) (\<lambda>_.
     bindM (bump_nonce (tx_who tx) (tx_nonce tx)) (\<lambda>_.
     bindM (getM (\<lambda>s. compute_fee E (tx_call tx) (tip_of tx) (evm_world s))) (\<lambda>est_fee.
     bindM (on_world (withdraw_fee E (tx_who tx) est_fee) PaymentError) (\<lambda>_.
     bindM (modM (\<lambda>s. s\<lparr>evm_world := dispatch_signed E (tx_who tx) (tx_call tx) (evm_world s)\<rparr>)) (\<lambda>_.
     bindM (getM (\<lambda>s. compute_actual_fee E (tx_call tx) (tip_of tx) (evm_world s))) (\<lambda>actual_fee.
     on_world (correct_and_deposit_fee E (tx_who tx) actual_fee est_fee) PaymentError))))))))"

text \<open>An unsigned transaction is validated again when a block applies it.\<close>

definition apply_unsigned :: "('c, 'w) evm_env \<Rightarrow> 'c meta_tx \<Rightarrow> 'w evm_state \<Rightarrow> bool \<times> 'w evm_state" where
  "apply_unsigned E tx s = (case validate_unsigned E tx s of
     Inl _ \<Rightarrow> (False, s)
   | Inr _ \<Rightarrow> (case meta_call E True tx s of (r, s') \<Rightarrow> (r = Inr (), s')))"

text \<open>A history of blocks: transactions to this pallet, those that succeeded in order, and anything else that happens to the
  rest of the chain in between.\<close>

inductive evm_history :: "('c, 'w) evm_env \<Rightarrow> 'w evm_state \<Rightarrow> 'c meta_tx list \<Rightarrow> 'w evm_state \<Rightarrow> bool" for E s where
  evm_start: "evm_history E s [] s"
| evm_done: "evm_history E s txs t \<Longrightarrow> apply_unsigned E tx t = (True, t') \<Longrightarrow> evm_history E s (txs @ [tx]) t'"
| evm_refused: "evm_history E s txs t \<Longrightarrow> apply_unsigned E tx t = (False, t') \<Longrightarrow> evm_history E s txs t'"
| evm_other: "evm_history E s txs t \<Longrightarrow> evm_history E s txs (t\<lparr>evm_world := w\<rparr>)"

lemma validate_unsigned_ok:
  assumes "validate_unsigned E tx s = Inr v"
  shows "recovered_account E (tx_who tx) (tx_call tx) (tx_nonce tx) (tx_signature tx) = Some (tx_who tx)"
    "tx_nonce tx = AccountNonce s (tx_who tx)" "v = \<lparr>vt_priority = tx_priority E tx,
       vt_provides = encode_tag E (tx_who tx) (tx_nonce tx), vt_requires = None\<rparr>"
  using assms by (auto simp: validate_unsigned_def Let_def split: option.splits if_splits)

lemma on_world_nonce: "on_world f e s = (r, s') \<Longrightarrow> AccountNonce s' = AccountNonce s"
  by (auto simp: on_world_def split: option.splits)

lemma meta_call_nonce:
  assumes "meta_call E b tx s = (Inr (), s')"
  shows "AccountNonce s' = (AccountNonce s)(tx_who tx := wrapping_add 64 (AccountNonce s (tx_who tx)) 1)"
  using assms by (auto simp: meta_call_def run_simps bump_nonce_def dest!: on_world_nonce split: if_splits)

lemma meta_call_refused: "meta_call E b tx s = (Inl e, s') \<Longrightarrow> s' = s"
  by (simp add: meta_call_def transactional_def split: prod.splits sum.splits)

lemma apply_unsigned_done:
  assumes "apply_unsigned E tx s = (True, s')"
  shows "recovered_account E (tx_who tx) (tx_call tx) (tx_nonce tx) (tx_signature tx) = Some (tx_who tx)"
    "tx_nonce tx = AccountNonce s (tx_who tx)"
    "AccountNonce s' = (AccountNonce s)(tx_who tx := wrapping_add 64 (AccountNonce s (tx_who tx)) 1)"
  using assms by (auto simp: apply_unsigned_def split: sum.splits prod.splits dest: validate_unsigned_ok meta_call_nonce)

lemma apply_unsigned_refused: "apply_unsigned E tx s = (False, s') \<Longrightarrow> s' = s"
  by (auto simp: apply_unsigned_def split: sum.splits prod.splits dest: meta_call_refused) (metis meta_call_refused old.unit.exhaust sum.exhaust)

lemma nonces_grow: "evm_history E s txs t \<Longrightarrow> (\<forall>w. AccountNonce s w + length txs < 2 ^ 64) \<Longrightarrow>
    AccountNonce s w \<le> AccountNonce t w \<and> AccountNonce t w \<le> AccountNonce s w + length txs"
proof (induction arbitrary: w rule: evm_history.induct)
  case (evm_done txs t tx t')
  have "\<forall>w. AccountNonce s w + length txs < 2 ^ 64" using evm_done.prems by (simp add: Suc_lessD)
  note IH = evm_done.IH [OF this]
  have "AccountNonce t (tx_who tx) + 1 < 2 ^ 64" using IH [of "tx_who tx"] evm_done.prems [rule_format, of "tx_who tx"] by simp
  then have "wrapping_add 64 (AccountNonce t (tx_who tx)) 1 = AccountNonce t (tx_who tx) + 1" by (simp add: wrapping_add_def)
  then show ?case using IH [of w] apply_unsigned_done(3) [OF evm_done.hyps(2)] by auto
qed (auto dest: apply_unsigned_refused)

text \<open>C13. No signature is used twice. However blocks mix transactions to this pallet with other activity, every call that
  was executed carries a signature from which the account it ran for is recovered, over exactly this account, this call and this
  nonce; and the calls executed for an account have the nonces from its first to its last one in order, each once. (The nonce
  is a \<open>u64\<close> that must not wrap.)\<close>

theorem meta_calls_signed_once:
  assumes "evm_history E s txs t" "\<forall>w. AccountNonce s w + length txs < 2 ^ 64"
  shows "list_all (\<lambda>tx. recovered_account E (tx_who tx) (tx_call tx) (tx_nonce tx) (tx_signature tx) = Some (tx_who tx)) txs \<and>
    map tx_nonce (filter (\<lambda>tx. tx_who tx = who) txs) = [AccountNonce s who ..< AccountNonce t who]"
  using assms
proof (induction rule: evm_history.induct)
  case (evm_done txs t tx t')
  have small: "\<forall>w. AccountNonce s w + length txs < 2 ^ 64" using evm_done.prems by (simp add: Suc_lessD)
  note IH = evm_done.IH [OF small] and run = apply_unsigned_done [OF evm_done.hyps(2)]
  note grow = nonces_grow [OF evm_done.hyps(1) small]
  have "AccountNonce t (tx_who tx) + 1 < 2 ^ 64" using grow [of "tx_who tx"] evm_done.prems [rule_format, of "tx_who tx"] by simp
  then have "wrapping_add 64 (AccountNonce t (tx_who tx)) 1 = AccountNonce t (tx_who tx) + 1" by (simp add: wrapping_add_def)
  then show ?case using IH run grow [of who] by auto
qed (auto dest: apply_unsigned_refused)

section \<open>Example\<close>

text \<open>A runtime in which a signature is the key followed by what it signs.\<close>

definition evm_example :: "(string, nat) evm_env" where
  "evm_example = \<lparr>keccak_256 = (\<lambda>s. s), ev_blake2_256 = (\<lambda>k. k @ replicate (32 - length k) CHR 0x00),
     ecdsa_recover_compressed = (\<lambda>sig h. if sig = ''key'' then Some ''key'' else None), ecdsa_recover = (\<lambda>_ _. None),
     abi_encode = (\<lambda>_. []), u256_of_bytes = (\<lambda>_. 0), to_ss58check = (\<lambda>s. s), encode_call = (\<lambda>c. c),
     AddressConverter = SubstrateAddressConverter, EIP712Name = ''cess'', EIP712Version = ''1'', EIP712ChainID = 1,
     EIP712VerifyingContractAddress = [], ServiceFee = 1, encode_tag = (\<lambda>w n. w), compute_fee = (\<lambda>_ _ _. 2),
     compute_actual_fee = (\<lambda>_ _ _. 2), reducible_balance = (\<lambda>_ w. w), max_tx_per_block_weight = (\<lambda>_. 1), max_block_length = (\<lambda>_. 9),
     withdraw_service_fee = (\<lambda>_ v w. if v \<le> w then Some (w - v) else None), withdraw_fee = (\<lambda>_ v w. if v \<le> w then Some (w - v) else None),
     dispatch_signed = (\<lambda>_ _ w. w), correct_and_deposit_fee = (\<lambda>_ _ _ w. Some w)\<rparr>"

definition tx_example :: "string meta_tx" where
  "tx_example = \<lparr>tx_who = ''key'' @ replicate 29 CHR 0x00, tx_call = ''call'', tx_nonce = 4, tx_signature = ''key'', tx_tip = None\<rparr>"

definition evm_state_example :: "nat evm_state" where
  "evm_state_example = \<lparr>evm_world = 10, AccountNonce = (\<lambda>_. 4)\<rparr>"

lemma tx_example_runs: "fst (apply_unsigned evm_example tx_example evm_state_example)"
  by (simp add: apply_unsigned_def validate_unsigned_def recovered_account_def public_key_form_def try_convert_def evm_example_def
      tx_example_def evm_state_example_def meta_call_def transactional_def bindM_def ensureM_def run_eval on_world_def bump_nonce_def
      saturated_into_def saturating_add_def tip_of_def Let_def)

theorem meta_calls_signed_once_witness:
  "\<exists>t. evm_history evm_example evm_state_example [tx_example] t \<and> [4] = [4 ..< AccountNonce t (tx_who tx_example)] \<and>
     \<not> fst (apply_unsigned evm_example tx_example t)"
proof -
  obtain t where run: "apply_unsigned evm_example tx_example evm_state_example = (True, t)"
    using tx_example_runs by (metis prod.collapse)
  have h: "evm_history evm_example evm_state_example [tx_example] t" using evm_done [OF evm_start run] by simp
  have "map tx_nonce (filter (\<lambda>tx. tx_who tx = tx_who tx_example) [tx_example]) = [AccountNonce evm_state_example (tx_who tx_example) ..< AccountNonce t (tx_who tx_example)]"
    using meta_calls_signed_once [OF h, of "tx_who tx_example"] by (simp add: evm_state_example_def)
  then have range: "[4] = [4 ..< AccountNonce t (tx_who tx_example)]" by (simp add: tx_example_def evm_state_example_def)
  then have "AccountNonce t (tx_who tx_example) = 5"
    by (cases "AccountNonce t (tx_who tx_example)") (auto split: if_splits simp: upt_conv_Cons)
  then have "tx_nonce tx_example < AccountNonce t (tx_who tx_example)" by (simp add: tx_example_def)
  then have "\<not> fst (apply_unsigned evm_example tx_example t)"
    by (auto simp: apply_unsigned_def validate_unsigned_def Let_def split: option.splits)
  then show ?thesis using h range by blast
qed

end
