(* ===== verification/Pois_Acc.thy ===== *)
theory Pois_Acc
  imports Chain_Prelude "HOL-Library.Multiset"
begin

text \<open>
  The building blocks of the proof of idle space (\<open>crates/ces-pois\<close>): the multi-level RSA accumulator (\<open>acc\<close>), the Merkle
  paths (\<open>tree\<close>), the byte helpers (\<open>util\<close>) and the layered expander graph (\<open>expanders\<close>). Bytes are numbers below
  256. A panic of the code is the error \<open>Pois_Panic\<close>.

  Parameters (\<open>pois_env\<close>): the hash functions, and the map of a number to a prime (\<open>hash_2_prime.rs\<close>), which computes with
  floating-point logarithms and a probabilistic test for primes.
\<close>

type_synonym bytes = "nat list"

datatype pois_error = Pois_Panic | Pois_Bail string

record pois_env =
  h_prime :: "nat \<Rightarrow> nat"
  pois_sha256 :: "bytes \<Rightarrow> bytes"
  pois_sha512 :: "bytes \<Rightarrow> bytes"

section \<open>Results\<close>

definition bindR :: "'e + 'a \<Rightarrow> ('a \<Rightarrow> 'e + 'b) \<Rightarrow> 'e + 'b" where
  "bindR r k = (case r of Inl e \<Rightarrow> Inl e | Inr x \<Rightarrow> k x)"

definition guardR :: "bool \<Rightarrow> 'e \<Rightarrow> 'e + unit" where
  "guardR b e = (if b then Inr () else Inl e)"

definition nthR :: "'a list \<Rightarrow> nat \<Rightarrow> pois_error + 'a" where
  "nthR xs i = (if i < length xs then Inr (xs ! i) else Inl Pois_Panic)"

definition theR :: "'a option \<Rightarrow> pois_error + 'a" where
  "theR v = (case v of None \<Rightarrow> Inl Pois_Panic | Some x \<Rightarrow> Inr x)"

fun forR :: "'x list \<Rightarrow> ('x \<Rightarrow> 'e + unit) \<Rightarrow> 'e + unit" where
  "forR [] f = Inr ()"
| "forR (x # xs) f = bindR (f x) (\<lambda>_. forR xs f)"

fun foldR :: "('x \<Rightarrow> 'a \<Rightarrow> 'e + 'a) \<Rightarrow> 'x list \<Rightarrow> 'a \<Rightarrow> 'e + 'a" where
  "foldR f [] a = Inr a"
| "foldR f (x # xs) a = bindR (f x a) (foldR f xs)"

lemma bindR_simps [simp]: "bindR (Inl e) k = Inl e" "bindR (Inr x) k = k x"
  by (simp_all add: bindR_def)

lemma bindR_Inr: "bindR r k = Inr y \<longleftrightarrow> (\<exists>x. r = Inr x \<and> k x = Inr y)"
  by (cases r) simp_all

lemma guardR_simps [simp]: "guardR b e = Inr u \<longleftrightarrow> b" "guardR b e = Inl d \<longleftrightarrow> \<not> b \<and> d = e"
  by (auto simp: guardR_def)

lemma nthR_Inr [simp]: "nthR xs i = Inr x \<longleftrightarrow> i < length xs \<and> x = xs ! i"
  by (auto simp: nthR_def)

lemma theR_Inr [simp]: "theR v = Inr x \<longleftrightarrow> v = Some x"
  by (cases v) (auto simp: theR_def)

lemma forR_Inr: "forR xs f = Inr u \<longleftrightarrow> (\<forall>x\<in>set xs. f x = Inr ())"
  by (induction xs) (auto simp: bindR_Inr)

section \<open>Numbers and bytes\<close>

definition from_bytes_be :: "bytes \<Rightarrow> nat" where
  "from_bytes_be bs = foldl (\<lambda>a b. 256 * a + b) 0 bs"

function digits_be :: "nat \<Rightarrow> bytes" where
  "digits_be n = (if n = 0 then [] else digits_be (n div 256) @ [n mod 256])"
  by auto
termination by (relation "measure id") auto

declare digits_be.simps [simp del]

definition to_bytes_be :: "nat \<Rightarrow> bytes" where
  "to_bytes_be n = (if n = 0 then [0] else digits_be n)"

lemma from_bytes_be_snoc: "from_bytes_be (bs @ [b]) = 256 * from_bytes_be bs + b"
  by (simp add: from_bytes_be_def)

lemma from_digits_be: "from_bytes_be (digits_be n) = n"
proof (induction n rule: digits_be.induct)
  case (1 n)
  then show ?case by (subst digits_be.simps) (simp add: from_bytes_be_snoc, simp add: from_bytes_be_def)
qed

lemma from_to_bytes_be [simp]: "from_bytes_be (to_bytes_be n) = n"
  by (simp add: to_bytes_be_def from_digits_be) (simp add: from_bytes_be_def)

lemma to_bytes_be_not_Nil [simp]: "to_bytes_be n \<noteq> []"
  by (subst to_bytes_be_def, subst digits_be.simps) simp

lemma to_bytes_be_small: "n < 256 \<Longrightarrow> to_bytes_be n = [n]"
  by (simp add: to_bytes_be_def, subst digits_be.simps) (simp add: digits_be.simps)

section \<open>The accumulator\<close>

record rsa_key =
  rk_n :: nat
  rk_g :: nat

text \<open>Raising to a power modulo zero panics.\<close>

definition modpow :: "nat \<Rightarrow> nat \<Rightarrow> nat \<Rightarrow> pois_error + nat" where
  "modpow x e n = (if n = 0 then Inl Pois_Panic else Inr (x ^ e mod n))"

fun acc_loop :: "pois_env \<Rightarrow> nat \<Rightarrow> nat \<Rightarrow> bytes list \<Rightarrow> pois_error + nat" where
  "acc_loop E n g [] = Inr g"
| "acc_loop E n g (elem # elems) = bindR (modpow g (h_prime E (from_bytes_be elem)) n) (\<lambda>g'. acc_loop E n g' elems)"

definition generate_acc :: "pois_env \<Rightarrow> rsa_key \<Rightarrow> bytes \<Rightarrow> bytes list \<Rightarrow> pois_error + bytes option" where
  "generate_acc E key acc elems =
     (if acc = [] then Inr None
      else bindR (acc_loop E (rk_n key) (from_bytes_be acc) elems) (\<lambda>g. Inr (Some (to_bytes_be g))))"

definition verify_acc :: "pois_env \<Rightarrow> rsa_key \<Rightarrow> bytes \<Rightarrow> bytes \<Rightarrow> bytes \<Rightarrow> pois_error + bool" where
  "verify_acc E key acc u wit =
     bindR (modpow (from_bytes_be wit) (h_prime E (from_bytes_be u)) (rk_n key)) (\<lambda>dash. Inr (dash = from_bytes_be acc))"

datatype witness_node = WitnessNode (wn_elem: bytes) (wn_wit: bytes) (wn_acc: "witness_node option")

fun verify_mutilevel_acc :: "pois_env \<Rightarrow> rsa_key \<Rightarrow> witness_node \<Rightarrow> bytes \<Rightarrow> pois_error + bool" where
  "verify_mutilevel_acc E key (WitnessNode elem wit None) acc = Inr (elem = acc)"
| "verify_mutilevel_acc E key (WitnessNode elem wit (Some node)) acc =
     bindR (verify_acc E key (wn_elem node) elem wit) (\<lambda>ok. if ok then verify_mutilevel_acc E key node acc else Inr False)"

definition DEFAULT_LEVEL :: nat where "DEFAULT_LEVEL = 3"
definition DEFAULT_ELEMS_NUM :: int where "DEFAULT_ELEMS_NUM = 256"

fun skip_same :: "witness_node \<Rightarrow> witness_node" where
  "skip_same (WitnessNode elem wit (Some node)) = (if wn_elem node = wit then skip_same node else WitnessNode elem wit (Some node))"
| "skip_same p = p"

text \<open>The levels above: each new accumulator is its witness raised to the new accumulator below.\<close>

fun insert_levels :: "pois_env \<Rightarrow> rsa_key \<Rightarrow> bytes list \<Rightarrow> nat \<Rightarrow> witness_node \<Rightarrow> pois_error + bool" where
  "insert_levels E key accs cnt (WitnessNode elem wit None) = Inr True"
| "insert_levels E key accs cnt (WitnessNode elem wit (Some node)) =
     bindR (nthR accs (cnt - 1)) (\<lambda>below.
     bindR (generate_acc E key wit [below]) (\<lambda>sub_acc.
     bindR (nthR accs cnt) (\<lambda>this.
     if sub_acc \<noteq> Some this then Inr False else insert_levels E key accs (cnt + 1) node)))"

definition verify_insert_update :: "pois_env \<Rightarrow> rsa_key \<Rightarrow> witness_node option \<Rightarrow> bytes list \<Rightarrow> bytes list \<Rightarrow> bytes \<Rightarrow> pois_error + bool" where
  "verify_insert_update E key exist elems accs acc = (case exist of
     None \<Rightarrow> Inr False
   | Some node \<Rightarrow>
       if elems = [] \<or> length accs < DEFAULT_LEVEL then Inr False
       else bindR (verify_mutilevel_acc E key (skip_same node) acc) (\<lambda>ok.
         if \<not> ok then Inr False
         else bindR (generate_acc E key (wn_elem node) elems) (\<lambda>sub_acc.
           if sub_acc \<noteq> Some (accs ! 0) then Inr False
           else insert_levels E key accs 1 node)))"

text \<open>The deletion: as written, the first test refuses the accumulator that fits, and the two cases of the levels above are
  chosen by the equality with the generator.\<close>

fun delete_levels :: "pois_env \<Rightarrow> rsa_key \<Rightarrow> bytes list \<Rightarrow> nat \<Rightarrow> witness_node \<Rightarrow> pois_error + bool" where
  "delete_levels E key accs cnt (WitnessNode elem wit None) = Inr True"
| "delete_levels E key accs cnt (WitnessNode elem wit (Some node)) =
     bindR (nthR accs (cnt - 1)) (\<lambda>below.
     bindR (if below = to_bytes_be (rk_g key) then generate_acc E key wit [below] else Inr (Some wit)) (\<lambda>sub_acc.
     bindR (nthR accs cnt) (\<lambda>this.
     if sub_acc \<noteq> Some this then Inr False else delete_levels E key accs (cnt + 1) node)))"

definition verify_delete_update :: "pois_env \<Rightarrow> rsa_key \<Rightarrow> witness_node \<Rightarrow> bytes list \<Rightarrow> bytes list \<Rightarrow> bytes \<Rightarrow> pois_error + bool" where
  "verify_delete_update E key exist elems accs acc =
     (if elems = [] \<or> length accs < DEFAULT_LEVEL then Inr False
      else bindR (verify_mutilevel_acc E key exist acc) (\<lambda>ok.
        if \<not> ok then Inr False
        else bindR (generate_acc E key (accs ! 0) elems) (\<lambda>sub_acc.
          if sub_acc = Some (wn_elem exist) then Inr False
          else delete_levels E key accs 1 exist)))"

text \<open>The batch: the random numbers that choose which of the inner witnesses are checked are an argument.\<close>

fun batch_loop :: "pois_env \<Rightarrow> rsa_key \<Rightarrow> int \<Rightarrow> (nat \<Rightarrow> nat) \<Rightarrow> nat \<Rightarrow> bytes option \<Rightarrow> witness_node list \<Rightarrow> bytes \<Rightarrow> pois_error + bool" where
  "batch_loop E key base_idx draw i sub_acc [] acc = Inr True"
| "batch_loop E key base_idx draw i sub_acc (w # ws) acc =
     bindR (case sub_acc of None \<Rightarrow> Inr True | Some sa \<Rightarrow> bindR (theR (wn_acc w)) (\<lambda>a. Inr (wn_elem a = sa))) (\<lambda>same.
     if \<not> same then Inr False
     else if (int i + base_idx) mod DEFAULT_ELEMS_NUM = 0 \<or> ws = []
     then bindR (verify_mutilevel_acc E key w acc) (\<lambda>ok. if ok then batch_loop E key base_idx draw (i + 1) None ws acc else Inr False)
     else bindR (if draw i mod 100 < 25 then bindR (theR (wn_acc w)) (\<lambda>a. verify_acc E key (wn_elem a) (wn_elem w) (wn_wit w)) else Inr True) (\<lambda>ok.
       if \<not> ok then Inr False
       else bindR (theR (wn_acc w)) (\<lambda>a. batch_loop E key base_idx draw (i + 1) (Some (wn_elem a)) ws acc)))"

definition verify_mutilevel_acc_for_batch :: "pois_env \<Rightarrow> (nat \<Rightarrow> nat) \<Rightarrow> rsa_key \<Rightarrow> int \<Rightarrow> witness_node list \<Rightarrow> bytes \<Rightarrow> pois_error + bool" where
  "verify_mutilevel_acc_for_batch E draw key base_idx wits acc = batch_loop E key base_idx draw 0 None wits acc"

section \<open>Closed form of an accumulator\<close>

definition elem_product :: "pois_env \<Rightarrow> bytes list \<Rightarrow> nat" where
  "elem_product E elems = prod_list (map (\<lambda>e. h_prime E (from_bytes_be e)) elems)"

lemma elem_product_mset: "mset xs = mset ys \<Longrightarrow> elem_product E xs = elem_product E ys"
  unfolding elem_product_def prod_mset_prod_list [symmetric] mset_map by simp

lemma elem_product_simps [simp]:
  "elem_product E [] = 1" "elem_product E (x # xs) = h_prime E (from_bytes_be x) * elem_product E xs"
  by (simp_all add: elem_product_def)

lemma acc_loop_closed:
  assumes "n \<noteq> 0" "elems \<noteq> []"
  shows "acc_loop E n g elems = Inr (g ^ elem_product E elems mod n)"
  using assms(2)
proof (induction elems arbitrary: g)
  case (Cons e es)
  show ?case
  proof (cases "es = []")
    case True
    then show ?thesis using assms(1) by (simp add: modpow_def)
  next
    case False
    then show ?thesis using assms(1) Cons.IH by (simp add: modpow_def power_mod power_mult)
  qed
qed simp

lemma generate_acc_closed:
  assumes "rk_n key \<noteq> 0" "elems \<noteq> []" "acc \<noteq> []"
  shows "generate_acc E key acc elems = Inr (Some (to_bytes_be (from_bytes_be acc ^ elem_product E elems mod rk_n key)))"
  using assms by (simp add: generate_acc_def acc_loop_closed)

lemma generate_acc_Some:
  assumes "generate_acc E key acc elems = Inr (Some a)" "elems \<noteq> []"
  shows "acc \<noteq> []" "rk_n key \<noteq> 0" "from_bytes_be a = from_bytes_be acc ^ elem_product E elems mod rk_n key"
proof -
  show ne: "acc \<noteq> []" using assms(1) by (auto simp: generate_acc_def split: if_splits)
  show n: "rk_n key \<noteq> 0"
    using assms ne by (cases elems) (auto simp: generate_acc_def modpow_def bindR_Inr split: if_splits)
  show "from_bytes_be a = from_bytes_be acc ^ elem_product E elems mod rk_n key"
    using generate_acc_closed [OF n assms(2) ne] assms(1) by auto
qed

text \<open>The witness of one of the accumulated elements: the accumulator of the others.\<close>

lemma witness_of_elem:
  assumes "generate_acc E key acc elems = Inr (Some a)" "x \<in> set elems"
  shows "\<exists>w. verify_acc E key a x w = Inr True"
proof -
  have nonempty: "elems \<noteq> []" using assms(2) by auto
  note g = generate_acc_Some [OF assms(1) nonempty]
  let ?w = "to_bytes_be (from_bytes_be acc ^ elem_product E (remove1 x elems) mod rk_n key)"
  have "mset elems = mset (x # remove1 x elems)" using assms(2) by simp
  then have "elem_product E elems = elem_product E (remove1 x elems) * h_prime E (from_bytes_be x)"
    by (metis elem_product_mset elem_product_simps(2) mult.commute)
  then have "verify_acc E key a x ?w = Inr True"
    using g by (simp add: verify_acc_def modpow_def power_mod power_mult)
  then show ?thesis by blast
qed

fun chain_depth :: "witness_node \<Rightarrow> nat" where
  "chain_depth (WitnessNode elem wit None) = 0"
| "chain_depth (WitnessNode elem wit (Some node)) = Suc (chain_depth node)"

lemma levels_give_chain:
  assumes "insert_levels E key accs (Suc i) node = Inr True" "i < length accs"
  shows "i + chain_depth node < length accs
    \<and> (\<exists>wn. wn_elem wn = accs ! i \<and> verify_mutilevel_acc E key wn (accs ! (i + chain_depth node)) = Inr True)"
  using assms
proof (induction node arbitrary: i rule: chain_depth.induct)
  case (1 elem wit)
  have "verify_mutilevel_acc E key (WitnessNode (accs ! i) [] None) (accs ! i) = Inr True" by simp
  then show ?case using 1(2) by (metis witness_node.sel(1) add_0_right chain_depth.simps(1))
next
  case (2 elem wit node)
  from 2(2) obtain above where bounds: "Suc i < length accs"
    and gen: "generate_acc E key wit [accs ! i] = Inr (Some (accs ! Suc i))"
    and rest: "insert_levels E key accs (Suc (Suc i)) node = Inr True"
    by (auto simp: bindR_Inr split: if_splits)
  from 2(1) [OF rest bounds] obtain wn where wn: "wn_elem wn = accs ! Suc i"
      "verify_mutilevel_acc E key wn (accs ! (Suc i + chain_depth node)) = Inr True"
      "Suc i + chain_depth node < length accs" by auto
  have "verify_acc E key (accs ! Suc i) (accs ! i) wit = Inr True"
    using generate_acc_Some [OF gen] by (simp add: verify_acc_def modpow_def)
  then have "verify_mutilevel_acc E key (WitnessNode (accs ! i) wit (Some wn)) (accs ! (i + chain_depth (WitnessNode elem wit (Some node)))) = Inr True"
    using wn by simp
  then show ?case using wn(3) by (metis witness_node.sel(1) add_Suc_shift chain_depth.simps(2))
qed

text \<open>C14. An accepted insertion into the accumulator of idle files commits to every inserted label: when the path of new
  accumulators has one entry per level of the witness chain, each label has a witness chain of the multi-level accumulator
  that verifies against the last entry of the path, which becomes the miner's accumulator; and the new accumulators do not
  depend on the order of the labels.\<close>

theorem insertion_commits_labels:
  assumes accepted: "verify_insert_update E key (Some node) elems accs acc = Inr True"
    and levels: "length accs = Suc (chain_depth node)"
  shows "(\<forall>x. x \<in> set elems \<longrightarrow> (\<exists>wn. wn_elem wn = x \<and> verify_mutilevel_acc E key wn (last accs) = Inr True))
    \<and> (\<forall>perm. mset perm = mset elems \<longrightarrow> verify_insert_update E key (Some node) perm accs acc = Inr True)"
proof -
  from accepted have nonempty: "elems \<noteq> []" and len: "\<not> length accs < DEFAULT_LEVEL"
    and gen: "generate_acc E key (wn_elem node) elems = Inr (Some (accs ! 0))"
    and lv: "insert_levels E key accs 1 node = Inr True"
    by (auto simp: verify_insert_update_def bindR_Inr split: if_splits)
  have bound: "0 < length accs" using levels by simp
  from levels_give_chain [of E key accs 0 node] lv bound obtain wn where
    wn: "wn_elem wn = accs ! 0" "verify_mutilevel_acc E key wn (accs ! chain_depth node) = Inr True" by auto
  have last: "last accs = accs ! chain_depth node" using levels last_conv_nth [of accs] bound by force
  have "\<exists>wn'. wn_elem wn' = x \<and> verify_mutilevel_acc E key wn' (last accs) = Inr True" if "x \<in> set elems" for x
  proof -
    from witness_of_elem [OF gen that] obtain w where "verify_acc E key (accs ! 0) x w = Inr True" by blast
    then have "verify_mutilevel_acc E key (WitnessNode x w (Some wn)) (last accs) = Inr True" using wn last by simp
    then show ?thesis by (metis witness_node.sel(1))
  qed
  moreover have "verify_insert_update E key (Some node) perm accs acc = Inr True" if "mset perm = mset elems" for perm
  proof -
    have "perm \<noteq> []" using that nonempty by auto
    moreover have "generate_acc E key (wn_elem node) perm = generate_acc E key (wn_elem node) elems"
      using generate_acc_closed generate_acc_Some [OF gen nonempty] calculation nonempty elem_product_mset [OF that] by metis
    ultimately show ?thesis using accepted nonempty by (simp add: verify_insert_update_def cong: if_cong)
  qed
  ultimately show ?thesis by blast
qed

definition toy_env :: pois_env where
  "toy_env = \<lparr>h_prime = (\<lambda>u. 2 * u + 1), pois_sha256 = (\<lambda>x. x), pois_sha512 = (\<lambda>x. x)\<rparr>"

definition toy_key :: rsa_key where
  "toy_key = \<lparr>rk_n = 11, rk_g = 2\<rparr>"

definition toy_chain :: witness_node where
  "toy_chain = WitnessNode [4] [5] (Some (WitnessNode [9] [3] (Some (WitnessNode [4] [] None))))"

lemmas toy_eval = toy_env_def toy_key_def toy_chain_def verify_insert_update_def verify_acc_def generate_acc_def modpow_def
  from_bytes_be_def to_bytes_be_small nthR_def DEFAULT_LEVEL_def

theorem insertion_commits_labels_witness:
  "verify_insert_update toy_env toy_key (Some toy_chain) [[1], [6]] [[3], [3], [9]] [4] = Inr True
    \<and> (\<exists>wn. wn_elem wn = [6] \<and> verify_mutilevel_acc toy_env toy_key wn [9] = Inr True)
    \<and> verify_insert_update toy_env toy_key (Some toy_chain) [[6], [1]] [[3], [3], [9]] [4] = Inr True"
proof -
  have ok: "verify_insert_update toy_env toy_key (Some toy_chain) [[1], [6]] [[3], [3], [9]] [4] = Inr True"
    by (simp add: toy_eval)
  have depth: "length [[3], [3], [9 :: nat]] = Suc (chain_depth toy_chain)" by (simp add: toy_chain_def)
  from insertion_commits_labels [OF ok depth] ok show ?thesis by simp
qed



end
