(* ===== verification/Pois_Graph.thy ===== *)
theory Pois_Graph
  imports Pois_Acc "HOL-Library.Signed_Division"
begin

text \<open>
  The Merkle paths (\<open>tree/mod.rs\<close>), the byte helpers (\<open>util/mod.rs\<close>) and the layered graph of the idle files
  (\<open>expanders\<close>) of \<open>crates/ces-pois\<close>. A vector whose capacity the code inspects carries its capacity. The signed integers
  are \<^typ>\<open>int\<close>: the number of files and of graph nodes stays far below their bounds. Division and remainder round
  towards zero, as in Rust; a zero divisor panics.
\<close>

definition divR :: "int \<Rightarrow> int \<Rightarrow> pois_error + int" where
  "divR a b = (if b = 0 then Inl Pois_Panic else Inr (a sdiv b))"

definition modR :: "int \<Rightarrow> int \<Rightarrow> pois_error + int" where
  "modR a b = (if b = 0 then Inl Pois_Panic else Inr (a smod b))"

definition as_usize :: "int \<Rightarrow> nat" where
  "as_usize i = nat (i mod 2 ^ 64)"

definition as_i32 :: "int \<Rightarrow> int" where
  "as_i32 i = (i + 2 ^ 31) mod 2 ^ 32 - 2 ^ 31"

section \<open>Merkle paths\<close>

record path_proof =
  pp_locs :: bytes
  pp_path :: "bytes list"

definition DEFAULT_HASH_SIZE :: nat where "DEFAULT_HASH_SIZE = 32"

fun path_fold :: "pois_env \<Rightarrow> bytes \<Rightarrow> (nat \<times> bytes) list \<Rightarrow> bytes" where
  "path_fold E data [] = data"
| "path_fold E data ((loc, sib) # rest) =
     path_fold E (if loc = 0 then pois_sha256 E (sib @ data) else pois_sha256 E (data @ sib)) rest"

definition verify_path_proof :: "pois_env \<Rightarrow> bytes \<Rightarrow> bytes \<Rightarrow> path_proof \<Rightarrow> bool" where
  "verify_path_proof E root data proof =
     (if length (pp_locs proof) \<noteq> length (pp_path proof) then False
      else let h = pois_sha256 E data in
        if length h \<noteq> length root then False
        else root = path_fold E h (zip (pp_locs proof) (pp_path proof)))"

fun check_index_path :: "int \<Rightarrow> bytes \<Rightarrow> bool" where
  "check_index_path index [] = True"
| "check_index_path index (v # locs) =
     (if (index + 1) smod 2 = 0 then v = 0 \<and> check_index_path (index sdiv 2) locs
      else v = 1 \<and> check_index_path (index sdiv 2) locs)"

section \<open>Byte helpers\<close>

fun copy_loop :: "bytes \<Rightarrow> nat \<Rightarrow> bytes list \<Rightarrow> bytes" where
  "copy_loop target cnt [] = target"
| "copy_loop target cnt (d # src) =
     (if length d = 0 \<or> length d + cnt > length target then copy_loop target cnt src
      else copy_loop (take cnt target @ d @ drop (cnt + length d) target) (cnt + length d) src)"

definition copy_data :: "bytes \<Rightarrow> bytes list \<Rightarrow> bytes" where
  "copy_data target src = copy_loop target 0 src"

fun add_data :: "bytes \<Rightarrow> bytes list \<Rightarrow> bytes" where
  "add_data target [] = target"
| "add_data target (s # src) =
     (if length s < length target then add_data target src
      else add_data (map2 (\<lambda>a b. Bit_Operations.xor a b) target s) src)"

definition clear_data :: "bytes \<Rightarrow> bytes" where
  "clear_data target = map (\<lambda>_. 0) target"

text \<open>The stored key: two lengths and the two numbers. A malformed file gives a fresh key (\<open>fresh\<close>).\<close>

definition get_key_from_bytes :: "rsa_key \<Rightarrow> bytes \<Rightarrow> pois_error + rsa_key" where
  "get_key_from_bytes fresh data =
     (if length data < 8 then Inr fresh
      else if length data < 16 then Inl Pois_Panic
      else let nl = from_bytes_be (take 8 data); gl = from_bytes_be (take 8 (drop 8 data)) in
        if nl = 0 \<or> gl = 0 \<or> length data - 16 \<noteq> wrapping_add 64 nl gl then Inr fresh
        else if 16 + nl > length data then Inl Pois_Panic
        else Inr \<lparr>rk_n = from_bytes_be (take nl (drop 16 data)), rk_g = from_bytes_be (drop (16 + nl) data)\<rparr>)"

section \<open>The graph\<close>

record expanders =
  ex_k :: int
  ex_n :: int
  ex_d :: int
  ex_size :: int
  ex_hash_size :: int

definition expanders_new :: "int \<Rightarrow> int \<Rightarrow> int \<Rightarrow> expanders" where
  "expanders_new k n d = \<lparr>ex_k = k, ex_n = n, ex_d = d, ex_size = (k + 1) * n, ex_hash_size = 64\<rparr>"

record graph_node =
  gn_index :: int
  gn_parents :: "int list"
  gn_capacity :: nat

definition node_new :: "int \<Rightarrow> graph_node" where
  "node_new idx = \<lparr>gn_index = idx, gn_parents = [], gn_capacity = 0\<rparr>"

text \<open>The binary search. The subtraction below index zero wraps to the largest index, whose middle is out of range.\<close>

function search_loop :: "int list \<Rightarrow> int \<Rightarrow> nat \<Rightarrow> nat \<Rightarrow> pois_error + (nat \<times> nat) option" where
  "search_loop ps p l r =
     (if l \<le> r then
        (let mid = (l + r) div 2 in
         if length ps \<le> mid then Inl Pois_Panic
         else if ps ! mid = p then Inr None
         else if ps ! mid > p then (if mid = 0 then Inl Pois_Panic else search_loop ps p l (mid - 1))
         else search_loop ps p (mid + 1) r)
      else Inr (Some (l, r)))"
  by auto
termination by (relation "measure (\<lambda>(ps, p, l, r). r + 1 - l)") auto

declare search_loop.simps [simp del]

definition parent_in_list :: "int list \<Rightarrow> int \<Rightarrow> pois_error + nat \<times> bool" where
  "parent_in_list ps p =
     (if ps = [] then Inr (0, False)
      else bindR (search_loop ps p 0 (length ps - 1)) (\<lambda>found. case found of
          None \<Rightarrow> Inr (0, True)
        | Some (l, r) \<Rightarrow> let i = (l + r) div 2 in
            bindR (nthR ps i) (\<lambda>q. Inr (if q < p then i + 1 else i, False))))"

definition add_parent :: "graph_node \<Rightarrow> int \<Rightarrow> pois_error + graph_node \<times> bool" where
  "add_parent nd p =
     (if gn_index nd = p then Inr (nd, False)
      else if gn_parents nd = [] \<or> gn_capacity nd \<le> length (gn_parents nd) then Inr (nd, False)
      else bindR (parent_in_list (gn_parents nd) p) (\<lambda>(i, found).
        if found then Inr (nd, False)
        else let ps = gn_parents nd @ [0]; lens = length ps in
          if lens = 1 \<or> i = lens - 1 then Inr (nd\<lparr>gn_parents := ps[i := p]\<rparr>, True)
          else let moved = take i ps @ drop (i + 1) (take (lens - 1) ps) @ drop (lens - 2) ps in
            Inr (nd\<lparr>gn_parents := moved[i := p]\<rparr>, True)))"

definition get_bytes :: "nat \<Rightarrow> int \<Rightarrow> bytes" where
  "get_bytes sz v = map (\<lambda>i. nat (v div 2 ^ (8 * (sz - 1 - i)) mod 256)) [0..<sz]"

definition get_bytes_slice :: "nat \<Rightarrow> int list \<Rightarrow> bytes" where
  "get_bytes_slice sz vs = concat (map (get_bytes sz) vs)"

definition bytes_to_node_value :: "bytes \<Rightarrow> int \<Rightarrow> pois_error + int" where
  "bytes_to_node_value data mx =
     bindR (modR (int (from_bytes_be data)) mx) (\<lambda>i_value.
     bindR (modR (i_value + mx) mx) (\<lambda>v. Inr (as_i32 v)))"

definition get_hash :: "pois_env \<Rightarrow> bytes \<Rightarrow> bytes" where
  "get_hash E data = pois_sha512 E (if data = [] then [110, 111, 110, 101] else data)"

definition HASH_SIZE :: nat where "HASH_SIZE = 64"

fun parents_loop :: "expanders \<Rightarrow> int \<Rightarrow> int \<Rightarrow> int \<Rightarrow> int \<Rightarrow> int \<Rightarrow> bytes \<Rightarrow> graph_node \<Rightarrow> pois_error + graph_node" where
  "parents_loop ex layer group_size offset p i [] nd = Inr nd"
| "parents_loop ex layer group_size offset p i (b # res) nd =
     bindR (modR (int b) offset) (\<lambda>rest.
     let index = (layer - 1) * ex_n ex + i * group_size + int b * offset + rest in
     bindR (add_parent nd (if index = p then as_i32 (index + 1) else if index < p then as_i32 (index + ex_n ex) else as_i32 index))
       (\<lambda>(nd', _). parents_loop ex layer group_size offset p (i + 1) res nd'))"

definition calc_parents :: "pois_env \<Rightarrow> expanders \<Rightarrow> graph_node \<Rightarrow> bytes \<Rightarrow> int \<Rightarrow> int \<Rightarrow> pois_error + graph_node" where
  "calc_parents E ex nd miner_id cnt rlayer =
     (if gn_capacity nd \<noteq> as_usize (ex_d ex + 1) then Inr nd
      else bindR (divR (gn_index nd) (ex_n ex)) (\<lambda>layer.
        if layer = 0 then Inr nd
        else bindR (divR (ex_n ex) (ex_d ex)) (\<lambda>group_size.
          let offset = group_size sdiv 256;
              first = pois_sha512 E (miner_id @ get_bytes 8 cnt @ get_bytes 8 rlayer @ get_bytes 8 (gn_index nd));
              res = (if ex_d ex > 64 then first @ pois_sha512 E first else first);
              p = as_i32 (gn_index nd - as_i32 (ex_n ex)) in
          if length res < as_usize (ex_d ex) then Inl Pois_Panic
          else bindR (add_parent nd p) (\<lambda>(nd', _).
            parents_loop ex layer group_size offset p 0 (take (as_usize (ex_d ex)) res) nd'))))"

definition construct_stacked_expanders :: "int \<Rightarrow> int \<Rightarrow> int \<Rightarrow> expanders" where
  "construct_stacked_expanders k n d = expanders_new k n d"

end
