(* ===== verification/Pois_Verifier.thy ===== *)
theory Pois_Verifier
  imports Pois_Graph
begin

text \<open>
  The verifier of the proof of idle space (\<open>pois/verify.rs\<close>, \<open>pois/prove.rs\<close>, \<open>pois/challenge.rs\<close> of
  \<open>crates/ces-pois\<close>): the prover nodes it keeps and the operations on them, and its decisions on commitment, accumulator,
  space and deletion proofs.

  The nodes are kept under the hexadecimal form of the miner's identifier; the model uses the identifier itself. The random
  numbers of the code are arguments. A panic ends the process, so that the state after it does not matter.
\<close>

section \<open>The proofs\<close>

record commits =
  cm_file_indexs :: "int list"
  cm_roots :: "bytes list"

record mht_proof =
  mp_index :: int
  mp_label :: bytes
  mp_paths :: "bytes list"
  mp_locs :: bytes

record commit_proof =
  cp_node :: mht_proof
  cp_parents :: "mht_proof list"
  cp_elders :: "mht_proof list"

record acc_proof =
  ap_indexs :: "int list"
  ap_labels :: "bytes list"
  ap_wit_chains :: "witness_node option"
  ap_acc_path :: "bytes list"

record space_proof =
  sp_left :: int
  sp_right :: int
  sp_proofs :: "mht_proof list list"
  sp_roots :: "bytes list"
  sp_wit_chains :: "witness_node list"

record deletion_proof =
  dp_roots :: "bytes list"
  dp_wit_chain :: witness_node
  dp_acc_path :: "bytes list"

section \<open>The verifier's state\<close>

record pois_record =
  pr_key :: rsa_key
  pr_acc :: bytes
  pr_front :: int
  pr_rear :: int

record prover_node =
  pn_id :: bytes
  pn_commit_buf :: commits
  pn_record :: "pois_record option"

record verifier =
  vf_cluster_size :: int
  vf_space_chals :: int
  vf_expanders :: expanders
  vf_nodes :: "bytes \<Rightarrow> prover_node option"

definition CLUSTER_SIZE :: int where "CLUSTER_SIZE = 8"
definition IDLE_SET_LEN :: nat where "IDLE_SET_LEN = 32"
definition PICK :: nat where "PICK = 4"

definition no_commits :: commits where
  "no_commits = \<lparr>cm_file_indexs = [], cm_roots = []\<rparr>"

definition verifier_new :: "int \<Rightarrow> int \<Rightarrow> int \<Rightarrow> verifier" where
  "verifier_new k n d = \<lparr>vf_cluster_size = k, vf_space_chals = k, vf_expanders = expanders_new k n d, vf_nodes = (\<lambda>_. None)\<rparr>"

definition prover_node_new :: "bytes \<Rightarrow> rsa_key \<Rightarrow> bytes \<Rightarrow> int \<Rightarrow> int \<Rightarrow> prover_node" where
  "prover_node_new pid key acc front rear =
     \<lparr>pn_id = pid, pn_commit_buf = no_commits,
      pn_record = Some \<lparr>pr_key = key, pr_acc = to_bytes_be (from_bytes_be acc), pr_front = front, pr_rear = rear\<rparr>\<rparr>"

definition put_node :: "bytes \<Rightarrow> prover_node \<Rightarrow> verifier \<Rightarrow> verifier" where
  "put_node pid nd V = V\<lparr>vf_nodes := (vf_nodes V)(pid \<mapsto> nd)\<rparr>"

definition register_prover_node :: "bytes \<Rightarrow> rsa_key \<Rightarrow> bytes \<Rightarrow> int \<Rightarrow> int \<Rightarrow> verifier \<Rightarrow> verifier" where
  "register_prover_node pid key acc front rear V = put_node pid (prover_node_new pid key acc front rear) V"

definition register_prover_node_empty :: "bytes \<Rightarrow> verifier \<Rightarrow> verifier" where
  "register_prover_node_empty pid V = put_node pid \<lparr>pn_id = pid, pn_commit_buf = no_commits, pn_record = None\<rparr> V"

definition update_prover_node_force :: "bytes \<Rightarrow> rsa_key \<Rightarrow> bytes \<Rightarrow> int \<Rightarrow> int \<Rightarrow> verifier \<Rightarrow> pois_error + verifier" where
  "update_prover_node_force pid key acc front rear V =
     bindR (theR (vf_nodes V pid)) (\<lambda>old.
     Inr (put_node pid ((prover_node_new pid key acc front rear)\<lparr>pn_commit_buf := pn_commit_buf old\<rparr>) V))"

definition get_node :: "bytes \<Rightarrow> verifier \<Rightarrow> pois_error + prover_node" where
  "get_node pid V = (case vf_nodes V pid of None \<Rightarrow> Inl (Pois_Bail ''prover node not found.'') | Some nd \<Rightarrow> Inr nd)"

definition is_logout :: "bytes \<Rightarrow> verifier \<Rightarrow> bool" where
  "is_logout pid V = (vf_nodes V pid = None)"

definition logout_prover_node :: "bytes \<Rightarrow> verifier \<Rightarrow> (pois_error + bytes \<times> int \<times> int) \<times> verifier" where
  "logout_prover_node pid V = (case vf_nodes V pid of
     None \<Rightarrow> (Inr ([], 0, 0), V)
   | Some nd \<Rightarrow> (case pn_record nd of
       None \<Rightarrow> (Inl (Pois_Bail ''Record not found''), V)
     | Some rec \<Rightarrow>
         let acc = pr_acc rec;
             acc' = (if length acc < 256 then replicate (256 - length acc) 0 @ acc else acc)
         in (Inr (acc', pr_front rec, pr_rear rec),
             put_node pid (nd\<lparr>pn_commit_buf := no_commits, pn_record := Some (rec\<lparr>pr_key := \<lparr>rk_n = 0, rk_g = 0\<rparr>, pr_acc := []\<rparr>)\<rparr>) V)))"

text \<open>The commitments: one root per layer and file, and the hash of all of them at the end.\<close>

definition receive_commits :: "pois_env \<Rightarrow> bytes \<Rightarrow> commits \<Rightarrow> verifier \<Rightarrow> bool \<times> verifier" where
  "receive_commits E pid cs V = (case vf_nodes V pid of
     None \<Rightarrow> (False, V)
   | Some nd \<Rightarrow>
       let root_num = (vf_cluster_size V + ex_k (vf_expanders V)) * int IDLE_SET_LEN + 1 in
       if pn_id nd \<noteq> pid \<or> length (cm_roots cs) \<noteq> as_usize root_num \<or> cm_roots cs = []
          \<or> last (cm_roots cs) \<noteq> pois_sha256 E (concat (butlast (cm_roots cs)))
       then (False, V)
       else (True, put_node pid (nd\<lparr>pn_commit_buf := cs\<rparr>) V))"

section \<open>Challenges\<close>

definition commit_row :: "verifier \<Rightarrow> int \<Rightarrow> (nat \<Rightarrow> nat) \<Rightarrow> nat \<Rightarrow> int list" where
  "commit_row V start draw i =
     (let ex = vf_expanders V; cs = as_usize (vf_cluster_size V); rnd = (\<lambda>j m. int (draw j) mod m) in
      (start + int i + 1)
      # map (\<lambda>j. rnd j (ex_n ex) + ex_n ex * ex_k ex) [1..<cs + 1]
      @ [rnd (cs + 1) (ex_n ex) + ex_n ex * (ex_k ex - 1)]
      @ map (\<lambda>j. rnd j (ex_d ex + 1)) [cs + 2..<as_usize (ex_k ex + vf_cluster_size V + 1)])"

definition commit_challenges :: "(nat \<Rightarrow> nat \<Rightarrow> nat) \<Rightarrow> bytes \<Rightarrow> verifier \<Rightarrow> pois_error + int list list" where
  "commit_challenges draw pid V = (case vf_nodes V pid of
     None \<Rightarrow> Inl (Pois_Bail ''generate commit challenges error: prover node not found.'')
   | Some nd \<Rightarrow>
       bindR (nthR (cm_file_indexs (pn_commit_buf nd)) 0) (\<lambda>first.
       bindR (divR (first - 1) (vf_cluster_size V)) (\<lambda>start.
       if ex_k (vf_expanders V) < 1 \<or> ex_n (vf_expanders V) < 1 \<or> (ex_k (vf_expanders V) > 1 \<and> ex_d (vf_expanders V) < 0)
       then Inl Pois_Panic
       else Inr (map (\<lambda>i. commit_row V start (draw i) i) [0..<IDLE_SET_LEN]))))"

text \<open>A number not drawn before: the loop draws until it finds one, and does not end when there is none.\<close>

partial_function (option) draw_fresh :: "int \<Rightarrow> (nat \<Rightarrow> nat) \<Rightarrow> int list \<Rightarrow> nat \<Rightarrow> (int \<times> nat) option" where
  "draw_fresh n draw seen t =
     (let r = int (draw t) mod n in
      if r \<in> set seen then draw_fresh n draw seen (t + 1) else Some (r, t + 1))"

fun space_loop :: "expanders \<Rightarrow> (nat \<Rightarrow> nat) \<Rightarrow> nat \<Rightarrow> int list \<Rightarrow> nat \<Rightarrow> int list option" where
  "space_loop ex draw 0 seen t = Some []"
| "space_loop ex draw (Suc m) seen t = (case draw_fresh (ex_n ex) draw seen t of
     None \<Rightarrow> None
   | Some (r, t') \<Rightarrow> map_option (\<lambda>rest. (r + ex_n ex * ex_k ex) # rest) (space_loop ex draw m (r # seen) t'))"

definition space_challenges :: "(nat \<Rightarrow> nat) \<Rightarrow> int \<Rightarrow> verifier \<Rightarrow> (pois_error + int list) option" where
  "space_challenges draw params V =
     (let m = as_usize (if params < vf_space_chals V then vf_space_chals V else params) in
      if 0 < m \<and> ex_n (vf_expanders V) < 1 then Some (Inl Pois_Panic)
      else map_option Inr (space_loop (vf_expanders V) draw m [] 0))"

section \<open>Commitment proofs\<close>

definition mht_path :: "mht_proof \<Rightarrow> path_proof" where
  "mht_path p = \<lparr>pp_locs = mp_locs p, pp_path = mp_paths p\<rparr>"

text \<open>The root of a layer for the file of a challenge. The index arithmetic is that of 64-bit unsigned integers.\<close>

definition file_slot :: "int \<Rightarrow> nat" where
  "file_slot c0 = as_usize (c0 - 1) mod IDLE_SET_LEN"

definition layer_root :: "commits \<Rightarrow> int \<Rightarrow> int \<Rightarrow> pois_error + bytes" where
  "layer_root buf layer c0 = nthR (cm_roots buf) ((as_usize layer * IDLE_SET_LEN + file_slot c0) mod 2 ^ 64)"

text \<open>\<open>add_data\<close> on a slice of the label.\<close>

definition add_slice :: "nat \<Rightarrow> bytes \<Rightarrow> bytes \<Rightarrow> bytes" where
  "add_slice a label s = take a label @ add_data (take HASH_SIZE (drop a label)) [s] @ drop (a + HASH_SIZE) label"

definition commit_parent :: "pois_env \<Rightarrow> verifier \<Rightarrow> commits \<Rightarrow> int \<Rightarrow> int \<Rightarrow> int \<Rightarrow> nat \<Rightarrow> mht_proof \<Rightarrow> bytes \<Rightarrow> pois_error + bytes" where
  "commit_parent E V buf c0 layer logical_layer front_size p label =
     bindR (layer_root buf (if mp_index p \<ge> logical_layer * ex_n (vf_expanders V) then layer else logical_layer - 1) c0) (\<lambda>root.
     bindR (guardR (mp_index p smod 6 \<noteq> 0 \<or> verify_path_proof E root (mp_label p) (mht_path p))
       (Pois_Bail ''verify parent path proof error'')) (\<lambda>_.
     Inr (add_slice front_size label (mp_label p))))"

definition commit_elder :: "pois_env \<Rightarrow> verifier \<Rightarrow> commits \<Rightarrow> int \<Rightarrow> int \<Rightarrow> nat \<Rightarrow> commit_proof \<Rightarrow> nat \<Rightarrow> bytes \<Rightarrow> pois_error + bytes" where
  "commit_elder E V buf c0 layer front_size q l label =
     (let k = ex_k (vf_expanders V); e = cp_elders q ! l in
      if as_usize k = 0 then Inl Pois_Panic
      else bindR (nthR (cm_roots buf)
          (((as_usize (layer - k sdiv 2) div as_usize k + 2 * (l - 1)) * IDLE_SET_LEN + file_slot c0) mod 2 ^ 64)) (\<lambda>root.
        bindR (guardR (verify_path_proof E root (mp_label e) (mht_path e)) (Pois_Bail ''verify elder node path proof error'')) (\<lambda>_.
        Inr (add_slice (front_size + HASH_SIZE) label (mp_label e)))))"

definition commit_relatives :: "pois_env \<Rightarrow> verifier \<Rightarrow> commits \<Rightarrow> int \<Rightarrow> int \<Rightarrow> nat \<Rightarrow> commit_proof \<Rightarrow> bytes \<Rightarrow> pois_error + bytes" where
  "commit_relatives E V buf c0 layer front_size q label =
     (let k = ex_k (vf_expanders V); logical_layer = (if layer > k then k else layer) in
      bindR (foldR (commit_parent E V buf c0 layer logical_layer front_size) (cp_parents q) label) (\<lambda>label1.
      foldR (commit_elder E V buf c0 layer front_size q) (if layer \<ge> k then [1..<length (cp_elders q)] else []) label1))"

text \<open>The label of the node: with the label of the neighbour in the file before, where there is one.\<close>

definition commit_hash :: "pois_env \<Rightarrow> commits \<Rightarrow> int \<Rightarrow> int \<Rightarrow> commit_proof \<Rightarrow> bytes \<Rightarrow> pois_error + bytes" where
  "commit_hash E buf c0 layer q label =
     (let off = (c0 - 1) smod int IDLE_SET_LEN in
      if off + layer > 0
      then bindR (nthR (cp_elders q) 0) (\<lambda>e.
        bindR (nthR (cm_roots buf) (as_usize (layer * int IDLE_SET_LEN + off - 1))) (\<lambda>root.
        bindR (guardR (verify_path_proof E root (mp_label e) (mht_path e)) (Pois_Bail ''verify neighbor node path proof error'')) (\<lambda>_.
        Inr (get_hash E (label @ mp_label e)))))
      else Inr (get_hash E label))"

definition commit_node :: "pois_env \<Rightarrow> verifier \<Rightarrow> bytes \<Rightarrow> commits \<Rightarrow> int list \<Rightarrow> commit_proof list \<Rightarrow> nat \<Rightarrow> bytes \<Rightarrow> pois_error + bytes" where
  "commit_node E V pid buf chal row j label =
     (let ex = vf_expanders V; cs = as_usize (vf_cluster_size V); front_size = 4 + length pid + 8 + 8 in
      bindR (nthR chal 0) (\<lambda>c0.
      bindR (nthR chal j) (\<lambda>cj.
      bindR (if j \<le> cs + 1 then Inr (as_i32 cj)
             else bindR (nthR row (j - 2)) (\<lambda>q. bindR (nthR (cp_parents q) (as_usize cj)) (\<lambda>p. Inr (mp_index p)))) (\<lambda>idx.
      bindR (if j \<le> cs then Inr (ex_k ex + int j - 1) else divR idx (ex_n ex)) (\<lambda>layer.
      bindR (layer_root buf layer c0) (\<lambda>root.
      bindR (nthR row (j - 1)) (\<lambda>q.
      bindR (guardR (verify_path_proof E root (mp_label (cp_node q)) (mht_path (cp_node q))) (Pois_Bail ''verify path proof error'')) (\<lambda>_.
      let fidx = (if layer \<ge> ex_k ex then (c0 - 1) * vf_cluster_size V + int j else 0);
          label0 = copy_data label [pid, get_bytes 8 c0, get_bytes 8 fidx, get_bytes 4 idx, replicate (2 * HASH_SIZE) 0] in
      bindR (if layer > 0 then commit_relatives E V buf c0 layer front_size q label0 else Inr label0) (\<lambda>label1.
      bindR (commit_hash E buf c0 layer q label1) (\<lambda>h.
      bindR (guardR (h = mp_label (cp_node q)) (Pois_Bail ''verify label error'')) (\<lambda>_.
      Inr label1)))))))))))"

definition commit_index :: "int list \<Rightarrow> commit_proof list \<Rightarrow> nat \<Rightarrow> pois_error + unit" where
  "commit_index chal row j =
     bindR (nthR chal j) (\<lambda>cj. bindR (nthR row (j - 1)) (\<lambda>q.
     guardR (cj = mp_index (cp_node q)) (Pois_Bail ''bad expanders node index'')))"

definition commit_file :: "pois_env \<Rightarrow> verifier \<Rightarrow> bytes \<Rightarrow> commits \<Rightarrow> int list \<times> commit_proof list \<Rightarrow> bytes \<Rightarrow> pois_error + bytes" where
  "commit_file E V pid buf cr label = (case cr of (chal, row) \<Rightarrow>
     bindR (forR [1..<as_usize (vf_cluster_size V) + 1] (commit_index chal row)) (\<lambda>_.
     foldR (commit_node E V pid buf chal row) [1..<length chal] label))"

text \<open>The test of the graph: the parents of some randomly chosen nodes (\<open>draw1\<close>, \<open>draw2\<close>) are computed again.\<close>

definition dependency_pick :: "pois_env \<Rightarrow> verifier \<Rightarrow> bytes \<Rightarrow> int list list \<Rightarrow> commit_proof list list \<Rightarrow> (nat \<Rightarrow> nat) \<Rightarrow> (nat \<Rightarrow> nat)
    \<Rightarrow> nat \<Rightarrow> pois_error + unit" where
  "dependency_pick E V pid chals proofs draw1 draw2 t =
     (let ex = vf_expanders V; r1 = draw1 t mod length proofs; row = proofs ! r1; r2 = draw2 t mod length row in
      if proofs = [] \<or> row = [] then Inl Pois_Panic
      else let proof = row ! r2; nd = node_new (mp_index (cp_node proof)) in
        bindR (divR (mp_index (cp_node proof)) (ex_n ex)) (\<lambda>layer.
        bindR (nthR chals r1) (\<lambda>chal.
        bindR (nthR chal 0) (\<lambda>c0.
        bindR (calc_parents E ex nd pid c0 (if r2 < as_usize (vf_cluster_size V) then ex_k ex + int r2 else layer)) (\<lambda>nd'.
        forR [0..<length (gn_parents nd')] (\<lambda>j. bindR (nthR (cp_parents proof) j) (\<lambda>p.
          guardR (gn_parents nd' ! j = mp_index p) (Pois_Bail ''node relationship mismatch''))))))))"

definition verify_node_dependencies :: "pois_env \<Rightarrow> (nat \<Rightarrow> nat) \<Rightarrow> (nat \<Rightarrow> nat) \<Rightarrow> bytes \<Rightarrow> int list list \<Rightarrow> commit_proof list list \<Rightarrow> nat
    \<Rightarrow> verifier \<Rightarrow> pois_error + unit" where
  "verify_node_dependencies E draw1 draw2 pid chals proofs pick V =
     bindR (forR chals (\<lambda>chal. bindR (nthR chal 0) (\<lambda>_. Inr ()))) (\<lambda>_.
     forR [0..<min pick (length proofs)] (dependency_pick E V pid chals proofs draw1 draw2))"

definition verify_commit_proofs :: "pois_env \<Rightarrow> (nat \<Rightarrow> nat) \<Rightarrow> (nat \<Rightarrow> nat) \<Rightarrow> bytes \<Rightarrow> int list list \<Rightarrow> commit_proof list list
    \<Rightarrow> verifier \<Rightarrow> pois_error + unit" where
  "verify_commit_proofs E draw1 draw2 pid chals proofs V = (case vf_nodes V pid of
     None \<Rightarrow> Inl (Pois_Bail ''prover node not found.'')
   | Some nd \<Rightarrow>
       let buf = pn_commit_buf nd in
       if length chals \<noteq> length proofs \<or> length chals \<noteq> IDLE_SET_LEN
          \<or> length (cm_file_indexs buf) \<noteq> as_usize (CLUSTER_SIZE * int IDLE_SET_LEN)
          \<or> length (cm_roots buf) \<noteq> as_usize ((ex_k (vf_expanders V) + CLUSTER_SIZE) * int IDLE_SET_LEN + 1)
       then Inl (Pois_Bail ''bad proof data'')
       else bindR (verify_node_dependencies E draw1 draw2 pid chals proofs PICK V) (\<lambda>_.
         bindR (foldR (commit_file E V pid buf) (zip chals proofs) (replicate (4 + length pid + 8 + 8 + 2 * HASH_SIZE) 0)) (\<lambda>_.
         Inr ())))"

section \<open>Accumulator, space and deletion proofs\<close>

definition acc_file :: "pois_env \<Rightarrow> verifier \<Rightarrow> bytes \<Rightarrow> prover_node \<Rightarrow> acc_proof \<Rightarrow> int list list \<Rightarrow> nat \<times> nat \<Rightarrow> bytes \<Rightarrow> pois_error + bytes" where
  "acc_file E V pid nd proof chals ij label = (case ij of (i, j) \<Rightarrow>
     let cs = as_usize (vf_cluster_size V) in
     bindR (nthR (chals ! i) 0) (\<lambda>v0.
     bindR (nthR (ap_indexs proof) (i * cs + j)) (\<lambda>index.
     let expected = (as_usize (v0 - 1) * cs + j + 1) mod 2 ^ 64 in
     bindR (if as_usize index \<noteq> expected then Inl (Pois_Bail ''bad file index'')
            else bindR (theR (pn_record nd)) (\<lambda>rec.
              guardR ((as_usize (pr_rear rec) + i * cs + j + 1) mod 2 ^ 64 = expected) (Pois_Bail ''bad file index''))) (\<lambda>_.
     bindR (nthR (cm_roots (pn_commit_buf nd)) ((as_usize (ex_k (vf_expanders V)) + j) * IDLE_SET_LEN + i)) (\<lambda>root.
     let label' = copy_data label [pid, get_bytes 8 ((v0 - 1) * vf_cluster_size V + int j + 1), root] in
     bindR (nthR (ap_labels proof) (i * cs + j)) (\<lambda>lab.
     bindR (guardR (get_hash E label' = lab) (Pois_Bail ''verify file label error'')) (\<lambda>_.
     Inr label')))))))"

definition verify_acc_proof :: "pois_env \<Rightarrow> bytes \<Rightarrow> int list list \<Rightarrow> acc_proof \<Rightarrow> verifier \<Rightarrow> (pois_error + unit) \<times> verifier" where
  "verify_acc_proof E pid chals proof V = (case vf_nodes V pid of
     None \<Rightarrow> (Inl (Pois_Bail ''prover node not found''), V)
   | Some nd \<Rightarrow>
       let cs = as_usize (vf_cluster_size V) in
       case (if cs = 0 then Inl Pois_Panic
             else bindR (guardR (length chals = length (ap_indexs proof) div cs \<and> length chals = IDLE_SET_LEN) (Pois_Bail ''bad proof data'')) (\<lambda>_.
               bindR (foldR (acc_file E V pid nd proof chals) (List.product [0..<length chals] [0..<cs])
                 (replicate (length pid + 8 + DEFAULT_HASH_SIZE) 0)) (\<lambda>_.
               bindR (theR (pn_record nd)) (\<lambda>rec.
               bindR (verify_insert_update E (pr_key rec) (ap_wit_chains proof) (ap_labels proof) (ap_acc_path proof) (pr_acc rec)) (\<lambda>ok.
               bindR (guardR ok (Pois_Bail ''verify muti-level acc error'')) (\<lambda>_.
               bindR (nthR (ap_acc_path proof) (length (ap_acc_path proof) - 1)) (\<lambda>acc'.
               Inr (rec\<lparr>pr_acc := acc', pr_rear := pr_rear rec + int (length chals) * vf_cluster_size V\<rparr>)))))))) of
         Inl e \<Rightarrow> (Inl e, V)
       | Inr rec \<Rightarrow> (Inr (), put_node pid (nd\<lparr>pn_record := Some rec, pn_commit_buf := no_commits\<rparr>) V))"

definition space_node :: "pois_env \<Rightarrow> space_proof \<Rightarrow> nat \<Rightarrow> nat \<times> int \<Rightarrow> pois_error + unit" where
  "space_node E proof i jv = (case jv of (j, v) \<Rightarrow>
     bindR (nthR (sp_proofs proof) i) (\<lambda>row.
     bindR (nthR row j) (\<lambda>q.
     bindR (guardR (v = mp_index q) (Pois_Bail ''bad file index'')) (\<lambda>_.
     bindR (guardR (check_index_path v (mp_locs q)) (Pois_Bail ''verify index path error'')) (\<lambda>_.
     guardR (verify_path_proof E (sp_roots proof ! i) (mp_label q) (mht_path q)) (Pois_Bail ''verify path proof error''))))))"

definition space_file :: "pois_env \<Rightarrow> prover_node \<Rightarrow> int list \<Rightarrow> space_proof \<Rightarrow> nat \<Rightarrow> bytes \<Rightarrow> pois_error + bytes" where
  "space_file E nd chals proof i label =
     bindR (forR (zip [0..<length chals] chals) (space_node E proof i)) (\<lambda>_.
     let label' = copy_data label [pn_id nd, get_bytes 8 (sp_left proof + int i), sp_roots proof ! i] in
     bindR (nthR (sp_wit_chains proof) i) (\<lambda>w.
     bindR (guardR (get_hash E label' = wn_elem w) (Pois_Bail ''verify file label error'')) (\<lambda>_.
     Inr label')))"

definition verify_space :: "pois_env \<Rightarrow> (nat \<Rightarrow> nat) \<Rightarrow> prover_node \<Rightarrow> int list \<Rightarrow> space_proof \<Rightarrow> pois_error + unit" where
  "verify_space E draw nd chals proof =
     (if chals = [] then Inl (Pois_Bail ''bad proof data'')
      else bindR (theR (pn_record nd)) (\<lambda>rec.
        bindR (guardR (pr_front rec < sp_left proof \<and> sp_right proof \<le> pr_rear rec + 1) (Pois_Bail ''bad proof data'')) (\<lambda>_.
        bindR (foldR (space_file E nd chals proof) [0..<length (sp_roots proof)]
          (replicate (length (pn_id nd) + 8 + DEFAULT_HASH_SIZE) 0)) (\<lambda>_.
        bindR (verify_mutilevel_acc_for_batch E draw (pr_key rec) (sp_left proof) (sp_wit_chains proof) (pr_acc rec)) (\<lambda>ok.
        guardR ok (Pois_Bail ''verify acc proof error''))))))"

definition deletion_label :: "pois_env \<Rightarrow> bytes \<Rightarrow> int \<Rightarrow> nat \<Rightarrow> bytes \<Rightarrow> bytes" where
  "deletion_label E pid front i root =
     get_hash E (copy_data (replicate (length pid + 8 + DEFAULT_HASH_SIZE) 0) [pid, get_bytes 8 (front + int i + 1), root])"

definition deletion_labels :: "pois_env \<Rightarrow> bytes \<Rightarrow> int \<Rightarrow> bytes list \<Rightarrow> bytes list" where
  "deletion_labels E pid front roots = map (\<lambda>(i, root). deletion_label E pid front i root) (zip [0..<length roots] roots)"

text \<open>As written, the proof is refused when the check of the accumulators answers yes.\<close>

definition verify_deletion :: "pois_env \<Rightarrow> bytes \<Rightarrow> deletion_proof \<Rightarrow> verifier \<Rightarrow> (pois_error + unit) \<times> verifier" where
  "verify_deletion E pid proof V = (case vf_nodes V pid of
     None \<Rightarrow> (Inl (Pois_Bail ''verify deletion proofs error: prover node not found''), V)
   | Some nd \<Rightarrow> (case pn_record nd of
       None \<Rightarrow> (Inl Pois_Panic, V)
     | Some rec \<Rightarrow>
         if length (dp_roots proof) > as_usize (pr_rear rec - pr_front rec)
         then (Inl (Pois_Bail ''file number out of range''), V)
         else (case verify_delete_update E (pr_key rec) (dp_wit_chain proof)
                 (deletion_labels E pid (pr_front rec) (dp_roots proof)) (dp_acc_path proof) (pr_acc rec) of
             Inl e \<Rightarrow> (Inl e, V)
           | Inr True \<Rightarrow> (Inl (Pois_Bail ''verify acc proof error''), V)
           | Inr False \<Rightarrow> (case nthR (dp_acc_path proof) (length (dp_acc_path proof) - 1) of
               Inl e \<Rightarrow> (Inl e, V)
             | Inr acc' \<Rightarrow>
                 (Inr (), put_node pid (nd\<lparr>pn_record := Some (rec\<lparr>pr_front := pr_front rec + int (length (dp_roots proof)),
                                                                   pr_acc := acc'\<rparr>)\<rparr>) V)))))"

section \<open>The challenge of the whole space\<close>

text \<open>The handle is a closure over a counter and the hash input: its state is the record.\<close>

record chal_handle =
  ch_source :: bytes
  ch_front_size :: nat
  ch_front :: int
  ch_rear :: int
  ch_start :: int
  ch_count :: int
  ch_total :: int

definition new_challenge_handle :: "bytes \<Rightarrow> bytes \<Rightarrow> int list \<Rightarrow> int \<Rightarrow> int \<Rightarrow> int \<Rightarrow> chal_handle option" where
  "new_challenge_handle miner_id tee_id chal front rear proof_num =
     (let bytes_chal = get_bytes_slice 8 chal;
          total = (rear - front + front smod 256 - 1) sdiv (256 * 16) + 1 in
      if total > proof_num then None
      else Some \<lparr>ch_source = miner_id @ tee_id @ bytes_chal @ replicate 32 0,
                 ch_front_size = length miner_id + length tee_id + length bytes_chal,
                 ch_front = front, ch_rear = rear, ch_start = front sdiv 256, ch_count = 0, ch_total = total\<rparr>)"

definition challenge_call :: "pois_env \<Rightarrow> bytes \<Rightarrow> int \<Rightarrow> int \<Rightarrow> chal_handle \<Rightarrow> pois_error + bool \<times> chal_handle" where
  "challenge_call E prior_hash left right h =
     (if prior_hash \<noteq> [] \<and> length prior_hash \<noteq> length (ch_source h) - ch_front_size h then Inl Pois_Panic
      else let source = (if prior_hash = [] then ch_source h else take (ch_front_size h) (ch_source h) @ prior_hash);
               base = ch_start h + ch_count h * 16;
               mx = (if ch_count h = ch_total h - 1 then ch_rear h sdiv 256 - base else 15) in
        bindR (bytes_to_node_value (get_hash E source) mx) (\<lambda>v.
        let l0 = (base + v) * 256 + 1;
            r = ((l0 - 1) sdiv 256 + 1) * 256 + 1;
            l = (if l0 < ch_front h then ch_front h + 1 else l0) in
        Inr (l = left \<and> r = right, h\<lparr>ch_source := source, ch_count := ch_count h + 1\<rparr>)))"

section \<open>What the verifier's answers mean\<close>

text \<open>A node built by the code has no room for parents, so that none are ever computed.\<close>

lemma calc_parents_nothing:
  assumes "0 \<le> ex_d ex" "ex_d ex + 1 < 2 ^ 64"
  shows "calc_parents E ex (node_new idx) pid c0 layer = Inr (node_new idx)"
  using assms by (simp add: calc_parents_def node_new_def as_usize_def)

lemma dependency_pick_ok:
  assumes "0 \<le> ex_d (vf_expanders V)" "ex_d (vf_expanders V) + 1 < 2 ^ 64" "ex_n (vf_expanders V) \<noteq> 0"
    and "length chals = length proofs" "proofs \<noteq> []" "[] \<notin> set chals" "[] \<notin> set proofs"
  shows "dependency_pick E V pid chals proofs draw1 draw2 t = Inr ()"
proof -
  let ?r = "draw1 t mod length proofs"
  have r: "?r < length proofs" using assms(5) by simp
  then have "proofs ! ?r \<noteq> []" "chals ! ?r \<noteq> []" using assms(4,6,7) by (metis nth_mem)+
  then show ?thesis
    using assms r by (simp add: dependency_pick_def divR_def nthR_def calc_parents_nothing Let_def) (simp add: node_new_def)
qed

text \<open>C32. The test of the graph structure in a commitment proof accepts every proof: whatever parents the prover names for its
  nodes, and whichever nodes are drawn, \<open>verify_node_dependencies\<close> returns without an error (the node it fills has no
  capacity for parents, so that no parent is computed and none is compared).\<close>

theorem dependencies_never_checked:
  assumes "0 \<le> ex_d (vf_expanders V)" "ex_d (vf_expanders V) + 1 < 2 ^ 64" "ex_n (vf_expanders V) \<noteq> 0"
    and "length chals = length proofs" "[] \<notin> set chals" "[] \<notin> set proofs"
  shows "verify_node_dependencies E draw1 draw2 pid chals proofs pick V = Inr ()"
proof -
  have "forR chals (\<lambda>chal. bindR (nthR chal 0) (\<lambda>_. Inr ())) = Inr ()"
    using assms(5) by (auto simp: forR_Inr bindR_Inr)
  moreover have "forR [0..<min pick (length proofs)] (dependency_pick E V pid chals proofs draw1 draw2) = Inr ()"
    unfolding forR_Inr using dependency_pick_ok [OF assms(1-4) _ assms(5,6)] by fastforce
  ultimately show ?thesis by (simp add: verify_node_dependencies_def)
qed

definition toy_mht :: "int \<Rightarrow> mht_proof" where
  "toy_mht i = \<lparr>mp_index = i, mp_label = [], mp_paths = [], mp_locs = []\<rparr>"

theorem dependencies_never_checked_witness:
  "verify_node_dependencies toy_env (\<lambda>t. t) (\<lambda>t. t) [1] [[1, 70]]
     [[\<lparr>cp_node = toy_mht 70, cp_parents = [toy_mht 5, toy_mht 5], cp_elders = []\<rparr>]] PICK (verifier_new 8 64 64) = Inr ()"
  by (rule dependencies_never_checked) (simp_all add: verifier_new_def expanders_new_def)

text \<open>The node of a prover after a deletion.\<close>

definition deleted_node :: "prover_node \<Rightarrow> pois_record \<Rightarrow> deletion_proof \<Rightarrow> prover_node" where
  "deleted_node nd rec proof =
     nd\<lparr>pn_record := Some (rec\<lparr>pr_front := pr_front rec + int (length (dp_roots proof)), pr_acc := last (dp_acc_path proof)\<rparr>)\<rparr>"

lemma verify_deletion_cases:
  assumes "vf_nodes V pid = Some nd" "pn_record nd = Some rec"
  shows "verify_deletion E pid proof V = (Inr (), V') \<longleftrightarrow>
    length (dp_roots proof) \<le> as_usize (pr_rear rec - pr_front rec)
    \<and> verify_delete_update E (pr_key rec) (dp_wit_chain proof) (deletion_labels E pid (pr_front rec) (dp_roots proof))
        (dp_acc_path proof) (pr_acc rec) = Inr False
    \<and> dp_acc_path proof \<noteq> [] \<and> V' = put_node pid (deleted_node nd rec proof) V"
proof (cases "dp_acc_path proof = []")
  case True
  then show ?thesis using assms by (auto simp: verify_deletion_def nthR_def split: sum.splits bool.splits)
next
  case False
  then show ?thesis
    using assms by (auto simp: verify_deletion_def nthR_def last_conv_nth deleted_node_def split: sum.splits bool.splits)
qed

text \<open>C23. The decision on a deletion proof is inverted. A deletion of files in the miner's range is accepted exactly when the check of
  the accumulators answers no; in particular every byte string \<open>x\<close>, sent as the only entry of the accumulator path, is
  accepted and becomes the miner's accumulator, with any witness chain.\<close>

theorem deletion_takes_failed_proofs:
  assumes node: "vf_nodes V pid = Some nd" "pn_record nd = Some rec"
    and range: "length (dp_roots proof) \<le> as_usize (pr_rear rec - pr_front rec)"
  shows "((\<exists>V'. verify_deletion E pid proof V = (Inr (), V')) \<longleftrightarrow>
      dp_acc_path proof \<noteq> [] \<and> verify_delete_update E (pr_key rec) (dp_wit_chain proof)
        (deletion_labels E pid (pr_front rec) (dp_roots proof)) (dp_acc_path proof) (pr_acc rec) = Inr False)
    \<and> verify_deletion E pid (proof\<lparr>dp_acc_path := [x]\<rparr>) V
        = (Inr (), put_node pid (deleted_node nd rec (proof\<lparr>dp_acc_path := [x]\<rparr>)) V)"
  using verify_deletion_cases [OF node] range by (auto simp: verify_delete_update_def DEFAULT_LEVEL_def)

theorem deletion_takes_failed_proofs_witness:
  "verify_deletion toy_env [1] (\<lparr>dp_roots = [[5]], dp_wit_chain = WitnessNode [] [] None, dp_acc_path = [[7, 7]]\<rparr>)
     (register_prover_node [1] toy_key [4] 0 256 (verifier_new 8 64 64))
   = (Inr (), put_node [1] (deleted_node (prover_node_new [1] toy_key [4] 0 256)
        \<lparr>pr_key = toy_key, pr_acc = to_bytes_be (from_bytes_be [4]), pr_front = 0, pr_rear = 256\<rparr>
        \<lparr>dp_roots = [[5]], dp_wit_chain = WitnessNode [] [] None, dp_acc_path = [[7, 7]]\<rparr>)
      (register_prover_node [1] toy_key [4] 0 256 (verifier_new 8 64 64)))"
  using deletion_takes_failed_proofs [of "register_prover_node [1] toy_key [4] 0 256 (verifier_new 8 64 64)" "[1]"
      "prover_node_new [1] toy_key [4] 0 256" "\<lparr>pr_key = toy_key, pr_acc = to_bytes_be (from_bytes_be [4]), pr_front = 0, pr_rear = 256\<rparr>"
      "\<lparr>dp_roots = [[5]], dp_wit_chain = WitnessNode [] [] None, dp_acc_path = []\<rparr>" toy_env "[7, 7]"]
  by (simp add: register_prover_node_def put_node_def prover_node_new_def as_usize_def)

end
