(* ===== verification/Pois_Server.thy ===== *)
theory Pois_Server
  imports Pois_Verifier
begin

text \<open>
  The two services of the trusted worker for idle space (\<open>crates/cestory/src/pois.rs\<close>): the certifier, which accepts
  commitments and deletions and signs the miner's new state, and the verifier, which checks the proofs of a challenge.

  Parameters (\<open>ps_env\<close>): the signature schemes, the encoding of the protocol messages by \<open>prost\<close>, the storage
  of the chain and the generation of keys. The messages keep their optional fields; a panic of the code is the status
  \<open>Panicked\<close>.
\<close>

datatype status =
    Status_Internal string
  | Status_Invalid_Argument string
  | Status_Unauthenticated string
  | Status_Data_Loss string
  | Panicked

section \<open>Messages\<close>

record pois_info =
  pi_acc :: bytes
  pi_front :: int
  pi_rear :: int
  pi_key_n :: bytes
  pi_key_g :: bytes
  pi_status_tee_sign :: bytes

record pb_commit_proof =
  pc_node :: "mht_proof option"
  pc_parents :: "mht_proof list"
  pc_elders :: "mht_proof list"

record gen_chall_request =
  gr_miner_id :: bytes
  gr_commit :: "commits option"
  gr_miner_sign :: bytes

record commit_request =
  cr_commit_proof_group :: "pb_commit_proof list list option"
  cr_acc_proof :: "acc_proof option"
  cr_miner_id :: bytes
  cr_pois_info :: "pois_info option"
  cr_miner_sign :: bytes

record deletion_request =
  dr_roots :: "bytes list"
  dr_wit_chain :: "witness_node option"
  dr_acc_path :: "bytes list"
  dr_miner_id :: bytes
  dr_pois_info :: "pois_info option"
  dr_miner_sign :: bytes

record status_response =
  sr_acc :: bytes
  sr_front :: int
  sr_rear :: int
  sr_status_tee_sign :: bytes
  sr_signature_with_tee_controller :: bytes

record space_request =
  qr_space_chals :: "int list"
  qr_miner_id :: bytes
  qr_pois_info :: "pois_info option"
  qr_proof :: "space_proof option"
  qr_sig :: bytes

record proof_hash_lr =
  ph_space_proof_hash :: bytes
  ph_left :: int
  ph_right :: int
  ph_tee_id :: bytes

record pb_blocks_proof =
  pb_hash_lr :: "proof_hash_lr option"
  pb_signature :: bytes

record total_request =
  tr_miner_id :: bytes
  tr_proof_list :: "pb_blocks_proof list"
  tr_front :: int
  tr_rear :: int
  tr_acc :: bytes
  tr_space_chals :: "int list"

record total_response =
  ts_miner_id :: bytes
  ts_idle_result :: bool
  ts_signature :: bytes

record ps_env =
  ps_pois :: pois_env
  ps_sr25519_verify :: "bytes \<Rightarrow> bytes \<Rightarrow> bytes \<Rightarrow> bool"
  ps_master_sign :: "bytes \<Rightarrow> bytes"
  ps_master_verify :: "bytes \<Rightarrow> bytes \<Rightarrow> bool"
  ps_podr2_sign :: "bytes \<Rightarrow> bytes option"
  ps_podr2_verify :: "bytes \<Rightarrow> bytes \<Rightarrow> bool"
  ps_podr2_pbk :: bytes
  ps_identity_key :: bytes
  ps_encode_commit :: "gen_chall_request \<Rightarrow> bytes"
  ps_encode_challenge :: "int list list \<Rightarrow> bytes"
  ps_encode_proofs :: "commit_request \<Rightarrow> bytes"
  ps_encode_deletion :: "deletion_request \<Rightarrow> bytes"
  ps_encode_space :: "space_proof \<Rightarrow> bytes"
  ps_encode_hash_lr :: "proof_hash_lr \<Rightarrow> bytes"
  ps_miner_state :: "bytes \<Rightarrow> string option"
  ps_keygen :: rsa_key

record certifier =
  ct_verifier :: verifier
  ct_chals :: "bytes \<Rightarrow> int list list option"

type_synonym 'a pois_call = "certifier \<Rightarrow> (status + 'a) \<times> certifier"

definition certifier_new :: "int \<Rightarrow> int \<Rightarrow> int \<Rightarrow> certifier" where
  "certifier_new k n d = \<lparr>ct_verifier = verifier_new k n d, ct_chals = (\<lambda>_. None)\<rparr>"

section \<open>Steps\<close>

definition on_verifier :: "(verifier \<Rightarrow> 'a \<times> verifier) \<Rightarrow> 'a pois_call" where
  "on_verifier f c = (case f (ct_verifier c) of (r, V) \<Rightarrow> (Inr r, c\<lparr>ct_verifier := V\<rparr>))"

text \<open>An error of the verifier becomes a status; a panic stays a panic.\<close>

definition mapped :: "(string \<Rightarrow> status) \<Rightarrow> pois_error + 'a \<Rightarrow> 's \<Rightarrow> (status + 'a) \<times> 's" where
  "mapped f r = (case r of Inl Pois_Panic \<Rightarrow> failM Panicked | Inl (Pois_Bail m) \<Rightarrow> failM (f m) | Inr x \<Rightarrow> retM x)"

definition get_ss58_address :: "bytes \<Rightarrow> 's \<Rightarrow> (status + unit) \<times> 's" where
  "get_ss58_address account = ensureM (length account = 32) (Status_Internal ''The length of raw account bytes must be 32'')"

definition verify_signature :: "ps_env \<Rightarrow> bytes \<Rightarrow> bytes \<Rightarrow> bytes \<Rightarrow> string + bool" where
  "verify_signature P spk sig raw =
     (if length spk \<noteq> 32 then Inl ''There is a problem with the format of public key''
      else if length sig \<noteq> 64 then Inl ''There is a problem with the format of signature''
      else Inr (ps_sr25519_verify P spk sig raw))"

text \<open>The test of the miner's signature in the certifier: as written, a signature that verifies is refused.\<close>

definition certifier_sign_check :: "ps_env \<Rightarrow> bytes \<Rightarrow> bytes \<Rightarrow> bytes \<Rightarrow> 's \<Rightarrow> (status + unit) \<times> 's" where
  "certifier_sign_check P miner_id sig h = (case verify_signature P miner_id sig h of
     Inl e \<Rightarrow> failM (Status_Internal (''Error check miner request signature fail:'' @ e))
   | Inr ok \<Rightarrow> if ok then failM (Status_Unauthenticated ''The miner request signature is incorrect!'') else retM ())"

definition sha256P :: "ps_env \<Rightarrow> bytes \<Rightarrow> bytes" where
  "sha256P P = pois_sha256 (ps_pois P)"

text \<open>The state of a miner as the worker signs it: 32 bytes of account, two 64-bit numbers, the key and the accumulator.\<close>

definition le_u64 :: "int \<Rightarrow> bytes" where
  "le_u64 v = rev (get_bytes 8 v)"

definition encode_pois_info :: "bytes \<Rightarrow> int \<Rightarrow> int \<Rightarrow> bytes \<Rightarrow> bytes \<Rightarrow> bytes \<Rightarrow> bytes" where
  "encode_pois_info miner_id front rear g n acc = miner_id @ le_u64 front @ le_u64 rear @ g @ n @ acc"

definition check_pois_sizes :: "string \<Rightarrow> bytes \<Rightarrow> bytes \<Rightarrow> bytes \<Rightarrow> bytes \<Rightarrow> 's \<Rightarrow> (status + unit) \<times> 's" where
  "check_pois_sizes acc_error miner_id g n acc =
     bindM (ensureM (length miner_id = 32) (Status_Invalid_Argument ''The length of miner_id should be 32!'')) (\<lambda>_.
     bindM (ensureM (length g = 256) (Status_Invalid_Argument ''The length of pois key g should be 256!'')) (\<lambda>_.
     bindM (ensureM (length n = 256) (Status_Invalid_Argument ''The length of pois key n should be 256!'')) (\<lambda>_.
     ensureM (length acc = 256) (Status_Invalid_Argument acc_error))))"

definition get_pois_status_and_signature :: "ps_env \<Rightarrow> bytes \<Rightarrow> int \<Rightarrow> int \<Rightarrow> bytes \<Rightarrow> bytes \<Rightarrow> bytes \<Rightarrow> 's \<Rightarrow> (status + status_response) \<times> 's" where
  "get_pois_status_and_signature P acc front rear key_n key_g miner_id =
     bindM (check_pois_sizes ''The length of acc should be 256!'' miner_id key_g key_n acc) (\<lambda>_.
     let encoded = encode_pois_info miner_id front rear key_g key_n acc in
     retM \<lparr>sr_acc = acc, sr_front = front, sr_rear = rear,
           sr_status_tee_sign = ps_master_sign P (sha256P P encoded),
           sr_signature_with_tee_controller = ps_master_sign P (sha256P P (encoded @ ps_identity_key P))\<rparr>)"

definition verify_pois_status_signature :: "ps_env \<Rightarrow> bytes \<Rightarrow> bytes \<Rightarrow> 's \<Rightarrow> (status + unit) \<times> 's" where
  "verify_pois_status_signature P encoded sig =
     bindM (ensureM (length sig = 64) (Status_Invalid_Argument ''signature length must be 64'')) (\<lambda>_.
     ensureM (ps_master_verify P sig (sha256P P encoded)) (Status_Unauthenticated ''The miner provided the wrong signature!''))"

definition check_pois_info :: "ps_env \<Rightarrow> bytes \<Rightarrow> pois_info \<Rightarrow> 's \<Rightarrow> (status + unit) \<times> 's" where
  "check_pois_info P miner_id info =
     bindM (check_pois_sizes ''The length of pois acc should be 256!'' miner_id (pi_key_g info) (pi_key_n info) (pi_acc info)) (\<lambda>_.
     verify_pois_status_signature P
       (encode_pois_info miner_id (pi_front info) (pi_rear info) (pi_key_g info) (pi_key_n info) (pi_acc info))
       (pi_status_tee_sign info))"

definition info_key :: "pois_info \<Rightarrow> rsa_key" where
  "info_key info = \<lparr>rk_n = from_bytes_be (pi_key_n info), rk_g = from_bytes_be (pi_key_g info)\<rparr>"

section \<open>The certifier\<close>

record new_key_response =
  nk_status :: status_response
  nk_key_n :: bytes
  nk_key_g :: bytes
  nk_miner_id :: bytes
  nk_podr2_pbk :: bytes

definition request_miner_get_new_key :: "ps_env \<Rightarrow> bytes \<Rightarrow> new_key_response pois_call" where
  "request_miner_get_new_key P miner_id =
     bindM (get_ss58_address miner_id) (\<lambda>_.
     bindM (ok_or (ps_miner_state P miner_id) (Status_Internal ''the miner not exists'')) (\<lambda>state.
     bindM (ensureM (state = ''not ready'') (Status_Invalid_Argument ''You have already registered the POIS key!'')) (\<lambda>_.
     let key_n = to_bytes_be (rk_n (ps_keygen P)); key_g = to_bytes_be (rk_g (ps_keygen P)) in
     bindM (get_pois_status_and_signature P key_g 0 0 key_n key_g miner_id) (\<lambda>st.
     retM \<lparr>nk_status = st, nk_key_n = key_n, nk_key_g = key_g, nk_miner_id = miner_id, nk_podr2_pbk = ps_podr2_pbk P\<rparr>))))"

definition logout_node :: "(string \<Rightarrow> status) \<Rightarrow> bytes \<Rightarrow> (bytes \<times> int \<times> int) pois_call" where
  "logout_node f miner_id = bindM (on_verifier (logout_prover_node miner_id)) (mapped f)"

definition request_miner_commit_gen_chall :: "ps_env \<Rightarrow> (nat \<Rightarrow> nat \<Rightarrow> nat) \<Rightarrow> gen_chall_request \<Rightarrow> (int list list \<times> bytes) pois_call" where
  "request_miner_commit_gen_chall P draw req =
     (let miner_id = gr_miner_id req in
      bindM (get_ss58_address miner_id) (\<lambda>_.
      bindM (certifier_sign_check P miner_id (gr_miner_sign req) (sha256P P (ps_encode_commit P (req\<lparr>gr_miner_sign := []\<rparr>)))) (\<lambda>_.
      bindM (ok_or (gr_commit req) (Status_Invalid_Argument ''Miner request data is invalid, loss parameter 'commit' '')) (\<lambda>cs.
      bindM (on_verifier (\<lambda>V. ((), register_prover_node_empty miner_id V))) (\<lambda>_.
      bindM (on_verifier (receive_commits (ps_pois P) miner_id cs)) (\<lambda>ok.
      if \<not> ok
      then bindM (logout_node Status_Invalid_Argument miner_id) (\<lambda>_.
        failM (Status_Invalid_Argument ''The commit submitted by the miner is wrong''))
      else bindM (getM (\<lambda>c. commit_challenges draw miner_id (ct_verifier c))) (\<lambda>r. case r of
          Inl Pois_Panic \<Rightarrow> failM Panicked
        | Inl (Pois_Bail m) \<Rightarrow> bindM (logout_node Status_Internal miner_id) (\<lambda>_. failM (Status_Internal m))
        | Inr chals \<Rightarrow>
            bindM (modM (\<lambda>c. c\<lparr>ct_chals := (ct_chals c)(miner_id \<mapsto> chals)\<rparr>)) (\<lambda>_.
            bindM (ok_or (ps_podr2_sign P (sha256P P (ps_encode_challenge P chals))) (Status_Internal ''Get TeeWorker fail:'')) (\<lambda>sig.
            retM (chals, sig))))))))))"

definition convert_to_commit_proof :: "pb_commit_proof \<Rightarrow> pois_error + commit_proof" where
  "convert_to_commit_proof pb =
     bindR (theR (pc_node pb)) (\<lambda>nd. Inr \<lparr>cp_node = nd, cp_parents = pc_parents pb, cp_elders = pc_elders pb\<rparr>)"

fun convert_row :: "pb_commit_proof list \<Rightarrow> pois_error + commit_proof list" where
  "convert_row [] = Inr []"
| "convert_row (pb # pbs) =
     bindR (convert_to_commit_proof pb) (\<lambda>cp.
     if cp_elders cp = [] then Inl (Pois_Bail ''loss parameter 'elders' in 'CommitProof' '')
     else if cp_parents cp = [] then Inl (Pois_Bail ''loss parameter 'parents' in 'CommitProof' '')
     else bindR (convert_row pbs) (\<lambda>cps. Inr (cp # cps)))"

fun convert_rows :: "pb_commit_proof list list \<Rightarrow> pois_error + commit_proof list list" where
  "convert_rows [] = Inr []"
| "convert_rows (row # rows) = bindR (convert_row row) (\<lambda>r. bindR (convert_rows rows) (\<lambda>rs. Inr (r # rs)))"

definition request_verify_commit_proof :: "ps_env \<Rightarrow> (nat \<Rightarrow> nat) \<Rightarrow> (nat \<Rightarrow> nat) \<Rightarrow> commit_request \<Rightarrow> status_response pois_call" where
  "request_verify_commit_proof P draw1 draw2 req =
     (let miner_id = cr_miner_id req in
      bindM (get_ss58_address miner_id) (\<lambda>_.
      bindM (getM (\<lambda>c. is_logout miner_id (ct_verifier c))) (\<lambda>out.
      bindM (ensureM (\<not> out) (Status_Unauthenticated ''This tee never know the miner'')) (\<lambda>_.
      bindM (certifier_sign_check P miner_id (cr_miner_sign req) (sha256P P (ps_encode_proofs P (req\<lparr>cr_miner_sign := []\<rparr>)))) (\<lambda>_.
      bindM (ok_or (cr_pois_info req) (Status_Invalid_Argument ''loss parameter 'pois_info' '')) (\<lambda>info.
      bindM (check_pois_info P miner_id info) (\<lambda>_.
      bindM (ok_or (cr_commit_proof_group req) (Status_Invalid_Argument ''loss parameter 'commit_proof_group' '')) (\<lambda>group.
      bindM (mapped Status_Invalid_Argument (convert_rows group)) (\<lambda>proofs.
      bindM (getM (\<lambda>c. update_prover_node_force miner_id (info_key info) (pi_acc info) (pi_front info) (pi_rear info) (ct_verifier c))) (\<lambda>r.
      bindM (mapped Status_Internal r) (\<lambda>V.
      bindM (modM (\<lambda>c. c\<lparr>ct_verifier := V\<rparr>)) (\<lambda>_.
      bindM (getM (\<lambda>c. ct_chals c miner_id)) (\<lambda>found.
      bindM (ok_or found (Status_Data_Loss ''This miner does not have a corresponding commit challenge'')) (\<lambda>chals.
      bindM (modM (\<lambda>c. c\<lparr>ct_chals := (ct_chals c)(miner_id := None)\<rparr>)) (\<lambda>_.
      bindM (getM (\<lambda>c. verify_commit_proofs (ps_pois P) draw1 draw2 miner_id chals proofs (ct_verifier c))) (\<lambda>r.
      bindM (mapped Status_Invalid_Argument r) (\<lambda>_.
      bindM (ok_or (cr_acc_proof req) (Status_Invalid_Argument ''loss parameter 'acc_proof' '')) (\<lambda>proof.
      bindM (on_verifier (verify_acc_proof (ps_pois P) miner_id chals proof)) (\<lambda>r.
      bindM (mapped Status_Invalid_Argument r) (\<lambda>_.
      bindM (logout_node Status_Invalid_Argument miner_id) (\<lambda>(acc, front, rear).
      get_pois_status_and_signature P acc front rear (pi_key_n info) (pi_key_g info) miner_id)))))))))))))))))))))"

definition convert_to_deletion_proof :: "deletion_request \<Rightarrow> pois_error + deletion_proof" where
  "convert_to_deletion_proof req =
     bindR (theR (dr_wit_chain req)) (\<lambda>w. Inr \<lparr>dp_roots = dr_roots req, dp_wit_chain = w, dp_acc_path = dr_acc_path req\<rparr>)"

definition request_verify_deletion_proof :: "ps_env \<Rightarrow> deletion_request \<Rightarrow> status_response pois_call" where
  "request_verify_deletion_proof P req =
     (let miner_id = dr_miner_id req in
      bindM (get_ss58_address miner_id) (\<lambda>_.
      bindM (certifier_sign_check P miner_id (dr_miner_sign req) (sha256P P (ps_encode_deletion P (req\<lparr>dr_miner_sign := []\<rparr>)))) (\<lambda>_.
      bindM (mapped Status_Internal (convert_to_deletion_proof req)) (\<lambda>proof.
      bindM (ok_or (dr_pois_info req) (Status_Invalid_Argument ''Miner send invalid parameter,loss 'pois_info' '')) (\<lambda>info.
      bindM (check_pois_info P miner_id info) (\<lambda>_.
      bindM (on_verifier (\<lambda>V. ((), register_prover_node miner_id (info_key info) (pi_acc info) (pi_front info) (pi_rear info) V))) (\<lambda>_.
      bindM (on_verifier (verify_deletion (ps_pois P) miner_id proof)) (\<lambda>r.
      bindM (mapped Status_Invalid_Argument r) (\<lambda>_.
      bindM (logout_node Status_Invalid_Argument miner_id) (\<lambda>(acc, front, rear).
      get_pois_status_and_signature P acc front rear (pi_key_n info) (pi_key_g info) miner_id))))))))))"

section \<open>The verifier\<close>

text \<open>The compact length of a byte vector shorter than 64, as in the encoding of the signed verdict.\<close>

definition compact_len :: "nat \<Rightarrow> bytes" where
  "compact_len n = [4 * n]"

definition request_space_proof_verify_single_block :: "ps_env \<Rightarrow> (nat \<Rightarrow> nat) \<Rightarrow> space_request \<Rightarrow> status + bytes" where
  "request_space_proof_verify_single_block P draw req = fst (
     bindM (ok_or (qr_pois_info req) (Status_Invalid_Argument ''loss parameter 'pois_info' '')) (\<lambda>info.
     bindM (ok_or (qr_proof req) (Status_Invalid_Argument ''Error space proof missing proof'')) (\<lambda>proof.
     bindM (get_ss58_address (qr_miner_id req)) (\<lambda>_.
     let h = sha256P P (ps_encode_space P proof) in
     bindM (case verify_signature P (qr_miner_id req) (qr_sig req) h of
         Inl e \<Rightarrow> failM (Status_Internal (''Error happened when verify space proof hash :'' @ e))
       | Inr ok \<Rightarrow> ensureM ok (Status_Unauthenticated ''The space proof signature verification provided by the miner failed!'')) (\<lambda>_.
     let nd = prover_node_new (qr_miner_id req) (info_key info) (pi_acc info) (pi_front info) (pi_rear info) in
     bindM (mapped Status_Invalid_Argument (verify_space (ps_pois P) draw nd (qr_space_chals req) proof)) (\<lambda>_.
     ok_or (ps_podr2_sign P (sha256P P (ps_encode_hash_lr P
         \<lparr>ph_space_proof_hash = h, ph_left = sp_left proof, ph_right = sp_right proof, ph_tee_id = ps_identity_key P\<rparr>)))
       (Status_Internal ''Error space proof verify compute signature fail:'')))))) ())"

record blocks_proof =
  bp_left :: int
  bp_right :: int
  bp_space_proof_hash :: bytes
  bp_signature :: bytes

definition convert_to_blocks_proof :: "pb_blocks_proof \<Rightarrow> blocks_proof option" where
  "convert_to_blocks_proof m = map_option (\<lambda>q. \<lparr>bp_left = ph_left q, bp_right = ph_right q,
     bp_space_proof_hash = ph_space_proof_hash q, bp_signature = pb_signature m\<rparr>) (pb_hash_lr m)"

definition is_valid_proof :: "ps_env \<Rightarrow> blocks_proof \<Rightarrow> bool" where
  "is_valid_proof P b =
     (if \<not> ps_podr2_verify P (sha256P P (ps_encode_hash_lr P \<lparr>ph_space_proof_hash = bp_space_proof_hash b,
          ph_left = bp_left b, ph_right = bp_right b, ph_tee_id = ps_identity_key P\<rparr>)) (bp_signature b) then False
      else if bp_right b \<le> bp_left b then False else True)"

text \<open>The blocks in turn: the verdict and the hashes taken into the total.\<close>

fun total_loop :: "ps_env \<Rightarrow> chal_handle \<Rightarrow> bytes \<Rightarrow> blocks_proof list \<Rightarrow> pois_error + bool \<times> bytes" where
  "total_loop P h prior [] = Inr (True, [])"
| "total_loop P h prior (b # bs) =
     bindR (challenge_call (ps_pois P) prior (bp_left b) (bp_right b) h) (\<lambda>(hit, h').
     if \<not> hit \<or> \<not> is_valid_proof P b then Inr (False, [])
     else bindR (total_loop P h' (bp_space_proof_hash b) bs) (\<lambda>(res, rest). Inr (res, bp_space_proof_hash b @ rest)))"

definition request_verify_space_total :: "ps_env \<Rightarrow> total_request \<Rightarrow> status + total_response" where
  "request_verify_space_total P req = fst (
     bindM (ensureM (length (tr_miner_id req) = 32) (Status_Invalid_Argument ''The length of miner_id should be 38!'')) (\<lambda>_.
     bindM (ensureM (length (tr_acc req) = 256) (Status_Invalid_Argument ''The length of acc should be 256!'')) (\<lambda>_.
     bindM (ensureM (length (tr_space_chals req) = 8) (Status_Invalid_Argument ''space_chals parameters passed incorrectly!'')) (\<lambda>_.
     bindM (get_ss58_address (tr_miner_id req)) (\<lambda>_.
     bindM (ok_or (those (map convert_to_blocks_proof (tr_proof_list req))) Panicked) (\<lambda>converted.
     let blocks = sort_key bp_left converted in
     bindM (ensureM (blocks \<noteq> []) (Status_Invalid_Argument ''Please pass in the correct length of proof_list!'')) (\<lambda>_.
     bindM (ok_or (new_challenge_handle (tr_miner_id req) (replicate 32 0) (tr_space_chals req) (tr_front req) (tr_rear req)
         (int (length (tr_proof_list req))))
       (Status_Unauthenticated ''Verify miner challenge failed, challenge handle create fail!'')) (\<lambda>h.
     bindM (mapped Status_Internal (total_loop P h [] blocks)) (\<lambda>(res, hashed).
     let total_hash = sha256P P hashed;
         signed = tr_miner_id req @ compact_len (length total_hash) @ total_hash @ le_u64 (tr_front req) @ le_u64 (tr_rear req) @ tr_acc req
                  @ concat (map le_u64 (tr_space_chals req)) @ [if res then 1 else 0] @ ps_identity_key P in
     retM \<lparr>ts_miner_id = tr_miner_id req, ts_idle_result = res,
           ts_signature = ps_master_sign P (sha256P P signed)\<rparr>)))))))) ())"

section \<open>What a signed answer means\<close>

named_theorems pois_runs "a successful step of a handler"

lemma mapped_Inr [pois_runs]: "mapped f r s = (Inr x, s') \<longleftrightarrow> r = Inr x \<and> s' = s"
  by (auto simp: mapped_def retM_def failM_def split: sum.splits pois_error.splits)

lemma on_verifier_Inr [pois_runs]:
  "on_verifier f c = (Inr r, c') \<longleftrightarrow> r = fst (f (ct_verifier c)) \<and> c' = c\<lparr>ct_verifier := snd (f (ct_verifier c))\<rparr>"
  by (auto simp: on_verifier_def split: prod.splits)

lemma certifier_sign_check_Inr [pois_runs]:
  "certifier_sign_check P m sig h s = (Inr u, s') \<longleftrightarrow>
     s' = s \<and> length m = 32 \<and> length sig = 64 \<and> \<not> ps_sr25519_verify P m sig h"
  by (auto simp: certifier_sign_check_def verify_signature_def retM_def failM_def)

lemma get_ss58_address_Inr [pois_runs]: "get_ss58_address a s = (Inr u, s') \<longleftrightarrow> length a = 32 \<and> s' = s"
  by (simp add: get_ss58_address_def run_simps)

lemma check_pois_sizes_Inr [pois_runs]:
  "check_pois_sizes e m g n a s = (Inr u, s') \<longleftrightarrow> s' = s \<and> length m = 32 \<and> length g = 256 \<and> length n = 256 \<and> length a = 256"
  by (auto simp: check_pois_sizes_def run_simps)

lemma check_pois_info_Inr [pois_runs]:
  "check_pois_info P m info s = (Inr u, s') \<longleftrightarrow>
     s' = s \<and> length m = 32 \<and> length (pi_key_g info) = 256 \<and> length (pi_key_n info) = 256 \<and> length (pi_acc info) = 256
     \<and> length (pi_status_tee_sign info) = 64
     \<and> ps_master_verify P (pi_status_tee_sign info)
         (sha256P P (encode_pois_info m (pi_front info) (pi_rear info) (pi_key_g info) (pi_key_n info) (pi_acc info)))"
  by (auto simp: check_pois_info_def verify_pois_status_signature_def run_simps pois_runs)

definition signed_state :: "ps_env \<Rightarrow> bytes \<Rightarrow> pois_info \<Rightarrow> status_response \<Rightarrow> bool" where
  "signed_state P m info resp =
     (sr_status_tee_sign resp = ps_master_sign P (sha256P P
        (encode_pois_info m (sr_front resp) (sr_rear resp) (pi_key_g info) (pi_key_n info) (sr_acc resp))))"

lemma get_pois_status_Inr:
  assumes "get_pois_status_and_signature P acc front rear (pi_key_n info) (pi_key_g info) m s = (Inr resp, s')"
  shows "sr_acc resp = acc \<and> sr_front resp = front \<and> sr_rear resp = rear \<and> signed_state P m info resp"
  using assms by (auto simp: get_pois_status_and_signature_def signed_state_def run_simps pois_runs Let_def)

definition padded :: "bytes \<Rightarrow> bytes" where
  "padded acc = (if length acc < 256 then replicate (256 - length acc) 0 @ acc else acc)"

lemma logout_node_Inr:
  assumes "logout_node f m c = (Inr (acc, front, rear), c')" "vf_nodes (ct_verifier c) m = Some nd" "pn_record nd = Some rec"
  shows "acc = padded (pr_acc rec) \<and> front = pr_front rec \<and> rear = pr_rear rec"
  using assms by (auto simp: logout_node_def logout_prover_node_def padded_def run_simps pois_runs Let_def)

text \<open>The registered node of a request and the node after its deletion.\<close>

lemma deletion_of_registered:
  assumes "verify_deletion E m proof (register_prover_node m key acc front rear V) = (Inr (), V')"
  shows "\<exists>nd rec. vf_nodes V' m = Some nd \<and> pn_record nd = Some rec \<and> dp_acc_path proof \<noteq> []
    \<and> pr_acc rec = last (dp_acc_path proof) \<and> pr_front rec = front + int (length (dp_roots proof)) \<and> pr_rear rec = rear"
proof -
  let ?V = "register_prover_node m key acc front rear V" and ?nd = "prover_node_new m key acc front rear"
  let ?rec = "\<lparr>pr_key = key, pr_acc = to_bytes_be (from_bytes_be acc), pr_front = front, pr_rear = rear\<rparr>"
  have "vf_nodes ?V m = Some ?nd" "pn_record ?nd = Some ?rec"
    by (simp_all add: register_prover_node_def put_node_def prover_node_new_def)
  from verify_deletion_cases [OF this] assms
  have "dp_acc_path proof \<noteq> []" "V' = put_node m (deleted_node ?nd ?rec proof) ?V" by auto
  then show ?thesis by (simp add: put_node_def deleted_node_def)
qed

text \<open>C15. The certifier's answer to a deletion request. When it signs a new state for a miner, the state it started from carried
  a signature of the worker for this miner, and the new state has the front advanced by the number of deleted files, the same
  rear and the last accumulator of the request's path. But the miner's own signature of the request did not verify: the test
  is inverted, so that correctly signed requests are refused and wrongly signed ones are served.\<close>

theorem deletion_answer:
  assumes "request_verify_deletion_proof P req c = (Inr resp, c')"
  shows "\<exists>info. dr_pois_info req = Some info
    \<and> ps_master_verify P (pi_status_tee_sign info)
        (sha256P P (encode_pois_info (dr_miner_id req) (pi_front info) (pi_rear info) (pi_key_g info) (pi_key_n info) (pi_acc info)))
    \<and> sr_front resp = pi_front info + int (length (dr_roots req)) \<and> sr_rear resp = pi_rear info
    \<and> sr_acc resp = padded (last (dr_acc_path req)) \<and> signed_state P (dr_miner_id req) info resp
    \<and> \<not> ps_sr25519_verify P (dr_miner_id req) (dr_miner_sign req) (sha256P P (ps_encode_deletion P (req\<lparr>dr_miner_sign := []\<rparr>)))"
proof -
  let ?m = "dr_miner_id req"
  from assms obtain pf info V0 V1 acc front rear c1 where steps:
    "\<not> ps_sr25519_verify P ?m (dr_miner_sign req) (sha256P P (ps_encode_deletion P (req\<lparr>dr_miner_sign := []\<rparr>)))"
    "convert_to_deletion_proof req = Inr pf" "dr_pois_info req = Some info"
    "ps_master_verify P (pi_status_tee_sign info)
       (sha256P P (encode_pois_info ?m (pi_front info) (pi_rear info) (pi_key_g info) (pi_key_n info) (pi_acc info)))"
    "verify_deletion (ps_pois P) ?m pf (register_prover_node ?m (info_key info) (pi_acc info) (pi_front info) (pi_rear info) V0) = (Inr (), V1)"
    "logout_node Status_Invalid_Argument ?m (c\<lparr>ct_verifier := V1\<rparr>) = (Inr (acc, front, rear), c1)"
    "get_pois_status_and_signature P acc front rear (pi_key_n info) (pi_key_g info) ?m c1 = (Inr resp, c')"
    unfolding request_verify_deletion_proof_def Let_def
    by (clarsimp simp: run_simps pois_runs split: prod.splits) (metis prod.collapse)
  from deletion_of_registered [OF steps(5)] obtain nd rec where node: "vf_nodes V1 ?m = Some nd" "pn_record nd = Some rec"
    "pr_acc rec = last (dp_acc_path pf)" "pr_front rec = pi_front info + int (length (dp_roots pf))" "pr_rear rec = pi_rear info"
    by blast
  have conv: "dp_acc_path pf = dr_acc_path req" "dp_roots pf = dr_roots req"
    using steps(2) by (auto simp: convert_to_deletion_proof_def bindR_Inr)
  have "acc = padded (pr_acc rec) \<and> front = pr_front rec \<and> rear = pr_rear rec"
    using logout_node_Inr [OF steps(6)] node by simp
  then show ?thesis using get_pois_status_Inr [OF steps(7)] steps(1,3,4) node conv by auto
qed

definition toy_ps :: ps_env where
  "toy_ps = \<lparr>ps_pois = toy_env, ps_sr25519_verify = (\<lambda>k sig m. sig = replicate 64 1), ps_master_sign = (\<lambda>m. m),
     ps_master_verify = (\<lambda>sig m. sig = replicate 64 2), ps_podr2_sign = Some, ps_podr2_verify = (=), ps_podr2_pbk = [],
     ps_identity_key = replicate 32 3, ps_encode_commit = (\<lambda>_. []), ps_encode_challenge = (\<lambda>_. []), ps_encode_proofs = (\<lambda>_. []),
     ps_encode_deletion = (\<lambda>_. []), ps_encode_space = (\<lambda>_. []), ps_encode_hash_lr = ph_space_proof_hash,
     ps_miner_state = (\<lambda>_. None), ps_keygen = toy_key\<rparr>"

definition toy_info :: pois_info where
  "toy_info = \<lparr>pi_acc = replicate 256 1, pi_front = 0, pi_rear = 256, pi_key_n = replicate 256 1, pi_key_g = replicate 256 1,
     pi_status_tee_sign = replicate 64 2\<rparr>"

text \<open>One file is deleted; the path holds one accumulator and the request is signed with something else than the miner's key.\<close>

definition toy_deletion :: deletion_request where
  "toy_deletion = \<lparr>dr_roots = [[5]], dr_wit_chain = Some (WitnessNode [] [] None), dr_acc_path = [[7, 7]],
     dr_miner_id = replicate 32 0, dr_pois_info = Some toy_info, dr_miner_sign = replicate 64 0\<rparr>"

lemma replicate_eq_iff: "0 < n \<Longrightarrow> replicate n a = replicate n b \<longleftrightarrow> a = b"
  by (metis in_set_replicate less_irrefl)

lemma toy_deletion_served: "\<exists>resp c'. request_verify_deletion_proof toy_ps toy_deletion (certifier_new 8 64 64) = (Inr resp, c')"
proof -
  let ?m = "replicate 32 0 :: bytes" and ?V = "verifier_new 8 64 64"
  let ?R = "register_prover_node ?m (info_key toy_info) (pi_acc toy_info) (pi_front toy_info) (pi_rear toy_info) ?V"
  let ?pf = "\<lparr>dp_roots = [[5]], dp_wit_chain = WitnessNode [] [] None, dp_acc_path = [[7, 7]]\<rparr>"
  have del: "\<exists>V'. verify_deletion toy_env ?m ?pf ?R = (Inr (), V')"
    by (simp add: verify_deletion_def register_prover_node_def put_node_def prover_node_new_def toy_info_def as_usize_def
        verify_delete_update_def DEFAULT_LEVEL_def nthR_def)
  then obtain V' where V': "verify_deletion toy_env ?m ?pf ?R = (Inr (), V')" by blast
  from deletion_of_registered [OF V'] obtain nd rec where "vf_nodes V' ?m = Some nd" "pn_record nd = Some rec" "pr_acc rec = [7, 7]"
    by auto
  then have out: "\<exists>acc front rear c'. logout_node Status_Invalid_Argument ?m (c\<lparr>ct_verifier := V'\<rparr>) = (Inr (acc, front, rear), c') \<and> length acc = 256" for c
    by (simp add: logout_node_def logout_prover_node_def run_simps pois_runs Let_def)
  have sizes: "check_pois_info toy_ps ?m toy_info c = (Inr (), c)" for c :: certifier
    by (simp add: pois_runs toy_info_def toy_ps_def)
  have sign: "certifier_sign_check toy_ps ?m (replicate 64 0) h c = (Inr (), c)" for h and c :: certifier
    by (simp add: pois_runs toy_ps_def replicate_eq_iff)
  obtain acc front rear c' where out': "length acc = 256"
      "logout_node Status_Invalid_Argument ?m (certifier_new 8 64 64\<lparr>ct_verifier := V'\<rparr>) = (Inr (acc, front, rear), c')"
    using out [of "certifier_new 8 64 64"] by blast
  have reg: "on_verifier (\<lambda>V. ((), register_prover_node ?m (info_key toy_info) (pi_acc toy_info) (pi_front toy_info) (pi_rear toy_info) V))
      (certifier_new 8 64 64) = (Inr (), certifier_new 8 64 64\<lparr>ct_verifier := ?R\<rparr>)"
    by (simp add: pois_runs certifier_new_def)
  have ver: "on_verifier (verify_deletion (ps_pois toy_ps) ?m ?pf) (certifier_new 8 64 64\<lparr>ct_verifier := ?R\<rparr>)
      = (Inr (Inr ()), certifier_new 8 64 64\<lparr>ct_verifier := V'\<rparr>)"
    using V' by (simp add: pois_runs toy_ps_def)
  have "\<exists>resp. get_pois_status_and_signature toy_ps acc front rear (pi_key_n toy_info) (pi_key_g toy_info) ?m c' = (Inr resp, c')"
    using out'(1) by (simp add: get_pois_status_and_signature_def run_simps pois_runs toy_info_def Let_def)
  then obtain resp where fin: "get_pois_status_and_signature toy_ps acc front rear (pi_key_n toy_info) (pi_key_g toy_info) ?m c' = (Inr resp, c')"
    by blast
  show ?thesis
    unfolding request_verify_deletion_proof_def Let_def toy_deletion_def
    using fin out'(2) by (simp add: bindM_def sign sizes reg ver get_ss58_address_def ensureM_def convert_to_deletion_proof_def theR_def
      mapped_def retM_def ok_or_def)
qed

theorem deletion_answer_witness:
  "\<exists>resp. sr_front resp = 1 \<and> sr_acc resp = padded [7, 7] \<and> signed_state toy_ps (replicate 32 0) toy_info resp
    \<and> \<not> ps_sr25519_verify toy_ps (replicate 32 0) (replicate 64 0) (sha256P toy_ps [])"
proof -
  from toy_deletion_served obtain resp c' where
    "request_verify_deletion_proof toy_ps toy_deletion (certifier_new 8 64 64) = (Inr resp, c')" by blast
  from deletion_answer [OF this] show ?thesis
    by (intro exI [of _ resp]) (simp add: toy_deletion_def, simp add: toy_info_def toy_ps_def)
qed

lemma total_loop_valid:
  assumes "total_loop P h prior bs = Inr (True, hashed)"
  shows "(\<forall>b\<in>set bs. is_valid_proof P b) \<and> hashed = concat (map bp_space_proof_hash bs)"
  using assms by (induction P h prior bs arbitrary: hashed rule: total_loop.induct) (auto simp: bindR_Inr split: if_splits)

text \<open>A run of the whole request, taken apart.\<close>

definition total_blocks :: "total_request \<Rightarrow> blocks_proof list option" where
  "total_blocks req = map_option (sort_key bp_left) (those (map convert_to_blocks_proof (tr_proof_list req)))"

lemma total_blocks_acc [simp]: "total_blocks (req\<lparr>tr_acc := acc'\<rparr>) = total_blocks req"
  by (simp add: total_blocks_def)

lemma space_total_run:
  "(\<exists>resp. request_verify_space_total P req = Inr resp \<and> ts_idle_result resp = res) \<longleftrightarrow>
     length (tr_miner_id req) = 32 \<and> length (tr_acc req) = 256 \<and> length (tr_space_chals req) = 8
     \<and> (\<exists>bs h hashed. total_blocks req = Some bs \<and> bs \<noteq> []
       \<and> new_challenge_handle (tr_miner_id req) (replicate 32 0) (tr_space_chals req) (tr_front req) (tr_rear req)
           (int (length (tr_proof_list req))) = Some h
       \<and> total_loop P h [] bs = Inr (res, hashed))"
proof -
  have fst_iff: "fst (m ()) = Inr r \<longleftrightarrow> m () = (Inr r, ())" for m :: "unit \<Rightarrow> (status + total_response) \<times> unit" and r
    by (metis fst_conv old.unit.exhaust prod.collapse)
  have z: "map_option (sort_key bp_left) zs = Some bs \<longleftrightarrow> (\<exists>ys. zs = Some ys \<and> bs = sort_key bp_left ys)" for zs bs
    by auto
  show ?thesis
    unfolding request_verify_space_total_def fst_iff total_blocks_def Let_def z
    by (cases res) (auto simp: run_simps pois_runs ex_bool_eq)
qed

text \<open>C24. The verdict on a whole challenge. When the verifier answers that the idle space is there, every block of the request
  carries the worker's signature of its proof hash and bounds, and its bounds are not empty. The accumulator of the request
  plays no part in it: with every other accumulator of 256 bytes the same blocks get the same verdict, signed for that
  accumulator.\<close>

theorem space_verdict:
  assumes verdict: "request_verify_space_total P req = Inr resp" "ts_idle_result resp"
    and other: "length acc' = 256"
  shows "(\<exists>bs. total_blocks req = Some bs \<and> bs \<noteq> [] \<and> (\<forall>b\<in>set bs. bp_left b < bp_right b
      \<and> ps_podr2_verify P (sha256P P (ps_encode_hash_lr P \<lparr>ph_space_proof_hash = bp_space_proof_hash b,
           ph_left = bp_left b, ph_right = bp_right b, ph_tee_id = ps_identity_key P\<rparr>)) (bp_signature b)))
    \<and> (\<exists>resp'. request_verify_space_total P (req\<lparr>tr_acc := acc'\<rparr>) = Inr resp' \<and> ts_idle_result resp')"
proof -
  from space_total_run [of P req True] verdict obtain bs h hashed where run:
    "length (tr_miner_id req) = 32" "length (tr_space_chals req) = 8" "total_blocks req = Some bs" "bs \<noteq> []"
    "new_challenge_handle (tr_miner_id req) (replicate 32 0) (tr_space_chals req) (tr_front req) (tr_rear req)
       (int (length (tr_proof_list req))) = Some h" "total_loop P h [] bs = Inr (True, hashed)"
    by auto
  have "\<exists>resp'. request_verify_space_total P (req\<lparr>tr_acc := acc'\<rparr>) = Inr resp' \<and> ts_idle_result resp'"
    using space_total_run [of P "req\<lparr>tr_acc := acc'\<rparr>" True] run other total_blocks_acc by auto
  moreover have "\<forall>b\<in>set bs. is_valid_proof P b" using total_loop_valid [OF run(6)] by simp
  ultimately show ?thesis using run(3,4) by (auto simp: is_valid_proof_def split: if_splits)
qed

definition toy_total :: total_request where
  "toy_total = \<lparr>tr_miner_id = replicate 32 0, tr_proof_list = [\<lparr>pb_hash_lr = Some \<lparr>ph_space_proof_hash = replicate 32 5,
       ph_left = 1, ph_right = 257, ph_tee_id = []\<rparr>, pb_signature = replicate 32 5\<rparr>],
     tr_front = 0, tr_rear = 256, tr_acc = replicate 256 1, tr_space_chals = replicate 8 0\<rparr>"

lemma toy_total_true: "\<exists>resp. request_verify_space_total toy_ps toy_total = Inr resp \<and> ts_idle_result resp = True"
  unfolding space_total_run
  by (simp add: toy_total_def total_blocks_def convert_to_blocks_proof_def new_challenge_handle_def challenge_call_def
    bytes_to_node_value_def modR_def as_i32_def is_valid_proof_def toy_ps_def toy_env_def sha256P_def
    signed_divide_int_def signed_modulo_int_def Let_def)

theorem space_verdict_witness:
  "\<exists>resp'. request_verify_space_total toy_ps (toy_total\<lparr>tr_acc := replicate 256 9\<rparr>) = Inr resp' \<and> ts_idle_result resp'"
proof -
  from toy_total_true obtain resp where "request_verify_space_total toy_ps toy_total = Inr resp" "ts_idle_result resp" by auto
  from space_verdict [OF this, of "replicate 256 9"] show ?thesis by simp
qed

end
