(* ===== verification/Spec2Isabelle.thy ===== *)
theory Spec2Isabelle
  imports Storage_Properties Ces_Dispatcher Tee_Laws Cacher Audit_Laws Call_Effects Block_Sync Nft_Market Evm_Mapping Pois_Server
begin

text \<open>
  A verification development for the CESS storage network: its chain and trusted workers (\<open>src/cess-node\<close>) and the
  example contracts (\<open>src/ink\<close>).

  \<^bold>\<open>The system.\<close> A chain keeps the records of a storage network. Users mint territories (\<open>pallets/storage-handler\<close>),
  declare files and organise them in buckets (\<open>pallets/file-bank\<close>), through gateways they authorise (\<open>pallets/oss\<close>)
  and with caches they pay (\<open>pallets/cacher\<close>). Storage miners stake collateral, lock and fill space and earn rewards
  (\<open>pallets/sminer\<close>, with loans from \<open>pallets/reservoir\<close> and money from \<open>pallets/cess-treasury\<close>). Trusted workers register
  with an attestation of their processor (\<open>pallets/tee-worker\<close>, \<open>crates/sgx-attestation\<close>, \<open>crates/ces-types\<close>), verify
  the miners' proofs (\<open>crates/ces-pois\<close>, \<open>crates/cestory\<close>) and are credited for it (\<open>pallets/scheduler-credit\<close>);
  \<open>pallets/audit\<close> challenges the miners and punishes failures. Messages pass between chain and workers in order
  (\<open>crates/ces-mq\<close>, \<open>pallets/mq\<close>). A worker follows the chain as a light client (\<open>crates/cestory/src/light_validation\<close>)
  and keeps a copy of its storage (\<open>crates/cestory/api/src/storage_sync.rs\<close>). \<open>pallets/evm-account-mapping\<close> runs calls signed
  with Ethereum keys.

  \<^bold>\<open>How code becomes definitions.\<close> A pallet's functions are written in the state-and-error monad of \<open>Chain_Prelude\<close>:
  storage items are fields of a record, \<open>Err\<close> is \<open>Inl\<close>, and an extrinsic is wrapped in \<open>transactional\<close>, a block
  hook is not. Unsigned integers are \<^typ>\<open>nat\<close> with the width written at each operation that can leave it:
  checked, saturating or wrapping. Events, weights and logging are left out. Code that is not in the repository is a parameter
  (a record of functions ending in \<open>_env\<close>), and what is assumed of it is a hypothesis of the theorem that needs it.

  \<^bold>\<open>The theories.\<close>
  \<^item> \<open>Chain_Prelude\<close>, \<open>Dispatch_Errors\<close>, \<open>Runtime_Env\<close>, \<open>Ledger_Runtime\<close>, \<open>Run_Rules\<close>: arithmetic, the monad and its
    rules, the errors of the pallets, the services of the runtime (accounts, hashes, randomness, the scheduler), frame
    and weakest-precondition rules for proofs about long calls.
  \<^item> \<open>Cess_Treasury\<close>, \<open>Reservoir\<close>: \<open>pallets/cess-treasury\<close> and \<open>pallets/reservoir\<close>. Rewards are backed by the pool; the
    reservoir can always pay out every deposit and loan it has recorded.
  \<^item> \<open>Cess_Common\<close>: \<open>crates/common\<close> and \<open>crates/bloom-filter\<close>. The counting filter counts exactly; the expansion of a
    hash is the expected one.
  \<^item> \<open>Storage_Handler\<close>, \<open>Storage_Laws\<close>, \<open>Storage_Properties\<close>: \<open>pallets/storage-handler\<close>. An invariant of all reachable states
    (space accounting, consignments and freezing tasks agree), the exact effect of minting and of an exchange, round trips
    of consigning, buying and uploading, and the expiry of frozen territories when they are due.
  \<^item> \<open>Scheduler_Credit\<close>: \<open>pallets/scheduler-credit\<close>. Credits are bounded and use the last five periods.
  \<^item> \<open>Ces_Mq\<close>, \<open>Ces_Dispatcher\<close>, \<open>Message_Queue\<close>: \<open>crates/ces-mq\<close> and \<open>pallets/mq\<close>. Receivers are served in the order of the
    dispatch.
  \<^item> \<open>Sgx_Attestation\<close>, \<open>Attestation\<close>, \<open>Tee_Worker\<close>, \<open>Tee_Laws\<close>: \<open>crates/sgx-attestation\<close>, the attestation of
    \<open>crates/ces-types\<close> and \<open>pallets/tee-worker\<close>. Quotes survive encoding and decoding, accepted ones are signed, the exact
    inputs on which verification panics; registered workers were attested; the registry stays consistent; messages are
    accepted in order and delivered; the master key is permanent.
  \<^item> \<open>Sminer\<close>, \<open>Oss\<close>, \<open>Cacher\<close>, \<open>File_Bank\<close>, \<open>Pallet_Audit\<close>: the pallets of these names over one state of the chain.
  \<^item> \<open>Miner_Laws\<close>, \<open>Reward_Laws\<close>, \<open>Chain_Laws\<close>, \<open>File_Frames\<close>, \<open>Deal_Laws\<close>, \<open>Bucket_Laws\<close>, \<open>Audit_Laws\<close>, \<open>Call_Effects\<close>:
    properties of every sequence of calls and hooks of these pallets. Miners' spaces stay in bounds; rewards never exceed
    what was credited; deals stay well formed and the twelfth report stores the file; buckets and their lists agree;
    challenges have the right elements, verdicts are recorded once, missions end.
  \<^item> \<open>Light_Client\<close>, \<open>Block_Sync\<close>: the light client and the synchronizer of a worker. Accepted headers form one chain, each
    finalized by the authorities in force, and the storage of the worker has the state roots of these headers in order.
  \<^item> \<open>Pois_Acc\<close>, \<open>Pois_Graph\<close>, \<open>Pois_Verifier\<close>, \<open>Pois_Server\<close>: \<open>crates/ces-pois\<close> and \<open>crates/cestory/src/pois.rs\<close>. Accepted
    insertions commit to their labels when the path has one entry per level; the lemmas also show where the checks
    fail: a longer path, the graph test, the deletion test and the signature test of the certifier.
  \<^item> \<open>Evm_Mapping\<close>: \<open>pallets/evm-account-mapping\<close>. Meta calls are signed and run once.
  \<^item> \<open>Ink_Contracts\<close>, \<open>Nft_Market\<close>: the contracts under \<open>src/ink\<close>. Which files can be forfeited; a purchase is an exchange.

  \<^bold>\<open>Interfaces.\<close> Contracts between components are locales, interpreted on the model's definitions in the theory that provides
  them; the properties use the interpreted facts.

  \<^bold>\<open>Loops and fuel.\<close> Loops are structural or have a termination proof. Two may not end in the code and are
  \<open>partial_function (option)\<close>: the walk to an ancestor in a justification, shown to end when the hashes of its headers form
  no cycle, and the drawing of fresh challenge positions, which goes on until an unused position is drawn. Elsewhere no fuel is
  used; loops with a bound in the code (retries of random draws, instalments, clearing per block) keep that bound.

  \<^bold>\<open>Not modelled.\<close> \<open>pallets/staking\<close> and \<open>crates/rrsc\<close> are forks of framework code whose behaviour lies mostly in framework
  sources outside the repository. The rest of \<open>crates/cestory\<close>, \<open>crates/ces-pdp\<close>, \<open>crates/ces-crypto\<close>,
  \<open>crates/sgx-api-lite\<close> and the programs under \<open>standalone\<close> are asynchronous services, wrappers of cryptographic libraries,
  processor bindings and configuration. In \<open>crates/ces-pois\<close> the map of a number to a prime computes with floating-point
  logarithms and is a parameter. Migrations, benchmarks, weights, test code, the creation of attestation reports, generated
  protocol code and the examples in other languages are left out. \<open>i64\<close> values of the idle space proofs are unbounded.
\<close>

end
